(* ===== verification/Go_Prelude.thy ===== *)
theory Go_Prelude
  imports Main "HOL-Library.Char_ord" "HOL-Library.List_Lexorder"
begin

text \<open>
  The vocabulary shared by every component of the development: Go pointers, slices and maps,
  the error values of the program, and the functions of Go's \<open>strings\<close>, \<open>strconv\<close> and
  \<open>sort\<close> packages that the sources call. A Go string is a sequence of bytes and is modelled
  as a \<^typ>\<open>string\<close> (one \<^typ>\<open>char\<close> is one byte); \<open><\<close> on strings is the byte-wise
  lexicographic order, as in Go. \<open>TrimSpace\<close>, \<open>Fields\<close> and \<open>ToLower\<close> treat every byte
  above 127 as a letter without case, so they agree with Go on text whose white space and upper
  case letters are ASCII.
\<close>

section \<open>Collections of facts\<close>

named_theorems go_string_defs \<open>definitions of the string functions\<close>
named_theorems go_frame \<open>what an operation leaves unchanged\<close>

section \<open>Pointers, slices and maps\<close>

text \<open>
  A pointer is \<^typ>\<open>'a option\<close> with \<^const>\<open>None\<close> for nil. A slice keeps the difference between
  nil and an empty slice, because \<open>reflect.DeepEqual\<close> does. A \<open>map[string]string\<close> is an
  association list kept sorted by key, so equality of the model is equality of the maps; nil is
  again \<^const>\<open>None\<close>.
\<close>

type_synonym 'a ptr = "'a option"
type_synonym 'a slice = "'a list option"
type_synonym strmap = "(string \<times> string) list option"

definition els :: "'a slice \<Rightarrow> 'a list" where
  "els s = (case s of None \<Rightarrow> [] | Some xs \<Rightarrow> xs)"

lemma els_simps [simp]: "els None = []" "els (Some xs) = xs"
  by (simp_all add: els_def)

text \<open>\<open>m[k] = v\<close> on a map.\<close>

fun map_put :: "string \<Rightarrow> 'v \<Rightarrow> (string \<times> 'v) list \<Rightarrow> (string \<times> 'v) list" where
  "map_put k v [] = [(k, v)]"
| "map_put k v ((k', v') # m) =
     (if k < k' then (k, v) # (k', v') # m
      else if k = k' then (k, v) # m
      else (k', v') # map_put k v m)"

text \<open>\<open>m[k]\<close>: the zero value when the key is absent.\<close>

definition map_get :: "strmap \<Rightarrow> string \<Rightarrow> string" where
  "map_get m k = (case map_of (els m) k of None \<Rightarrow> [] | Some v \<Rightarrow> v)"

text \<open>A map literal, and copying every entry of one map into another.\<close>

definition map_lit :: "(string \<times> string) list \<Rightarrow> (string \<times> string) list" where
  "map_lit kvs = fold (\<lambda>(k, v) m. map_put k v m) kvs []"

definition map_copy_into :: "(string \<times> string) list \<Rightarrow> (string \<times> string) list \<Rightarrow> (string \<times> string) list" where
  "map_copy_into src dst = fold (\<lambda>(k, v) m. map_put k v m) src dst"

definition map_ok :: "(string \<times> 'v) list \<Rightarrow> bool" where
  "map_ok m \<longleftrightarrow> sorted_wrt (<) (map fst m)"

lemma map_of_map_put [simp]: "map_of (map_put k v m) = (map_of m)(k \<mapsto> v)"
  by (induction m rule: map_put.induct) (auto simp: fun_eq_iff)

lemma map_get_put [simp]:
  "map_get (Some (map_put k v m)) k' = (if k' = k then v else map_get (Some m) k')"
  by (simp add: map_get_def)

lemma set_keys_map_put: "fst ` set (map_put k v m) = insert k (fst ` set m)"
  by (induction k v m rule: map_put.induct) auto

lemma map_ok_put: "map_ok m \<Longrightarrow> map_ok (map_put k v m)"
proof (induction k v m rule: map_put.induct)
  case (2 k v k' v' m)
  have "\<forall>x \<in> fst ` set (map_put k v m). k' < x" if "\<not> k < k'" "k \<noteq> k'"
    using that 2(2) by (auto simp: set_keys_map_put map_ok_def)
  with 2 show ?case
    by (auto simp: map_ok_def dest: order.strict_trans)
qed (simp add: map_ok_def)

text \<open>
  Keeping the first element of every key, as the loops with a \<open>seen\<close> set do.
\<close>

fun uniq_by :: "('a \<Rightarrow> 'b) \<Rightarrow> 'b list \<Rightarrow> 'a list \<Rightarrow> 'a list" where
  "uniq_by f seen [] = []"
| "uniq_by f seen (x # xs) =
     (if f x \<in> set seen then uniq_by f seen xs else x # uniq_by f (f x # seen) xs)"

lemma uniq_by_keys: "f ` set (uniq_by f seen xs) = f ` set xs - set seen"
  by (induction xs arbitrary: seen) auto

lemma uniq_by_subset: "set (uniq_by f seen xs) \<subseteq> set xs"
  by (induction xs arbitrary: seen) (auto dest: subsetD)

lemma uniq_by_distinct: "distinct (map f (uniq_by f seen xs))"
  by (induction xs arbitrary: seen) (auto simp: uniq_by_keys)

lemma uniq_by_fresh: "x \<in> set (uniq_by f seen xs) \<Longrightarrow> f x \<notin> set seen"
  using uniq_by_keys [of f seen xs] by auto

lemma uniq_by_id: "distinct (map f xs) \<Longrightarrow> f ` set xs \<inter> set seen = {} \<Longrightarrow> uniq_by f seen xs = xs"
  by (induction xs arbitrary: seen) auto

lemma list_all2_in: "list_all2 P xs ys \<Longrightarrow> y \<in> set ys \<Longrightarrow> \<exists>x \<in> set xs. P x y"
  by (induction rule: list_all2_induct) auto

lemma list_all2_left: "list_all2 P xs ys \<Longrightarrow> x \<in> set xs \<Longrightarrow> \<exists>y \<in> set ys. P x y"
  by (induction rule: list_all2_induct) auto

lemma list_all2_concat_map:
  "(\<And>x. x \<in> set xs \<Longrightarrow> list_all2 P (f x) (g x)) \<Longrightarrow> list_all2 P (concat (map f xs)) (concat (map g xs))"
  by (induction xs) (auto intro: list_all2_appendI)

section \<open>Errors\<close>

text \<open>
  The error values of the sources. \<open>ErrNew\<close> stands for \<open>errors.New\<close>, \<open>errors.Errorf\<close> and
  \<open>fmt.Errorf\<close> (the argument is the rendered message), \<open>ErrWrap\<close> for \<open>errors.Wrap\<close>/\<open>Wrapf\<close> of
  \<open>github.com/pkg/errors\<close>, \<open>Aggregate\<close> for the value \<open>NewAggregate\<close> of
  \<open>k8s.io/apimachinery\<close> builds from a non-empty list, \<open>DockerError\<close> for the type of
  \<open>staticnode/docker_runtime.go\<close> and \<open>ErrResourceNotFound\<close> for the sentinel of
  \<open>pkg/storage\<close>. How the two libraries render a wrapped error and an aggregate is a
  parameter, the record \<open>err_lib\<close>.
\<close>

datatype go_error =
    ErrNew string
  | ErrWrap go_error string
  | DockerError string string "go_error option"
  | Aggregate "go_error list"
  | ErrResourceNotFound

record err_lib =
  wrap_text :: "string \<Rightarrow> string \<Rightarrow> string"
  agg_text :: "string list \<Rightarrow> string"

fun error_text :: "err_lib \<Rightarrow> go_error \<Rightarrow> string" where
  "error_text L (ErrNew s) = s"
| "error_text L (ErrWrap e m) = wrap_text L m (error_text L e)"
| "error_text L (DockerError r m None) = m"
| "error_text L (DockerError r m (Some e)) = m @ '': '' @ error_text L e"
| "error_text L (Aggregate es) = agg_text L (map (error_text L) es)"
| "error_text L ErrResourceNotFound = ''resource not found''"

definition NewAggregate :: "go_error list \<Rightarrow> go_error option" where
  "NewAggregate es = (if es = [] then None else Some (Aggregate es))"

lemma NewAggregate_None [simp]: "NewAggregate es = None \<longleftrightarrow> es = []"
  by (simp add: NewAggregate_def)

section \<open>Strings\<close>

abbreviation newline :: char where
  "newline \<equiv> CHR 0x0A"

abbreviation squote :: char where
  "squote \<equiv> CHR 0x27"

abbreviation dquote :: char where
  "dquote \<equiv> CHR 0x22"

abbreviation backslash :: char where
  "backslash \<equiv> CHR 0x5C"

definition in_range :: "nat \<Rightarrow> nat \<Rightarrow> char \<Rightarrow> bool" where
  "in_range lo hi c \<longleftrightarrow> lo \<le> of_char c \<and> of_char c \<le> hi"

definition is_lower :: "char \<Rightarrow> bool" where
  "is_lower c \<longleftrightarrow> in_range 97 122 c"

definition is_upper :: "char \<Rightarrow> bool" where
  "is_upper c \<longleftrightarrow> in_range 65 90 c"

definition is_digit :: "char \<Rightarrow> bool" where
  "is_digit c \<longleftrightarrow> in_range 48 57 c"

definition is_space :: "char \<Rightarrow> bool" where
  "is_space c \<longleftrightarrow> in_range 9 13 c \<or> of_char c = (32::nat)"

definition to_lower :: "char \<Rightarrow> char" where
  "to_lower c = (if is_upper c then char_of (of_char c + 32 :: nat) else c)"

definition ToLower :: "string \<Rightarrow> string" where
  "ToLower s = map to_lower s"

definition HasPrefix :: "string \<Rightarrow> string \<Rightarrow> bool" where
  "HasPrefix s p \<longleftrightarrow> take (length p) s = p"

definition TrimPrefix :: "string \<Rightarrow> string \<Rightarrow> string" where
  "TrimPrefix s p = (if HasPrefix s p then drop (length p) s else s)"

definition TrimLeftFunc :: "(char \<Rightarrow> bool) \<Rightarrow> string \<Rightarrow> string" where
  "TrimLeftFunc p s = dropWhile p s"

definition TrimRightFunc :: "(char \<Rightarrow> bool) \<Rightarrow> string \<Rightarrow> string" where
  "TrimRightFunc p s = rev (dropWhile p (rev s))"

definition TrimFunc :: "(char \<Rightarrow> bool) \<Rightarrow> string \<Rightarrow> string" where
  "TrimFunc p s = TrimRightFunc p (TrimLeftFunc p s)"

definition TrimSpace :: "string \<Rightarrow> string" where
  "TrimSpace s = TrimFunc is_space s"

text \<open>\<open>strings.Trim\<close> and \<open>strings.TrimRight\<close> with a cutset of one byte, the only use.\<close>

definition Trim :: "string \<Rightarrow> char \<Rightarrow> string" where
  "Trim s c = TrimFunc (\<lambda>x. x = c) s"

definition TrimRight :: "string \<Rightarrow> char \<Rightarrow> string" where
  "TrimRight s c = TrimRightFunc (\<lambda>x. x = c) s"

text \<open>Splitting at every byte of a class; \<open>Split\<close> and \<open>SplitN _ _ 2\<close> have a separator of one byte.\<close>

fun split_at :: "(char \<Rightarrow> bool) \<Rightarrow> string \<Rightarrow> string list" where
  "split_at p [] = [[]]"
| "split_at p (c # s) =
     (if p c then [] # split_at p s
      else (case split_at p s of [] \<Rightarrow> [[c]] | w # ws \<Rightarrow> (c # w) # ws))"

definition Split :: "string \<Rightarrow> char \<Rightarrow> string list" where
  "Split s c = split_at (\<lambda>x. x = c) s"

definition SplitN2 :: "string \<Rightarrow> char \<Rightarrow> string list" where
  "SplitN2 s c =
     (if c \<in> set s then [takeWhile (\<lambda>x. x \<noteq> c) s, tl (dropWhile (\<lambda>x. x \<noteq> c) s)] else [s])"

definition FieldsFunc :: "(char \<Rightarrow> bool) \<Rightarrow> string \<Rightarrow> string list" where
  "FieldsFunc p s = filter (\<lambda>w. w \<noteq> []) (split_at p s)"

definition Fields :: "string \<Rightarrow> string list" where
  "Fields s = FieldsFunc is_space s"

fun Join :: "string list \<Rightarrow> string \<Rightarrow> string" where
  "Join [] sep = []"
| "Join [x] sep = x"
| "Join (x # y # xs) sep = x @ sep @ Join (y # xs) sep"

text \<open>\<open>strings.ReplaceAll\<close> for a non-empty \<open>old\<close>; every caller passes one.\<close>

function ReplaceAll :: "string \<Rightarrow> string \<Rightarrow> string \<Rightarrow> string" where
  "ReplaceAll [] old new = []"
| "ReplaceAll (c # s) old new =
     (if old \<noteq> [] \<and> HasPrefix (c # s) old
      then new @ ReplaceAll (drop (length old - 1) s) old new
      else c # ReplaceAll s old new)"
  by pat_completeness auto
termination
  by (relation "measure (\<lambda>(s, old, new). length s)") auto

fun itoa_nat :: "nat \<Rightarrow> string" where
  "itoa_nat n = (if n < 10 then [char_of (48 + n)] else itoa_nat (n div 10) @ [char_of (48 + n mod 10)])"

declare itoa_nat.simps [simp del]

definition Itoa :: "int \<Rightarrow> string" where
  "Itoa i = (if i < 0 then ''-'' @ itoa_nat (nat (- i)) else itoa_nat (nat i))"

subsection \<open>Facts about strings\<close>

lemma split_at_ne [simp]: "split_at p s \<noteq> []"
  by (cases s) (auto split: list.splits)

lemma split_at_append:
  "p c \<Longrightarrow> split_at p (s @ c # t) = split_at p s @ split_at p t"
proof (induction s)
  case (Cons x s)
  then show ?case
    by (cases "split_at p s") auto
qed simp

lemma split_at_clean: "\<forall>c \<in> set s. \<not> p c \<Longrightarrow> split_at p s = [s]"
  by (induction s) auto

lemma in_split_at: "w \<in> set (split_at p s) \<Longrightarrow> c \<in> set w \<Longrightarrow> \<not> p c \<and> c \<in> set s"
proof (induction s arbitrary: w)
  case (Cons x s)
  obtain a as where a: "split_at p s = a # as"
    using split_at_ne [of p s] by (cases "split_at p s") auto
  have *: "v \<in> set (a # as) \<Longrightarrow> c \<in> set v \<Longrightarrow> \<not> p c \<and> c \<in> set s" for v
    using Cons.IH a by auto
  show ?case
    using Cons.prems * [of a] * [of w] a by (auto split: if_splits)
qed simp

lemma FieldsFunc_append:
  "p c \<Longrightarrow> FieldsFunc p (s @ c # t) = FieldsFunc p s @ FieldsFunc p t"
  by (simp add: FieldsFunc_def split_at_append)

lemma FieldsFunc_clean: "\<forall>c \<in> set s. \<not> p c \<Longrightarrow> FieldsFunc p s = (if s = [] then [] else [s])"
  by (simp add: FieldsFunc_def split_at_clean)

lemma in_FieldsFunc: "w \<in> set (FieldsFunc p s) \<Longrightarrow> w \<noteq> [] \<and> (\<forall>c \<in> set w. \<not> p c)"
  by (auto simp: FieldsFunc_def dest: in_split_at)

lemma set_TrimFunc: "set (TrimFunc p s) \<subseteq> set s"
  by (auto simp: TrimFunc_def TrimRightFunc_def TrimLeftFunc_def dest!: set_dropWhileD)

lemma TrimFunc_hd: "TrimFunc p s \<noteq> [] \<Longrightarrow> \<not> p (hd (TrimFunc p s))"
proof -
  assume ne: "TrimFunc p s \<noteq> []"
  let ?t = "dropWhile p s"
  have t: "?t \<noteq> []"
    using ne by (cases "?t = []") (simp_all add: TrimFunc_def TrimRightFunc_def TrimLeftFunc_def)
  have h: "\<not> p (hd ?t)" using t by (rule hd_dropWhile)
  obtain u where u: "rev ?t = u @ dropWhile p (rev ?t)"
    by (metis takeWhile_dropWhile_id)
  have "?t = rev (dropWhile p (rev ?t)) @ rev u" using u by (metis rev_append rev_rev_ident)
  then have "hd ?t = hd (rev (dropWhile p (rev ?t)))"
    using ne by (metis TrimFunc_def TrimLeftFunc_def TrimRightFunc_def hd_append2)
  then show ?thesis using h by (simp add: TrimFunc_def TrimRightFunc_def TrimLeftFunc_def)
qed

lemma TrimFunc_last: "TrimFunc p s \<noteq> [] \<Longrightarrow> \<not> p (last (TrimFunc p s))"
  by (metis TrimFunc_def TrimRightFunc_def hd_dropWhile last_rev rev_is_Nil_conv)

lemma dropWhile_hd: "s = [] \<or> \<not> p (hd s) \<Longrightarrow> dropWhile p s = s"
  by (cases s) auto

lemma TrimFunc_id: "s = [] \<or> \<not> p (hd s) \<and> \<not> p (last s) \<Longrightarrow> TrimFunc p s = s"
  using dropWhile_hd [of s p] dropWhile_hd [of "rev s" p]
  by (auto simp: TrimFunc_def TrimRightFunc_def TrimLeftFunc_def hd_rev)

lemma TrimFunc_idem [simp]: "TrimFunc p (TrimFunc p s) = TrimFunc p s"
  by (rule TrimFunc_id) (use TrimFunc_hd TrimFunc_last in blast)

lemma HasPrefix_append [simp]: "HasPrefix (p @ s) p"
  by (simp add: HasPrefix_def)

lemma HasPrefix_iff: "HasPrefix s p \<longleftrightarrow> (\<exists>t. s = p @ t)"
  by (auto simp: HasPrefix_def) (metis append_take_drop_id)

lemma ReplaceAll_char: "ReplaceAll s [c] new = concat (map (\<lambda>x. if x = c then new else [x]) s)"
  by (induction s) (auto simp: HasPrefix_def)

lemma Join_append_ne:
  "xs \<noteq> [] \<Longrightarrow> ys \<noteq> [] \<Longrightarrow> Join (xs @ ys) sep = Join xs sep @ sep @ Join ys sep"
proof (induction xs sep rule: Join.induct)
  case (2 x sep)
  then show ?case by (cases ys) auto
qed auto

lemma itoa_nat_digits: "c \<in> set (itoa_nat n) \<Longrightarrow> is_digit c"
proof (induction n rule: itoa_nat.induct)
  case (1 n)
  have d: "is_digit (char_of (48 + k))" if "k < 10" for k :: nat
    using that by (simp add: is_digit_def in_range_def)
  show ?case
  proof (cases "n < 10")
    case True
    with 1 d show ?thesis by (subst (asm) itoa_nat.simps) auto
  next
    case False
    then have "c \<in> set (itoa_nat (n div 10)) \<or> c = char_of (48 + n mod 10)"
      using 1(2) by (subst (asm) itoa_nat.simps) auto
    with 1(1) False d [of "n mod 10"] show ?thesis by auto
  qed
qed

text \<open>Decimal numerals determine their number.\<close>

definition numeral_value :: "string \<Rightarrow> nat" where
  "numeral_value s = foldl (\<lambda>n c. 10 * n + (of_char c - 48)) 0 s"

lemma numeral_value_itoa_nat: "numeral_value (itoa_nat n) = n"
proof (induction n rule: itoa_nat.induct)
  case (1 n)
  then show ?case
    by (subst itoa_nat.simps) (auto simp: numeral_value_def)
qed

lemma itoa_nat_inject [simp]: "itoa_nat m = itoa_nat n \<longleftrightarrow> m = n"
  by (metis numeral_value_itoa_nat)

lemma itoa_nat_no_sign: "itoa_nat n \<noteq> CHR ''-'' # s"
  using itoa_nat_digits [of "CHR ''-''" n] by (auto simp: is_digit_def in_range_def)

lemma Itoa_inject [simp]: "Itoa i = Itoa j \<longleftrightarrow> i = j"
  by (auto simp: Itoa_def itoa_nat_no_sign itoa_nat_no_sign [symmetric])

text \<open>A rendering of wrapped and aggregated errors, for the evaluation of examples.\<close>

definition plain_errors :: err_lib where
  "plain_errors = \<lparr>wrap_text = \<lambda>m e. m @ '': '' @ e, agg_text = \<lambda>ms. Join ms '', ''\<rparr>"

end
