(* ===== verification/Go_Encoding.thy ===== *)
theory Go_Encoding
  imports Go_Prelude "HOL-Library.Word"
begin

unbundle bit_operations_syntax

text \<open>
  The encoders of Go's standard library that the sources call, over byte strings: \<open>hex\<close>,
  \<open>crypto/sha256\<close>, \<open>encoding/base64\<close> (standard alphabet, padded) and the printing half of
  \<open>encoding/json\<close> (compact and indented, with the HTML-safe escapes of \<open>json.Marshal\<close>).
  The lemmas at the end are what the components rely on: a SHA-256 digest is 64 lower case hex
  digits, and base64 decoding inverts encoding.
\<close>

section \<open>Hexadecimal\<close>

definition hex_digit :: "nat \<Rightarrow> char" where
  "hex_digit n = (if n < 10 then char_of (48 + n) else char_of (87 + n))"

definition hex_byte :: "nat \<Rightarrow> string" where
  "hex_byte b = [hex_digit (b div 16 mod 16), hex_digit (b mod 16)]"

definition hex_EncodeToString :: "nat list \<Rightarrow> string" where
  "hex_EncodeToString bs = concat (map hex_byte bs)"

section \<open>SHA-256\<close>

type_synonym u32 = "32 word"

text \<open>
  The constants of the algorithm are the first 32 bits of the fractional parts of the cube roots
  of the first 64 primes, and of the square roots of the first 8: \<open>root_bits k n b r\<close> is the
  integer \<open>k\<close>-th root of \<open>n\<close>, found bit by bit from \<open>2 ^ (b - 1)\<close> down; the roots needed are
  below \<open>2 ^ 37\<close>.
\<close>

fun root_bits :: "nat \<Rightarrow> int \<Rightarrow> nat \<Rightarrow> int \<Rightarrow> int" where
  "root_bits k n 0 r = r"
| "root_bits k n (Suc b) r =
     root_bits k n b (if (r + 2 ^ b) ^ k \<le> n then r + 2 ^ b else r)"

definition sha_const :: "nat \<Rightarrow> int \<Rightarrow> u32" where
  "sha_const k p = word_of_int (root_bits k (p * 2 ^ (32 * k)) 37 0)"

definition sha_primes :: "int list" where
  "sha_primes =
    [2, 3, 5, 7, 11, 13, 17, 19, 23, 29, 31, 37, 41, 43, 47, 53, 59, 61, 67, 71, 73, 79, 83, 89, 97, 101,
     103, 107, 109, 113, 127, 131, 137, 139, 149, 151, 157, 163, 167, 173, 179, 181, 191, 193, 197, 199,
     211, 223, 227, 229, 233, 239, 241, 251, 257, 263, 269, 271, 277, 281, 283, 293, 307, 311]"

definition sha_K :: "u32 list" where
  "sha_K = map (sha_const 3) sha_primes"

datatype sha_state = Sha u32 u32 u32 u32 u32 u32 u32 u32

definition sha_init :: sha_state where
  "sha_init = (case map (sha_const 2) (take 8 sha_primes) of
     [a, b, c, d, e, f, g, h] \<Rightarrow> Sha a b c d e f g h)"

definition small_sigma0 :: "u32 \<Rightarrow> u32" where
  "small_sigma0 x = word_rotr 7 x XOR word_rotr 18 x XOR drop_bit 3 x"

definition small_sigma1 :: "u32 \<Rightarrow> u32" where
  "small_sigma1 x = word_rotr 17 x XOR word_rotr 19 x XOR drop_bit 10 x"

definition big_sigma0 :: "u32 \<Rightarrow> u32" where
  "big_sigma0 x = word_rotr 2 x XOR word_rotr 13 x XOR word_rotr 22 x"

definition big_sigma1 :: "u32 \<Rightarrow> u32" where
  "big_sigma1 x = word_rotr 6 x XOR word_rotr 11 x XOR word_rotr 25 x"

text \<open>The message schedule, newest word first.\<close>

fun sha_schedule :: "nat \<Rightarrow> u32 list \<Rightarrow> u32 list" where
  "sha_schedule 0 ws = ws"
| "sha_schedule (Suc n) ws =
     sha_schedule n ((small_sigma1 (ws ! 1) + ws ! 6 + small_sigma0 (ws ! 14) + ws ! 15) # ws)"

fun sha_round :: "u32 \<times> u32 \<Rightarrow> sha_state \<Rightarrow> sha_state" where
  "sha_round (k, w) (Sha a b c d e f g h) =
     (let t1 = h + big_sigma1 e + ((e AND f) XOR (NOT e AND g)) + k + w;
          t2 = big_sigma0 a + ((a AND b) XOR (a AND c) XOR (b AND c))
      in Sha (t1 + t2) a b c (d + t1) e f g)"

fun sha_add :: "sha_state \<Rightarrow> sha_state \<Rightarrow> sha_state" where
  "sha_add (Sha a b c d e f g h) (Sha a' b' c' d' e' f' g' h') =
     Sha (a + a') (b + b') (c + c') (d + d') (e + e') (f + f') (g + g') (h + h')"

fun sha_words :: "nat list \<Rightarrow> u32 list" where
  "sha_words (a # b # c # d # bs) =
     word_of_nat (((a * 256 + b) * 256 + c) * 256 + d) # sha_words bs"
| "sha_words _ = []"

definition sha_block :: "nat list \<Rightarrow> sha_state \<Rightarrow> sha_state" where
  "sha_block bs st =
     (let ws = rev (sha_schedule 48 (rev (sha_words bs)))
      in sha_add st (fold sha_round (zip sha_K ws) st))"

function sha_blocks :: "nat list \<Rightarrow> sha_state \<Rightarrow> sha_state" where
  "sha_blocks bs st = (if bs = [] then st else sha_blocks (drop 64 bs) (sha_block (take 64 bs) st))"
  by pat_completeness auto
termination
  by (relation "measure (\<lambda>(bs, st). length bs)") auto

declare sha_blocks.simps [simp del]

text \<open>\<open>k\<close> bytes of \<open>n\<close>, most significant first.\<close>

fun be_bytes :: "nat \<Rightarrow> nat \<Rightarrow> nat list" where
  "be_bytes 0 n = []"
| "be_bytes (Suc k) n = be_bytes k (n div 256) @ [n mod 256]"

definition sha_pad :: "nat list \<Rightarrow> nat list" where
  "sha_pad bs = bs @ 128 # replicate ((119 - length bs mod 64) mod 64) 0 @ be_bytes 8 (8 * length bs)"

fun sha_digest :: "sha_state \<Rightarrow> nat list" where
  "sha_digest (Sha a b c d e f g h) =
     concat (map (\<lambda>x. be_bytes 4 (unat x)) [a, b, c, d, e, f, g, h])"

definition bytes_of :: "string \<Rightarrow> nat list" where
  "bytes_of s = map of_char s"

definition Sum256 :: "string \<Rightarrow> nat list" where
  "Sum256 s = sha_digest (sha_blocks (sha_pad (bytes_of s)) sha_init)"

section \<open>Base64\<close>

definition b64_char :: "nat \<Rightarrow> char" where
  "b64_char n =
     (if n < 26 then char_of (65 + n) else if n < 52 then char_of (71 + n)
      else if n < 62 then char_of (n - 4) else if n = 62 then CHR ''+'' else CHR ''/'')"

definition b64_val :: "char \<Rightarrow> nat option" where
  "b64_val c =
     (let n = of_char c in
      if 65 \<le> n \<and> n \<le> 90 then Some (n - 65) else if 97 \<le> n \<and> n \<le> 122 then Some (n - 71)
      else if 48 \<le> n \<and> n \<le> 57 then Some (n + 4) else if n = 43 then Some 62
      else if n = 47 then Some 63 else None)"

fun b64_encode :: "nat list \<Rightarrow> string" where
  "b64_encode [] = []"
| "b64_encode [a] = [b64_char (a div 4), b64_char (a mod 4 * 16), CHR ''='', CHR ''='']"
| "b64_encode [a, b] =
     [b64_char (a div 4), b64_char (a mod 4 * 16 + b div 16), b64_char (b mod 16 * 4), CHR ''='']"
| "b64_encode (a # b # c # bs) =
     b64_char (a div 4) # b64_char (a mod 4 * 16 + b div 16) #
     b64_char (b mod 16 * 4 + c div 64) # b64_char (c mod 64) # b64_encode bs"

text \<open>
  \<open>StdEncoding.DecodeString\<close>: carriage returns and line feeds are skipped, padding is required
  and nothing may follow it; the non-strict decoder ignores the unused trailing bits.
\<close>

fun b64_decode_quads :: "string \<Rightarrow> nat list option" where
  "b64_decode_quads [] = Some []"
| "b64_decode_quads (p # q # r # s # cs) =
     (case (b64_val p, b64_val q) of
        (Some a, Some b) \<Rightarrow>
          (if r = CHR ''='' \<and> s = CHR ''='' \<and> cs = [] then Some [a * 4 + b div 16]
           else (case b64_val r of
              None \<Rightarrow> None
            | Some c \<Rightarrow>
                (if s = CHR ''='' \<and> cs = [] then Some [a * 4 + b div 16, b mod 16 * 16 + c div 4]
                 else (case b64_val s of
                    None \<Rightarrow> None
                  | Some d \<Rightarrow> map_option (\<lambda>rest.
                      (a * 4 + b div 16) # (b mod 16 * 16 + c div 4) # (c mod 4 * 64 + d) # rest)
                      (b64_decode_quads cs)))))
      | _ \<Rightarrow> None)"
| "b64_decode_quads _ = None"

definition base64_EncodeToString :: "string \<Rightarrow> string" where
  "base64_EncodeToString s = b64_encode (bytes_of s)"

definition base64_DecodeString :: "string \<Rightarrow> string option" where
  "base64_DecodeString s =
     map_option (map char_of) (b64_decode_quads (filter (\<lambda>c. c \<noteq> CHR 0x0D \<and> c \<noteq> newline) s))"

section \<open>JSON\<close>

datatype json = JStr string | JInt int | JBool bool | JArr "json list" | JObj "(string \<times> json) list"

text \<open>The length of the well-formed UTF-8 sequence at the head of a byte list; 0 when there is none.\<close>

fun utf8_len :: "nat list \<Rightarrow> nat" where
  "utf8_len [] = 0"
| "utf8_len (b # bs) =
     (let c1 = (case bs of x # _ \<Rightarrow> x | [] \<Rightarrow> 0);
          cont = (\<lambda>i. i < length bs \<and> 128 \<le> bs ! i \<and> bs ! i \<le> 191)
      in if b < 128 then 1
         else if 194 \<le> b \<and> b \<le> 223 \<and> cont 0 then 2
         else if 224 \<le> b \<and> b \<le> 239 \<and> cont 0 \<and> cont 1 \<and> (b = 224 \<longrightarrow> 160 \<le> c1) \<and> (b = 237 \<longrightarrow> c1 \<le> 159)
           then 3
         else if 240 \<le> b \<and> b \<le> 244 \<and> cont 0 \<and> cont 1 \<and> cont 2 \<and> (b = 240 \<longrightarrow> 144 \<le> c1) \<and>
                 (b = 244 \<longrightarrow> c1 \<le> 143) then 4
         else 0)"

definition json_ascii :: "char \<Rightarrow> string" where
  "json_ascii c =
     (let n = of_char c in
      if c = dquote \<or> c = backslash then [backslash, c]
      else if n = 8 then [backslash, CHR ''b''] else if n = 12 then [backslash, CHR ''f'']
      else if n = 10 then [backslash, CHR ''n''] else if n = 13 then [backslash, CHR ''r'']
      else if n = 9 then [backslash, CHR ''t'']
      else if n < 32 \<or> n = 38 \<or> n = 60 \<or> n = 62 then backslash # ''u00'' @ hex_byte n
      else [c])"

function json_body :: "string \<Rightarrow> string" where
  "json_body [] = []"
| "json_body (c # cs) =
     (let k = utf8_len (map of_char (take 4 (c # cs)))
      in if of_char c < (128::nat) then json_ascii c @ json_body cs
         else if k = 0 then backslash # ''ufffd'' @ json_body cs
         else if take 3 (c # cs) = map char_of [226, 128, 168 :: nat] then
           backslash # ''u2028'' @ json_body (drop 2 cs)
         else if take 3 (c # cs) = map char_of [226, 128, 169 :: nat] then
           backslash # ''u2029'' @ json_body (drop 2 cs)
         else take k (c # cs) @ json_body (drop (k - 1) cs))"
  by pat_completeness auto
termination
  by (relation "measure length") auto

definition json_string :: "string \<Rightarrow> string" where
  "json_string s = dquote # json_body s @ [dquote]"

fun json_compact :: "json \<Rightarrow> string" where
  "json_compact (JStr s) = json_string s"
| "json_compact (JInt i) = Itoa i"
| "json_compact (JBool b) = (if b then ''true'' else ''false'')"
| "json_compact (JArr js) = ''['' @ Join (map json_compact js) '','' @ '']''"
| "json_compact (JObj fs) =
     CHR 0x7B # Join (map (\<lambda>(k, v). json_string k @ '':'' @ json_compact v) fs) '','' @ [CHR 0x7D]"

text \<open>\<open>json.MarshalIndent(v, "", "  ")\<close> at nesting depth \<open>d\<close>.\<close>

definition json_nl :: "nat \<Rightarrow> string" where
  "json_nl d = newline # replicate (2 * d) CHR '' ''"

fun json_indent :: "nat \<Rightarrow> json \<Rightarrow> string" where
  "json_indent d (JArr js) =
     (if js = [] then ''[]''
      else ''['' @ json_nl (Suc d) @
           Join (map (json_indent (Suc d)) js) (CHR '','' # json_nl (Suc d)) @ json_nl d @ '']'')"
| "json_indent d (JObj fs) =
     (if fs = [] then [CHR 0x7B, CHR 0x7D]
      else CHR 0x7B # json_nl (Suc d) @
           Join (map (\<lambda>(k, v). json_string k @ '': '' @ json_indent (Suc d) v) fs)
                (CHR '','' # json_nl (Suc d)) @ json_nl d @ [CHR 0x7D])"
| "json_indent d j = json_compact j"

text \<open>\<open>strconv.Quote\<close>, and \<open>%q\<close>; bytes above 127 are taken to be printable.\<close>

definition quote_char :: "char \<Rightarrow> string" where
  "quote_char c =
     (let n = of_char c in
      if c = dquote \<or> c = backslash then [backslash, c]
      else if n = 7 then [backslash, CHR ''a''] else if n = 8 then [backslash, CHR ''b'']
      else if n = 12 then [backslash, CHR ''f''] else if n = 10 then [backslash, CHR ''n'']
      else if n = 13 then [backslash, CHR ''r''] else if n = 9 then [backslash, CHR ''t'']
      else if n = 11 then [backslash, CHR ''v'']
      else if n < 32 \<or> n = 127 then backslash # ''x'' @ hex_byte n else [c])"

definition strconv_Quote :: "string \<Rightarrow> string" where
  "strconv_Quote s = dquote # concat (map quote_char s) @ [dquote]"

text \<open>A struct field: \<open>omitempty\<close> drops the zero value, \<open>field\<close> keeps it.\<close>

definition omit_str :: "string \<Rightarrow> string \<Rightarrow> (string \<times> json) list" where
  "omit_str k s = (if s = [] then [] else [(k, JStr s)])"

definition omit_int :: "string \<Rightarrow> int \<Rightarrow> (string \<times> json) list" where
  "omit_int k i = (if i = 0 then [] else [(k, JInt i)])"

definition omit_bool :: "string \<Rightarrow> bool \<Rightarrow> (string \<times> json) list" where
  "omit_bool k b = (if b then [(k, JBool True)] else [])"

definition omit_list :: "string \<Rightarrow> ('a \<Rightarrow> json) \<Rightarrow> 'a slice \<Rightarrow> (string \<times> json) list" where
  "omit_list k f s = (if els s = [] then [] else [(k, JArr (map f (els s)))])"

definition omit_map :: "string \<Rightarrow> strmap \<Rightarrow> (string \<times> json) list" where
  "omit_map k m = (if els m = [] then [] else [(k, JObj (map (\<lambda>(a, b). (a, JStr b)) (els m)))])"

definition omit_ptr :: "string \<Rightarrow> ('a \<Rightarrow> json) \<Rightarrow> 'a ptr \<Rightarrow> (string \<times> json) list" where
  "omit_ptr k f p = (case p of None \<Rightarrow> [] | Some x \<Rightarrow> [(k, f x)])"

section \<open>Facts\<close>

lemma length_hex_EncodeToString [simp]: "length (hex_EncodeToString bs) = 2 * length bs"
  by (induction bs) (simp_all add: hex_EncodeToString_def hex_byte_def)

definition is_hex_lower :: "char \<Rightarrow> bool" where
  "is_hex_lower c \<longleftrightarrow> is_digit c \<or> in_range 97 102 c"

lemma hex_digit_lower: "n < 16 \<Longrightarrow> is_hex_lower (hex_digit n)"
  by (auto simp: hex_digit_def is_hex_lower_def is_digit_def in_range_def)

lemma hex_EncodeToString_lower: "c \<in> set (hex_EncodeToString bs) \<Longrightarrow> is_hex_lower c"
  by (auto simp: hex_EncodeToString_def hex_byte_def hex_digit_lower)

lemma length_be_bytes [simp]: "length (be_bytes k n) = k"
  by (induction k arbitrary: n) auto

lemma length_sha_digest [simp]: "length (sha_digest st) = 32"
  by (cases st) simp

lemma length_Sum256 [simp]: "length (Sum256 s) = 32"
  by (simp add: Sum256_def)

lemma b64_val_char: "n < 64 \<Longrightarrow> b64_val (b64_char n) = Some n"
proof -
  have c: "of_char (char_of m :: char) = m" if "m < 256" for m :: nat using that by simp
  assume n: "n < 64"
  consider "n < 26" | "26 \<le> n" "n < 52" | "52 \<le> n" "n < 62" | "n = 62" | "n = 63" using n by linarith
  then show ?thesis
    by cases (auto simp add: b64_char_def b64_val_def c Let_def)
qed

lemma b64_char_not_special: "n < 64 \<Longrightarrow> b64_char n \<notin> {CHR ''='', CHR 0x0D, newline}"
proof -
  assume "n < 64"
  then have "b64_val (b64_char n) \<noteq> None" by (simp add: b64_val_char)
  moreover have "b64_val CHR ''='' = None" "b64_val CHR 0x0D = None" "b64_val newline = None"
    by (simp_all add: b64_val_def)
  ultimately show ?thesis by (metis empty_iff insert_iff)
qed

lemma b64_group:
  assumes "a < 256" "b < 256" "c < (256::nat)"
  shows "a div 4 < 64" "a mod 4 * 16 + b div 16 < 64" "b mod 16 * 4 + c div 64 < 64"
    "a mod 4 * 16 < 64" "b mod 16 * 4 < 64"
    "a div 4 * 4 + (a mod 4 * 16 + b div 16) div 16 = a"
    "(a mod 4 * 16 + b div 16) mod 16 * 16 + (b mod 16 * 4 + c div 64) div 4 = b"
    "(b mod 16 * 4 + c div 64) mod 4 * 64 + c mod 64 = c"
    "a div 4 * 4 + (a mod 4 * 16) div 16 = a"
    "(a mod 4 * 16 + b div 16) mod 16 * 16 + (b mod 16 * 4) div 4 = b"
proof -
  have d: "a mod 4 < 4" "b div 16 < 16" "b mod 16 < 16" "c div 64 < 4" using assms by auto
  show "a div 4 < 64" using assms by auto
  show "a mod 4 * 16 + b div 16 < 64" "b mod 16 * 4 + c div 64 < 64"
    "a mod 4 * 16 < 64" "b mod 16 * 4 < 64" using d by linarith+
  have e: "(a mod 4 * 16 + b div 16) div 16 = a mod 4" "(a mod 4 * 16 + b div 16) mod 16 = b div 16"
    "(b mod 16 * 4 + c div 64) div 4 = b mod 16" "(b mod 16 * 4 + c div 64) mod 4 = c div 64"
    using d by simp_all
  show "a div 4 * 4 + (a mod 4 * 16 + b div 16) div 16 = a"
    "(a mod 4 * 16 + b div 16) mod 16 * 16 + (b mod 16 * 4 + c div 64) div 4 = b"
    "(b mod 16 * 4 + c div 64) mod 4 * 64 + c mod 64 = c"
    "a div 4 * 4 + (a mod 4 * 16) div 16 = a"
    "(a mod 4 * 16 + b div 16) mod 16 * 16 + (b mod 16 * 4) div 4 = b"
    unfolding e by (simp_all add: div_mult_mod_eq)
qed

lemma b64_decode_encode: "\<forall>b \<in> set bs. b < 256 \<Longrightarrow> b64_decode_quads (b64_encode bs) = Some bs"
proof (induction bs rule: b64_encode.induct)
  case (2 a)
  then show ?case using b64_group [of a 0 0] by (simp add: b64_val_char)
next
  case (3 a b)
  then have "a < 256" "b < 256" by auto
  note g = b64_group [OF this, of 0, simplified]
  show ?case
    using g b64_char_not_special [of "b mod 16 * 4"] by (simp add: b64_val_char)
next
  case (4 a b c bs)
  then have "a < 256" "b < 256" "c < 256" by auto
  note g = b64_group [OF this]
  define p q r s where pqrs: "p = a div 4" "q = a mod 4 * 16 + b div 16"
    "r = b mod 16 * 4 + c div 64" "s = c mod 64"
  have l: "p < 64" "q < 64" "r < 64" "s < 64" using g by (simp_all add: pqrs)
  have abc: "p * 4 + q div 16 = a" "q mod 16 * 16 + r div 4 = b" "r mod 4 * 64 + s = c"
    using g unfolding pqrs by blast+
  have "b64_decode_quads (b64_encode bs) = Some bs" using 4 by simp
  then show ?case
    using b64_char_not_special [OF l(3)] b64_char_not_special [OF l(4)] abc
    by (simp add: b64_val_char l flip: pqrs)
qed simp

text \<open>Decoding inverts encoding, for any byte string.\<close>

lemma b64_encode_chars: "c \<in> set (b64_encode bs) \<Longrightarrow> \<forall>b \<in> set bs. b < 256 \<Longrightarrow> c \<noteq> CHR 0x0D \<and> c \<noteq> newline"
proof (induction bs rule: b64_encode.induct)
  case (2 a)
  then have "a < 256" by auto
  note g = b64_group [OF this, of 0 0]
  show ?case
    using 2 g(1,4) b64_char_not_special [of "a div 4"] b64_char_not_special [of "a mod 4 * 16"] by auto
next
  case (3 a b)
  then have "a < 256" "b < 256" by auto
  note g = b64_group [OF this, of 0]
  show ?case
    using 3 g(1,2,5) b64_char_not_special [of "a div 4"] b64_char_not_special [of "a mod 4 * 16 + b div 16"]
      b64_char_not_special [of "b mod 16 * 4"] by auto
next
  case (4 a b c bs)
  then have "a < 256" "b < 256" "c < 256" by auto
  note g = b64_group [OF this]
  show ?case
    using 4 g(1,2,3) b64_char_not_special [of "a div 4"] b64_char_not_special [of "a mod 4 * 16 + b div 16"]
      b64_char_not_special [of "b mod 16 * 4 + c div 64"] b64_char_not_special [of "c mod 64"] by auto
qed simp

lemma base64_decode_encode: "base64_DecodeString (base64_EncodeToString s) = Some s"
proof -
  have b: "\<forall>b \<in> set (bytes_of s). b < 256"
    by (auto simp: bytes_of_def)
  have "filter (\<lambda>c. c \<noteq> CHR 0x0D \<and> c \<noteq> newline) (b64_encode (bytes_of s)) = b64_encode (bytes_of s)"
    using b64_encode_chars [OF _ b] by (auto simp: filter_id_conv)
  then show ?thesis
    using b64_decode_encode [OF b]
    by (simp add: base64_DecodeString_def base64_EncodeToString_def bytes_of_def comp_def)
qed

end
