(* ===== verification/Api_Types.thy ===== *)
theory Api_Types
  imports Go_Encoding
begin

text \<open>
  The API objects of \<open>api/v1\<close> that the static-node subsystem stores and exchanges: one record per
  Go struct, with a short prefix per record because Isabelle's field names are global. String
  typed enumerations (phases, roles) stay strings, with their constants as abbreviations, because
  the zero value \<open>""\<close> and values read from the database are strings too. Pointers, slices and maps
  keep nil apart from empty. The one exception is \<open>Metadata\<close>: every entry point of the
  controllers dereferences that pointer unconditionally, so an object of the model carries the
  record itself.
\<close>

section \<open>Metadata and credentials\<close>

record metadata =
  meta_Workspace :: string
  meta_DeletionTimestamp :: string
  meta_CreationTimestamp :: string
  meta_UpdateTimestamp :: string
  meta_Labels :: strmap
  meta_Annotations :: strmap
  meta_Name :: string

definition WorkspaceName :: "metadata \<Rightarrow> string" where
  "WorkspaceName m = meta_Workspace m @ ''/'' @ meta_Name m"

record auth =
  auth_SSHUser :: string
  auth_SSHPrivateKey :: string

abbreviation ForceDeleteAnnotationKey :: string where
  "ForceDeleteAnnotationKey \<equiv> ''neutree.ai/force-delete''"

abbreviation ForceDeleteAnnotationValue :: string where
  "ForceDeleteAnnotationValue \<equiv> ''true''"

definition IsForceDelete :: "strmap \<Rightarrow> bool" where
  "IsForceDelete annotations =
     (case annotations of
        None \<Rightarrow> False
      | Some _ \<Rightarrow> map_get annotations ForceDeleteAnnotationKey = ForceDeleteAnnotationValue)"

definition WithForceDeleteAnnotation :: "strmap \<Rightarrow> strmap" where
  "WithForceDeleteAnnotation annotations =
     Some (map_put ForceDeleteAnnotationKey ForceDeleteAnnotationValue (map_copy_into (els annotations) []))"

section \<open>Node components\<close>

record node_component_port =
  port_Name :: string
  port_Port :: int
  port_Protocol :: string

record node_component_volume =
  vol_Name :: string
  vol_HostPath :: string
  vol_MountPath :: string
  vol_ReadOnly :: bool

record node_component_config_file =
  cf_Path :: string
  cf_Content :: string
  cf_Mode :: string
  cf_Owner :: string
  cf_Group :: string
  cf_Sudo :: bool
  cf_Atomic :: bool
  cf_CreateParent :: bool
  cf_SkipRestartOnChange :: bool

record node_component_health_check =
  hc_Command :: "string slice"
  hc_HTTPHost :: string
  hc_HTTPPath :: string
  hc_Port :: int
  hc_InitialDelaySec :: int
  hc_IntervalSec :: int
  hc_TimeoutSec :: int

record node_component_spec =
  comp_Name :: string
  comp_Image :: string
  comp_Command :: "string slice"
  comp_Args :: "string slice"
  comp_Env :: strmap
  comp_Ports :: "node_component_port slice"
  comp_Volumes :: "node_component_volume slice"
  comp_DockerRunOptions :: "string slice"
  comp_ConfigFiles :: "node_component_config_file slice"
  comp_HealthCheck :: "node_component_health_check ptr"
  comp_ConfigHash :: string

record node_component_status =
  cs_Name :: string
  cs_Ready :: bool
  cs_Phase :: string
  cs_ObservedHash :: string
  cs_ObservedImage :: string
  cs_Reason :: string
  cs_Message :: string
  cs_LastTransitionTime :: string

abbreviation NodeComponentPhasePending :: string where "NodeComponentPhasePending \<equiv> ''Pending''"
abbreviation NodeComponentPhaseStarting :: string where "NodeComponentPhaseStarting \<equiv> ''Starting''"
abbreviation NodeComponentPhaseRunning :: string where "NodeComponentPhaseRunning \<equiv> ''Running''"
abbreviation NodeComponentPhaseFailed :: string where "NodeComponentPhaseFailed \<equiv> ''Failed''"
abbreviation NodeComponentPhaseStopped :: string where "NodeComponentPhaseStopped \<equiv> ''Stopped''"

text \<open>The zero values of the two structs the code builds field by field.\<close>

definition zero_component :: node_component_spec where
  "zero_component =
     \<lparr>comp_Name = [], comp_Image = [], comp_Command = None, comp_Args = None, comp_Env = None,
      comp_Ports = None, comp_Volumes = None, comp_DockerRunOptions = None,
      comp_ConfigFiles = None, comp_HealthCheck = None, comp_ConfigHash = []\<rparr>"

definition zero_health_check :: node_component_health_check where
  "zero_health_check =
     \<lparr>hc_Command = None, hc_HTTPHost = [], hc_HTTPPath = [], hc_Port = 0,
      hc_InitialDelaySec = 0, hc_IntervalSec = 0, hc_TimeoutSec = 0\<rparr>"

definition zero_component_status :: node_component_status where
  "zero_component_status =
     \<lparr>cs_Name = [], cs_Ready = False, cs_Phase = [], cs_ObservedHash = [], cs_ObservedImage = [],
      cs_Reason = [], cs_Message = [], cs_LastTransitionTime = []\<rparr>"

section \<open>Warm-up\<close>

record warm_image_spec =
  wi_Name :: string
  wi_Ref :: string
  wi_Required :: bool

record warm_spec =
  warm_Images :: "warm_image_spec slice"

record warm_image_status =
  wis_Name :: string
  wis_Ref :: string
  wis_Ready :: bool
  wis_Digest :: string
  wis_Phase :: string
  wis_Reason :: string
  wis_Message :: string
  wis_LastTransitionTime :: string

record warm_status =
  ws_Ready :: bool
  ws_Images :: "warm_image_status slice"
  ws_Reason :: string
  ws_Message :: string
  ws_LastTransitionTime :: string

abbreviation WarmPhasePending :: string where "WarmPhasePending \<equiv> ''Pending''"
abbreviation WarmPhasePulling :: string where "WarmPhasePulling \<equiv> ''Pulling''"
abbreviation WarmPhaseReady :: string where "WarmPhaseReady \<equiv> ''Ready''"
abbreviation WarmPhaseFailed :: string where "WarmPhaseFailed \<equiv> ''Failed''"

section \<open>Accelerators\<close>

record accelerator_device_status =
  dev_ID :: string
  dev_UUID :: string
  dev_ProductName :: string
  dev_ProductModel :: string
  dev_MinorNumber :: "int ptr"
  dev_MemoryMiB :: int
  dev_Healthy :: bool

record accelerator_status =
  acc_Type :: string
  acc_Devices :: "accelerator_device_status slice"

record device_allocation =
  da_UUID :: string
  da_Product :: string
  da_Order :: "int ptr"
  da_VDeviceIndex :: string
  da_MemoryMiB :: int
  da_UsedMemoryMiB :: int
  da_CoreUnits :: int
  da_NodeID :: string

record allocation_status =
  al_WorkloadType :: string
  al_Workspace :: string
  al_Endpoint :: string
  al_InstanceID :: string
  al_ReplicaID :: string
  al_RuntimeID :: string
  al_PID :: int
  al_Devices :: "device_allocation slice"

record node_device_snapshot =
  snap_Accelerator :: accelerator_status
  snap_Allocations :: "allocation_status slice"

abbreviation StaticNodeAcceleratorTypeCPU :: string where
  "StaticNodeAcceleratorTypeCPU \<equiv> ''cpu''"

abbreviation AcceleratorTypeNVIDIAGPU :: string where
  "AcceleratorTypeNVIDIAGPU \<equiv> ''nvidia_gpu''"

definition CPUStaticNodeAcceleratorStatus :: accelerator_status where
  "CPUStaticNodeAcceleratorStatus = \<lparr>acc_Type = StaticNodeAcceleratorTypeCPU, acc_Devices = None\<rparr>"

record runtime_config =
  rc_ImageSuffix :: string
  rc_Env :: strmap
  rc_Runtime :: string
  rc_Options :: "string slice"

record exporter_config_file =
  ecf_Path :: string
  ecf_Content :: string
  ecf_Mode :: string
  ecf_Owner :: string
  ecf_Group :: string
  ecf_Sudo :: bool
  ecf_Atomic :: bool
  ecf_CreateParent :: bool
  ecf_SkipRestartOnChange :: bool

record exporter_capabilities =
  cap_Add :: "string slice"

record exporter_runtime_profile =
  er_HostNetwork :: bool
  er_HostPID :: bool
  er_Capabilities :: "exporter_capabilities ptr"
  er_NodeSelector :: strmap
  er_DockerRunOptions :: "string slice"

record exporter_profile =
  ex_Name :: string
  ex_Image :: string
  ex_Args :: "string slice"
  ex_Port :: int
  ex_MetricsPath :: string
  ex_Env :: strmap
  ex_ConfigFiles :: "exporter_config_file slice"
  ex_Runtime :: "exporter_runtime_profile ptr"

record accelerator_profile =
  ap_AcceleratorType :: string
  ap_ClusterRuntime :: "runtime_config ptr"
  ap_EngineRuntime :: "runtime_config ptr"
  ap_MetricsExporter :: "exporter_profile ptr"

section \<open>Static nodes\<close>

abbreviation StaticNodeRoleHead :: string where "StaticNodeRoleHead \<equiv> ''head''"
abbreviation StaticNodeRoleWorker :: string where "StaticNodeRoleWorker \<equiv> ''worker''"

record static_node_spec =
  sns_Cluster :: string
  sns_IP :: string
  sns_Role :: string
  sns_SSHAuth :: "auth ptr"
  sns_Warm :: "warm_spec ptr"
  sns_Components :: "node_component_spec slice"

record static_node_status =
  sts_Phase :: string
  sts_Accelerator :: "accelerator_status ptr"
  sts_Allocations :: "allocation_status slice"
  sts_Warm :: "warm_status ptr"
  sts_Components :: "node_component_status slice"
  sts_LastTransitionTime :: string
  sts_ErrorMessage :: string

abbreviation StaticNodePhasePending :: string where "StaticNodePhasePending \<equiv> ''Pending''"
abbreviation StaticNodePhaseWarming :: string where "StaticNodePhaseWarming \<equiv> ''Warming''"
abbreviation StaticNodePhaseReconciling :: string where "StaticNodePhaseReconciling \<equiv> ''Reconciling''"
abbreviation StaticNodePhaseReady :: string where "StaticNodePhaseReady \<equiv> ''Ready''"
abbreviation StaticNodePhaseFailed :: string where "StaticNodePhaseFailed \<equiv> ''Failed''"

definition zero_node_status :: static_node_status where
  "zero_node_status =
     \<lparr>sts_Phase = [], sts_Accelerator = None, sts_Allocations = None, sts_Warm = None,
      sts_Components = None, sts_LastTransitionTime = [], sts_ErrorMessage = []\<rparr>"

record static_node =
  sn_ID :: int
  sn_APIVersion :: string
  sn_Kind :: string
  sn_Metadata :: metadata
  sn_Spec :: "static_node_spec ptr"
  sn_Status :: "static_node_status ptr"

abbreviation StaticNodeKind :: string where "StaticNodeKind \<equiv> ''StaticNode''"

abbreviation node_name :: "static_node \<Rightarrow> string" where
  "node_name n \<equiv> meta_Name (sn_Metadata n)"

definition StaticNode_GetID :: "static_node \<Rightarrow> string" where
  "StaticNode_GetID n = Itoa (sn_ID n)"

section \<open>Static node clusters\<close>

record cluster_accelerator_exporter_config =
  cae_Mode :: string

record cluster_metrics_config =
  cm_AcceleratorExporter :: "cluster_accelerator_exporter_config ptr"

record cluster_upgrade_strategy =
  cus_Type :: string

record static_node_cluster_node_spec =
  ns_Name :: string
  ns_IP :: string
  ns_Role :: string
  ns_SSHAuth :: "auth ptr"

record static_node_cluster_spec =
  cls_Version :: string
  cls_ImageRegistry :: string
  cls_Metrics :: "cluster_metrics_config ptr"
  cls_Nodes :: "static_node_cluster_node_spec slice"
  cls_UpgradeStrategy :: "cluster_upgrade_strategy ptr"

record static_node_cluster_status =
  cst_Phase :: string
  cst_DesiredNodes :: int
  cst_ReadyNodes :: int
  cst_HeadReady :: bool
  cst_WarmReady :: bool
  cst_Version :: string
  cst_LastTransitionTime :: string
  cst_ErrorMessage :: string

abbreviation StaticNodeClusterPhaseProvisioning :: string where
  "StaticNodeClusterPhaseProvisioning \<equiv> ''Provisioning''"
abbreviation StaticNodeClusterPhaseUpgrading :: string where
  "StaticNodeClusterPhaseUpgrading \<equiv> ''Upgrading''"
abbreviation StaticNodeClusterPhaseReady :: string where
  "StaticNodeClusterPhaseReady \<equiv> ''Ready''"
abbreviation StaticNodeClusterPhaseFailed :: string where
  "StaticNodeClusterPhaseFailed \<equiv> ''Failed''"

definition zero_cluster_status :: static_node_cluster_status where
  "zero_cluster_status =
     \<lparr>cst_Phase = [], cst_DesiredNodes = 0, cst_ReadyNodes = 0, cst_HeadReady = False,
      cst_WarmReady = False, cst_Version = [], cst_LastTransitionTime = [], cst_ErrorMessage = []\<rparr>"

record static_node_cluster =
  snc_ID :: int
  snc_APIVersion :: string
  snc_Kind :: string
  snc_Metadata :: metadata
  snc_Spec :: "static_node_cluster_spec ptr"
  snc_Status :: "static_node_cluster_status ptr"

abbreviation StaticNodeClusterKind :: string where "StaticNodeClusterKind \<equiv> ''StaticNodeCluster''"

abbreviation cluster_name :: "static_node_cluster \<Rightarrow> string" where
  "cluster_name c \<equiv> meta_Name (snc_Metadata c)"

definition StaticNodeCluster_GetID :: "static_node_cluster \<Rightarrow> string" where
  "StaticNodeCluster_GetID c = Itoa (snc_ID c)"

section \<open>Clusters\<close>

text \<open>
  The user-facing cluster. Types of Kubernetes (volumes of a model cache, values of a configuration patch)
  and the summary of the resources appear as the JSON text they are stored as.
\<close>

record provider =
  prov_Type :: string
  prov_HeadIP :: string
  prov_WorkerIPs :: "string slice"
  prov_CoordinatorAddress :: string
  prov_Region :: string
  prov_AvailabilityZone :: string
  prov_ProjectID :: string

record ssh_config =
  ssc_Provider :: provider
  ssc_Auth :: auth

record router_spec =
  rtr_Version :: string
  rtr_AccessMode :: string
  rtr_Replicas :: int
  rtr_Resources :: strmap

record kubernetes_cluster_config =
  kcc_Kubeconfig :: string
  kcc_Router :: router_spec

record model_cache =
  mch_Name :: string
  mch_HostPath :: "string ptr"
  mch_NFS :: "string ptr"
  mch_PVC :: "string ptr"

record cluster_config =
  cc_SSHConfig :: "ssh_config ptr"
  cc_KubernetesConfig :: "kubernetes_cluster_config ptr"
  cc_Metrics :: "cluster_metrics_config ptr"
  cc_AcceleratorType :: "string ptr"
  cc_ModelCaches :: "model_cache slice"

record accelerator_virtualization_spec =
  avs_Enabled :: bool
  avs_ConfigPatch :: strmap

record cluster_spec_data =
  csp_Type :: string
  csp_Config :: "cluster_config ptr"
  csp_ImageRegistry :: string
  csp_AcceleratorVirtualization :: "accelerator_virtualization_spec ptr"
  csp_Version :: string

record cluster_component_status =
  ccs_Phase :: string
  ccs_Managed :: bool
  ccs_Version :: string
  ccs_Reason :: string
  ccs_Message :: string

record cluster_status_data =
  csd_Phase :: string
  csd_Image :: string
  csd_DashboardURL :: string
  csd_LastTransitionTime :: string
  csd_ErrorMessage :: string
  csd_ReadyNodes :: int
  csd_DesiredNodes :: int
  csd_Version :: string
  csd_RayVersion :: string
  csd_Initialized :: bool
  csd_NodeProvisionStatus :: string
  csd_ResourceInfo :: "string ptr"
  csd_AcceleratorType :: "string ptr"
  csd_ObservedSpecHash :: string
  csd_ComponentStatus :: "(string \<times> cluster_component_status ptr) list option"

record cluster =
  cl_ID :: int
  cl_Metadata :: metadata
  cl_Spec :: "cluster_spec_data ptr"
  cl_Status :: "cluster_status_data ptr"

abbreviation RayDashboardPort :: int where "RayDashboardPort \<equiv> 8265"
abbreviation RayletMetricsPort :: int where "RayletMetricsPort \<equiv> 54311"

abbreviation ClusterAcceleratorExporterModeManaged :: string where
  "ClusterAcceleratorExporterModeManaged \<equiv> ''managed''"
abbreviation ClusterAcceleratorExporterModeExternal :: string where
  "ClusterAcceleratorExporterModeExternal \<equiv> ''external''"

text \<open>\<open>ClusterConfig.AcceleratorExporterMode\<close>, of the configuration with the given metrics section.\<close>

definition AcceleratorExporterMode :: "cluster_metrics_config ptr \<Rightarrow> string" where
  "AcceleratorExporterMode metrics =
     (case metrics of
        None \<Rightarrow> ClusterAcceleratorExporterModeManaged
      | Some m \<Rightarrow>
          (case cm_AcceleratorExporter m of
             None \<Rightarrow> ClusterAcceleratorExporterModeManaged
           | Some e \<Rightarrow>
               (if TrimSpace (cae_Mode e) = ClusterAcceleratorExporterModeExternal
                then ClusterAcceleratorExporterModeExternal
                else ClusterAcceleratorExporterModeManaged)))"

section \<open>Facts\<close>

lemma map_of_fold_put:
  "map_of (fold (\<lambda>(k, v) m. map_put k v m) src dst) k =
     (case map_of (rev src) k of None \<Rightarrow> map_of dst k | Some v \<Rightarrow> Some v)"
  by (induction src arbitrary: dst) (auto split: option.splits)

lemma map_of_rev_ok: "map_ok m \<Longrightarrow> map_of (rev m) k = map_of m k"
proof -
  assume "map_ok m"
  then have "distinct (map fst m)"
    by (simp add: map_ok_def strict_sorted_iff)
  then have "map_of (rev m) k = Some v \<longleftrightarrow> map_of m k = Some v" for v
    by (simp add: map_of_eq_Some_iff rev_map [symmetric])
  then show ?thesis by (metis option.exhaust)
qed

lemma WithForceDeleteAnnotation_keeps:
  assumes "map_ok (els a)" "k \<noteq> ForceDeleteAnnotationKey"
  shows "map_get (WithForceDeleteAnnotation a) k = map_get a k"
  using assms
  by (simp add: WithForceDeleteAnnotation_def map_get_def map_copy_into_def map_of_fold_put map_of_rev_ok
      split: option.splits)

lemma WithForceDeleteAnnotation_force [simp]: "IsForceDelete (WithForceDeleteAnnotation a)"
  by (simp add: IsForceDelete_def WithForceDeleteAnnotation_def map_get_def)

end
