(* ===== verification/Image_Ref.thy ===== *)
theory Image_Ref
  imports Api_Types
begin

text \<open>
  Image references and image registries: \<open>internal/util/image.go\<close>, \<open>internal/util/image_registry.go\<close>
  and \<open>internal/util/url_check.go\<close>. The parser of \<open>net/url\<close> is a parameter that returns the
  scheme and the host of the URL it accepts.
\<close>

section \<open>URLs\<close>

record url =
  url_Scheme :: string
  url_Host :: string

type_synonym url_parser = "string \<Rightarrow> go_error + url"

definition validOptionalPort :: "string \<Rightarrow> bool" where
  "validOptionalPort p \<longleftrightarrow> p = [] \<or> hd p = CHR '':'' \<and> list_all is_digit (tl p)"

text \<open>\<open>URL.Hostname\<close>: the host without its port and without brackets.\<close>

definition url_Hostname :: "url \<Rightarrow> string" where
  "url_Hostname u =
     (let h = url_Host u;
          port = rev (takeWhile (\<lambda>c. c \<noteq> CHR '':'') (rev h));
          h1 = (if CHR '':'' \<in> set h \<and> validOptionalPort (CHR '':'' # port)
                then take (length h - length port - 1) h else h)
      in if h1 \<noteq> [] \<and> hd h1 = CHR ''['' \<and> last h1 = CHR '']'' then butlast (tl h1) else h1)"

definition IsHTTPOrHTTPSURL :: "url_parser \<Rightarrow> string \<Rightarrow> bool" where
  "IsHTTPOrHTTPSURL parse s =
     (case parse (TrimSpace s) of
        Inl _ \<Rightarrow> False
      | Inr u \<Rightarrow> (url_Scheme u = ''http'' \<or> url_Scheme u = ''https'') \<and> url_Host u \<noteq> [])"

section \<open>Image references\<close>

abbreviation slash :: char where "slash \<equiv> CHR 0x2F"

definition IsDockerHubImagePrefix :: "string \<Rightarrow> bool" where
  "IsDockerHubImagePrefix imagePrefix =
     (let host = hd (SplitN2 (Trim (TrimSpace imagePrefix) slash) slash)
      in ToLower host \<in> {''docker.io'', ''index.docker.io'', ''registry-1.docker.io''})"

definition isSourceImageRegistry :: "string \<Rightarrow> bool" where
  "isSourceImageRegistry segment \<longleftrightarrow>
     segment = ''localhost'' \<or> CHR ''.'' \<in> set segment \<or> CHR '':'' \<in> set segment"

definition stripSourceImageRegistry :: "string \<Rightarrow> string" where
  "stripSourceImageRegistry img =
     (case SplitN2 img slash of
        [host, path] \<Rightarrow> (if isSourceImageRegistry host then path else img)
      | _ \<Rightarrow> img)"

definition RewriteImageRef :: "string \<Rightarrow> string \<Rightarrow> string" where
  "RewriteImageRef imagePrefix0 img =
     (if img = [] then []
      else let imagePrefix = TrimRight (TrimSpace imagePrefix0) slash
           in if imagePrefix = [] \<or> IsDockerHubImagePrefix imagePrefix \<or> HasPrefix img (imagePrefix @ [slash])
              then img
              else imagePrefix @ [slash] @ stripSourceImageRegistry img)"

abbreviation NeutreeServeImageName :: string where
  "NeutreeServeImageName \<equiv> ''neutree/neutree-serve''"

definition BuildClusterImageRef :: "string \<Rightarrow> string \<Rightarrow> string \<Rightarrow> string" where
  "BuildClusterImageRef imagePrefix version imageSuffix =
     (let tag = (if imageSuffix \<noteq> [] then version @ ''-'' @ imageSuffix else version)
      in RewriteImageRef imagePrefix (NeutreeServeImageName @ '':'' @ tag))"

section \<open>Image registries\<close>

record image_registry_auth_config =
  irac_Password :: string
  irac_Username :: string
  irac_Auth :: string
  irac_IdentityToken :: string
  irac_RegistryToken :: string

record image_registry_spec =
  irs_AuthConfig :: image_registry_auth_config
  irs_Repository :: string
  irs_URL :: string

record image_registry_status =
  irst_ErrorMessage :: string
  irst_LastTransitionTime :: string
  irst_Phase :: string

record image_registry =
  ir_APIVersion :: string
  ir_ID :: int
  ir_Kind :: string
  ir_Metadata :: metadata
  ir_Spec :: "image_registry_spec ptr"
  ir_Status :: "image_registry_status ptr"

abbreviation ImageRegistryPhaseCONNECTED :: string where
  "ImageRegistryPhaseCONNECTED \<equiv> ''Connected''"

text \<open>The offset in the text of the decoder's error (\<open>illegal base64 data at input byte n\<close>) is left out.\<close>

definition GetImageRegistryAuthInfo :: "image_registry ptr \<Rightarrow> go_error + string \<times> string" where
  "GetImageRegistryAuthInfo r =
     (case Option.bind r ir_Spec of
        None \<Rightarrow> Inl (ErrNew ''image registry spec is nil'')
      | Some spec \<Rightarrow>
          let a = irs_AuthConfig spec in
          if irac_Username a \<noteq> [] \<and> irac_Password a \<noteq> [] then Inr (irac_Username a, irac_Password a)
          else if irac_Auth a \<noteq> [] then
            (case base64_DecodeString (irac_Auth a) of
               None \<Rightarrow> Inl (ErrWrap (ErrNew ''illegal base64 data'') ''failed to decode image registry auth'')
             | Some decoded \<Rightarrow>
                 (case SplitN2 decoded CHR '':'' of
                    [user, password] \<Rightarrow>
                      if user = [] \<or> password = [] then Inr ([], []) else Inr (user, password)
                  | _ \<Rightarrow> Inl (ErrNew ''invalid image registry auth format'')))
          else Inr ([], []))"

definition StripRegistryScheme :: "string \<Rightarrow> string" where
  "StripRegistryScheme rawURL =
     TrimRight (TrimPrefix (TrimPrefix rawURL ''https://'') ''http://'') slash"

definition registry_host_char :: "char \<Rightarrow> bool" where
  "registry_host_char c \<longleftrightarrow>
     is_upper c \<or> is_lower c \<or> is_digit c \<or> c = CHR ''.'' \<or> c = CHR '':'' \<or> c = CHR ''-''"

definition validateRegistryHostname :: "string \<Rightarrow> go_error option" where
  "validateRegistryHostname hostname =
     (if hostname = [] then Some (ErrNew ''empty registry host'')
      else case filter (\<lambda>c. \<not> registry_host_char c) hostname of
             [] \<Rightarrow> None
           | c # _ \<Rightarrow> Some (ErrNew (''invalid registry host '' @ strconv_Quote hostname @
                       '': contains invalid character '' @ strconv_Quote [c])))"

definition parseRegistryHost :: "url_parser \<Rightarrow> string \<Rightarrow> go_error + string" where
  "parseRegistryHost parse rawURL =
     (let stripped = StripRegistryScheme rawURL in
      if stripped = [] then Inl (ErrNew ''empty registry host'')
      else case parse (''dummy://'' @ stripped) of
             Inl e \<Rightarrow> Inl (ErrWrap e ''failed to parse registry url'')
           | Inr u \<Rightarrow>
               if url_Host u = [] then Inl (ErrNew (''invalid registry url: '' @ rawURL))
               else case validateRegistryHostname (url_Hostname u) of
                      Some e \<Rightarrow> Inl e
                    | None \<Rightarrow> Inr (url_Host u))"

definition GetImageRegistryHost :: "url_parser \<Rightarrow> image_registry_spec \<Rightarrow> go_error + string" where
  "GetImageRegistryHost parse spec = parseRegistryHost parse (irs_URL spec)"

definition BuildImagePrefix :: "string \<Rightarrow> string \<Rightarrow> go_error + string" where
  "BuildImagePrefix registry project0 =
     (let host = StripRegistryScheme registry;
          project = Trim (TrimSpace project0) slash
      in if project \<noteq> [] then
           (if slash \<in> set host then
              Inl (ErrNew (''registry '' @ strconv_Quote registry @
                '' already contains a path; cannot combine with project '' @ strconv_Quote project @
                '', use one or the other''))
            else Inr (host @ [slash] @ project))
         else Inr host)"

definition GetImagePrefix :: "url_parser \<Rightarrow> image_registry_spec \<Rightarrow> go_error + string" where
  "GetImagePrefix parse spec =
     (case parseRegistryHost parse (irs_URL spec) of
        Inl e \<Rightarrow> Inl (ErrWrap e (''failed to parse image registry url '' @ irs_URL spec))
      | Inr host \<Rightarrow> BuildImagePrefix host (irs_Repository spec))"

section \<open>Properties\<close>

lemma SplitN2_append:
  assumes "c \<notin> set u"
  shows "SplitN2 (u @ c # v) c = [u, v]"
proof -
  from assms have "takeWhile (\<lambda>x. x \<noteq> c) (u @ c # v) = u \<and> dropWhile (\<lambda>x. x \<noteq> c) (u @ c # v) = c # v"
    by (induction u) auto
  then show ?thesis by (simp add: SplitN2_def)
qed

text \<open>Rewriting an image puts it under the registry prefix, and nothing else changes it.\<close>

lemma RewriteImageRef_cases:
  fixes p img :: string
  defines "prefix \<equiv> TrimRight (TrimSpace p) slash"
  shows "RewriteImageRef p img =
    (if img = [] \<or> prefix = [] \<or> IsDockerHubImagePrefix prefix \<or> HasPrefix img (prefix @ [slash])
     then img else prefix @ [slash] @ stripSourceImageRegistry img)"
  by (simp add: RewriteImageRef_def prefix_def Let_def)

lemma RewriteImageRef_prefixed:
  assumes "img \<noteq> []" "TrimRight (TrimSpace p) slash \<noteq> []"
    "\<not> IsDockerHubImagePrefix (TrimRight (TrimSpace p) slash)"
  shows "HasPrefix (RewriteImageRef p img) (TrimRight (TrimSpace p) slash @ [slash])"
  using assms by (auto simp: RewriteImageRef_cases HasPrefix_iff)

lemma RewriteImageRef_idem_aux: "RewriteImageRef p (RewriteImageRef p img) = RewriteImageRef p img"
proof (cases "img = [] \<or> TrimRight (TrimSpace p) slash = [] \<or>
    IsDockerHubImagePrefix (TrimRight (TrimSpace p) slash)")
  case True
  then show ?thesis by (auto simp: RewriteImageRef_cases)
next
  case False
  then have "HasPrefix (RewriteImageRef p img) (TrimRight (TrimSpace p) slash @ [slash])"
    by (simp add: RewriteImageRef_prefixed)
  then show ?thesis by (subst RewriteImageRef_cases) simp
qed

text \<open>
  Rewriting an image reference into a registry prefix is idempotent: applying
  \<open>RewriteImageRef\<close> to an already rewritten reference returns it unchanged, for every prefix and image.
\<close>

theorem RewriteImageRef_idempotent:
  "RewriteImageRef p (RewriteImageRef p img) = RewriteImageRef p img"
  by (rule RewriteImageRef_idem_aux)

end
