(* ===== verification/Component_Hash.thy ===== *)
theory Component_Hash
  imports Api_Types
begin

text \<open>
  The fingerprint of a node component, \<open>internal/cluster/staticcomponent/hash.go\<close>. \<open>Hash\<close> is the
  SHA-256 digest, in hexadecimal, of the JSON form of the component with its own hash cleared and
  with the content of the files blanked that are marked as changeable without a restart.
  \<open>json.Marshal\<close> has no error branch on this type (strings, integers, booleans, maps of strings),
  so the model has none.
\<close>

section \<open>The JSON form of a component\<close>

definition port_json :: "node_component_port \<Rightarrow> json" where
  "port_json p = JObj (omit_str ''name'' (port_Name p) @ omit_int ''port'' (port_Port p) @
     omit_str ''protocol'' (port_Protocol p))"

definition volume_json :: "node_component_volume \<Rightarrow> json" where
  "volume_json v = JObj (omit_str ''name'' (vol_Name v) @ omit_str ''host_path'' (vol_HostPath v) @
     omit_str ''mount_path'' (vol_MountPath v) @ omit_bool ''read_only'' (vol_ReadOnly v))"

definition config_file_json :: "node_component_config_file \<Rightarrow> json" where
  "config_file_json f = JObj (omit_str ''path'' (cf_Path f) @ omit_str ''content'' (cf_Content f) @
     omit_str ''mode'' (cf_Mode f) @ omit_str ''owner'' (cf_Owner f) @ omit_str ''group'' (cf_Group f) @
     omit_bool ''sudo'' (cf_Sudo f) @ omit_bool ''atomic'' (cf_Atomic f) @
     omit_bool ''create_parent'' (cf_CreateParent f) @
     omit_bool ''skip_restart_on_change'' (cf_SkipRestartOnChange f))"

definition health_check_json :: "node_component_health_check \<Rightarrow> json" where
  "health_check_json h = JObj (omit_list ''command'' JStr (hc_Command h) @
     omit_str ''http_host'' (hc_HTTPHost h) @ omit_str ''http_path'' (hc_HTTPPath h) @
     omit_int ''port'' (hc_Port h) @ omit_int ''initial_delay_sec'' (hc_InitialDelaySec h) @
     omit_int ''interval_sec'' (hc_IntervalSec h) @ omit_int ''timeout_sec'' (hc_TimeoutSec h))"

definition component_json :: "node_component_spec \<Rightarrow> json" where
  "component_json c = JObj (omit_str ''name'' (comp_Name c) @ omit_str ''image'' (comp_Image c) @
     omit_list ''command'' JStr (comp_Command c) @ omit_list ''args'' JStr (comp_Args c) @
     omit_map ''env'' (comp_Env c) @ omit_list ''ports'' port_json (comp_Ports c) @
     omit_list ''volumes'' volume_json (comp_Volumes c) @
     omit_list ''docker_run_options'' JStr (comp_DockerRunOptions c) @
     omit_list ''config_files'' config_file_json (comp_ConfigFiles c) @
     omit_ptr ''health_check'' health_check_json (comp_HealthCheck c) @
     omit_str ''config_hash'' (comp_ConfigHash c))"

section \<open>Hash and WithHashes\<close>

definition blank_skipped :: "node_component_config_file \<Rightarrow> node_component_config_file" where
  "blank_skipped f = (if cf_SkipRestartOnChange f then f\<lparr>cf_Content := []\<rparr> else f)"

definition hash_input :: "node_component_spec \<Rightarrow> node_component_spec" where
  "hash_input c = c\<lparr>comp_ConfigHash := [],
     comp_ConfigFiles := Some (map blank_skipped (els (comp_ConfigFiles c)))\<rparr>"

definition Hash :: "node_component_spec \<Rightarrow> string" where
  "Hash c = hex_EncodeToString (Sum256 (json_compact (component_json (hash_input c))))"

definition WithHashes :: "node_component_spec slice \<Rightarrow> node_component_spec slice" where
  "WithHashes cs = Some (map (\<lambda>c. c\<lparr>comp_ConfigHash := Hash c\<rparr>) (els cs))"

section \<open>The contract of a fingerprint\<close>

text \<open>
  What callers rely on: the stored fingerprint is not part of what it fingerprints. Stamping a list
  of objects with their fingerprints is then idempotent, and every stamped object carries its own.
\<close>

locale fingerprint =
  fixes digest :: "'c \<Rightarrow> string"
    and stored :: "'c \<Rightarrow> string"
    and stamp :: "string \<Rightarrow> 'c \<Rightarrow> 'c"
  assumes digest_stamp: "digest (stamp h c) = digest c"
    and stored_stamp: "stored (stamp h c) = h"
    and stamp_stamp: "stamp h (stamp h' c) = stamp h c"
    and digest_nonempty: "digest c \<noteq> []"
begin

lemma stamped_own: "c' \<in> set (map (\<lambda>c. stamp (digest c) c) cs) \<Longrightarrow> stored c' = digest c' \<and> stored c' \<noteq> []"
  by (auto simp: digest_stamp stored_stamp digest_nonempty)

lemma stamp_idem:
  "map (\<lambda>c. stamp (digest c) c) (map (\<lambda>c. stamp (digest c) c) cs) = map (\<lambda>c. stamp (digest c) c) cs"
  by (simp add: digest_stamp stamp_stamp)

end

lemma Hash_ignores_hash [simp]: "Hash (c\<lparr>comp_ConfigHash := h\<rparr>) = Hash c"
  by (simp add: Hash_def hash_input_def)

lemma length_Hash [simp]: "length (Hash c) = 64"
  by (simp add: Hash_def)

lemma Hash_nonempty [simp]: "Hash c \<noteq> []"
proof
  assume "Hash c = []"
  with length_Hash [of c] show False by simp
qed

interpretation ch: fingerprint Hash comp_ConfigHash "\<lambda>h c. c\<lparr>comp_ConfigHash := h\<rparr>"
proof
  show "Hash (c\<lparr>comp_ConfigHash := h\<rparr>) = Hash c" for c h by (rule Hash_ignores_hash)
  show "Hash c \<noteq> []" for c by (rule Hash_nonempty)
qed simp_all

lemma els_WithHashes [simp]: "els (WithHashes cs) = map (\<lambda>c. c\<lparr>comp_ConfigHash := Hash c\<rparr>) (els cs)"
  by (simp add: WithHashes_def)

lemma WithHashes_own:
  "c \<in> set (els (WithHashes cs)) \<Longrightarrow> comp_ConfigHash c = Hash c \<and> comp_ConfigHash c \<noteq> []"
  by (rule ch.stamped_own [of c "els cs"]) (simp only: els_WithHashes)

lemma WithHashes_idem_aux: "WithHashes (WithHashes cs) = WithHashes cs"
  using ch.stamp_idem [of "els cs"] by (simp only: WithHashes_def els_simps)

lemma Hash_cong_input: "hash_input c = hash_input d \<Longrightarrow> Hash c = Hash d"
  by (simp add: Hash_def)

end
