(* ===== verification/Ray_Components.thy ===== *)
theory Ray_Components
  imports Image_Ref Component_Hash
begin

text \<open>
  What a cluster wants to run on a node: the plan type of \<open>staticcluster/planner.go\<close>, the helpers of
  \<open>staticcluster/helpers.go\<close> and the Ray components of \<open>staticcluster/components.go\<close>. A cluster is
  passed as a pointer to the functions that test it against nil, and as an object to those that
  dereference it at once.
\<close>

section \<open>Plans and helpers\<close>

record desired_node_plan =
  dp_Node :: "static_node ptr"
  dp_Accelerator :: "accelerator_status ptr"
  dp_TargetComponents :: "node_component_spec slice"

text \<open>\<open>x == nil || x.Spec == nil\<close> and the like, as one test.\<close>

definition cluster_spec :: "static_node_cluster ptr \<Rightarrow> static_node_cluster_spec ptr" where
  "cluster_spec c = Option.bind c snc_Spec"

definition node_spec :: "static_node ptr \<Rightarrow> static_node_spec ptr" where
  "node_spec n = Option.bind n sn_Spec"

definition node_status :: "static_node ptr \<Rightarrow> static_node_status ptr" where
  "node_status n = Option.bind n sn_Status"

lemma spec_simps [simp]:
  "cluster_spec None = None" "cluster_spec (Some c) = snc_Spec c"
  "node_spec None = None" "node_spec (Some n) = sn_Spec n"
  "node_status None = None" "node_status (Some n) = sn_Status n"
  by (simp_all add: cluster_spec_def node_spec_def node_status_def)

definition normalizeStaticNodeRole :: "string \<Rightarrow> string" where
  "normalizeStaticNodeRole role =
     (if role = StaticNodeRoleHead then StaticNodeRoleHead else StaticNodeRoleWorker)"

definition staticNodeLabels :: "string \<Rightarrow> string \<Rightarrow> strmap" where
  "staticNodeLabels clusterName role =
     Some (map_lit [(''neutree.ai/static-node-cluster'', clusterName), (''neutree.ai/static-node-role'', role)])"

text \<open>A \<open>map[string]*v1.StaticNode\<close>: an association list sorted by name.\<close>

definition put_node :: "static_node ptr \<Rightarrow> (string \<times> static_node) list \<Rightarrow> (string \<times> static_node) list" where
  "put_node p m = (case p of None \<Rightarrow> m | Some n \<Rightarrow> map_put (node_name n) n m)"

definition staticNodeByName :: "static_node ptr list \<Rightarrow> (string \<times> static_node) list" where
  "staticNodeByName nodes = fold put_node nodes []"

definition currentStaticNodeAcceleratorStatus :: "static_node ptr \<Rightarrow> accelerator_status ptr" where
  "currentStaticNodeAcceleratorStatus node = Option.bind (node_status node) sts_Accelerator"

definition staticComponentImage :: "static_node_cluster ptr \<Rightarrow> string \<Rightarrow> string" where
  "staticComponentImage cluster img =
     (let imageRegistry = (case cluster_spec cluster of None \<Rightarrow> [] | Some s \<Rightarrow> cls_ImageRegistry s)
      in RewriteImageRef imageRegistry img)"

definition copyAuth :: "auth ptr \<Rightarrow> auth ptr" where
  "copyAuth a = (case a of None \<Rightarrow> None | Some x \<Rightarrow> Some x)"

definition staticNodeClusterHeadIP :: "static_node_cluster ptr \<Rightarrow> string" where
  "staticNodeClusterHeadIP cluster =
     (case cluster_spec cluster of
        None \<Rightarrow> []
      | Some s \<Rightarrow>
          (case List.find (\<lambda>n. normalizeStaticNodeRole (ns_Role n) = StaticNodeRoleHead) (els (cls_Nodes s)) of
             None \<Rightarrow> []
           | Some n \<Rightarrow> ns_IP n))"

section \<open>Ray components\<close>

abbreviation rayHeadComponentName :: string where "rayHeadComponentName \<equiv> ''ray-head''"
abbreviation rayWorkerComponentName :: string where "rayWorkerComponentName \<equiv> ''ray-worker''"
abbreviation rayRuntimeWarmImageName :: string where "rayRuntimeWarmImageName \<equiv> ''ray-runtime''"
abbreviation rayDockerConfigHostDir :: string where "rayDockerConfigHostDir \<equiv> ''/etc/neutree/docker''"
abbreviation rayDockerConfigMountDir :: string where "rayDockerConfigMountDir \<equiv> ''/root/.docker''"

definition isRayHeadComponentName :: "string \<Rightarrow> bool" where
  "isRayHeadComponentName name \<longleftrightarrow> name = rayHeadComponentName"

definition isRayWorkerComponentName :: "string \<Rightarrow> bool" where
  "isRayWorkerComponentName name \<longleftrightarrow> name = rayWorkerComponentName"

definition isRayComponentName :: "string \<Rightarrow> bool" where
  "isRayComponentName name \<longleftrightarrow> isRayHeadComponentName name \<or> isRayWorkerComponentName name"

definition cluster_runtime :: "accelerator_profile ptr \<Rightarrow> runtime_config ptr" where
  "cluster_runtime profile = Option.bind profile ap_ClusterRuntime"

definition clusterRuntimeImageSuffix :: "accelerator_profile ptr \<Rightarrow> string" where
  "clusterRuntimeImageSuffix profile =
     (case cluster_runtime profile of None \<Rightarrow> [] | Some r \<Rightarrow> rc_ImageSuffix r)"

definition rayRuntimeEnv :: "accelerator_profile ptr \<Rightarrow> strmap" where
  "rayRuntimeEnv profile =
     (let env = map_lit
           [(''RAY_DEFAULT_OBJECT_STORE_MEMORY_PROPORTION'', ''0.1''),
            (''DOCKER_CONFIG'', rayDockerConfigMountDir),
            (''RAY_enable_open_telemetry'', ''false''),
            (''RAY_EXPERIMENTAL_RUNTIME_ENV_CONTAINER_RUNTIME'', ''docker''),
            (''RAY_process_group_cleanup_enabled'', ''true'')]
      in case cluster_runtime profile of
           None \<Rightarrow> Some env
         | Some r \<Rightarrow> Some (map_copy_into (els (rc_Env r)) env))"

definition rayRuntimeDockerRunOptions :: "accelerator_profile ptr \<Rightarrow> string slice" where
  "rayRuntimeDockerRunOptions profile =
     (let options =
           [''--net=host'', ''--ulimit nofile=65536:65536'',
            ''--volume /var/run/docker.sock:/var/run/docker.sock'',
            ''--volume '' @ rayDockerConfigHostDir @ '':'' @ rayDockerConfigMountDir @ '':ro'',
            ''--volume /tmp:/tmp'', ''--pid=host'', ''--ipc=host'']
      in case cluster_runtime profile of
           None \<Rightarrow> Some options
         | Some r \<Rightarrow>
             Some (options @ (if rc_Runtime r \<noteq> [] then [''--runtime='' @ rc_Runtime r] else []) @
                   els (rc_Options r)))"

abbreviation NeutreeServingVersionLabel :: string where
  "NeutreeServingVersionLabel \<equiv> ''neutree.ai/cluster-version''"
abbreviation NeutreeNodeProvisionTypeLabel :: string where
  "NeutreeNodeProvisionTypeLabel \<equiv> ''neutree.ai/node-provision-type''"
abbreviation StaticNodeProvisionType :: string where "StaticNodeProvisionType \<equiv> ''static''"

definition rayNodeLabels :: "static_node_cluster ptr \<Rightarrow> string \<Rightarrow> (string \<times> string) list" where
  "rayNodeLabels cluster role =
     (let labels = (case cluster_spec cluster of
            None \<Rightarrow> []
          | Some s \<Rightarrow> (if cls_Version s \<noteq> [] then map_put NeutreeServingVersionLabel (cls_Version s) [] else []))
      in if role = StaticNodeRoleWorker
         then map_put NeutreeNodeProvisionTypeLabel StaticNodeProvisionType labels else labels)"

definition rayNodeLabelArg :: "static_node_cluster ptr \<Rightarrow> string \<Rightarrow> string" where
  "rayNodeLabelArg cluster role =
     (let labels = rayNodeLabels cluster role
      in if labels = [] then []
         else ''--labels='' @ [squote] @ json_compact (JObj (map (\<lambda>(k, v). (k, JStr v)) labels)) @ [squote])"

definition rayStartCommand :: "static_node_cluster ptr \<Rightarrow> string \<Rightarrow> string" where
  "rayStartCommand cluster role =
     (let commonArgs = Join
           [''--disable-usage-stats'', ''--node-manager-port=8077'',
            ''--dashboard-agent-listen-port=52365'', ''--min-worker-port=10002'',
            ''--max-worker-port=20000'', ''--runtime-env-agent-port=56999'',
            ''--metrics-export-port='' @ Itoa RayletMetricsPort] '' '';
          start =
            (if role = StaticNodeRoleHead then
               Join [''python /home/ray/start.py --head --port=6379 --dashboard-host=0.0.0.0'', commonArgs,
                     ''--dashboard-port='' @ Itoa RayDashboardPort, ''--ray-client-server-port=10001'',
                     ''--block'', rayNodeLabelArg cluster role] '' ''
             else
               Join [''python /home/ray/start.py --address='' @ staticNodeClusterHeadIP cluster @ '':6379'',
                     commonArgs, ''--block'', rayNodeLabelArg cluster role] '' '')
      in Join [''ray stop'', ''ulimit -n 65536'', start] '' && '')"

definition buildRayRuntimeImage :: "static_node_cluster ptr \<Rightarrow> string list \<Rightarrow> string" where
  "buildRayRuntimeImage cluster imageSuffixes =
     (case cluster_spec cluster of
        None \<Rightarrow> []
      | Some s \<Rightarrow>
          if cls_Version s = [] \<or> cls_ImageRegistry s = [] then []
          else BuildClusterImageRef (TrimRight (cls_ImageRegistry s) slash) (cls_Version s)
                 (case imageSuffixes of [] \<Rightarrow> [] | suffix # _ \<Rightarrow> suffix))"

definition buildRayComponent ::
  "static_node_cluster ptr \<Rightarrow> string \<Rightarrow> accelerator_profile ptr \<Rightarrow> node_component_spec" where
  "buildRayComponent cluster role profile =
     (let ray = zero_component
           \<lparr>comp_Image := buildRayRuntimeImage cluster [clusterRuntimeImageSuffix profile],
            comp_Command := Some [''/bin/bash'', ''-lc''],
            comp_Args := Some [rayStartCommand cluster role],
            comp_Env := rayRuntimeEnv profile,
            comp_DockerRunOptions := rayRuntimeDockerRunOptions profile,
            comp_HealthCheck := Some (zero_health_check\<lparr>hc_Port := RayletMetricsPort\<rparr>)\<rparr>
      in if role = StaticNodeRoleHead then ray\<lparr>comp_Name := rayHeadComponentName\<rparr>
         else ray\<lparr>comp_Name := rayWorkerComponentName\<rparr>)"

definition withComponentConfigHashes :: "node_component_spec slice \<Rightarrow> node_component_spec slice" where
  "withComponentConfigHashes components = WithHashes components"

definition warmImageName :: "node_component_spec \<Rightarrow> string" where
  "warmImageName c = (if isRayComponentName (comp_Name c) then rayRuntimeWarmImageName else comp_Name c)"

definition buildNodeWarmSpec :: "node_component_spec list \<Rightarrow> warm_spec ptr" where
  "buildNodeWarmSpec components =
     (if components = [] then None
      else let images = map (\<lambda>c. \<lparr>wi_Name = warmImageName c, wi_Ref = comp_Image c, wi_Required = True\<rparr>)
                 (uniq_by comp_Image [] (filter (\<lambda>c. comp_Image c \<noteq> []) components))
           in if images = [] then None else Some \<lparr>warm_Images = Some images\<rparr>)"

section \<open>Facts\<close>

lemma map_of_put_node:
  "map_of (put_node p m) k = (if \<exists>n. p = Some n \<and> node_name n = k then p else map_of m k)"
  by (cases p) (auto simp: put_node_def)

text \<open>The last node of a name wins, as with assignments to a map.\<close>

lemma map_of_fold_put_node:
  "map_of (fold put_node nodes m) k =
     (case List.find (\<lambda>p. \<exists>n. p = Some n \<and> node_name n = k) (rev nodes) of
        None \<Rightarrow> map_of m k | Some p \<Rightarrow> p)"
proof (induction nodes rule: rev_induct)
  case (snoc p nodes)
  then show ?case by (cases p) (auto simp: map_of_put_node)
qed simp

lemma map_of_staticNodeByName_Some:
  "map_of (staticNodeByName nodes) k = Some n \<Longrightarrow> Some n \<in> set nodes \<and> node_name n = k"
  unfolding staticNodeByName_def
proof (induction nodes rule: rev_induct)
  case (snoc p nodes)
  then show ?case by (cases p) (auto simp: map_of_put_node split: if_splits)
qed simp

lemma map_of_staticNodeByName_None:
  "map_of (staticNodeByName nodes) k = None \<longleftrightarrow> (\<forall>n. Some n \<in> set nodes \<longrightarrow> node_name n \<noteq> k)"
  unfolding staticNodeByName_def
proof (induction nodes rule: rev_induct)
  case (snoc p nodes)
  then show ?case by (cases p) (auto simp: map_of_put_node)
qed simp

lemma map_ok_staticNodeByName: "map_ok (staticNodeByName nodes)"
  unfolding staticNodeByName_def
proof (induction nodes rule: rev_induct)
  case (snoc p nodes)
  then show ?case by (cases p) (auto simp: put_node_def map_ok_put)
qed (simp add: map_ok_def)

lemma normalizeStaticNodeRole_cases [simp]:
  "normalizeStaticNodeRole r = StaticNodeRoleHead \<longleftrightarrow> r = StaticNodeRoleHead"
  "normalizeStaticNodeRole r = StaticNodeRoleWorker \<longleftrightarrow> r \<noteq> StaticNodeRoleHead"
  by (simp_all add: normalizeStaticNodeRole_def)

lemma buildRayComponent_Name [simp]:
  "comp_Name (buildRayComponent cluster role profile) =
     (if role = StaticNodeRoleHead then rayHeadComponentName else rayWorkerComponentName)"
  by (simp add: buildRayComponent_def Let_def)

lemma buildRayComponent_Image [simp]:
  "comp_Image (buildRayComponent cluster role profile) =
     buildRayRuntimeImage cluster [clusterRuntimeImageSuffix profile]"
  by (simp add: buildRayComponent_def Let_def)

text \<open>Warm-up: the images of the components, each once, all of them required.\<close>

lemma buildNodeWarmSpec_None:
  "buildNodeWarmSpec cs = None \<longleftrightarrow> (\<forall>c \<in> set cs. comp_Image c = [])"
proof -
  have "uniq_by comp_Image [] (filter (\<lambda>c. comp_Image c \<noteq> []) cs) = [] \<longleftrightarrow>
      filter (\<lambda>c. comp_Image c \<noteq> []) cs = []"
    by (cases "filter (\<lambda>c. comp_Image c \<noteq> []) cs") auto
  then show ?thesis
    by (auto simp: buildNodeWarmSpec_def Let_def filter_empty_conv)
qed

lemma buildNodeWarmSpec_Some:
  assumes "buildNodeWarmSpec cs = Some w"
  shows "map wi_Ref (els (warm_Images w)) =
           map comp_Image (uniq_by comp_Image [] (filter (\<lambda>c. comp_Image c \<noteq> []) cs))"
    and "\<forall>i \<in> set (els (warm_Images w)). wi_Required i"
  using assms by (auto simp: buildNodeWarmSpec_def Let_def split: if_splits)

lemma buildNodeWarmSpec_refs:
  assumes "buildNodeWarmSpec cs = Some w"
  shows "wi_Ref ` set (els (warm_Images w)) = comp_Image ` set cs - {[]}"
    and "distinct (map wi_Ref (els (warm_Images w)))"
proof -
  have "wi_Ref ` set (els (warm_Images w)) =
      comp_Image ` set (uniq_by comp_Image [] (filter (\<lambda>c. comp_Image c \<noteq> []) cs))"
    using arg_cong [OF buildNodeWarmSpec_Some(1) [OF assms], of set] by simp
  then show "wi_Ref ` set (els (warm_Images w)) = comp_Image ` set cs - {[]}"
    by (auto simp: uniq_by_keys)
  show "distinct (map wi_Ref (els (warm_Images w)))"
    by (simp only: buildNodeWarmSpec_Some(1) [OF assms] uniq_by_distinct)
qed

end
