(* ===== verification/Shell_Quote.thy ===== *)
theory Shell_Quote
  imports Go_Prelude
begin

text \<open>
  Quoting of command lines for a POSIX shell. \<open>shellArg\<close> of \<open>staticnode/reconciler.go\<close> and
  \<open>shellQuote\<close> of \<open>command_runner/file_client.go\<close> are two copies of one function. What they must
  achieve is stated against \<open>sh_words\<close>, the word splitting of the shell on the fragment without
  expansions: blanks separate words, single quotes keep every byte, double quotes keep every byte
  except \<open>$\<close>, backquote and backslash, and a byte with another meaning leaves the fragment
  (\<^const>\<open>None\<close>).
\<close>

section \<open>Word splitting of the shell\<close>

datatype sh_mode = Plain | Single | Double

definition sh_plain_char :: "char \<Rightarrow> bool" where
  "sh_plain_char c \<longleftrightarrow> is_lower c \<or> is_upper c \<or> is_digit c \<or> c \<in> set ''-_./:=,@%+''"

definition word_of :: "string option \<Rightarrow> string" where
  "word_of cur = (case cur of None \<Rightarrow> [] | Some w \<Rightarrow> w)"

text \<open>The second argument is the word in progress, \<^const>\<open>None\<close> between words.\<close>

fun sh_scan :: "sh_mode \<Rightarrow> string option \<Rightarrow> string \<Rightarrow> string list option" where
  "sh_scan Plain cur [] = Some (case cur of None \<Rightarrow> [] | Some w \<Rightarrow> [w])"
| "sh_scan Plain cur (c # cs) =
     (if c = CHR '' '' \<or> c = CHR 0x09 then
        (case cur of
           None \<Rightarrow> sh_scan Plain None cs
         | Some w \<Rightarrow> map_option (\<lambda>ws. w # ws) (sh_scan Plain None cs))
      else if c = squote then sh_scan Single (Some (word_of cur)) cs
      else if c = dquote then sh_scan Double (Some (word_of cur)) cs
      else if sh_plain_char c then sh_scan Plain (Some (word_of cur @ [c])) cs
      else None)"
| "sh_scan Single cur [] = None"
| "sh_scan Single cur (c # cs) =
     (if c = squote then sh_scan Plain cur cs else sh_scan Single (Some (word_of cur @ [c])) cs)"
| "sh_scan Double cur [] = None"
| "sh_scan Double cur (c # cs) =
     (if c = dquote then sh_scan Plain cur cs
      else if c = CHR ''$'' \<or> c = CHR 0x60 \<or> c = backslash then None
      else sh_scan Double (Some (word_of cur @ [c])) cs)"

definition sh_words :: "string \<Rightarrow> string list option" where
  "sh_words s = sh_scan Plain None s"

text \<open>A piece of a command line that stands for the word \<open>v\<close>, or for the end of it.\<close>

definition sh_denotes :: "string \<Rightarrow> string \<Rightarrow> bool" where
  "sh_denotes p v \<longleftrightarrow> (\<forall>cur rest. sh_scan Plain cur (p @ rest) = sh_scan Plain (Some (word_of cur @ v)) rest)"

lemma word_of_simps [simp]: "word_of None = []" "word_of (Some w) = w"
  by (simp_all add: word_of_def)

lemma sh_denotes_append: "sh_denotes p v \<Longrightarrow> sh_denotes q w \<Longrightarrow> sh_denotes (p @ q) (v @ w)"
  by (simp add: sh_denotes_def)

lemma sh_denotes_plain: "w \<noteq> [] \<Longrightarrow> \<forall>c \<in> set w. sh_plain_char c \<Longrightarrow> sh_denotes w w"
proof (induction w rule: list_nonempty_induct)
  case (single c)
  then have "c \<noteq> CHR '' ''" "c \<noteq> CHR 0x09" "c \<noteq> squote" "c \<noteq> dquote"
    by (auto simp: sh_plain_char_def is_lower_def is_upper_def is_digit_def in_range_def)
  with single show ?case by (simp add: sh_denotes_def)
next
  case (cons c w)
  then have "c \<noteq> CHR '' ''" "c \<noteq> CHR 0x09" "c \<noteq> squote" "c \<noteq> dquote"
    by (auto simp: sh_plain_char_def is_lower_def is_upper_def is_digit_def in_range_def)
  with cons show ?case by (simp add: sh_denotes_def)
qed

lemma sh_words_Join: "list_all2 sh_denotes ps vs \<Longrightarrow> sh_words (Join ps '' '') = Some vs"
  unfolding sh_words_def
proof (induction ps vs rule: list_all2_induct)
  case (Cons p ps v vs)
  show ?case
  proof (cases ps)
    case Nil
    with Cons have "sh_scan Plain None (p @ []) = sh_scan Plain (Some v) []" "vs = []"
      unfolding sh_denotes_def by (simp_all del: append_Nil2)
    with Nil show ?thesis by simp
  next
    case (Cons q qs)
    have "sh_scan Plain None (p @ '' '' @ Join ps '' '') =
        sh_scan Plain (Some v) ('' '' @ Join ps '' '')"
      using \<open>sh_denotes p v\<close> by (simp add: sh_denotes_def)
    with Cons Cons.IH show ?thesis by simp
  qed
qed simp

lemma sh_words_blank [simp]: "sh_words (CHR '' '' # s) = sh_words s"
  by (simp add: sh_words_def)

lemma sh_words_trailing: "ps \<noteq> [] \<Longrightarrow> list_all2 sh_denotes ps vs \<Longrightarrow> sh_words (Join ps '' '' @ '' '') = Some vs"
  unfolding sh_words_def
proof (induction ps arbitrary: vs rule: list_nonempty_induct)
  case (single p)
  then obtain v where "vs = [v]" "sh_denotes p v" by (auto simp: list_all2_Cons1)
  then show ?case by (simp add: sh_denotes_def)
next
  case (cons p ps)
  then obtain v us where v: "vs = v # us" "sh_denotes p v" "list_all2 sh_denotes ps us" by (auto simp: list_all2_Cons1)
  obtain q qs where "ps = q # qs" using cons(1) by (cases ps) auto
  then have "Join (p # ps) '' '' @ '' '' = p @ CHR '' '' # Join ps '' '' @ '' ''" by simp
  then have "sh_scan Plain None (Join (p # ps) '' '' @ '' '') = sh_scan Plain (Some v) (CHR '' '' # Join ps '' '' @ '' '')"
    using v(2) by (simp add: sh_denotes_def)
  with cons(2) [OF v(3)] v(1) show ?case by simp
qed

section \<open>Lists of commands\<close>

text \<open>A command line cut at every \<open>&&\<close> outside quotes, and the words of each of its commands.\<close>

fun sh_split :: "sh_mode \<Rightarrow> string \<Rightarrow> string list" where
  "sh_split m [] = [[]]"
| "sh_split m (c # cs) =
     (if m = Plain \<and> c = CHR ''&'' \<and> cs \<noteq> [] \<and> hd cs = CHR ''&'' then [] # sh_split Plain (tl cs)
      else let r = sh_split (if m = Plain then (if c = squote then Single else if c = dquote then Double else Plain)
                     else if m = Single then (if c = squote then Plain else Single)
                     else if c = dquote then Plain else Double) cs
           in (c # hd r) # tl r)"

definition sh_and_list :: "string \<Rightarrow> string list list option" where
  "sh_and_list s = those (map sh_words (sh_split Plain s))"

text \<open>A piece of a command line that holds no separator and closes its quotes.\<close>

definition sh_closed :: "string \<Rightarrow> bool" where
  "sh_closed p \<longleftrightarrow> (\<forall>rest. sh_split Plain (p @ rest) = (p @ hd (sh_split Plain rest)) # tl (sh_split Plain rest))"

lemma sh_split_nonempty: "sh_split m s \<noteq> []"
  by (induction m s rule: sh_split.induct) (simp_all add: Let_def)

lemma sh_closed_append: "sh_closed p \<Longrightarrow> sh_closed q \<Longrightarrow> sh_closed (p @ q)"
  by (simp add: sh_closed_def)

lemma sh_closed_Cons: "c \<noteq> CHR ''&'' \<Longrightarrow> c \<noteq> squote \<Longrightarrow> c \<noteq> dquote \<Longrightarrow> sh_closed s \<Longrightarrow> sh_closed (c # s)"
  by (simp add: sh_closed_def Let_def)

lemma sh_closed_Nil: "sh_closed []"
  by (simp add: sh_closed_def sh_split_nonempty)

lemma sh_closed_plain: "\<forall>c \<in> set w. sh_plain_char c \<Longrightarrow> sh_closed w"
proof (induction w)
  case (Cons c w)
  then have "c \<noteq> CHR ''&''" "c \<noteq> squote" "c \<noteq> dquote"
    by (auto simp: sh_plain_char_def is_lower_def is_upper_def is_digit_def in_range_def)
  with Cons show ?case by (simp add: sh_closed_Cons)
qed (simp add: sh_closed_Nil)

lemma sh_closed_Join: "\<forall>p \<in> set ps. sh_closed p \<Longrightarrow> sh_closed (Join ps '' '')"
proof (induction ps)
  case (Cons p ps)
  have "sh_closed (CHR '' '' # Join ps '' '')" using Cons by (intro sh_closed_Cons) simp_all
  with Cons sh_closed_append [of p "CHR '' '' # Join ps '' ''"] show ?case by (cases ps) simp_all
qed (simp add: sh_closed_Nil)

lemma sh_split_and:
  assumes "sh_closed p"
  shows "sh_split Plain (p @ '' && '' @ s) = (p @ '' '') # sh_split Plain (CHR '' '' # s)"
  using assms by (simp add: sh_closed_def Let_def)

lemma sh_split_closed: "sh_closed p \<Longrightarrow> sh_split Plain p = [p]"
  unfolding sh_closed_def by (metis append_Nil2 list.sel(1,3) sh_split.simps(1))

text \<open>A list of commands, each given by its pieces and the words these denote.\<close>

lemma sh_and_list_blank [simp]: "sh_and_list (CHR '' '' # s) = sh_and_list s"
proof -
  obtain x xs where "sh_split Plain s = x # xs" using sh_split_nonempty by (cases "sh_split Plain s") auto
  then show ?thesis by (simp add: sh_and_list_def Let_def)
qed

lemma sh_and_list_Join:
  assumes "cs \<noteq> []" "list_all2 (\<lambda>ps vs. ps \<noteq> [] \<and> (\<forall>p \<in> set ps. sh_closed p) \<and> list_all2 sh_denotes ps vs) cs vss"
  shows "sh_and_list (Join (map (\<lambda>ps. Join ps '' '') cs) '' && '') = Some vss"
  using assms
proof (induction cs arbitrary: vss rule: list_nonempty_induct)
  case (single ps)
  then show ?case by (auto simp: sh_and_list_def list_all2_Cons1 sh_split_closed sh_closed_Join sh_words_Join)
next
  case (cons ps cs)
  then obtain vs uss where v: "vss = vs # uss" "ps \<noteq> []" "\<forall>p \<in> set ps. sh_closed p" "list_all2 sh_denotes ps vs"
    "sh_and_list (Join (map (\<lambda>ps. Join ps '' '') cs) '' && '') = Some uss"
    by (auto simp: list_all2_Cons1)
  let ?rest = "Join (map (\<lambda>ps. Join ps '' '') cs) '' && ''"
  have "Join (map (\<lambda>ps. Join ps '' '') (ps # cs)) '' && '' = Join ps '' '' @ '' && '' @ ?rest"
    using cons(1) by (cases cs) simp_all
  then have "sh_and_list (Join (map (\<lambda>ps. Join ps '' '') (ps # cs)) '' && '') =
      those (sh_words (Join ps '' '' @ '' '') # map sh_words (sh_split Plain (CHR '' '' # ?rest)))"
    using sh_split_and [OF sh_closed_Join [OF v(3)]] by (simp add: sh_and_list_def)
  also have "\<dots> = map_option (\<lambda>xs. vs # xs) (sh_and_list (CHR '' '' # ?rest))"
    using sh_words_trailing [OF v(2,4)] by (simp add: sh_and_list_def)
  finally show ?case using v(1,5) by simp
qed

section \<open>The contract of a quoting function\<close>

locale shell_quoting =
  fixes quote :: "string \<Rightarrow> string"
  assumes quote_denotes: "sh_denotes (quote v) v"
    and quote_closed: "sh_closed (quote v)"
begin

lemma quoted_words: "sh_words (Join (map quote vs) '' '') = Some vs"
proof (rule sh_words_Join)
  show "list_all2 sh_denotes (map quote vs) vs"
    by (simp add: list_all2_conv_all_nth quote_denotes)
qed

lemma quoted_word: "sh_words (quote v) = Some [v]"
  using quoted_words [of "[v]"] by simp

lemma quote_inj: "quote v = quote w \<Longrightarrow> v = w"
  using quoted_word by (metis list.inject option.inject)

end

section \<open>The two quoting functions of the program\<close>

definition shellArg :: "string \<Rightarrow> string" where
  "shellArg v = [squote] @ ReplaceAll v [squote] [squote, dquote, squote, dquote, squote] @ [squote]"

definition shellQuote :: "string \<Rightarrow> string" where
  "shellQuote v = [squote] @ ReplaceAll v [squote] [squote, dquote, squote, dquote, squote] @ [squote]"

definition shellArgs :: "string list \<Rightarrow> string list" where
  "shellArgs vs = map shellArg vs"

lemma sh_scan_quoted:
  "sh_scan Single (Some w) (ReplaceAll v [squote] [squote, dquote, squote, dquote, squote] @ squote # rest) =
     sh_scan Plain (Some (w @ v)) rest"
proof (induction v arbitrary: w)
  case (Cons c v)
  show ?case
  proof (cases "c = squote")
    case True
    then show ?thesis using Cons [of "w @ [squote]"] by (simp add: HasPrefix_def)
  next
    case False
    then show ?thesis using Cons [of "w @ [c]"] by (simp add: HasPrefix_def)
  qed
qed simp

lemma sh_split_quoted:
  "sh_split Single (ReplaceAll v [squote] [squote, dquote, squote, dquote, squote] @ squote # rest) =
     (ReplaceAll v [squote] [squote, dquote, squote, dquote, squote] @ squote # hd (sh_split Plain rest)) # tl (sh_split Plain rest)"
proof (induction v)
  case (Cons c v)
  then show ?case by (cases "c = squote") (simp_all add: HasPrefix_def Let_def)
qed (simp add: Let_def)

interpretation arg: shell_quoting shellArg
  by unfold_locales (simp_all add: sh_denotes_def sh_closed_def shellArg_def sh_scan_quoted sh_split_quoted Let_def)

interpretation fq: shell_quoting shellQuote
  by unfold_locales (simp_all add: sh_denotes_def sh_closed_def shellQuote_def sh_scan_quoted sh_split_quoted Let_def)

section \<open>Names built from arbitrary text\<close>

text \<open>
  Container names and scrape-job names are built by sanitizers. The contract: the result uses only
  lower-case letters, digits and single inner hyphens, and text that already has this form is kept.
\<close>

definition name_char :: "char \<Rightarrow> bool" where
  "name_char c \<longleftrightarrow> is_lower c \<or> is_digit c"

abbreviation single_dashes :: "string \<Rightarrow> bool" where
  "single_dashes s \<equiv> successively (\<lambda>a b. \<not> (a = CHR ''-'' \<and> b = CHR ''-'')) s"

definition clean_name :: "string \<Rightarrow> bool" where
  "clean_name s \<longleftrightarrow>
     (\<forall>c \<in> set s. name_char c \<or> c = CHR ''-'') \<and>
     (s \<noteq> [] \<longrightarrow> hd s \<noteq> CHR ''-'' \<and> last s \<noteq> CHR ''-'') \<and>
     single_dashes s"

lemma name_char_not_dash: "name_char c \<Longrightarrow> c \<noteq> CHR ''-''"
  by (auto simp: name_char_def is_lower_def is_digit_def in_range_def)

locale name_sanitizer =
  fixes sanitize :: "string \<Rightarrow> string"
  assumes sanitize_clean: "clean_name (sanitize s)"
    and sanitize_keeps: "clean_name s \<Longrightarrow> sanitize s = s"
begin

lemma sanitize_idem: "sanitize (sanitize s) = sanitize s"
  by (rule sanitize_keeps) (rule sanitize_clean)

lemma sanitize_fixpoint: "sanitize s = s \<longleftrightarrow> clean_name s"
  using sanitize_clean [of s] sanitize_keeps by auto

end

lemma TrimFunc_infix: "\<exists>a b. s = a @ TrimFunc p s @ b \<and> (\<forall>c \<in> set a \<union> set b. p c)"
proof -
  let ?t = "dropWhile p s"
  have "s = takeWhile p s @ rev (dropWhile p (rev ?t)) @ rev (takeWhile p (rev ?t))"
    by (metis rev_append rev_rev_ident takeWhile_dropWhile_id)
  moreover have "\<forall>c \<in> set (takeWhile p s) \<union> set (rev (takeWhile p (rev ?t))). p c"
    by (auto dest: set_takeWhileD)
  ultimately show ?thesis
    unfolding TrimFunc_def TrimRightFunc_def TrimLeftFunc_def by blast
qed

lemma clean_name_Trim:
  assumes "\<forall>c \<in> set s. name_char c \<or> c = CHR ''-''"
    and "single_dashes s"
  shows "clean_name (Trim s CHR ''-'')"
proof -
  obtain a b where s: "s = a @ Trim s CHR ''-'' @ b"
    unfolding Trim_def using TrimFunc_infix by blast
  have "single_dashes (a @ Trim s CHR ''-'' @ b)"
    using assms(2) s by simp
  then have "single_dashes (Trim s CHR ''-'')"
    by (simp add: successively_append_iff)
  moreover have "\<forall>c \<in> set (Trim s CHR ''-''). name_char c \<or> c = CHR ''-''"
    using assms(1) s by (metis Un_iff set_append)
  moreover have "Trim s CHR ''-'' \<noteq> [] \<Longrightarrow> hd (Trim s CHR ''-'') \<noteq> CHR ''-''"
    "Trim s CHR ''-'' \<noteq> [] \<Longrightarrow> last (Trim s CHR ''-'') \<noteq> CHR ''-''"
    unfolding Trim_def using TrimFunc_hd TrimFunc_last by blast+
  ultimately show ?thesis by (simp add: clean_name_def)
qed

lemma Trim_clean: "clean_name s \<Longrightarrow> Trim s CHR ''-'' = s"
  unfolding Trim_def by (rule TrimFunc_id) (auto simp: clean_name_def)

lemma ToLower_clean: "\<forall>c \<in> set s. name_char c \<or> c = CHR ''-'' \<Longrightarrow> ToLower s = s"
proof -
  assume s: "\<forall>c \<in> set s. name_char c \<or> c = CHR ''-''"
  have "to_lower c = c" if "c \<in> set s" for c
    using s that by (auto simp: to_lower_def name_char_def is_upper_def is_lower_def is_digit_def in_range_def)
  then show ?thesis by (simp add: ToLower_def map_idI)
qed

end
