(* ===== verification/Metrics_Components.thy ===== *)
theory Metrics_Components
  imports Ray_Components Shell_Quote
begin

text \<open>
  The monitoring components of a node, \<open>staticcluster/metrics_components.go\<close>: node exporter,
  accelerator exporter, node agent, and on the head node the scraper vmagent with its generated
  configuration files. A Go template is the function that concatenates its pieces.
\<close>

section \<open>Names and ports\<close>

abbreviation nodeExporterComponentName :: string where "nodeExporterComponentName \<equiv> ''node-exporter''"
abbreviation nodeAgentComponentName :: string where "nodeAgentComponentName \<equiv> ''neutree-node-agent''"
abbreviation vmagentComponentName :: string where "vmagentComponentName \<equiv> ''vmagent''"
abbreviation acceleratorExporterComponentName :: string where
  "acceleratorExporterComponentName \<equiv> ''accelerator-exporter''"
abbreviation defaultVMAgentPort :: int where "defaultVMAgentPort \<equiv> 8429"
abbreviation defaultNodeExporterPort :: int where "defaultNodeExporterPort \<equiv> 19100"
abbreviation defaultNodeAgentPort :: int where "defaultNodeAgentPort \<equiv> 19101"
abbreviation defaultPrometheusHTTPPath :: string where "defaultPrometheusHTTPPath \<equiv> ''/metrics''"
abbreviation externalDCGMExporterPort :: int where "externalDCGMExporterPort \<equiv> 9400"
abbreviation defaultHealthHTTPPath :: string where "defaultHealthHTTPPath \<equiv> ''/health''"
abbreviation vmagentConfigPath :: string where "vmagentConfigPath \<equiv> ''/etc/neutree/vmagent/config.yaml''"
abbreviation vmagentFileSDDir :: string where "vmagentFileSDDir \<equiv> ''/etc/neutree/vmagent/file_sd''"
abbreviation vmagentNodeExporterFileSDPath :: string where
  "vmagentNodeExporterFileSDPath \<equiv> vmagentFileSDDir @ ''/node-exporter.json''"
abbreviation vmagentNodeAgentFileSDPath :: string where
  "vmagentNodeAgentFileSDPath \<equiv> vmagentFileSDDir @ ''/node-agent.json''"
abbreviation vmagentRayFileSDPath :: string where "vmagentRayFileSDPath \<equiv> vmagentFileSDDir @ ''/ray.json''"
abbreviation managedAcceleratorExporterJobPrefix :: string where
  "managedAcceleratorExporterJobPrefix \<equiv> ''accelerator-exporter''"
abbreviation defaultNodeExporterImage :: string where
  "defaultNodeExporterImage \<equiv> ''quay.io/prometheus/node-exporter:v1.8.2''"
abbreviation defaultVMAgentImage :: string where "defaultVMAgentImage \<equiv> ''victoriametrics/vmagent:v1.115.0''"

section \<open>Small helpers\<close>

definition acceleratorExporterProfile :: "accelerator_profile ptr \<Rightarrow> exporter_profile ptr" where
  "acceleratorExporterProfile profile = (case profile of None \<Rightarrow> None | Some p \<Rightarrow> ap_MetricsExporter p)"

definition validAcceleratorExporterProfile :: "exporter_profile ptr \<Rightarrow> bool" where
  "validAcceleratorExporterProfile exporter =
     (case exporter of
        None \<Rightarrow> False
      | Some e \<Rightarrow> TrimSpace (ex_Name e) \<noteq> [] \<and> TrimSpace (ex_Image e) \<noteq> [] \<and> ex_Port e > 0)"

definition acceleratorExporterMode :: "static_node_cluster ptr \<Rightarrow> string" where
  "acceleratorExporterMode cluster =
     (case cluster_spec cluster of
        None \<Rightarrow> ClusterAcceleratorExporterModeManaged
      | Some s \<Rightarrow> AcceleratorExporterMode (cls_Metrics s))"

definition normalizedMetricsPath :: "string \<Rightarrow> string" where
  "normalizedMetricsPath path =
     (if path = [] then defaultPrometheusHTTPPath
      else if \<not> HasPrefix path [slash] then slash # path else path)"

definition exporterMetricsPath :: "exporter_profile ptr \<Rightarrow> string" where
  "exporterMetricsPath exporter =
     (case exporter of None \<Rightarrow> defaultPrometheusHTTPPath | Some e \<Rightarrow> normalizedMetricsPath (ex_MetricsPath e))"

definition acceleratorExporterDockerRunOptions :: "exporter_runtime_profile ptr \<Rightarrow> string slice" where
  "acceleratorExporterDockerRunOptions runtime =
     (case runtime of
        None \<Rightarrow> None
      | Some r \<Rightarrow>
          Some ((if er_HostNetwork r then [''--net=host''] else []) @
                (if er_HostPID r then [''--pid=host''] else []) @
                (case er_Capabilities r of
                   None \<Rightarrow> []
                 | Some caps \<Rightarrow> map (\<lambda>c. ''--cap-add='' @ c)
                                 (filter (\<lambda>c. c \<noteq> []) (map TrimSpace (els (cap_Add caps))))) @
                els (er_DockerRunOptions r)))"

definition acceleratorExporterConfigVolumes :: "exporter_config_file slice \<Rightarrow> node_component_volume slice" where
  "acceleratorExporterConfigVolumes configFiles =
     Some (map (\<lambda>(i, f). \<lparr>vol_Name = ''accelerator-exporter-config-'' @ itoa_nat i, vol_HostPath = ecf_Path f,
                          vol_MountPath = ecf_Path f, vol_ReadOnly = True\<rparr>)
             (filter (\<lambda>(i, f). ecf_Path f \<noteq> []) (enumerate 0 (els configFiles))))"

definition acceleratorExporterComponentConfigFiles ::
  "exporter_config_file slice \<Rightarrow> node_component_config_file slice" where
  "acceleratorExporterComponentConfigFiles configFiles =
     Some (map (\<lambda>f. \<lparr>cf_Path = ecf_Path f, cf_Content = ecf_Content f, cf_Mode = ecf_Mode f,
                     cf_Owner = ecf_Owner f, cf_Group = ecf_Group f, cf_Sudo = ecf_Sudo f,
                     cf_Atomic = ecf_Atomic f, cf_CreateParent = ecf_CreateParent f,
                     cf_SkipRestartOnChange = ecf_SkipRestartOnChange f\<rparr>) (els configFiles))"

definition copyMetricsStringMap :: "strmap \<Rightarrow> strmap" where
  "copyMetricsStringMap values =
     (if els values = [] then None else Some (map_copy_into (els values) []))"

definition nodeAgentEnv :: "accelerator_profile ptr \<Rightarrow> strmap" where
  "nodeAgentEnv profile =
     (case acceleratorExporterProfile profile of
        None \<Rightarrow> None
      | Some e \<Rightarrow>
          if els (ex_Env e) = [] then None
          else Some (map_copy_into
                 (filter (\<lambda>(k, v). k \<in> {''NVIDIA_VISIBLE_DEVICES'', ''NVIDIA_DRIVER_CAPABILITIES''}) (els (ex_Env e))) []))"

definition defaultNodeAgentImage :: "static_node_cluster ptr \<Rightarrow> string" where
  "defaultNodeAgentImage cluster = ''neutree/neutree-node-agent:'' @ ''v1.1.0-rc.1''"

definition appendDockerRunOptionsUnique :: "string list \<Rightarrow> string list \<Rightarrow> string slice" where
  "appendDockerRunOptionsUnique options values =
     Some (uniq_by id [] (filter (\<lambda>x. x \<noteq> []) (map TrimSpace (options @ values))))"

definition nodeAgentDockerRunOptions :: "accelerator_profile ptr \<Rightarrow> string slice" where
  "nodeAgentDockerRunOptions profile =
     (let options = [''--net=host'', ''--pid=host'', ''--cgroupns=host'']
      in case Option.bind (acceleratorExporterProfile profile) ex_Runtime of
           None \<Rightarrow> Some options
         | Some r \<Rightarrow> appendDockerRunOptionsUnique options (els (acceleratorExporterDockerRunOptions (Some r))))"

text \<open>\<open>sanitizeStaticMetricsName\<close>: the loop keeps the text built so far and whether it ends in a hyphen.\<close>

fun sanitize_metrics_loop :: "string \<Rightarrow> bool \<Rightarrow> string \<Rightarrow> string" where
  "sanitize_metrics_loop built lastHyphen [] = built"
| "sanitize_metrics_loop built lastHyphen (c # cs) =
     (if name_char c then sanitize_metrics_loop (built @ [c]) False cs
      else if built \<noteq> [] \<and> \<not> lastHyphen then sanitize_metrics_loop (built @ ''-'') True cs
      else sanitize_metrics_loop built lastHyphen cs)"

definition sanitizeStaticMetricsName :: "string \<Rightarrow> string" where
  "sanitizeStaticMetricsName s = Trim (sanitize_metrics_loop [] False (ToLower (TrimSpace s))) CHR ''-''"

section \<open>Component builders\<close>

definition metrics_port :: "string \<Rightarrow> int \<Rightarrow> node_component_port slice" where
  "metrics_port name port = Some [\<lparr>port_Name = name, port_Port = port, port_Protocol = ''TCP''\<rparr>]"

definition http_check :: "string \<Rightarrow> int \<Rightarrow> node_component_health_check ptr" where
  "http_check path port = Some (zero_health_check\<lparr>hc_HTTPPath := path, hc_Port := port\<rparr>)"

definition ro_volume :: "string \<Rightarrow> string \<Rightarrow> string \<Rightarrow> node_component_volume" where
  "ro_volume name host mount = \<lparr>vol_Name = name, vol_HostPath = host, vol_MountPath = mount, vol_ReadOnly = True\<rparr>"

definition buildNodeExporterComponent :: "static_node_cluster ptr \<Rightarrow> node_component_spec" where
  "buildNodeExporterComponent cluster = zero_component
     \<lparr>comp_Name := nodeExporterComponentName,
      comp_Image := staticComponentImage cluster defaultNodeExporterImage,
      comp_Args := Some [''--path.rootfs=/host'', ''--web.listen-address=:'' @ Itoa defaultNodeExporterPort],
      comp_DockerRunOptions := Some [''--net=host'', ''--pid=host''],
      comp_Volumes := Some [ro_volume ''host-root'' ''/'' ''/host''],
      comp_Ports := metrics_port ''metrics'' defaultNodeExporterPort,
      comp_HealthCheck := http_check defaultPrometheusHTTPPath defaultNodeExporterPort\<rparr>"

definition buildAcceleratorExporterComponent ::
  "static_node_cluster ptr \<Rightarrow> exporter_profile \<Rightarrow> node_component_spec" where
  "buildAcceleratorExporterComponent cluster exporter = zero_component
     \<lparr>comp_Name := acceleratorExporterComponentName,
      comp_Image := staticComponentImage cluster (ex_Image exporter),
      comp_Args := Some (els (ex_Args exporter)),
      comp_Env := copyMetricsStringMap (ex_Env exporter),
      comp_Volumes := acceleratorExporterConfigVolumes (ex_ConfigFiles exporter),
      comp_ConfigFiles := acceleratorExporterComponentConfigFiles (ex_ConfigFiles exporter),
      comp_DockerRunOptions := acceleratorExporterDockerRunOptions (ex_Runtime exporter),
      comp_Ports := metrics_port ''metrics'' (ex_Port exporter),
      comp_HealthCheck := http_check (exporterMetricsPath (Some exporter)) (ex_Port exporter)\<rparr>"

definition buildNodeAgentComponent ::
  "static_node_cluster ptr \<Rightarrow> static_node ptr \<Rightarrow> accelerator_profile ptr \<Rightarrow> node_component_spec" where
  "buildNodeAgentComponent cluster node profile = zero_component
     \<lparr>comp_Name := nodeAgentComponentName,
      comp_Image := staticComponentImage cluster (defaultNodeAgentImage cluster),
      comp_Args := Some
        ([''--listen-address=:'' @ Itoa defaultNodeAgentPort, ''--cluster-type=ray'',
          ''--metrics-mode='' @ acceleratorExporterMode cluster,
          ''--ray-dashboard-url=http://'' @ staticNodeClusterHeadIP cluster @ '':'' @ Itoa RayDashboardPort,
          ''--procfs-root=/host/proc'', ''--cgroupfs-root=/host/sys/fs/cgroup''] @
         (case node of None \<Rightarrow> [] | Some n \<Rightarrow> [''--node='' @ node_name n]) @
         (case node_spec node of None \<Rightarrow> [] | Some s \<Rightarrow> [''--node-ip='' @ sns_IP s])),
      comp_Env := nodeAgentEnv profile,
      comp_DockerRunOptions := nodeAgentDockerRunOptions profile,
      comp_Volumes := Some [ro_volume ''host-proc'' ''/proc'' ''/host/proc'',
                            ro_volume ''host-cgroup'' ''/sys/fs/cgroup'' ''/host/sys/fs/cgroup''],
      comp_Ports := metrics_port ''http'' defaultNodeAgentPort,
      comp_HealthCheck := http_check defaultHealthHTTPPath defaultNodeAgentPort\<rparr>"

definition buildVMAgentComponent :: "static_node_cluster ptr \<Rightarrow> string \<Rightarrow> node_component_spec" where
  "buildVMAgentComponent cluster metricsRemoteWriteURL = zero_component
     \<lparr>comp_Name := vmagentComponentName,
      comp_Image := staticComponentImage cluster defaultVMAgentImage,
      comp_Args := Some ([''-promscrape.config='' @ vmagentConfigPath,
                          ''-httpListenAddr=:'' @ Itoa defaultVMAgentPort] @
                         (if metricsRemoteWriteURL \<noteq> [] then [''-remoteWrite.url='' @ metricsRemoteWriteURL] else [])),
      comp_DockerRunOptions := Some [''--net=host''],
      comp_Volumes := Some [ro_volume ''vmagent-config-dir'' ''/etc/neutree/vmagent'' ''/etc/neutree/vmagent''],
      comp_Ports := metrics_port ''http'' defaultVMAgentPort,
      comp_HealthCheck := http_check defaultHealthHTTPPath defaultVMAgentPort\<rparr>"

definition buildMetricsComponents ::
  "url_parser \<Rightarrow> static_node_cluster ptr \<Rightarrow> static_node ptr \<Rightarrow> string \<Rightarrow> accelerator_profile ptr \<Rightarrow> string
   \<Rightarrow> node_component_spec list" where
  "buildMetricsComponents parse cluster node role profile metricsRemoteWriteURL =
     (if \<not> IsHTTPOrHTTPSURL parse metricsRemoteWriteURL then []
      else [buildNodeExporterComponent cluster] @
           (if acceleratorExporterMode cluster = ClusterAcceleratorExporterModeManaged \<and>
               validAcceleratorExporterProfile (acceleratorExporterProfile profile)
            then [buildAcceleratorExporterComponent cluster (the (acceleratorExporterProfile profile))] else []) @
           [buildNodeAgentComponent cluster node profile] @
           (if role = StaticNodeRoleHead then [buildVMAgentComponent cluster metricsRemoteWriteURL] else []))"

definition buildNodeComponents ::
  "url_parser \<Rightarrow> static_node_cluster ptr \<Rightarrow> static_node ptr \<Rightarrow> accelerator_profile ptr \<Rightarrow> string
   \<Rightarrow> node_component_spec list" where
  "buildNodeComponents parse cluster node profile metricsRemoteWriteURL =
     (let role = (case node_spec node of None \<Rightarrow> StaticNodeRoleWorker | Some s \<Rightarrow> sns_Role s)
      in buildRayComponent cluster role profile #
         buildMetricsComponents parse cluster node role profile metricsRemoteWriteURL)"

section \<open>Facts\<close>

lemma sanitize_metrics_loop_chars:
  "\<forall>c \<in> set built. name_char c \<or> c = CHR ''-'' \<Longrightarrow>
   \<forall>c \<in> set (sanitize_metrics_loop built l s). name_char c \<or> c = CHR ''-''"
  by (induction built l s rule: sanitize_metrics_loop.induct) auto

lemma sanitize_metrics_loop_single:
  "single_dashes built \<Longrightarrow>
   l \<longleftrightarrow> built \<noteq> [] \<and> last built = CHR ''-'' \<Longrightarrow>
   single_dashes (sanitize_metrics_loop built l s)"
proof (induction built l s rule: sanitize_metrics_loop.induct)
  case (2 built l c cs)
  note name_char_not_dash [of c]
  with 2 show ?case by (auto simp: successively_append_iff)
qed simp

lemma sanitize_metrics_loop_keeps:
  "clean_name (built @ s) \<Longrightarrow> l \<longleftrightarrow> built \<noteq> [] \<and> last built = CHR ''-'' \<Longrightarrow>
   sanitize_metrics_loop built l s = built @ s"
proof (induction built l s rule: sanitize_metrics_loop.induct)
  case (2 built l c cs)
  note n = name_char_not_dash [of c]
  have c: "name_char c \<or> c = CHR ''-''" using 2 by (simp add: clean_name_def)
  show ?case
  proof (cases "name_char c")
    case True
    with 2 n show ?thesis by simp
  next
    case False
    with c have h: "c = CHR ''-''" by simp
    have "built \<noteq> []" using 2(4) h by (auto simp: clean_name_def)
    moreover from this have "\<not> l"
      using 2(4,5) h by (auto simp: clean_name_def successively_append_iff)
    ultimately show ?thesis using 2 False h by simp
  qed
qed simp

lemma clean_name_chars: "clean_name s \<Longrightarrow> \<forall>c \<in> set s. name_char c \<or> c = CHR ''-''"
  by (simp add: clean_name_def)

lemma clean_name_TrimSpace: "clean_name s \<Longrightarrow> TrimSpace s = s"
proof -
  assume c: "clean_name s"
  have "\<not> is_space x" if "x \<in> set s" for x
    using clean_name_chars [OF c] that
    by (auto simp: name_char_def is_lower_def is_digit_def in_range_def is_space_def)
  then show ?thesis unfolding TrimSpace_def by (intro TrimFunc_id) auto
qed

interpretation msan: name_sanitizer sanitizeStaticMetricsName
proof
  show "clean_name (sanitizeStaticMetricsName s)" for s
    unfolding sanitizeStaticMetricsName_def
    by (intro clean_name_Trim sanitize_metrics_loop_chars sanitize_metrics_loop_single) simp_all
  show "sanitizeStaticMetricsName s = s" if "clean_name s" for s
    using that
    by (simp add: sanitizeStaticMetricsName_def clean_name_TrimSpace ToLower_clean clean_name_chars
        sanitize_metrics_loop_keeps Trim_clean)
qed

lemma builder_names [simp]:
  "comp_Name (buildNodeExporterComponent cluster) = nodeExporterComponentName"
  "comp_Name (buildAcceleratorExporterComponent cluster e) = acceleratorExporterComponentName"
  "comp_Name (buildNodeAgentComponent cluster node profile) = nodeAgentComponentName"
  "comp_Name (buildVMAgentComponent cluster url) = vmagentComponentName"
  by (simp_all add: buildNodeExporterComponent_def buildAcceleratorExporterComponent_def
      buildNodeAgentComponent_def buildVMAgentComponent_def)

lemma isRay_simps:
  "isRayComponentName n \<longleftrightarrow> n = rayHeadComponentName \<or> n = rayWorkerComponentName"
  by (simp add: isRayComponentName_def isRayHeadComponentName_def isRayWorkerComponentName_def)

lemma buildMetricsComponents_no_ray:
  "c \<in> set (buildMetricsComponents parse cluster node role profile url) \<Longrightarrow> \<not> isRayComponentName (comp_Name c)"
  by (auto simp: buildMetricsComponents_def isRay_simps split: if_splits)

lemma buildMetricsComponents_names:
  "distinct (map comp_Name (buildMetricsComponents parse cluster node role profile url))"
  by (auto simp: buildMetricsComponents_def)

lemma buildNodeComponents_names:
  "distinct (map comp_Name (buildNodeComponents parse cluster node profile url))"
proof -
  have "comp_Name c \<noteq> rayHeadComponentName \<and> comp_Name c \<noteq> rayWorkerComponentName"
    if "c \<in> set (buildMetricsComponents parse cluster node role profile url)" for c role
    using buildMetricsComponents_no_ray [OF that] by (simp add: isRay_simps)
  then have "rayHeadComponentName \<notin> comp_Name ` set (buildMetricsComponents parse cluster node role profile url)"
    "rayWorkerComponentName \<notin> comp_Name ` set (buildMetricsComponents parse cluster node role profile url)" for role
    by force+
  then show ?thesis
    by (simp add: buildNodeComponents_def Let_def buildMetricsComponents_names)
qed

end
