(* ===== verification/Vmagent_Config.thy ===== *)
theory Vmagent_Config
  imports Metrics_Components
begin

text \<open>
  The configuration files of the head node's vmagent, the second half of
  \<open>staticcluster/metrics_components.go\<close>. Every node reaches these functions with a non-nil \<open>Spec\<close>
  (each caller has tested it), so reading its fields has no failing branch. \<open>attachMetricsConfigFiles\<close>
  changes the nodes behind the plans while it walks over them, and the model threads the list of
  plans through the loop for that reason.
\<close>

definition node_IP :: "static_node \<Rightarrow> string" where
  "node_IP n = (case sn_Spec n of None \<Rightarrow> [] | Some s \<Rightarrow> sns_IP s)"

definition node_Role :: "static_node \<Rightarrow> string" where
  "node_Role n = (case sn_Spec n of None \<Rightarrow> [] | Some s \<Rightarrow> sns_Role s)"

definition plan_name :: "desired_node_plan \<Rightarrow> string" where
  "plan_name p = (case dp_Node p of None \<Rightarrow> [] | Some n \<Rightarrow> node_name n)"

definition quoted :: "string \<Rightarrow> string" where
  "quoted s = [squote] @ s @ [squote]"

definition unlines :: "string list \<Rightarrow> string" where
  "unlines ls = concat (map (\<lambda>l. l @ [newline]) ls)"

section \<open>Scrape targets\<close>

definition staticNodeHasComponent :: "static_node ptr \<Rightarrow> string \<Rightarrow> bool" where
  "staticNodeHasComponent node name =
     (case node_spec node of
        None \<Rightarrow> False
      | Some s \<Rightarrow> list_ex (\<lambda>c. comp_Name c = name) (els (sns_Components s)))"

definition staticNodeHasRayComponent :: "static_node ptr \<Rightarrow> bool" where
  "staticNodeHasRayComponent node \<longleftrightarrow>
     staticNodeHasComponent node rayHeadComponentName \<or> staticNodeHasComponent node rayWorkerComponentName"

definition nodeExporterTargets :: "desired_node_plan list \<Rightarrow> desired_node_plan list" where
  "nodeExporterTargets plans = filter (\<lambda>p. staticNodeHasComponent (dp_Node p) nodeExporterComponentName) plans"

definition nodeAgentTargets :: "desired_node_plan list \<Rightarrow> desired_node_plan list" where
  "nodeAgentTargets plans = filter (\<lambda>p. staticNodeHasComponent (dp_Node p) nodeAgentComponentName) plans"

definition desiredComponentByName :: "desired_node_plan \<Rightarrow> string \<Rightarrow> node_component_spec option" where
  "desiredComponentByName plan name =
     (case node_spec (dp_Node plan) of
        None \<Rightarrow> None
      | Some s \<Rightarrow> List.find (\<lambda>c. comp_Name c = name) (els (sns_Components s)))"

definition vmagentTargetLabels ::
  "static_node_cluster \<Rightarrow> static_node \<Rightarrow> string \<Rightarrow> (string \<times> string) list" where
  "vmagentTargetLabels cluster node source = map_lit
     [(''source'', source), (''workspace'', meta_Workspace (snc_Metadata cluster)),
      (''neutree_cluster'', cluster_name cluster), (''static_node_cluster'', cluster_name cluster),
      (''cluster_type'', ''ray''), (''node'', node_name node), (''node_ip'', node_IP node),
      (''node_role'', node_Role node)]"

record vmagent_file_sd_target =
  fsd_Targets :: "string list"
  fsd_Labels :: "(string \<times> string) list"

definition mustMarshalVMAgentFileSDTargets :: "vmagent_file_sd_target list \<Rightarrow> string" where
  "mustMarshalVMAgentFileSDTargets targets =
     json_indent 0 (JArr (map (\<lambda>t. JObj ((''targets'', JArr (map JStr (fsd_Targets t))) #
                                         omit_map ''labels'' (Some (fsd_Labels t)))) targets)) @ [newline]"

definition fsd_target :: "static_node_cluster \<Rightarrow> string \<Rightarrow> int \<Rightarrow> static_node \<Rightarrow> vmagent_file_sd_target" where
  "fsd_target cluster source port n =
     \<lparr>fsd_Targets = [node_IP n @ '':'' @ Itoa port], fsd_Labels = vmagentTargetLabels cluster n source\<rparr>"

definition plan_nodes :: "desired_node_plan list \<Rightarrow> static_node list" where
  "plan_nodes plans = List.map_filter dp_Node plans"

definition renderVMAgentNodeExporterFileSDTargets :: "static_node_cluster \<Rightarrow> desired_node_plan list \<Rightarrow> string" where
  "renderVMAgentNodeExporterFileSDTargets cluster plans =
     mustMarshalVMAgentFileSDTargets
       (map (fsd_target cluster nodeExporterComponentName defaultNodeExporterPort)
          (plan_nodes (nodeExporterTargets plans)))"

definition renderVMAgentNodeAgentFileSDTargets :: "static_node_cluster \<Rightarrow> desired_node_plan list \<Rightarrow> string" where
  "renderVMAgentNodeAgentFileSDTargets cluster plans =
     mustMarshalVMAgentFileSDTargets
       (map (fsd_target cluster nodeAgentComponentName defaultNodeAgentPort)
          (plan_nodes (nodeAgentTargets plans)))"

definition renderVMAgentRayFileSDTargets :: "static_node_cluster \<Rightarrow> desired_node_plan list \<Rightarrow> string" where
  "renderVMAgentRayFileSDTargets cluster plans =
     mustMarshalVMAgentFileSDTargets
       (map (fsd_target cluster ''ray'' RayletMetricsPort)
          (plan_nodes (filter (\<lambda>p. staticNodeHasRayComponent (dp_Node p)) plans)))"

section \<open>Accelerator exporter groups\<close>

record accelerator_exporter_target =
  tg_Node :: static_node
  tg_AcceleratorType :: string
  tg_Component :: node_component_spec
  tg_Port :: int

record accelerator_exporter_target_group =
  gr_AcceleratorType :: string
  gr_MetricsPath :: string
  gr_JobName :: string
  gr_Targets :: "accelerator_exporter_target list"

definition renderVMAgentAcceleratorExporterFileSDTargets ::
  "static_node_cluster \<Rightarrow> accelerator_exporter_target list \<Rightarrow> string" where
  "renderVMAgentAcceleratorExporterFileSDTargets cluster targets =
     mustMarshalVMAgentFileSDTargets
       (map (\<lambda>t. let labels = vmagentTargetLabels cluster (tg_Node t) acceleratorExporterComponentName
                 in \<lparr>fsd_Targets = [node_IP (tg_Node t) @ '':'' @ Itoa (tg_Port t)],
                     fsd_Labels = (if tg_AcceleratorType t \<noteq> []
                                   then map_put ''accelerator_type'' (tg_AcceleratorType t) labels else labels)\<rparr>) targets)"

definition managedAcceleratorExporterJobName :: "string \<Rightarrow> string" where
  "managedAcceleratorExporterJobName acceleratorType =
     (let name = sanitizeStaticMetricsName acceleratorType
      in if name = [] then managedAcceleratorExporterJobPrefix
         else managedAcceleratorExporterJobPrefix @ ''-'' @ name)"

definition acceleratorExporterJobName :: "string \<Rightarrow> nat \<Rightarrow> nat \<Rightarrow> string" where
  "acceleratorExporterJobName metricsPath groupCount index =
     (if metricsPath = defaultPrometheusHTTPPath then ''static-node-accelerator-exporter''
      else let name = ReplaceAll (Trim metricsPath slash) [slash] ''-'';
               name' = (if name = [] then itoa_nat index else name)
           in ''static-node-accelerator-exporter-'' @ name')"

definition acceleratorExporterTargetGroupJobName :: "accelerator_exporter_target_group \<Rightarrow> nat \<Rightarrow> nat \<Rightarrow> string" where
  "acceleratorExporterTargetGroupJobName g groupCount index =
     (if gr_JobName g \<noteq> [] then gr_JobName g else acceleratorExporterJobName (gr_MetricsPath g) groupCount index)"

definition acceleratorExporterFileSDPath :: "string \<Rightarrow> string" where
  "acceleratorExporterFileSDPath metricsPath =
     vmagentFileSDDir @ ''/'' @ TrimPrefix (acceleratorExporterJobName metricsPath 2 0) ''static-node-'' @ ''.json''"

definition acceleratorExporterTargetGroupFileSDPath :: "accelerator_exporter_target_group \<Rightarrow> string" where
  "acceleratorExporterTargetGroupFileSDPath g =
     (if gr_JobName g \<noteq> [] then vmagentFileSDDir @ ''/'' @ gr_JobName g @ ''.json''
      else acceleratorExporterFileSDPath (gr_MetricsPath g))"

definition externalAcceleratorExporterTargetGroups ::
  "desired_node_plan list \<Rightarrow> accelerator_exporter_target_group list" where
  "externalAcceleratorExporterTargetGroups plans =
     (let targets = List.map_filter
            (\<lambda>p. case (dp_Node p, dp_Accelerator p) of
                   (Some n, Some a) \<Rightarrow>
                     if sn_Spec n \<noteq> None \<and> acc_Type a = AcceleratorTypeNVIDIAGPU
                     then Some \<lparr>tg_Node = n, tg_AcceleratorType = acc_Type a, tg_Component = zero_component,
                                tg_Port = externalDCGMExporterPort\<rparr>
                     else None
                 | _ \<Rightarrow> None) plans
      in if targets = [] then []
         else [\<lparr>gr_AcceleratorType = [], gr_MetricsPath = defaultPrometheusHTTPPath, gr_JobName = [],
                gr_Targets = targets\<rparr>])"

text \<open>One iteration of the loop that groups the targets by accelerator type.\<close>

definition add_exporter_target ::
  "desired_node_plan \<Rightarrow> (string \<times> accelerator_exporter_target_group) list
   \<Rightarrow> (string \<times> accelerator_exporter_target_group) list" where
  "add_exporter_target plan groups =
     (case (dp_Node plan, desiredComponentByName plan acceleratorExporterComponentName, dp_Accelerator plan) of
        (Some n, Some c, Some a) \<Rightarrow>
          (case els (comp_Ports c) of
             [] \<Rightarrow> groups
           | port # _ \<Rightarrow>
               if acc_Type a = [] then groups
               else
                 let metricsPath = (case comp_HealthCheck c of
                         None \<Rightarrow> defaultPrometheusHTTPPath
                       | Some h \<Rightarrow> normalizedMetricsPath (hc_HTTPPath h));
                     g = (case map_of groups (acc_Type a) of
                            Some g \<Rightarrow> g
                          | None \<Rightarrow> \<lparr>gr_AcceleratorType = [], gr_MetricsPath = [], gr_JobName = [], gr_Targets = []\<rparr>);
                     g1 = (if gr_AcceleratorType g = []
                           then g\<lparr>gr_AcceleratorType := acc_Type a, gr_MetricsPath := metricsPath,
                                  gr_JobName := managedAcceleratorExporterJobName (acc_Type a)\<rparr> else g);
                     t = \<lparr>tg_Node = n, tg_AcceleratorType = acc_Type a, tg_Component = c, tg_Port = port_Port port\<rparr>
                 in map_put (acc_Type a) (g1\<lparr>gr_Targets := gr_Targets g1 @ [t]\<rparr>) groups)
      | _ \<Rightarrow> groups)"

text \<open>The groups in the order of their accelerator types; the association list is already sorted.\<close>

definition sortedAcceleratorExporterTargetGroups ::
  "(string \<times> accelerator_exporter_target_group) list \<Rightarrow> accelerator_exporter_target_group list" where
  "sortedAcceleratorExporterTargetGroups groups = map snd groups"

definition acceleratorExporterTargetGroups ::
  "static_node_cluster ptr \<Rightarrow> desired_node_plan list \<Rightarrow> accelerator_exporter_target_group list" where
  "acceleratorExporterTargetGroups cluster plans =
     (if acceleratorExporterMode cluster = ClusterAcceleratorExporterModeExternal
      then externalAcceleratorExporterTargetGroups plans
      else sortedAcceleratorExporterTargetGroups (fold add_exporter_target plans []))"

section \<open>Rendering\<close>

record vmagent_scrape_config =
  sc_JobName :: string
  sc_MetricsPath :: string
  sc_FileSDPath :: string
  sc_MetricRelabelConfigs :: string

definition staticVMAgentRayMetricRelabelConfigs :: string where
  "staticVMAgentRayMetricRelabelConfigs = unlines
     [''    - source_labels: [application]'',
      ''      target_label: application_original'',
      ''      regex: '' @ quoted ''(.+)'',
      ''      replacement: '' @ quoted ''$1'',
      ''    - source_labels: [application]'',
      ''      regex: '' @ quoted ''([^_]+)_(.+)'',
      ''      target_label: application'',
      ''      replacement: '' @ quoted ''$2'',
      ''    - source_labels: [__name__]'',
      ''      regex: '' @ quoted ''ray_vllm[:_](.+)'',
      ''      target_label: __name__'',
      ''      replacement: '' @ quoted ''vllm:$1'',
      ''    - source_labels: [__name__]'',
      ''      regex: '' @ quoted ''ray_sglang[:_](.+)'',
      ''      target_label: __name__'',
      ''      replacement: '' @ quoted ''sglang:$1'']"

definition render_scrape_config :: "vmagent_scrape_config \<Rightarrow> string" where
  "render_scrape_config sc =
     unlines ([''- job_name: '' @ sc_JobName sc] @
       (if sc_MetricsPath sc \<noteq> [] then [''  metrics_path: '' @ sc_MetricsPath sc] else []) @
       [''  file_sd_configs:'', ''  - files:'', ''    - '' @ sc_FileSDPath sc] @
       (if sc_MetricRelabelConfigs sc \<noteq> [] then [''  metric_relabel_configs:''] else [])) @
     sc_MetricRelabelConfigs sc"

definition mustRenderStaticVMAgentConfig :: "vmagent_scrape_config list \<Rightarrow> string" where
  "mustRenderStaticVMAgentConfig scrapeConfigs =
     unlines [''global:'', ''  scrape_interval: 30s'', ''  scrape_timeout: 30s'', ''scrape_configs:''] @
     concat (map render_scrape_config scrapeConfigs)"

definition renderVMAgentConfig :: "static_node_cluster \<Rightarrow> desired_node_plan list \<Rightarrow> string" where
  "renderVMAgentConfig cluster plans0 =
     (let plans = sort_key plan_name plans0;
          groups = acceleratorExporterTargetGroups (Some cluster) plans
      in mustRenderStaticVMAgentConfig
           ((if nodeExporterTargets plans \<noteq> []
             then [\<lparr>sc_JobName = ''static-node-node-exporter'', sc_MetricsPath = [],
                    sc_FileSDPath = strconv_Quote vmagentNodeExporterFileSDPath, sc_MetricRelabelConfigs = []\<rparr>] else []) @
            (if nodeAgentTargets plans \<noteq> []
             then [\<lparr>sc_JobName = ''static-node-node-agent'', sc_MetricsPath = [],
                    sc_FileSDPath = strconv_Quote vmagentNodeAgentFileSDPath, sc_MetricRelabelConfigs = []\<rparr>] else []) @
            [\<lparr>sc_JobName = ''static-node-ray'', sc_MetricsPath = [],
              sc_FileSDPath = strconv_Quote vmagentRayFileSDPath,
              sc_MetricRelabelConfigs = staticVMAgentRayMetricRelabelConfigs\<rparr>] @
            map (\<lambda>(i, g). \<lparr>sc_JobName = acceleratorExporterTargetGroupJobName g (length groups) i,
                            sc_MetricsPath = (if gr_MetricsPath g \<noteq> defaultPrometheusHTTPPath
                                              then strconv_Quote (gr_MetricsPath g) else []),
                            sc_FileSDPath = strconv_Quote (acceleratorExporterTargetGroupFileSDPath g),
                            sc_MetricRelabelConfigs = []\<rparr>) (enumerate 0 groups)))"

definition vmagentFileSDConfigFile :: "string \<Rightarrow> string \<Rightarrow> node_component_config_file" where
  "vmagentFileSDConfigFile path content =
     \<lparr>cf_Path = path, cf_Content = content, cf_Mode = ''0644'', cf_Owner = ''root'', cf_Group = ''root'',
      cf_Sudo = True, cf_Atomic = True, cf_CreateParent = True, cf_SkipRestartOnChange = True\<rparr>"

definition renderVMAgentFileSDConfigFiles ::
  "static_node_cluster \<Rightarrow> desired_node_plan list \<Rightarrow> node_component_config_file list" where
  "renderVMAgentFileSDConfigFiles cluster plans =
     [vmagentFileSDConfigFile vmagentRayFileSDPath (renderVMAgentRayFileSDTargets cluster plans)] @
     (if nodeExporterTargets plans \<noteq> []
      then [vmagentFileSDConfigFile vmagentNodeExporterFileSDPath (renderVMAgentNodeExporterFileSDTargets cluster plans)]
      else []) @
     (if nodeAgentTargets plans \<noteq> []
      then [vmagentFileSDConfigFile vmagentNodeAgentFileSDPath (renderVMAgentNodeAgentFileSDTargets cluster plans)]
      else []) @
     map (\<lambda>g. vmagentFileSDConfigFile (acceleratorExporterTargetGroupFileSDPath g)
                (renderVMAgentAcceleratorExporterFileSDTargets cluster (gr_Targets g)))
       (acceleratorExporterTargetGroups (Some cluster) plans)"

section \<open>Attaching the files to the plan\<close>

fun append_config_file ::
  "string \<Rightarrow> node_component_config_file \<Rightarrow> node_component_spec list \<Rightarrow> node_component_spec list" where
  "append_config_file name f [] = []"
| "append_config_file name f (c # cs) =
     (if comp_Name c \<noteq> name then c # append_config_file name f cs
      else c\<lparr>comp_ConfigFiles := Some (els (comp_ConfigFiles c) @ [f])\<rparr> # cs)"

definition appendComponentConfigFile ::
  "static_node \<Rightarrow> string \<Rightarrow> node_component_config_file \<Rightarrow> static_node" where
  "appendComponentConfigFile node name f =
     node\<lparr>sn_Spec := map_option (\<lambda>s. s\<lparr>sns_Components :=
        map_option (append_config_file name f) (sns_Components s)\<rparr>) (sn_Spec node)\<rparr>"

definition vmagent_config_file :: "string \<Rightarrow> node_component_config_file" where
  "vmagent_config_file content =
     \<lparr>cf_Path = vmagentConfigPath, cf_Content = content, cf_Mode = ''0644'', cf_Owner = ''root'',
      cf_Group = ''root'', cf_Sudo = True, cf_Atomic = True, cf_CreateParent = True,
      cf_SkipRestartOnChange = False\<rparr>"

text \<open>The body of the loop, for the plan at index \<open>i\<close>; the second rendering sees the first change.\<close>

definition attach_at :: "static_node_cluster \<Rightarrow> nat \<Rightarrow> desired_node_plan list \<Rightarrow> desired_node_plan list" where
  "attach_at cluster i plans =
     (case dp_Node (plans ! i) of
        None \<Rightarrow> plans
      | Some node \<Rightarrow>
          if sn_Spec node = None \<or> node_Role node \<noteq> StaticNodeRoleHead then plans
          else
            let node1 = appendComponentConfigFile node vmagentComponentName
                  (vmagent_config_file (renderVMAgentConfig cluster plans));
                plans1 = plans[i := (plans ! i)\<lparr>dp_Node := Some node1\<rparr>];
                node2 = fold (\<lambda>f n. appendComponentConfigFile n vmagentComponentName f)
                  (renderVMAgentFileSDConfigFiles cluster plans1) node1
            in plans[i := (plans ! i)\<lparr>dp_Node := Some node2\<rparr>])"

definition attachMetricsConfigFiles ::
  "static_node_cluster \<Rightarrow> desired_node_plan list \<Rightarrow> desired_node_plan list" where
  "attachMetricsConfigFiles cluster plans = fold (attach_at cluster) [0..<length plans] plans"

end
