(* ===== verification/Upgrade.thy ===== *)
theory Upgrade
  imports Vmagent_Config
begin

text \<open>
  The staged upgrade of a cluster, \<open>staticcluster/upgrade.go\<close>, with the names of the desired nodes
  from \<open>staticcluster/status.go\<close>. A \<open>map[string]struct{}\<close> is a finite set; the order in which Go
  walks over it does not show in any result.
\<close>

section \<open>Desired nodes\<close>

definition staticNodeClusterHeadName :: "static_node_cluster ptr \<Rightarrow> string" where
  "staticNodeClusterHeadName cluster =
     (case cluster_spec cluster of
        None \<Rightarrow> []
      | Some s \<Rightarrow>
          (case List.find (\<lambda>n. normalizeStaticNodeRole (ns_Role n) = StaticNodeRoleHead) (els (cls_Nodes s)) of
             None \<Rightarrow> []
           | Some n \<Rightarrow> ns_Name n))"

definition staticNodeClusterDesiredNodeNames :: "static_node_cluster ptr \<Rightarrow> string set \<times> string" where
  "staticNodeClusterDesiredNodeNames cluster =
     (case cluster_spec cluster of
        None \<Rightarrow> ({}, [])
      | Some s \<Rightarrow> (set (filter (\<lambda>n. n \<noteq> []) (map ns_Name (els (cls_Nodes s)))), staticNodeClusterHeadName cluster))"

definition staticNodeClusterDesiredNodeNameList :: "static_node_cluster ptr \<Rightarrow> string list" where
  "staticNodeClusterDesiredNodeNameList cluster =
     (case cluster_spec cluster of
        None \<Rightarrow> []
      | Some s \<Rightarrow> sort (uniq_by id [] (filter (\<lambda>n. n \<noteq> []) (map ns_Name (els (cls_Nodes s))))))"

definition staticNodeClusterWorkerNames :: "static_node_cluster ptr \<Rightarrow> string set" where
  "staticNodeClusterWorkerNames cluster =
     (case cluster_spec cluster of
        None \<Rightarrow> {}
      | Some s \<Rightarrow> set (map ns_Name (filter (\<lambda>n. normalizeStaticNodeRole (ns_Role n) = StaticNodeRoleWorker \<and>
                                               ns_Name n \<noteq> []) (els (cls_Nodes s)))))"

section \<open>Observed state\<close>

definition rayComponentStopped :: "node_component_status list \<Rightarrow> bool" where
  "rayComponentStopped components =
     (case List.find (\<lambda>c. isRayWorkerComponentName (cs_Name c)) components of
        None \<Rightarrow> False
      | Some c \<Rightarrow> cs_Phase c = NodeComponentPhaseStopped)"

definition rayComponentRunningTarget :: "node_component_status list \<Rightarrow> string \<Rightarrow> string \<Rightarrow> bool" where
  "rayComponentRunningTarget components componentName targetImage =
     (case List.find (\<lambda>c. cs_Name c = componentName) components of
        None \<Rightarrow> False
      | Some c \<Rightarrow>
          if \<not> cs_Ready c \<or> cs_Phase c \<noteq> NodeComponentPhaseRunning then False
          else targetImage = [] \<or> cs_ObservedImage c = targetImage)"

text \<open>The first component of that name, in the first plan of that node which has one.\<close>

fun desiredRayComponent :: "desired_node_plan list \<Rightarrow> string \<Rightarrow> string \<Rightarrow> node_component_spec ptr" where
  "desiredRayComponent [] nodeName componentName = None"
| "desiredRayComponent (plan # plans) nodeName componentName =
     (case node_spec (dp_Node plan) of
        None \<Rightarrow> desiredRayComponent plans nodeName componentName
      | Some s \<Rightarrow>
          if plan_name plan \<noteq> nodeName then desiredRayComponent plans nodeName componentName
          else
            let components = (if els (dp_TargetComponents plan) = [] then els (sns_Components s)
                              else els (dp_TargetComponents plan))
            in case List.find (\<lambda>c. comp_Name c = componentName) components of
                 Some c \<Rightarrow> Some c
               | None \<Rightarrow> desiredRayComponent plans nodeName componentName)"

definition desiredRayComponentImage :: "desired_node_plan list \<Rightarrow> string \<Rightarrow> string \<Rightarrow> string" where
  "desiredRayComponentImage plans nodeName componentName =
     (case desiredRayComponent plans nodeName componentName of None \<Rightarrow> [] | Some c \<Rightarrow> comp_Image c)"

definition staticNodeClusterWarmReady :: "static_node_cluster ptr \<Rightarrow> static_node ptr list \<Rightarrow> bool" where
  "staticNodeClusterWarmReady cluster nodes =
     (let desiredNodeNames = fst (staticNodeClusterDesiredNodeNames cluster);
          nodesByName = staticNodeByName nodes
      in if desiredNodeNames = {} then False
         else \<forall>name \<in> desiredNodeNames.
                (case Option.bind (node_status (map_of nodesByName name)) sts_Warm of
                   None \<Rightarrow> False | Some w \<Rightarrow> ws_Ready w))"

definition note_stopped ::
  "string set \<Rightarrow> static_node ptr \<Rightarrow> (string \<times> bool) list \<Rightarrow> (string \<times> bool) list" where
  "note_stopped workerNames p stopped =
     (case p of
        None \<Rightarrow> stopped
      | Some n \<Rightarrow>
          (case sn_Status n of
             None \<Rightarrow> stopped
           | Some st \<Rightarrow>
               if node_name n \<notin> workerNames then stopped
               else map_put (node_name n) (rayComponentStopped (els (sts_Components st))) stopped))"

definition staticNodeClusterWorkersStopped :: "static_node_cluster ptr \<Rightarrow> static_node ptr list \<Rightarrow> bool" where
  "staticNodeClusterWorkersStopped cluster nodes =
     (let workerNames = staticNodeClusterWorkerNames cluster;
          stopped = fold (note_stopped workerNames) nodes []
      in if workerNames = {} then True
         else \<forall>name \<in> workerNames. map_of stopped name = Some True)"

definition staticNodeRayWorkerSpecTarget :: "static_node ptr \<Rightarrow> node_component_spec ptr \<Rightarrow> bool" where
  "staticNodeRayWorkerSpecTarget node target =
     (case (node_spec node, target) of
        (Some s, Some t) \<Rightarrow>
          (case List.find (\<lambda>c. comp_Name c = rayWorkerComponentName) (els (sns_Components s)) of
             None \<Rightarrow> False
           | Some c \<Rightarrow> c = t)
      | _ \<Rightarrow> False)"

definition staticNodeClusterWorkerTargetSpecIssued ::
  "static_node_cluster ptr \<Rightarrow> static_node ptr list \<Rightarrow> desired_node_plan list \<Rightarrow> bool" where
  "staticNodeClusterWorkerTargetSpecIssued cluster nodes plans =
     (let nodesByName = staticNodeByName nodes
      in \<exists>name \<in> staticNodeClusterWorkerNames cluster.
           staticNodeRayWorkerSpecTarget (map_of nodesByName name) (desiredRayComponent plans name rayWorkerComponentName))"

definition staticNodeClusterHeadRayRunningTarget ::
  "static_node_cluster ptr \<Rightarrow> static_node ptr list \<Rightarrow> desired_node_plan list \<Rightarrow> bool" where
  "staticNodeClusterHeadRayRunningTarget cluster nodes plans =
     (let headName = staticNodeClusterHeadName cluster in
      if headName = [] then False
      else case node_status (map_of (staticNodeByName nodes) headName) of
             None \<Rightarrow> False
           | Some st \<Rightarrow> rayComponentRunningTarget (els (sts_Components st)) rayHeadComponentName
                          (desiredRayComponentImage plans headName rayHeadComponentName))"

definition staticNodeClusterWorkersRayRunningTarget ::
  "static_node_cluster ptr \<Rightarrow> static_node ptr list \<Rightarrow> desired_node_plan list \<Rightarrow> bool" where
  "staticNodeClusterWorkersRayRunningTarget cluster nodes plans =
     (let workerNames = staticNodeClusterWorkerNames cluster;
          nodesByName = staticNodeByName nodes
      in if workerNames = {} then True
         else \<forall>name \<in> workerNames.
                (case node_status (map_of nodesByName name) of
                   None \<Rightarrow> False
                 | Some st \<Rightarrow> rayComponentRunningTarget (els (sts_Components st)) rayWorkerComponentName
                                (desiredRayComponentImage plans name rayWorkerComponentName)))"

definition staticNodeClusterRayRuntimeRunningTarget ::
  "static_node_cluster ptr \<Rightarrow> static_node ptr list \<Rightarrow> desired_node_plan list \<Rightarrow> bool" where
  "staticNodeClusterRayRuntimeRunningTarget cluster nodes plans \<longleftrightarrow>
     staticNodeClusterHeadRayRunningTarget cluster nodes plans \<and>
     staticNodeClusterWorkersRayRunningTarget cluster nodes plans"

section \<open>The upgrade state machine\<close>

datatype upgrade_step = Warming | StoppingWorkers | StartingHead | StartingWorkers | Verifying

primrec upgrade_step_text :: "upgrade_step \<Rightarrow> string" where
  "upgrade_step_text Warming = ''Warming''"
| "upgrade_step_text StoppingWorkers = ''StoppingWorkers''"
| "upgrade_step_text StartingHead = ''StartingHead''"
| "upgrade_step_text StartingWorkers = ''StartingWorkers''"
| "upgrade_step_text Verifying = ''Verifying''"

record upgrade_state =
  us_ObservedVersion :: string
  us_Step :: upgrade_step
  us_TargetRuntimeObserved :: bool

definition staticNodeClusterUpgradeStepFromObservedState ::
  "static_node_cluster ptr \<Rightarrow> static_node ptr list \<Rightarrow> desired_node_plan list \<Rightarrow> upgrade_step" where
  "staticNodeClusterUpgradeStepFromObservedState cluster currentNodes plans =
     (if staticNodeClusterRayRuntimeRunningTarget cluster currentNodes plans then Verifying
      else if staticNodeClusterWorkerTargetSpecIssued cluster currentNodes plans then StartingWorkers
      else if staticNodeClusterWorkersStopped cluster currentNodes \<and>
              staticNodeClusterHeadRayRunningTarget cluster currentNodes plans then StartingWorkers
      else if staticNodeClusterWorkersStopped cluster currentNodes then StartingHead
      else if staticNodeClusterWarmReady cluster currentNodes then StoppingWorkers
      else Warming)"

definition staticNodeClusterUpgrade ::
  "static_node_cluster ptr \<Rightarrow> static_node ptr list \<Rightarrow> desired_node_plan list \<Rightarrow> upgrade_state ptr" where
  "staticNodeClusterUpgrade cluster currentNodes plans =
     (case (cluster_spec cluster, Option.bind cluster snc_Status) of
        (Some s, Some st) \<Rightarrow>
          let observedVersion = cst_Version st in
          if observedVersion = [] \<or> observedVersion = cls_Version s then None
          else Some \<lparr>us_ObservedVersion = observedVersion,
                     us_Step = staticNodeClusterUpgradeStepFromObservedState cluster currentNodes plans,
                     us_TargetRuntimeObserved = staticNodeClusterRayRuntimeRunningTarget cluster currentNodes plans\<rparr>
      | _ \<Rightarrow> None)"

section \<open>Staging the plan\<close>

definition copyNodeComponents :: "node_component_spec slice \<Rightarrow> node_component_spec slice" where
  "copyNodeComponents components = Some (els components)"

definition set_components :: "node_component_spec slice \<Rightarrow> static_node \<Rightarrow> static_node" where
  "set_components cs node = node\<lparr>sn_Spec := map_option (\<lambda>s. s\<lparr>sns_Components := cs\<rparr>) (sn_Spec node)\<rparr>"

definition useCurrentComponentsIfPresent :: "static_node \<Rightarrow> static_node ptr \<Rightarrow> static_node" where
  "useCurrentComponentsIfPresent node current =
     (case (sn_Spec node, node_spec current) of
        (Some _, Some cur) \<Rightarrow>
          if els (sns_Components cur) = [] then node
          else set_components (copyNodeComponents (sns_Components cur)) node
      | _ \<Rightarrow> node)"

definition removeRayWorkerComponent :: "static_node \<Rightarrow> static_node" where
  "removeRayWorkerComponent node =
     (case sn_Spec node of
        None \<Rightarrow> node
      | Some s \<Rightarrow> set_components
          (Some (filter (\<lambda>c. \<not> isRayWorkerComponentName (comp_Name c)) (els (sns_Components s)))) node)"

definition staticNodesFromByName :: "(string \<times> static_node) list \<Rightarrow> static_node ptr list" where
  "staticNodesFromByName nodesByName = map (\<lambda>(k, n). Some n) nodesByName"

definition stage_node :: "upgrade_step \<Rightarrow> static_node ptr \<Rightarrow> static_node \<Rightarrow> static_node" where
  "stage_node step current node =
     (let worker = (node_Role node = StaticNodeRoleWorker) in
      case step of
        Warming \<Rightarrow> useCurrentComponentsIfPresent node current
      | StoppingWorkers \<Rightarrow>
          let node' = useCurrentComponentsIfPresent node current
          in if worker then removeRayWorkerComponent node' else node'
      | StartingHead \<Rightarrow>
          if worker then removeRayWorkerComponent (useCurrentComponentsIfPresent node current) else node
      | _ \<Rightarrow> node)"

definition applyRayRecreateUpgradePlan ::
  "static_node_cluster ptr \<Rightarrow> (string \<times> static_node) list \<Rightarrow> desired_node_plan list \<Rightarrow> desired_node_plan list" where
  "applyRayRecreateUpgradePlan cluster currentByName plans =
     (case staticNodeClusterUpgrade cluster (staticNodesFromByName currentByName) plans of
        None \<Rightarrow> plans
      | Some upgrade \<Rightarrow>
          map (\<lambda>plan. case dp_Node plan of
                 None \<Rightarrow> plan
               | Some node \<Rightarrow>
                   if sn_Spec node = None then plan
                   else plan\<lparr>dp_Node := Some (stage_node (us_Step upgrade) (map_of currentByName (node_name node)) node)\<rparr>)
            plans)"

end
