(* ===== verification/Planner.thy ===== *)
theory Planner
  imports Upgrade
begin

text \<open>
  The planner, \<open>staticcluster/planner.go\<close>: from the specification of a cluster and the current
  nodes to one desired node per entry. The provider of accelerator profiles is a parameter; it is a
  function of the accelerator type, that is, the profiles do not change during one planning pass. The
  receiver is a planner, not nil: the constructor of the controller, its only caller, puts one there.
\<close>

section \<open>Definitions\<close>

record planner =
  pl_AcceleratorProfileProvider :: "(string \<Rightarrow> go_error + accelerator_profile ptr) ptr"
  pl_MetricsRemoteWriteURL :: string

definition runtimeProfile :: "planner ptr \<Rightarrow> accelerator_status \<Rightarrow> go_error + accelerator_profile ptr" where
  "runtimeProfile r accelerator =
     (if acc_Type accelerator = [] \<or> acc_Type accelerator = StaticNodeAcceleratorTypeCPU then Inr None
      else case Option.bind r pl_AcceleratorProfileProvider of
             None \<Rightarrow> Inl (ErrNew ''accelerator profile provider is required'')
           | Some provider \<Rightarrow> provider (acc_Type accelerator))"

definition desired_static_node :: "static_node_cluster \<Rightarrow> static_node_cluster_node_spec \<Rightarrow> static_node" where
  "desired_static_node cluster nodeSpec =
     (let role = normalizeStaticNodeRole (ns_Role nodeSpec) in
      \<lparr>sn_ID = 0, sn_APIVersion = ''v1'', sn_Kind = StaticNodeKind,
       sn_Metadata = \<lparr>meta_Workspace = meta_Workspace (snc_Metadata cluster), meta_DeletionTimestamp = [],
         meta_CreationTimestamp = [], meta_UpdateTimestamp = [],
         meta_Labels = staticNodeLabels (cluster_name cluster) role, meta_Annotations = None,
         meta_Name = ns_Name nodeSpec\<rparr>,
       sn_Spec = Some \<lparr>sns_Cluster = cluster_name cluster, sns_IP = ns_IP nodeSpec, sns_Role = role,
         sns_SSHAuth = copyAuth (ns_SSHAuth nodeSpec), sns_Warm = Some \<lparr>warm_Images = None\<rparr>,
         sns_Components = None\<rparr>,
       sn_Status = None\<rparr>)"

text \<open>The plan of one node, once its accelerator is known or not.\<close>

definition node_plan ::
  "url_parser \<Rightarrow> planner \<Rightarrow> static_node_cluster \<Rightarrow> (string \<times> static_node) list \<Rightarrow>
   static_node_cluster_node_spec \<Rightarrow> go_error + desired_node_plan" where
  "node_plan parse r cluster currentByName nodeSpec =
     (let desiredNode = desired_static_node cluster nodeSpec in
      case currentStaticNodeAcceleratorStatus (map_of currentByName (ns_Name nodeSpec)) of
        None \<Rightarrow> Inr \<lparr>dp_Node = Some desiredNode, dp_Accelerator = None, dp_TargetComponents = None\<rparr>
      | Some accelerator \<Rightarrow>
          (case runtimeProfile (Some r) accelerator of
             Inl e \<Rightarrow> Inl e
           | Inr profile \<Rightarrow>
               let components = buildNodeComponents parse (Some cluster) (Some desiredNode) profile
                     (pl_MetricsRemoteWriteURL r)
               in Inr \<lparr>dp_Node = Some (desiredNode\<lparr>sn_Spec := map_option (\<lambda>s. s\<lparr>
                         sns_Warm := buildNodeWarmSpec components, sns_Components := Some components\<rparr>) (sn_Spec desiredNode)\<rparr>),
                       dp_Accelerator = Some accelerator, dp_TargetComponents = None\<rparr>))"

fun plan_loop ::
  "url_parser \<Rightarrow> planner \<Rightarrow> static_node_cluster \<Rightarrow> (string \<times> static_node) list \<Rightarrow>
   string set \<Rightarrow> nat \<Rightarrow> static_node_cluster_node_spec list \<Rightarrow> go_error + nat \<times> desired_node_plan list" where
  "plan_loop parse r cluster currentByName nodeNames headCount [] = Inr (headCount, [])"
| "plan_loop parse r cluster currentByName nodeNames headCount (nodeSpec # nodeSpecs) =
     (if ns_Name nodeSpec = [] then Inl (ErrNew ''static node name is required'')
      else if ns_IP nodeSpec = [] then Inl (ErrNew (''static node '' @ ns_Name nodeSpec @ '' ip is required''))
      else if ns_Name nodeSpec \<in> nodeNames then Inl (ErrNew (''duplicate static node '' @ ns_Name nodeSpec))
      else case node_plan parse r cluster currentByName nodeSpec of
             Inl e \<Rightarrow> Inl e
           | Inr plan \<Rightarrow>
               (case plan_loop parse r cluster currentByName (insert (ns_Name nodeSpec) nodeNames)
                       (if normalizeStaticNodeRole (ns_Role nodeSpec) = StaticNodeRoleHead then Suc headCount else headCount)
                       nodeSpecs of
                  Inl e \<Rightarrow> Inl e
                | Inr (heads, plans) \<Rightarrow> Inr (heads, plan # plans)))"

text \<open>Stamping every plan with hashes, keeping the stamped list as the target.\<close>

definition stamp_target :: "desired_node_plan \<Rightarrow> desired_node_plan" where
  "stamp_target plan =
     (case dp_Node plan of
        None \<Rightarrow> plan
      | Some node \<Rightarrow>
          (case sn_Spec node of
             None \<Rightarrow> plan
           | Some s \<Rightarrow>
               let cs = withComponentConfigHashes (sns_Components s)
               in plan\<lparr>dp_Node := Some (set_components cs node), dp_TargetComponents := copyNodeComponents cs\<rparr>))"

definition stamp_final :: "desired_node_plan \<Rightarrow> desired_node_plan" where
  "stamp_final plan =
     plan\<lparr>dp_Node := map_option (\<lambda>node. set_components
        (withComponentConfigHashes (case sn_Spec node of None \<Rightarrow> None | Some s \<Rightarrow> sns_Components s)) node) (dp_Node plan)\<rparr>"

text \<open>
  \<open>buildDesiredNodePlans\<close> up to and including the snapshot of the normalised target, before
  upgrade staging.
\<close>

definition build_target_plans ::
  "url_parser \<Rightarrow> planner \<Rightarrow> static_node_cluster ptr \<Rightarrow> static_node ptr list \<Rightarrow> go_error + desired_node_plan list" where
  "build_target_plans parse r clusterPtr currentNodes =
     (case clusterPtr of
        None \<Rightarrow> Inl (ErrNew ''static node cluster is nil'')
      | Some cluster \<Rightarrow>
          (case snc_Spec cluster of
             None \<Rightarrow> Inl (ErrNew ''static node cluster spec is required'')
           | Some spec \<Rightarrow>
               if cls_Version spec = [] then Inl (ErrNew ''static node cluster spec.version is required'')
               else if cls_ImageRegistry spec = [] then Inl (ErrNew ''static node cluster spec.image_registry is required'')
               else if els (cls_Nodes spec) = [] then Inl (ErrNew ''static node cluster spec.nodes is required'')
               else
                 case plan_loop parse r cluster (staticNodeByName currentNodes) {} 0 (els (cls_Nodes spec)) of
                   Inl e \<Rightarrow> Inl e
                 | Inr (headCount, plans) \<Rightarrow>
                     if headCount \<noteq> 1 then
                       Inl (ErrNew (''static node cluster requires exactly one head node, got '' @ itoa_nat headCount))
                     else Inr (map stamp_target (attachMetricsConfigFiles cluster (sort_key plan_name plans)))))"

definition buildDesiredNodePlans ::
  "url_parser \<Rightarrow> planner \<Rightarrow> static_node_cluster ptr \<Rightarrow> static_node ptr list \<Rightarrow> go_error + desired_node_plan list" where
  "buildDesiredNodePlans parse r cluster currentNodes =
     (case build_target_plans parse r cluster currentNodes of
        Inl e \<Rightarrow> Inl e
      | Inr plans \<Rightarrow>
          Inr (map stamp_final (applyRayRecreateUpgradePlan cluster (staticNodeByName currentNodes) plans)))"

definition Plan ::
  "url_parser \<Rightarrow> planner \<Rightarrow> static_node_cluster ptr \<Rightarrow> static_node ptr list \<Rightarrow> go_error + desired_node_plan list" where
  "Plan parse r cluster currentNodes =
     (case buildDesiredNodePlans parse r cluster currentNodes of Inl e \<Rightarrow> Inl e | Inr plans \<Rightarrow> Inr plans)"

section \<open>What every stage keeps\<close>

text \<open>
  Everything of a plan but its components. No stage after the first changes it: this one fact
  carries the names, roles, addresses and credentials through the pipeline.
\<close>

definition plan_frame :: "desired_node_plan \<Rightarrow> desired_node_plan" where
  "plan_frame p = p\<lparr>dp_Node := map_option (set_components None) (dp_Node p), dp_TargetComponents := None\<rparr>"

lemma set_components_frame [simp]:
  "set_components cs (set_components cs' n) = set_components cs n"
  "sn_Metadata (set_components cs n) = sn_Metadata n"
  "sn_Status (set_components cs n) = sn_Status n"
  by (simp_all add: set_components_def option.map_comp comp_def)

lemma set_components_spec [simp]:
  "sn_Spec (set_components cs n) = map_option (\<lambda>s. s\<lparr>sns_Components := cs\<rparr>) (sn_Spec n)"
  by (simp add: set_components_def)

lemma node_Role_set [simp]: "node_Role (set_components cs n) = node_Role n"
  by (auto simp: node_Role_def split: option.splits)

lemma node_IP_set [simp]: "node_IP (set_components cs n) = node_IP n"
  by (auto simp: node_IP_def split: option.splits)

lemma append_set_components:
  "\<exists>cs. appendComponentConfigFile n name f = set_components cs n"
proof (cases "sn_Spec n")
  case None
  then show ?thesis by (auto simp: appendComponentConfigFile_def set_components_def)
next
  case (Some s)
  then show ?thesis
    by (auto simp: appendComponentConfigFile_def set_components_def)
qed

lemma fold_append_set_components:
  "\<exists>cs. fold (\<lambda>f n. appendComponentConfigFile n name f) fs (set_components cs0 n) = set_components cs n"
proof (induction fs arbitrary: cs0)
  case Nil
  then show ?case by auto
next
  case (Cons f fs)
  obtain cs where "appendComponentConfigFile (set_components cs0 n) name f = set_components cs n"
    using append_set_components [of "set_components cs0 n" name f] by auto
  with Cons show ?case by simp
qed

lemma plan_frame_set:
  "dp_Node p = Some n \<Longrightarrow> plan_frame (p\<lparr>dp_Node := Some (set_components cs n)\<rparr>) = plan_frame p"
  by (simp add: plan_frame_def)

lemma attach_at_frame:
  assumes "i < length plans"
  shows "map plan_frame (attach_at cluster i plans) = map plan_frame plans"
proof (cases "dp_Node (plans ! i)")
  case None
  then show ?thesis by (simp add: attach_at_def)
next
  case (Some node)
  define f where "f = vmagent_config_file (renderVMAgentConfig cluster plans)"
  obtain cs0 where cs0: "appendComponentConfigFile node vmagentComponentName f = set_components cs0 node"
    using append_set_components by blast
  define fs where "fs = renderVMAgentFileSDConfigFiles cluster
    (plans[i := (plans ! i)\<lparr>dp_Node := Some (set_components cs0 node)\<rparr>])"
  obtain cs where cs: "fold (\<lambda>f n. appendComponentConfigFile n vmagentComponentName f) fs (set_components cs0 node) =
      set_components cs node"
    using fold_append_set_components by blast
  have "attach_at cluster i plans \<in> {plans, plans[i := (plans ! i)\<lparr>dp_Node := Some (set_components cs node)\<rparr>]}"
    using Some cs by (simp add: attach_at_def Let_def f_def [symmetric] cs0 fs_def [symmetric])
  moreover have "map plan_frame (plans[i := (plans ! i)\<lparr>dp_Node := Some (set_components cs node)\<rparr>]) = map plan_frame plans"
    using plan_frame_set [OF Some, of cs] assms by (simp add: map_update list_update_same_conv)
  ultimately show ?thesis by auto
qed

lemma length_attach_at [simp]: "length (attach_at cluster i plans) = length plans"
  by (auto simp: attach_at_def Let_def split: option.splits)

lemma fold_attach_frame:
  "\<forall>i \<in> set is. i < length plans \<Longrightarrow> map plan_frame (fold (attach_at cluster) is plans) = map plan_frame plans"
proof (induction "is" arbitrary: plans)
  case (Cons i "is")
  then show ?case using attach_at_frame [of i plans cluster] by simp
qed simp

lemma attachMetricsConfigFiles_frame:
  "map plan_frame (attachMetricsConfigFiles cluster plans) = map plan_frame plans"
  unfolding attachMetricsConfigFiles_def by (rule fold_attach_frame) simp

lemma stamp_target_frame [simp]: "plan_frame (stamp_target p) = plan_frame p"
  by (auto simp: stamp_target_def plan_frame_def Let_def split: option.splits)

lemma stamp_final_frame [simp]: "plan_frame (stamp_final p) = plan_frame p"
  by (simp add: stamp_final_def plan_frame_def option.map_comp comp_def)

lemma useCurrent_set: "\<exists>cs. useCurrentComponentsIfPresent n cur = set_components cs n"
proof -
  have "n = set_components (case sn_Spec n of None \<Rightarrow> None | Some s \<Rightarrow> sns_Components s) n"
    by (simp add: set_components_def map_option_case split: option.splits)
  then show ?thesis
    by (auto simp: useCurrentComponentsIfPresent_def split: option.splits)
qed

lemma removeRayWorker_set: "\<exists>cs. removeRayWorkerComponent (set_components cs0 n) = set_components cs n"
  by (auto simp: removeRayWorkerComponent_def split: option.splits)

lemma stage_node_set: "\<exists>cs. stage_node step cur n = set_components cs n"
proof -
  have n: "n = set_components (case sn_Spec n of None \<Rightarrow> None | Some s \<Rightarrow> sns_Components s) n"
    by (simp add: set_components_def map_option_case split: option.splits)
  obtain cs where cs: "useCurrentComponentsIfPresent n cur = set_components cs n"
    using useCurrent_set by blast
  show ?thesis
    using n cs removeRayWorker_set [of cs n]
    by (cases step) (auto simp: stage_node_def Let_def)
qed

lemma applyRayRecreateUpgradePlan_frame:
  "map plan_frame (applyRayRecreateUpgradePlan cluster cur plans) = map plan_frame plans"
proof -
  have "plan_frame (p\<lparr>dp_Node := Some (stage_node step (map_of cur (node_name n)) n)\<rparr>) = plan_frame p"
    if "dp_Node p = Some n" for p step n
    using stage_node_set [of step "map_of cur (node_name n)" n] plan_frame_set [OF that] by auto
  then show ?thesis
    by (auto simp: applyRayRecreateUpgradePlan_def split: option.splits)
qed

section \<open>The loop over the specification\<close>

definition is_head_spec :: "static_node_cluster_node_spec \<Rightarrow> bool" where
  "is_head_spec n \<longleftrightarrow> ns_Role n = StaticNodeRoleHead"

lemma plan_loop_Inr:
  "plan_loop parse r cluster cur names hc specs = Inr (heads, plans) \<Longrightarrow>
   heads = hc + length (filter is_head_spec specs) \<and>
   list_all2 (\<lambda>s p. node_plan parse r cluster cur s = Inr p) specs plans \<and>
   distinct (map ns_Name specs) \<and> ns_Name ` set specs \<inter> names = {} \<and>
   (\<forall>s \<in> set specs. ns_Name s \<noteq> [] \<and> ns_IP s \<noteq> [])"
proof (induction specs arbitrary: names hc heads plans)
  case (Cons s specs)
  then obtain p hs ps where
    s: "ns_Name s \<noteq> []" "ns_IP s \<noteq> []" "ns_Name s \<notin> names" "node_plan parse r cluster cur s = Inr p" and
    l: "plan_loop parse r cluster cur (insert (ns_Name s) names) (if is_head_spec s then Suc hc else hc) specs = Inr (hs, ps)" and
    eq: "heads = hs" "plans = p # ps"
    by (auto simp: is_head_spec_def split: if_splits sum.splits prod.splits)
  show ?case using Cons.IH [OF l] s eq by (auto simp: is_head_spec_def)
qed simp

lemma plan_loop_Inr_ex:
  assumes "\<forall>s \<in> set specs. ns_Name s \<noteq> [] \<and> ns_IP s \<noteq> [] \<and> (\<exists>p. node_plan parse r cluster cur s = Inr p)"
    and "distinct (map ns_Name specs)" "ns_Name ` set specs \<inter> names = {}"
  shows "\<exists>heads plans. plan_loop parse r cluster cur names hc specs = Inr (heads, plans)"
  using assms
proof (induction specs arbitrary: names hc)
  case (Cons s specs)
  have "\<exists>heads plans. plan_loop parse r cluster cur (insert (ns_Name s) names)
      (if normalizeStaticNodeRole (ns_Role s) = StaticNodeRoleHead then Suc hc else hc) specs = Inr (heads, plans)"
    by (rule Cons.IH) (use Cons.prems in auto)
  with Cons.prems show ?case by force
qed simp

lemma node_plan_Inr_iff:
  "(\<exists>p. node_plan parse r cluster cur s = Inr p) \<longleftrightarrow>
   (case currentStaticNodeAcceleratorStatus (map_of cur (ns_Name s)) of
      None \<Rightarrow> True | Some a \<Rightarrow> \<not> isl (runtimeProfile (Some r) a))"
  by (auto simp: node_plan_def Let_def split: option.splits sum.splits)

lemma node_plan_node:
  "node_plan parse r cluster cur s = Inr p \<Longrightarrow>
   \<exists>w cs. dp_Node p = Some ((desired_static_node cluster s)\<lparr>sn_Spec :=
       map_option (\<lambda>t. t\<lparr>sns_Warm := w, sns_Components := cs\<rparr>) (sn_Spec (desired_static_node cluster s))\<rparr>)"
  by (auto simp: node_plan_def Let_def desired_static_node_def split: option.splits sum.splits)

section \<open>The planner as a whole\<close>

text \<open>What a cluster must satisfy to be planned: the contract of the planner's caller.\<close>

definition plan_input_ok :: "planner \<Rightarrow> static_node_cluster ptr \<Rightarrow> static_node ptr list \<Rightarrow> bool" where
  "plan_input_ok r clusterPtr currentNodes =
     (case cluster_spec clusterPtr of
        None \<Rightarrow> False
      | Some spec \<Rightarrow>
          cls_Version spec \<noteq> [] \<and> cls_ImageRegistry spec \<noteq> [] \<and>
          list_all (\<lambda>n. ns_Name n \<noteq> [] \<and> ns_IP n \<noteq> [] \<and>
            (case currentStaticNodeAcceleratorStatus (map_of (staticNodeByName currentNodes) (ns_Name n)) of
               None \<Rightarrow> True
             | Some a \<Rightarrow> \<not> isl (runtimeProfile (Some r) a))) (els (cls_Nodes spec)) \<and>
          distinct (map ns_Name (els (cls_Nodes spec))) \<and>
          length (filter is_head_spec (els (cls_Nodes spec))) = 1)"

lemma build_target_plans_Inr:
  assumes "build_target_plans parse r cp cur = Inr targets"
  obtains cluster spec plans where
    "cp = Some cluster" "snc_Spec cluster = Some spec" "cls_Version spec \<noteq> []" "cls_ImageRegistry spec \<noteq> []"
    "plan_loop parse r cluster (staticNodeByName cur) {} 0 (els (cls_Nodes spec)) = Inr (1, plans)"
    "targets = map stamp_target (attachMetricsConfigFiles cluster (sort_key plan_name plans))"
  using assms by (auto simp: build_target_plans_def split: option.splits if_splits sum.splits prod.splits)

lemma plan_input_ok_iff: "(\<exists>ts. build_target_plans parse r cp cur = Inr ts) \<longleftrightarrow> plan_input_ok r cp cur"
proof
  assume "\<exists>ts. build_target_plans parse r cp cur = Inr ts"
  then obtain cluster spec plans where c: "cp = Some cluster" "snc_Spec cluster = Some spec"
      "cls_Version spec \<noteq> []" "cls_ImageRegistry spec \<noteq> []"
    and l: "plan_loop parse r cluster (staticNodeByName cur) {} 0 (els (cls_Nodes spec)) = Inr (1, plans)"
    by (auto elim: build_target_plans_Inr)
  have "\<forall>s \<in> set (els (cls_Nodes spec)). \<exists>p. node_plan parse r cluster (staticNodeByName cur) s = Inr p"
    using plan_loop_Inr [OF l] by (auto simp: list_all2_conv_all_nth in_set_conv_nth)
  then show "plan_input_ok r cp cur"
    using plan_loop_Inr [OF l] c by (simp add: plan_input_ok_def list_all_iff node_plan_Inr_iff)
next
  assume ok: "plan_input_ok r cp cur"
  then obtain cluster spec where c: "cp = Some cluster" "snc_Spec cluster = Some spec"
    by (cases cp) (auto simp: plan_input_ok_def split: option.splits)
  have "\<exists>heads plans. plan_loop parse r cluster (staticNodeByName cur) {} 0 (els (cls_Nodes spec)) = Inr (heads, plans)"
    by (rule plan_loop_Inr_ex) (use ok c in \<open>simp_all add: plan_input_ok_def list_all_iff node_plan_Inr_iff\<close>)
  then obtain heads plans where
    l: "plan_loop parse r cluster (staticNodeByName cur) {} 0 (els (cls_Nodes spec)) = Inr (heads, plans)" by blast
  then have "heads = 1" using plan_loop_Inr [OF l] ok c by (simp add: plan_input_ok_def)
  moreover have "els (cls_Nodes spec) \<noteq> []" using ok c by (auto simp: plan_input_ok_def)
  ultimately show "\<exists>ts. build_target_plans parse r cp cur = Inr ts"
    using l ok c by (simp add: build_target_plans_def plan_input_ok_def)
qed

lemma Plan_eq:
  "Plan parse r cp cur =
     (case build_target_plans parse r cp cur of
        Inl e \<Rightarrow> Inl e
      | Inr ts \<Rightarrow> Inr (map stamp_final (applyRayRecreateUpgradePlan cp (staticNodeByName cur) ts)))"
  by (simp add: Plan_def buildDesiredNodePlans_def split: sum.splits)

lemma Plan_Inr_ex: "(\<exists>ps. Plan parse r cp cur = Inr ps) \<longleftrightarrow> plan_input_ok r cp cur"
  unfolding plan_input_ok_iff [of parse, symmetric] by (auto simp: Plan_eq split: sum.splits)

lemma frame_plan_name: "plan_frame p = plan_frame q \<Longrightarrow> plan_name p = plan_name q"
proof -
  assume f: "plan_frame p = plan_frame q"
  have "plan_name x = plan_name (plan_frame x)" for x
    by (simp add: plan_name_def plan_frame_def split: option.splits)
  with f show ?thesis by metis
qed

lemma map_insort_key: "map f (insort_key f x xs) = insort (f x) (map f xs)" for f :: "'a \<Rightarrow> 'b::linorder"
  by (induction xs) auto

lemma sort_key_map: "map f (sort_key f xs) = sort (map f xs)" for f :: "'a \<Rightarrow> 'b::linorder"
  by (induction xs) (auto simp: map_insort_key)

lemma stamp_final_hashed:
  assumes "dp_Node (stamp_final p) = Some n" "sn_Spec n = Some s" "c \<in> set (els (sns_Components s))"
  shows "comp_ConfigHash c = Hash c \<and> comp_ConfigHash c \<noteq> []"
proof -
  obtain cs where "sns_Components s = WithHashes cs"
    using assms(1,2) by (auto simp: stamp_final_def withComponentConfigHashes_def)
  with assms(3) show ?thesis by (intro WithHashes_own [of c cs]) (simp only:)
qed

text \<open>The frame of the finished plan is the frame of the plan the loop built, sorted by name.\<close>

lemma Plan_frame:
  assumes "Plan parse r (Some cluster) cur = Inr ps" "snc_Spec cluster = Some spec"
  obtains plans where
    "plan_loop parse r cluster (staticNodeByName cur) {} 0 (els (cls_Nodes spec)) = Inr (1, plans)"
    "map plan_frame ps = map plan_frame (sort_key plan_name plans)"
proof -
  obtain ts where t: "build_target_plans parse r (Some cluster) cur = Inr ts"
    "ps = map stamp_final (applyRayRecreateUpgradePlan (Some cluster) (staticNodeByName cur) ts)"
    using assms(1) by (auto simp: Plan_eq split: sum.splits)
  obtain plans where
    p: "plan_loop parse r cluster (staticNodeByName cur) {} 0 (els (cls_Nodes spec)) = Inr (1, plans)"
    "ts = map stamp_target (attachMetricsConfigFiles cluster (sort_key plan_name plans))"
    using t(1) assms(2) by (elim build_target_plans_Inr) auto
  have "map plan_frame ps = map plan_frame (applyRayRecreateUpgradePlan (Some cluster) (staticNodeByName cur) ts)"
    using t(2) by simp
  also have "\<dots> = map plan_frame ts" by (rule applyRayRecreateUpgradePlan_frame)
  also have "\<dots> = map plan_frame (sort_key plan_name plans)"
    using p(2) attachMetricsConfigFiles_frame [of cluster "sort_key plan_name plans"] by (simp add: comp_def)
  finally show ?thesis using p(1) that by blast
qed

section \<open>The stage of an upgrade a plan belongs to\<close>

definition plan_upgrade ::
  "url_parser \<Rightarrow> planner \<Rightarrow> static_node_cluster ptr \<Rightarrow> static_node ptr list \<Rightarrow> upgrade_state ptr" where
  "plan_upgrade parse r cluster currentNodes =
     (case build_target_plans parse r cluster currentNodes of
        Inl e \<Rightarrow> None
      | Inr targets \<Rightarrow>
          staticNodeClusterUpgrade cluster (staticNodesFromByName (staticNodeByName currentNodes)) targets)"

definition node_components :: "static_node \<Rightarrow> node_component_spec list" where
  "node_components n = (case sn_Spec n of None \<Rightarrow> [] | Some s \<Rightarrow> els (sns_Components s))"

definition plan_for :: "static_node_cluster \<Rightarrow> static_node_cluster_node_spec \<Rightarrow> desired_node_plan \<Rightarrow> bool" where
  "plan_for cluster e p =
     (case dp_Node p of
        None \<Rightarrow> False
      | Some n \<Rightarrow>
          node_name n = ns_Name e \<and> meta_Workspace (sn_Metadata n) = meta_Workspace (snc_Metadata cluster) \<and>
          (case sn_Spec n of
             None \<Rightarrow> False
           | Some s \<Rightarrow> sns_Cluster s = cluster_name cluster \<and> sns_IP s = ns_IP e \<and>
                       sns_Role s = normalizeStaticNodeRole (ns_Role e) \<and> sns_SSHAuth s = ns_SSHAuth e))"

lemma plan_for_frame: "plan_for cluster e p \<longleftrightarrow> plan_for cluster e (plan_frame p)"
  by (auto simp: plan_for_def plan_frame_def split: option.splits)

lemma node_plan_for: "node_plan parse r cluster cur e = Inr p \<Longrightarrow> plan_for cluster e p"
  by (drule node_plan_node) (auto simp: plan_for_def desired_static_node_def copyAuth_def Let_def split: option.splits)

lemma plan_for_name: "plan_for cluster e p \<Longrightarrow> plan_name p = ns_Name e"
  by (auto simp: plan_for_def plan_name_def split: option.splits)

lemma map_plan_name_frame: "map plan_frame ps = map plan_frame qs \<Longrightarrow> map plan_name ps = map plan_name qs"
proof -
  assume a: "map plan_frame ps = map plan_frame qs"
  have "map plan_name xs = map plan_name (map plan_frame xs)" for xs
    by (simp add: plan_name_def plan_frame_def option.case_eq_if map_option_case)
  with a show ?thesis by metis
qed

lemma Plan_entries:
  assumes "Plan parse r (Some cluster) cur = Inr ps" "snc_Spec cluster = Some spec"
  shows "map plan_name ps = sort (map ns_Name (els (cls_Nodes spec)))"
    and "distinct (map plan_name ps)"
    and "\<forall>p \<in> set ps. \<exists>e \<in> set (els (cls_Nodes spec)). plan_for cluster e p"
proof -
  obtain plans where
    l: "plan_loop parse r cluster (staticNodeByName cur) {} 0 (els (cls_Nodes spec)) = Inr (1, plans)"
    and f: "map plan_frame ps = map plan_frame (sort_key plan_name plans)"
    using Plan_frame [OF assms] by blast
  have a: "list_all2 (plan_for cluster) (els (cls_Nodes spec)) plans"
    using plan_loop_Inr [OF l] by (auto elim!: list_all2_mono dest: node_plan_for)
  have n: "map plan_name plans = map ns_Name (els (cls_Nodes spec))"
    using a by (induction rule: list_all2_induct) (auto dest: plan_for_name)
  show m: "map plan_name ps = sort (map ns_Name (els (cls_Nodes spec)))"
    using map_plan_name_frame [OF f] n by (simp add: sort_key_map)
  show "distinct (map plan_name ps)"
    using m plan_loop_Inr [OF l] by simp
  show "\<forall>p \<in> set ps. \<exists>e \<in> set (els (cls_Nodes spec)). plan_for cluster e p"
  proof
    fix p assume "p \<in> set ps"
    then have "plan_frame p \<in> set (map plan_frame ps)" by simp
    then obtain q where q: "q \<in> set plans" "plan_frame p = plan_frame q"
      using f by auto
    then obtain e where "e \<in> set (els (cls_Nodes spec))" "plan_for cluster e q"
      using list_all2_in [OF a] by blast
    with q(2) show "\<exists>e \<in> set (els (cls_Nodes spec)). plan_for cluster e p"
      by (metis plan_for_frame)
  qed
qed

lemma Plan_Inr_spec:
  "Plan parse r cp cur = Inr ps \<Longrightarrow> \<exists>cluster spec. cp = Some cluster \<and> snc_Spec cluster = Some spec"
  by (auto simp: Plan_eq split: sum.splits elim!: build_target_plans_Inr)

text \<open>How a staged plan comes from its target plan.\<close>

lemma Plan_staged:
  assumes "Plan parse r cp cur = Inr ps" "plan_upgrade parse r cp cur = Some u" "p \<in> set ps" "dp_Node p = Some n"
  obtains t where "sn_Spec t \<noteq> None" "sn_Metadata n = sn_Metadata t" "node_Role n = node_Role t"
    "node_components n = map (\<lambda>c. c\<lparr>comp_ConfigHash := Hash c\<rparr>)
       (node_components (stage_node (us_Step u) (map_of (staticNodeByName cur) (node_name n)) t))"
proof -
  let ?cur = "staticNodeByName cur"
  obtain ts where ts: "build_target_plans parse r cp cur = Inr ts"
    and u: "staticNodeClusterUpgrade cp (staticNodesFromByName ?cur) ts = Some u"
    using assms(2) by (auto simp: plan_upgrade_def split: sum.splits)
  have "p \<in> set (map stamp_final (applyRayRecreateUpgradePlan cp ?cur ts))"
    using assms(1,3) ts by (simp add: Plan_eq)
  then obtain q where q: "q \<in> set (applyRayRecreateUpgradePlan cp ?cur ts)" "p = stamp_final q" by auto
  obtain nq where nq: "dp_Node q = Some nq"
    and n: "n = set_components (withComponentConfigHashes (case sn_Spec nq of None \<Rightarrow> None | Some s \<Rightarrow> sns_Components s)) nq"
    using q(2) assms(4) by (auto simp: stamp_final_def)
  have spec: "sn_Spec n \<noteq> None"
  proof -
    obtain cluster spec where c: "cp = Some cluster" "snc_Spec cluster = Some spec"
      using Plan_Inr_spec [OF assms(1)] by blast
    then obtain e where "plan_for cluster e p" using Plan_entries(3) assms(1,3) by blast
    then show ?thesis using assms(4) by (auto simp: plan_for_def split: option.splits)
  qed
  obtain pt where pt: "pt \<in> set ts" "q = (case dp_Node pt of
                 None \<Rightarrow> pt
               | Some node \<Rightarrow>
                   if sn_Spec node = None then pt
                   else pt\<lparr>dp_Node := Some (stage_node (us_Step u) (map_of ?cur (node_name node)) node)\<rparr>)"
    using q(1) u by (auto simp: applyRayRecreateUpgradePlan_def)
  then obtain t where t: "dp_Node pt = Some t" using nq by (auto split: option.splits)
  have st: "sn_Spec t \<noteq> None"
    using pt(2) t nq n spec by (auto split: if_splits)
  then have nq': "nq = stage_node (us_Step u) (map_of ?cur (node_name t)) t"
    using pt(2) t nq by (auto split: if_splits)
  obtain cs where cs: "nq = set_components cs t" using stage_node_set nq' by metis
  have "node_components n = map (\<lambda>c. c\<lparr>comp_ConfigHash := Hash c\<rparr>) (node_components nq)"
    using n spec by (auto simp: node_components_def withComponentConfigHashes_def split: option.splits)
  moreover have "sn_Metadata n = sn_Metadata t" "node_Role n = node_Role t" using n cs by simp_all
  ultimately show ?thesis using that [of t] st nq' by simp
qed

lemma node_components_set [simp]:
  "sn_Spec t \<noteq> None \<Longrightarrow> node_components (set_components cs t) = els cs"
  by (auto simp: node_components_def)

lemma useCurrent_components:
  "sn_Spec t \<noteq> None \<Longrightarrow> map_option node_components cur = Some cs \<Longrightarrow> cs \<noteq> [] \<Longrightarrow>
   node_components (useCurrentComponentsIfPresent t cur) = cs"
  by (auto simp: useCurrentComponentsIfPresent_def copyNodeComponents_def node_components_def set_components_def
      split: option.splits)

lemma removeRayWorker_components:
  "sn_Spec t \<noteq> None \<Longrightarrow> node_components (removeRayWorkerComponent t) =
     filter (\<lambda>c. comp_Name c \<noteq> rayWorkerComponentName) (node_components t)"
  by (auto simp: removeRayWorkerComponent_def node_components_def isRayWorkerComponentName_def set_components_def)

lemma useCurrent_spec [simp]:
  "sn_Spec (useCurrentComponentsIfPresent t cur) = None \<longleftrightarrow> sn_Spec t = None"
  by (auto simp: useCurrentComponentsIfPresent_def split: option.splits)

end
