(* ===== verification/Samples.thy ===== *)
theory Samples
  imports Image_Ref
begin

text \<open>
  Concrete objects for the witnesses of the other theories: a cluster \<open>c\<close> of one head \<open>h\<close> and one
  worker \<open>w\<close> at version \<open>v2\<close>, or on its way there from \<open>v1\<close>, and nodes with the component states
  that put it into each stage of the upgrade.
\<close>

section \<open>Sample data\<close>

definition sample_meta :: "string \<Rightarrow> metadata" where
  "sample_meta name = \<lparr>meta_Workspace = ''default'', meta_DeletionTimestamp = [], meta_CreationTimestamp = [],
     meta_UpdateTimestamp = [], meta_Labels = None, meta_Annotations = None, meta_Name = name\<rparr>"

definition sample_cluster :: "static_node_cluster_status ptr \<Rightarrow> static_node_cluster" where
  "sample_cluster status = \<lparr>snc_ID = 1, snc_APIVersion = ''v1'', snc_Kind = StaticNodeClusterKind,
     snc_Metadata = sample_meta ''c'',
     snc_Spec = Some \<lparr>cls_Version = ''v2'', cls_ImageRegistry = ''reg.io'', cls_Metrics = None,
       cls_Nodes = Some [\<lparr>ns_Name = ''w'', ns_IP = ''10.0.0.2'', ns_Role = ''worker'', ns_SSHAuth = None\<rparr>,
                         \<lparr>ns_Name = ''h'', ns_IP = ''10.0.0.1'', ns_Role = ''head'', ns_SSHAuth = None\<rparr>],
       cls_UpgradeStrategy = None\<rparr>,
     snc_Status = status\<rparr>"

definition sample_node ::
  "string \<Rightarrow> string \<Rightarrow> node_component_spec slice \<Rightarrow> static_node_status ptr \<Rightarrow> static_node" where
  "sample_node name role cs status = \<lparr>sn_ID = 1, sn_APIVersion = ''v1'', sn_Kind = StaticNodeKind,
     sn_Metadata = sample_meta name,
     sn_Spec = Some \<lparr>sns_Cluster = ''c'', sns_IP = ''10.0.0.9'', sns_Role = role, sns_SSHAuth = None,
       sns_Warm = None, sns_Components = cs\<rparr>,
     sn_Status = status\<rparr>"

definition no_url :: url_parser where
  "no_url s = Inl (ErrNew ''no url'')"

definition sample_upgrading :: static_node_cluster where
  "sample_upgrading = sample_cluster (Some (zero_cluster_status\<lparr>cst_Phase := ''Upgrading'', cst_Version := ''v1''\<rparr>))"

definition sample_comp :: "string \<Rightarrow> node_component_spec" where
  "sample_comp name = zero_component\<lparr>comp_Name := name, comp_Image := ''old''\<rparr>"

definition sample_status :: "accelerator_status ptr \<Rightarrow> node_component_status \<Rightarrow> static_node_status" where
  "sample_status a c = zero_node_status\<lparr>sts_Accelerator := a, sts_Components := Some [c]\<rparr>"

definition sample_running :: "string \<Rightarrow> node_component_status" where
  "sample_running name = zero_component_status\<lparr>cs_Name := name, cs_Ready := True, cs_Phase := ''Running'', cs_ObservedImage := ''old''\<rparr>"

definition sample_stopped_comp :: "string \<Rightarrow> node_component_status" where
  "sample_stopped_comp name = zero_component_status\<lparr>cs_Name := name, cs_Phase := ''Stopped''\<rparr>"

text \<open>A worker and a head on their old components, with the observed state of each component.\<close>

definition sample_nodes ::
  "accelerator_status ptr \<Rightarrow> node_component_status \<Rightarrow> node_component_status \<Rightarrow> static_node ptr list" where
  "sample_nodes a c h =
     [Some (sample_node ''w'' ''worker'' (Some [sample_comp ''ray-worker'']) (Some (sample_status a c))),
      Some (sample_node ''h'' ''head'' (Some [sample_comp ''ray-head'']) (Some (sample_status None h)))]"

lemmas sample_eval = sample_cluster_def sample_upgrading_def sample_node_def sample_meta_def
  sample_comp_def sample_nodes_def sample_status_def sample_running_def sample_stopped_comp_def

end
