(* ===== verification/Planner_Props.thy ===== *)
theory Planner_Props
  imports Planner Samples
begin

text \<open>
  Properties of the planner and of upgrade staging, with witnesses on the cluster of \<open>Samples\<close>; the
  bundles \<open>plan_eval\<close>, \<open>upgrade_eval\<close> and \<open>stage_eval\<close> evaluate the planner on them
  without unfolding the hash function.
\<close>

definition sample_planner :: planner where
  "sample_planner = \<lparr>pl_AcceleratorProfileProvider = None, pl_MetricsRemoteWriteURL = []\<rparr>"

section \<open>One head\<close>

definition plan_is_head :: "desired_node_plan \<Rightarrow> bool" where
  "plan_is_head p = (case dp_Node p of None \<Rightarrow> False | Some n \<Rightarrow> node_Role n = StaticNodeRoleHead)"

lemma plan_is_head_frame: "plan_is_head (plan_frame p) = plan_is_head p"
  by (simp add: plan_is_head_def plan_frame_def split: option.splits)

lemma Plan_one_head_aux:
  assumes "Plan parse r (Some cluster) cur = Inr ps" "snc_Spec cluster = Some spec"
  shows "length (filter plan_is_head ps) = 1"
proof -
  obtain plans where
    l: "plan_loop parse r cluster (staticNodeByName cur) {} 0 (els (cls_Nodes spec)) = Inr (1, plans)"
    and f: "map plan_frame ps = map plan_frame (sort_key plan_name plans)"
    using Plan_frame [OF assms] by blast
  have len: "length (filter plan_is_head xs) = length (filter plan_is_head (map plan_frame xs))" for xs
    by (simp add: filter_map comp_def plan_is_head_frame)
  have "plan_is_head p \<longleftrightarrow> is_head_spec e" if "plan_for cluster e p" for e p
    using that by (auto simp: plan_for_def plan_is_head_def node_Role_def is_head_spec_def split: option.splits)
  moreover have "list_all2 (plan_for cluster) (els (cls_Nodes spec)) plans"
    using plan_loop_Inr [OF l] by (auto elim!: list_all2_mono dest: node_plan_for)
  ultimately have "length (filter plan_is_head plans) = length (filter is_head_spec (els (cls_Nodes spec)))"
    by - (erule list_all2_induct, auto)
  moreover have "length (filter plan_is_head (sort_key plan_name plans)) = length (filter plan_is_head plans)"
    by (simp add: filter_sort)
  moreover have "length (filter plan_is_head ps) = length (filter plan_is_head (sort_key plan_name plans))"
    by (metis len f)
  ultimately show ?thesis
    using plan_loop_Inr [OF l] by simp
qed

text \<open>Only a node that runs vmagent gets its configuration files.\<close>

lemma append_config_file_none: "\<forall>c \<in> set cs. comp_Name c \<noteq> name \<Longrightarrow> append_config_file name f cs = cs"
  by (induction cs) auto

lemma append_no_component:
  "\<forall>c \<in> set (node_components n). comp_Name c \<noteq> name \<Longrightarrow> appendComponentConfigFile n name f = n"
proof -
  assume a: "\<forall>c \<in> set (node_components n). comp_Name c \<noteq> name"
  have "map_option (append_config_file name f) (sns_Components s) = sns_Components s" if "sn_Spec n = Some s" for s
    using a that by (cases "sns_Components s") (auto simp: node_components_def append_config_file_none)
  then show ?thesis
    by (cases "sn_Spec n") (simp_all add: appendComponentConfigFile_def)
qed

lemma attach_at_no_vmagent:
  assumes "i < length plans"
    and "\<forall>p \<in> set plans. \<forall>n. dp_Node p = Some n \<longrightarrow> (\<forall>c \<in> set (node_components n). comp_Name c \<noteq> vmagentComponentName)"
  shows "attach_at cluster i plans = plans"
proof (cases "dp_Node (plans ! i)")
  case (Some n)
  have a: "appendComponentConfigFile n vmagentComponentName f = n" for f
    using assms Some nth_mem by (intro append_no_component) blast
  have "fold (\<lambda>f n. appendComponentConfigFile n vmagentComponentName f) fs n = n" for fs
    by (induction fs) (simp_all add: a)
  moreover have "plans[i := (plans ! i)\<lparr>dp_Node := Some n\<rparr>] = plans"
    using Some by (metis (no_types, lifting) desired_node_plan.surjective desired_node_plan.update_convs(1) list_update_id)
  ultimately show ?thesis using Some by (simp add: attach_at_def Let_def a)
qed (simp add: attach_at_def)

lemma attach_no_vmagent:
  assumes "\<forall>p \<in> set plans. \<forall>n. dp_Node p = Some n \<longrightarrow> (\<forall>c \<in> set (node_components n). comp_Name c \<noteq> vmagentComponentName)"
  shows "attachMetricsConfigFiles cluster plans = plans"
proof -
  have "\<forall>i \<in> set is. i < length plans \<Longrightarrow> fold (attach_at cluster) is plans = plans" for "is"
    by (induction "is") (simp_all add: attach_at_no_vmagent [OF _ assms])
  then show ?thesis by (simp add: attachMetricsConfigFiles_def)
qed

lemma plan_upgrade_step:
  assumes "plan_upgrade parse r cluster nodes = Some u" "build_target_plans parse r cluster nodes = Inr targets"
  shows "us_Step u = staticNodeClusterUpgradeStepFromObservedState cluster
    (staticNodesFromByName (staticNodeByName nodes)) targets"
  using assms
  by (auto simp: plan_upgrade_def staticNodeClusterUpgrade_def Let_def split: option.splits if_splits)

lemmas object_eval = spec_simps els_simps Let_def set_components_def
  zero_node_status_def zero_component_status_def zero_component_def zero_cluster_status_def
  normalizeStaticNodeRole_def isRayWorkerComponentName_def isRayHeadComponentName_def node_Role_def

lemmas plan_eval = object_eval build_target_plans_def staticNodeByName_def put_node_def node_plan_def
  desired_static_node_def currentStaticNodeAcceleratorStatus_def plan_name_def stamp_target_def
  withComponentConfigHashes_def WithHashes_def copyNodeComponents_def node_components_def attach_no_vmagent
  runtimeProfile_def buildNodeComponents_def buildMetricsComponents_def IsHTTPOrHTTPSURL_def no_url_def sample_planner_def

lemmas upgrade_eval = object_eval plan_upgrade_def staticNodeClusterUpgrade_def
  staticNodeClusterUpgradeStepFromObservedState_def staticNodeClusterRayRuntimeRunningTarget_def
  staticNodeClusterHeadRayRunningTarget_def staticNodeClusterHeadName_def staticNodeClusterWorkersRayRunningTarget_def
  staticNodesFromByName_def staticNodeClusterWorkerTargetSpecIssued_def staticNodeClusterWorkerNames_def
  staticNodeRayWorkerSpecTarget_def staticNodeClusterWorkersStopped_def note_stopped_def rayComponentStopped_def
  staticNodeClusterWarmReady_def staticNodeClusterDesiredNodeNames_def rayComponentRunningTarget_def
  desiredRayComponentImage_def

lemmas stage_eval = Plan_eq applyRayRecreateUpgradePlan_def stage_node_def stamp_final_def
  useCurrentComponentsIfPresent_def removeRayWorkerComponent_def

section \<open>Properties\<close>

text \<open>
  C1: planning, by a planner that is not nil and for clusters that have metadata, returns a plan exactly
  for the clusters that satisfy the planner's contract: a specification with a version, an image registry,
  named nodes with an address, no name twice and exactly one head, and a runtime profile available for
  every accelerator already discovered. Otherwise it returns an error.
\<close>

theorem Plan_succeeds_iff: "(\<exists>plans. Plan parse r cluster nodes = Inr plans) \<longleftrightarrow> plan_input_ok r cluster nodes"
  by (rule Plan_Inr_ex)

text \<open>
  C2: a plan has exactly one node per entry of the specification, in strictly increasing order of the
  names, each for an entry with that name, address, role and credentials and owned by the cluster,
  and exactly one of them is the head.
\<close>

theorem Plan_one_node_per_entry:
  assumes "Plan parse r (Some cluster) nodes = Inr plans" and "snc_Spec cluster = Some spec"
  shows "map plan_name plans = sort (map ns_Name (els (cls_Nodes spec))) \<and>
    sorted_wrt (<) (map plan_name plans) \<and>
    list_all (\<lambda>p. list_ex (\<lambda>e. plan_for cluster e p) (els (cls_Nodes spec))) plans \<and>
    length (filter plan_is_head plans) = 1"
proof -
  have "sorted_wrt (<) (map plan_name plans)"
    using Plan_entries(1,2) [OF assms] by (simp add: strict_sorted_iff)
  then show ?thesis
    using Plan_entries [OF assms] Plan_one_head_aux [OF assms] by (simp add: list_all_iff list_ex_iff)
qed

lemma sample_input_ok: "plan_input_ok sample_planner (Some (sample_cluster st)) []"
  by (simp add: plan_input_ok_def plan_eval sample_eval is_head_spec_def)

theorem Plan_one_node_per_entry_witness:
  "\<exists>plans. Plan no_url sample_planner (Some (sample_cluster None)) [] = Inr plans \<and>
     map plan_name plans = [''h'', ''w''] \<and> length (filter plan_is_head plans) = 1"
proof -
  obtain plans where p: "Plan no_url sample_planner (Some (sample_cluster None)) [] = Inr plans"
    using sample_input_ok Plan_Inr_ex by blast
  then show ?thesis
    using Plan_one_node_per_entry [OF p, of "the (snc_Spec (sample_cluster None))"]
    by (simp add: sample_cluster_def)
qed

text \<open>
  C3: every component of every planned node carries its own fingerprint, 64 lower-case hexadecimal
  digits, also when upgrade staging has adopted components of the current node.
\<close>

theorem Plan_components_stamped:
  assumes "Plan parse r cluster nodes = Inr plans" and "p \<in> set plans" and "dp_Node p = Some n"
    and "c \<in> set (node_components n)"
  shows "comp_ConfigHash c = Hash c \<and> length (comp_ConfigHash c) = 64 \<and> list_all is_hex_lower (comp_ConfigHash c)"
proof -
  obtain q where "p = stamp_final q"
    using assms(1,2) by (auto simp: Plan_eq split: sum.splits)
  moreover obtain s where "sn_Spec n = Some s" "c \<in> set (els (sns_Components s))"
    using assms(4) by (cases "sn_Spec n") (simp_all add: node_components_def)
  ultimately have "comp_ConfigHash c = Hash c"
    using stamp_final_hashed assms(3) by blast
  moreover have "list_all is_hex_lower (Hash c)"
    by (auto simp: list_all_iff Hash_def hex_EncodeToString_lower)
  ultimately show ?thesis by (simp only: length_Hash)
qed

text \<open>The nodes of a plan: name, role and a view of each component.\<close>

definition planned ::
  "(node_component_spec \<Rightarrow> 'x) \<Rightarrow> go_error + desired_node_plan list \<Rightarrow> (string \<times> string \<times> 'x list) list" where
  "planned f res = (case res of Inl _ \<Rightarrow> [] | Inr ps \<Rightarrow>
     map (\<lambda>p. case dp_Node p of None \<Rightarrow> ([], [], [])
                | Some n \<Rightarrow> (node_name n, node_Role n, map f (node_components n))) ps)"

lemma planned_in:
  assumes "(name, role, cs) \<in> set (planned f res)" "name \<noteq> []"
  obtains ps p n where "res = Inr ps" "p \<in> set ps" "dp_Node p = Some n" "node_name n = name"
    "node_Role n = role" "map f (node_components n) = cs"
  using assms by (auto simp: planned_def split: sum.splits option.splits)

lemma sample_warming:
  "planned comp_Name (Plan no_url sample_planner (Some sample_upgrading) (sample_nodes None zero_component_status zero_component_status)) =
     [(''h'', ''head'', [''ray-head'']), (''w'', ''worker'', [''ray-worker''])]"
  by (simp add: planned_def stage_eval plan_eval upgrade_eval sample_eval)

theorem Plan_components_stamped_witness:
  "\<exists>plans p n c. Plan no_url sample_planner (Some sample_upgrading) (sample_nodes None zero_component_status zero_component_status) = Inr plans \<and>
     p \<in> set plans \<and> dp_Node p = Some n \<and> c \<in> set (node_components n) \<and> length (comp_ConfigHash c) = 64"
proof -
  obtain plans p n where
    "Plan no_url sample_planner (Some sample_upgrading) (sample_nodes None zero_component_status zero_component_status) = Inr plans"
    "p \<in> set plans" "dp_Node p = Some n" "map comp_Name (node_components n) = [''ray-worker'']"
    by (rule planned_in [of "''w''" "''worker''" "[''ray-worker'']" comp_Name
          "Plan no_url sample_planner (Some sample_upgrading) (sample_nodes None zero_component_status zero_component_status)"])
      (simp_all add: sample_warming)
  moreover from this obtain c where "c \<in> set (node_components n)"
    by (cases "node_components n") auto
  ultimately show ?thesis using Plan_components_stamped by blast
qed

text \<open>
  C4: while an upgrade stops the workers or starts the new head, no worker is told to run Ray: the
  plan of every worker node has no \<open>ray-worker\<close> component.
\<close>

theorem upgrade_workers_stay_down:
  assumes "Plan parse r cluster nodes = Inr plans" and "plan_upgrade parse r cluster nodes = Some u"
    and "us_Step u = StoppingWorkers \<or> us_Step u = StartingHead"
    and "p \<in> set plans" and "dp_Node p = Some n" and "node_Role n = StaticNodeRoleWorker"
  shows "rayWorkerComponentName \<notin> set (map comp_Name (node_components n))"
proof -
  obtain t where t: "sn_Spec t \<noteq> None" "node_Role n = node_Role t"
    "node_components n = map (\<lambda>c. c\<lparr>comp_ConfigHash := Hash c\<rparr>)
       (node_components (stage_node (us_Step u) (map_of (staticNodeByName nodes) (node_name n)) t))"
    using Plan_staged [OF assms(1,2,4,5)] by metis
  have "rayWorkerComponentName \<notin> comp_Name ` set
      (node_components (stage_node (us_Step u) (map_of (staticNodeByName nodes) (node_name n)) t))"
    using assms(3,6) t(1,2) by (auto simp: stage_node_def removeRayWorker_components)
  then show ?thesis by (simp add: t(3) image_image comp_def)
qed

lemma sample_starting_head:
  "map_option us_Step (plan_upgrade no_url sample_planner (Some sample_upgrading)
     (sample_nodes None (sample_stopped_comp ''ray-worker'') zero_component_status)) = Some StartingHead"
  by (simp add: plan_eval upgrade_eval sample_eval)

lemma sample_starting_head_plan:
  "planned comp_Name (Plan no_url sample_planner (Some sample_upgrading)
     (sample_nodes None (sample_stopped_comp ''ray-worker'') zero_component_status)) =
     [(''h'', ''head'', []), (''w'', ''worker'', [])]"
  by (simp add: planned_def stage_eval plan_eval upgrade_eval sample_eval)

theorem upgrade_workers_stay_down_witness:
  "\<exists>plans p n. Plan no_url sample_planner (Some sample_upgrading)
       (sample_nodes None (sample_stopped_comp ''ray-worker'') zero_component_status) = Inr plans \<and>
     p \<in> set plans \<and> dp_Node p = Some n \<and> node_Role n = StaticNodeRoleWorker \<and>
     rayWorkerComponentName \<notin> set (map comp_Name (node_components n))"
proof -
  let ?nodes = "sample_nodes None (sample_stopped_comp ''ray-worker'') zero_component_status"
  obtain plans p n where h: "Plan no_url sample_planner (Some sample_upgrading) ?nodes = Inr plans"
    "p \<in> set plans" "dp_Node p = Some n" "node_Role n = ''worker''"
    by (rule planned_in [of "''w''" "''worker''" "[]" comp_Name "Plan no_url sample_planner (Some sample_upgrading) ?nodes"])
      (simp_all add: sample_starting_head_plan)
  obtain u where "plan_upgrade no_url sample_planner (Some sample_upgrading) ?nodes = Some u" "us_Step u = StartingHead"
    using sample_starting_head by auto
  with h show ?thesis using upgrade_workers_stay_down [OF h(1) _ _ h(2,3)] by blast
qed


lemma sample_current:
  "map_of (staticNodeByName (sample_nodes a c h)) ''h'' =
     Some (sample_node ''h'' ''head'' (Some [sample_comp ''ray-head'']) (Some (sample_status None h)))"
  "map_of (staticNodeByName (sample_nodes a c h)) ''w'' =
     Some (sample_node ''w'' ''worker'' (Some [sample_comp ''ray-worker'']) (Some (sample_status a c)))"
  by (simp_all add: staticNodeByName_def put_node_def sample_nodes_def sample_node_def sample_meta_def)



definition sample_starting :: "static_node ptr list" where
  "sample_starting = sample_nodes (Some CPUStaticNodeAcceleratorStatus) (sample_stopped_comp ''ray-worker'') (sample_running ''ray-head'')"

lemma sample_starting_workers:
  "map_option us_Step (plan_upgrade no_url sample_planner (Some sample_upgrading) sample_starting) = Some StartingWorkers"
  by (simp add: sample_starting_def CPUStaticNodeAcceleratorStatus_def plan_eval upgrade_eval sample_eval)

lemma sample_starting_plan:
  "planned (\<lambda>c. (comp_Name c, comp_Command c)) (Plan no_url sample_planner (Some sample_upgrading) sample_starting) =
     [(''h'', ''head'', []), (''w'', ''worker'', [(''ray-worker'', Some [''/bin/bash'', ''-lc''])])]"
  by (simp add: planned_def sample_starting_def CPUStaticNodeAcceleratorStatus_def stage_eval plan_eval upgrade_eval
      sample_eval buildRayComponent_def)


end
