(* ===== verification/Cluster_Status.thy ===== *)
theory Cluster_Status
  imports Planner Samples
begin

text \<open>
  The status of a cluster, \<open>staticcluster/status.go\<close>: the context collected over stale and desired
  nodes, the phase derived from it, and the final check against Ray's own view of its nodes.
\<close>

section \<open>Messages\<close>

text \<open>\<open>strings.FieldsFunc\<close> at newline and semicolon, trimmed, without empty parts.\<close>

definition splitStatusMessages :: "string \<Rightarrow> string list" where
  "splitStatusMessages message =
     filter (\<lambda>part. part \<noteq> [])
       (map TrimSpace (FieldsFunc (\<lambda>c. c = newline \<or> c = CHR '';'') message))"

definition joinStatusMessages :: "string \<Rightarrow> string list \<Rightarrow> string" where
  "joinStatusMessages current messages =
     (let parts = (if current \<noteq> [] then splitStatusMessages current else []) @ messages
      in Join (uniq_by id [] (filter (\<lambda>m. m \<noteq> []) parts)) [newline])"

definition DashboardURL :: "static_node_cluster ptr \<Rightarrow> string" where
  "DashboardURL cluster = ''http://'' @ staticNodeClusterHeadIP cluster @ '':'' @ Itoa RayDashboardPort"

definition staticNodeClusterStaleNodeMessage :: "static_node \<Rightarrow> string" where
  "staticNodeClusterStaleNodeMessage node =
     (if meta_DeletionTimestamp (sn_Metadata node) \<noteq> []
      then ''stale static node '' @ node_name node @ '' is deleting''
      else ''stale static node '' @ node_name node @ '' exists'')"

definition staticNodeWarmStatusMessage :: "string \<Rightarrow> warm_status ptr \<Rightarrow> string" where
  "staticNodeWarmStatusMessage nodeName status =
     (let message = ''static node '' @ nodeName @ '' warm not ready'' in
      case status of
        None \<Rightarrow> message
      | Some w \<Rightarrow>
          if ws_Message w \<noteq> [] then message @ '': '' @ ws_Message w
          else if ws_Reason w \<noteq> [] then message @ '': '' @ ws_Reason w
          else message)"

definition warm_not_ready :: "warm_status ptr \<Rightarrow> bool" where
  "warm_not_ready w = (case w of None \<Rightarrow> True | Some s \<Rightarrow> \<not> ws_Ready s)"

definition staticNodeStatusMessage :: "string \<Rightarrow> static_node_status \<Rightarrow> string" where
  "staticNodeStatusMessage nodeName status =
     (if nodeName = [] then []
      else if sts_Phase status \<noteq> StaticNodePhaseReady \<and> sts_ErrorMessage status \<noteq> [] then
        ''static node '' @ nodeName @ '' phase='' @ sts_Phase status @ '':'' @ [newline] @ sts_ErrorMessage status
      else if sts_Phase status \<noteq> StaticNodePhaseReady then
        ''static node '' @ nodeName @ '' phase='' @ sts_Phase status
      else if warm_not_ready (sts_Warm status) then staticNodeWarmStatusMessage nodeName (sts_Warm status)
      else [])"

definition nodeComponentStatusByName :: "node_component_status list \<Rightarrow> string \<Rightarrow> node_component_status option" where
  "nodeComponentStatusByName statuses name = List.find (\<lambda>s. cs_Name s = name) statuses"

definition desiredComponentStatusMessage ::
  "string \<Rightarrow> node_component_spec \<Rightarrow> node_component_status list \<Rightarrow> string" where
  "desiredComponentStatusMessage nodeName component statuses =
     (let message = ''static node '' @ nodeName @ '' component '' @ comp_Name component @
            '' is not running desired config''
      in case nodeComponentStatusByName statuses (comp_Name component) of
           None \<Rightarrow> message
         | Some status \<Rightarrow>
             let details = (if cs_Phase status \<noteq> [] then [''phase='' @ cs_Phase status] else []) @
                   (if cs_Reason status \<noteq> [] then [''reason='' @ cs_Reason status] else []) @
                   (if cs_Message status \<noteq> [] then [''message='' @ cs_Message status] else [])
             in if details = [] then message else message @ '': '' @ Join details '' '')"

section \<open>The status context\<close>

record status_context =
  ctx_DesiredNodes :: int
  ctx_ReadyNodes :: int
  ctx_HeadReady :: bool
  ctx_WarmReady :: bool
  ctx_AnyNodeFailed :: bool
  ctx_HasMissing :: bool
  ctx_HasStale :: bool
  ctx_HasSpecDrift :: bool
  ctx_HasStatusDrift :: bool
  ctx_Upgrade :: "upgrade_state ptr"
  ctx_StaleMessages :: "string list"
  ctx_BlockingMessages :: "string list"

definition block :: "string \<Rightarrow> status_context \<Rightarrow> status_context" where
  "block message ctx = ctx\<lparr>ctx_BlockingMessages := ctx_BlockingMessages ctx @ [message]\<rparr>"

definition staticNodeClusterPlanByName :: "desired_node_plan list \<Rightarrow> (string \<times> desired_node_plan) list" where
  "staticNodeClusterPlanByName plans =
     fold (\<lambda>p m. case dp_Node p of None \<Rightarrow> m | Some n \<Rightarrow> map_put (node_name n) p m) plans []"

definition staticNodeSpecDrifted :: "static_node ptr \<Rightarrow> static_node ptr \<Rightarrow> bool" where
  "staticNodeSpecDrifted desired current =
     (case (desired, current) of
        (Some d, Some c) \<Rightarrow> sn_Spec c \<noteq> sn_Spec d
      | _ \<Rightarrow> False)"

definition desiredComponentObserved :: "node_component_spec \<Rightarrow> node_component_status list \<Rightarrow> bool" where
  "desiredComponentObserved component statuses =
     (case List.find (\<lambda>s. cs_Name s = comp_Name component) statuses of
        None \<Rightarrow> False
      | Some s \<Rightarrow>
          if \<not> cs_Ready s \<or> cs_Phase s \<noteq> NodeComponentPhaseRunning then False
          else if comp_ConfigHash component \<noteq> [] \<and> cs_ObservedHash s \<noteq> comp_ConfigHash component then False
          else if comp_Image component \<noteq> [] \<and> cs_ObservedImage s \<noteq> comp_Image component then False
          else True)"

definition aggregateDesiredStaticNodeComponentStatus ::
  "string \<Rightarrow> desired_node_plan ptr \<Rightarrow> node_component_status list \<Rightarrow> status_context \<Rightarrow> status_context" where
  "aggregateDesiredStaticNodeComponentStatus nodeName plan statuses ctx =
     (case node_spec (Option.bind plan dp_Node) of
        None \<Rightarrow> ctx
      | Some s \<Rightarrow>
          fold (\<lambda>component ctx.
              if desiredComponentObserved component statuses then ctx
              else block (desiredComponentStatusMessage nodeName component statuses) (ctx\<lparr>ctx_HasStatusDrift := True\<rparr>))
            (els (sns_Components s)) ctx)"

text \<open>A plan missing from the map is Go's zero plan, whose node is nil.\<close>

definition aggregateDesiredStaticNodeStatus ::
  "string \<Rightarrow> bool \<Rightarrow> static_node ptr \<Rightarrow> desired_node_plan ptr \<Rightarrow> status_context \<Rightarrow> status_context" where
  "aggregateDesiredStaticNodeStatus nodeName isHead currentPtr plan ctx0 =
     (case currentPtr of
        None \<Rightarrow>
          block (''static node '' @ nodeName @ '' is missing'') (ctx0\<lparr>ctx_HasMissing := True, ctx_WarmReady := False\<rparr>)
      | Some current \<Rightarrow>
          let ctx1 = (if staticNodeSpecDrifted (Option.bind plan dp_Node) (Some current)
                then block (''static node '' @ nodeName @ '' spec is not observed'') (ctx0\<lparr>ctx_HasSpecDrift := True\<rparr>)
                else ctx0)
          in case sn_Status current of
               None \<Rightarrow> block (''static node '' @ nodeName @ '' status is empty'')
                         (ctx1\<lparr>ctx_HasStatusDrift := True, ctx_WarmReady := False\<rparr>)
             | Some st \<Rightarrow>
                 let ctx2 = (if sts_Phase st = StaticNodePhaseReady
                       then ctx1\<lparr>ctx_ReadyNodes := ctx_ReadyNodes ctx1 + 1\<rparr> else ctx1);
                     ctx3 = (if isHead then ctx2\<lparr>ctx_HeadReady := (sts_Phase st = StaticNodePhaseReady)\<rparr> else ctx2);
                     ctx4 = (if sts_Phase st = StaticNodePhaseFailed then ctx3\<lparr>ctx_AnyNodeFailed := True\<rparr> else ctx3);
                     ctx5 = (if warm_not_ready (sts_Warm st) then ctx4\<lparr>ctx_WarmReady := False\<rparr> else ctx4);
                     ctx6 = (if staticNodeStatusMessage nodeName st \<noteq> []
                       then block (staticNodeStatusMessage nodeName st) ctx5 else ctx5)
                 in aggregateDesiredStaticNodeComponentStatus nodeName plan (els (sts_Components st)) ctx6)"

definition note_stale :: "string set \<Rightarrow> static_node ptr \<Rightarrow> status_context \<Rightarrow> status_context" where
  "note_stale desired p ctx =
     (case p of
        None \<Rightarrow> ctx
      | Some node \<Rightarrow>
          if node_name node \<in> desired then ctx
          else ctx\<lparr>ctx_HasStale := True,
                   ctx_StaleMessages := ctx_StaleMessages ctx @ [staticNodeClusterStaleNodeMessage node]\<rparr>)"

definition buildStaticNodeClusterStatusContext ::
  "static_node_cluster ptr \<Rightarrow> static_node ptr list \<Rightarrow> desired_node_plan list \<Rightarrow> status_context" where
  "buildStaticNodeClusterStatusContext cluster nodes plans =
     (let (desiredNodeNames, headName) = staticNodeClusterDesiredNodeNames cluster;
          currentByName = staticNodeByName nodes;
          plansByName = staticNodeClusterPlanByName plans;
          ctx = \<lparr>ctx_DesiredNodes = int (card desiredNodeNames), ctx_ReadyNodes = 0, ctx_HeadReady = False,
                 ctx_WarmReady = True, ctx_AnyNodeFailed = False, ctx_HasMissing = False, ctx_HasStale = False,
                 ctx_HasSpecDrift = False, ctx_HasStatusDrift = False,
                 ctx_Upgrade = staticNodeClusterUpgrade cluster nodes plans,
                 ctx_StaleMessages = [], ctx_BlockingMessages = []\<rparr>
      in if ctx_DesiredNodes ctx = 0 then
           block ''static node cluster has no desired nodes'' (ctx\<lparr>ctx_AnyNodeFailed := True\<rparr>)
         else
           fold (\<lambda>nodeName. aggregateDesiredStaticNodeStatus nodeName (nodeName = headName)
                  (map_of currentByName nodeName) (map_of plansByName nodeName))
             (staticNodeClusterDesiredNodeNameList cluster)
             (fold (note_stale desiredNodeNames) nodes ctx))"

section \<open>Phase and status\<close>

definition staticNodeClusterStatusConverged :: "status_context \<Rightarrow> bool" where
  "staticNodeClusterStatusConverged ctx \<longleftrightarrow>
     \<not> ctx_HasMissing ctx \<and> \<not> ctx_HasStale ctx \<and> \<not> ctx_HasSpecDrift ctx \<and> \<not> ctx_HasStatusDrift ctx \<and>
     ctx_ReadyNodes ctx = ctx_DesiredNodes ctx \<and> ctx_HeadReady ctx \<and> ctx_WarmReady ctx"

definition staticNodeClusterUpgradeReady :: "status_context \<Rightarrow> bool" where
  "staticNodeClusterUpgradeReady ctx =
     (case ctx_Upgrade ctx of
        None \<Rightarrow> False
      | Some u \<Rightarrow> us_TargetRuntimeObserved u \<and> staticNodeClusterStatusConverged ctx)"

definition determineStaticNodeClusterPhase :: "status_context \<Rightarrow> string" where
  "determineStaticNodeClusterPhase ctx =
     (if ctx_DesiredNodes ctx = 0 \<or> ctx_AnyNodeFailed ctx then StaticNodeClusterPhaseFailed
      else if ctx_Upgrade ctx \<noteq> None then
        (if staticNodeClusterUpgradeReady ctx then StaticNodeClusterPhaseReady else StaticNodeClusterPhaseUpgrading)
      else if staticNodeClusterStatusConverged ctx then StaticNodeClusterPhaseReady
      else StaticNodeClusterPhaseProvisioning)"

definition staticNodeClusterErrorMessage :: "status_context \<Rightarrow> string \<Rightarrow> string" where
  "staticNodeClusterErrorMessage ctx phase =
     (if phase = StaticNodeClusterPhaseReady then []
      else joinStatusMessages []
             ((case ctx_Upgrade ctx of None \<Rightarrow> [] | Some u \<Rightarrow> [upgrade_step_text (us_Step u)]) @
              ctx_StaleMessages ctx @ ctx_BlockingMessages ctx))"

definition Aggregate ::
  "static_node_cluster ptr \<Rightarrow> static_node ptr list \<Rightarrow> desired_node_plan list \<Rightarrow> static_node_cluster_status" where
  "Aggregate cluster nodes plans =
     (let ctx = buildStaticNodeClusterStatusContext cluster nodes plans;
          phase = determineStaticNodeClusterPhase ctx;
          status = zero_cluster_status\<lparr>cst_Phase := phase, cst_DesiredNodes := ctx_DesiredNodes ctx,
            cst_ReadyNodes := ctx_ReadyNodes ctx, cst_HeadReady := ctx_HeadReady ctx, cst_WarmReady := ctx_WarmReady ctx\<rparr>
      in case (if phase = StaticNodeClusterPhaseReady then cluster_spec cluster else None) of
           Some spec \<Rightarrow> status\<lparr>cst_Version := cls_Version spec\<rparr>
         | None \<Rightarrow>
             status\<lparr>cst_Version := (case ctx_Upgrade ctx of None \<Rightarrow> [] | Some u \<Rightarrow> us_ObservedVersion u),
                    cst_ErrorMessage := staticNodeClusterErrorMessage ctx phase\<rparr>)"

section \<open>Verification against Ray\<close>

text \<open>
  The nodes Ray's dashboard reports, a parameter: address and raylet state, or the error of the
  request. \<open>%v\<close> of a slice of strings puts them in brackets, separated by blanks.
\<close>

record ray_node =
  rn_IP :: string
  rn_RayletState :: string

abbreviation AliveNodeState :: string where "AliveNodeState \<equiv> ''ALIVE''"

definition missingDesiredRayNodeIPs :: "static_node_cluster ptr \<Rightarrow> string set \<Rightarrow> string list" where
  "missingDesiredRayNodeIPs cluster aliveByIP =
     (case cluster_spec cluster of
        None \<Rightarrow> []
      | Some s \<Rightarrow> sort (filter (\<lambda>ip. ip \<noteq> [] \<and> ip \<notin> aliveByIP) (map ns_IP (els (cls_Nodes s)))))"

definition verifyRayCluster ::
  "(string \<Rightarrow> go_error + ray_node list) \<Rightarrow> static_node_cluster ptr \<Rightarrow> go_error option" where
  "verifyRayCluster listNodes cluster =
     (case listNodes (DashboardURL cluster) of
        Inl e \<Rightarrow> Some (ErrWrap e ''failed to list ray nodes'')
      | Inr nodes \<Rightarrow>
          let aliveByIP = set (map rn_IP (filter (\<lambda>n. rn_RayletState n = AliveNodeState) nodes));
              missing = missingDesiredRayNodeIPs cluster aliveByIP
          in if missing \<noteq> [] then Some (ErrNew (''ray nodes are not alive: ['' @ Join missing '' '' @ '']'')) else None)"

definition RequireRayClusterReady ::
  "err_lib \<Rightarrow> (string \<Rightarrow> go_error + ray_node list) \<Rightarrow> static_node_cluster ptr \<Rightarrow>
   static_node_cluster_status \<Rightarrow> static_node_cluster_status" where
  "RequireRayClusterReady L listNodes cluster status =
     (if cst_Phase status \<noteq> StaticNodeClusterPhaseReady then status
      else case verifyRayCluster listNodes cluster of
             None \<Rightarrow> status
           | Some e \<Rightarrow>
               status\<lparr>cst_ErrorMessage := joinStatusMessages (cst_ErrorMessage status)
                        [''ray cluster verification failed: '' @ error_text L e],
                      cst_Phase := (case Option.bind cluster snc_Status of
                          None \<Rightarrow> StaticNodeClusterPhaseProvisioning
                        | Some st \<Rightarrow> if cst_Phase st = StaticNodeClusterPhaseReady then StaticNodeClusterPhaseFailed
                                     else StaticNodeClusterPhaseProvisioning)\<rparr>)"

section \<open>What one node contributes\<close>

definition node_failed :: "static_node ptr \<Rightarrow> bool" where
  "node_failed cur = (case node_status cur of None \<Rightarrow> False | Some st \<Rightarrow> sts_Phase st = StaticNodePhaseFailed)"

definition node_ready :: "static_node ptr \<Rightarrow> bool" where
  "node_ready cur = (case node_status cur of None \<Rightarrow> False | Some st \<Rightarrow> sts_Phase st = StaticNodePhaseReady)"

definition node_warm :: "static_node ptr \<Rightarrow> bool" where
  "node_warm cur = (case node_status cur of None \<Rightarrow> False | Some st \<Rightarrow> \<not> warm_not_ready (sts_Warm st))"

definition components_observed :: "static_node ptr \<Rightarrow> desired_node_plan ptr \<Rightarrow> bool" where
  "components_observed cur plan =
     (case (node_status cur, node_spec (Option.bind plan dp_Node)) of
        (Some st, Some s) \<Rightarrow>
          list_all (\<lambda>c. desiredComponentObserved c (els (sts_Components st))) (els (sns_Components s))
      | _ \<Rightarrow> True)"

lemma component_fold_frame [simp]:
  "ctx_DesiredNodes (aggregateDesiredStaticNodeComponentStatus name plan sts ctx) = ctx_DesiredNodes ctx"
  "ctx_ReadyNodes (aggregateDesiredStaticNodeComponentStatus name plan sts ctx) = ctx_ReadyNodes ctx"
  "ctx_HeadReady (aggregateDesiredStaticNodeComponentStatus name plan sts ctx) = ctx_HeadReady ctx"
  "ctx_WarmReady (aggregateDesiredStaticNodeComponentStatus name plan sts ctx) = ctx_WarmReady ctx"
  "ctx_AnyNodeFailed (aggregateDesiredStaticNodeComponentStatus name plan sts ctx) = ctx_AnyNodeFailed ctx"
  "ctx_HasMissing (aggregateDesiredStaticNodeComponentStatus name plan sts ctx) = ctx_HasMissing ctx"
  "ctx_HasStale (aggregateDesiredStaticNodeComponentStatus name plan sts ctx) = ctx_HasStale ctx"
  "ctx_HasSpecDrift (aggregateDesiredStaticNodeComponentStatus name plan sts ctx) = ctx_HasSpecDrift ctx"
  "ctx_Upgrade (aggregateDesiredStaticNodeComponentStatus name plan sts ctx) = ctx_Upgrade ctx"
proof -
  let ?f = "\<lambda>component ctx.
              if desiredComponentObserved component sts then ctx
              else block (desiredComponentStatusMessage name component sts) (ctx\<lparr>ctx_HasStatusDrift := True\<rparr>)"
  have "\<exists>b ms. fold ?f cs ctx = ctx\<lparr>ctx_HasStatusDrift := b, ctx_BlockingMessages := ms\<rparr>" for cs
  proof (induction cs arbitrary: ctx)
    case Nil
    show ?case by (rule exI [of _ "ctx_HasStatusDrift ctx"], rule exI [of _ "ctx_BlockingMessages ctx"]) simp
  next
    case (Cons c cs)
    show ?case
    proof (cases "desiredComponentObserved c sts")
      case True
      then show ?thesis using Cons by simp
    next
      case False
      then show ?thesis
        using Cons [of "block (desiredComponentStatusMessage name c sts) (ctx\<lparr>ctx_HasStatusDrift := True\<rparr>)"]
        by (auto simp: block_def)
    qed
  qed
  then have "aggregateDesiredStaticNodeComponentStatus name plan sts ctx = ctx \<or>
      (\<exists>b ms. aggregateDesiredStaticNodeComponentStatus name plan sts ctx =
         ctx\<lparr>ctx_HasStatusDrift := b, ctx_BlockingMessages := ms\<rparr>)"
    by (auto simp: aggregateDesiredStaticNodeComponentStatus_def split: option.splits)
  then show
    "ctx_DesiredNodes (aggregateDesiredStaticNodeComponentStatus name plan sts ctx) = ctx_DesiredNodes ctx"
    "ctx_ReadyNodes (aggregateDesiredStaticNodeComponentStatus name plan sts ctx) = ctx_ReadyNodes ctx"
    "ctx_HeadReady (aggregateDesiredStaticNodeComponentStatus name plan sts ctx) = ctx_HeadReady ctx"
    "ctx_WarmReady (aggregateDesiredStaticNodeComponentStatus name plan sts ctx) = ctx_WarmReady ctx"
    "ctx_AnyNodeFailed (aggregateDesiredStaticNodeComponentStatus name plan sts ctx) = ctx_AnyNodeFailed ctx"
    "ctx_HasMissing (aggregateDesiredStaticNodeComponentStatus name plan sts ctx) = ctx_HasMissing ctx"
    "ctx_HasStale (aggregateDesiredStaticNodeComponentStatus name plan sts ctx) = ctx_HasStale ctx"
    "ctx_HasSpecDrift (aggregateDesiredStaticNodeComponentStatus name plan sts ctx) = ctx_HasSpecDrift ctx"
    "ctx_Upgrade (aggregateDesiredStaticNodeComponentStatus name plan sts ctx) = ctx_Upgrade ctx"
    by auto
qed

lemma component_fold_drift [simp]:
  "ctx_HasStatusDrift (aggregateDesiredStaticNodeComponentStatus name plan sts ctx) \<longleftrightarrow>
     ctx_HasStatusDrift ctx \<or>
     (case node_spec (Option.bind plan dp_Node) of
        None \<Rightarrow> False
      | Some s \<Rightarrow> \<not> list_all (\<lambda>c. desiredComponentObserved c sts) (els (sns_Components s)))"
proof -
  have "ctx_HasStatusDrift (fold (\<lambda>component ctx.
              if desiredComponentObserved component sts then ctx
              else block (desiredComponentStatusMessage name component sts) (ctx\<lparr>ctx_HasStatusDrift := True\<rparr>)) cs ctx)
     \<longleftrightarrow> ctx_HasStatusDrift ctx \<or> \<not> list_all (\<lambda>c. desiredComponentObserved c sts) cs" for cs
    by (induction cs arbitrary: ctx) (auto simp: block_def)
  then show ?thesis
    by (simp add: aggregateDesiredStaticNodeComponentStatus_def split: option.splits)
qed

lemma node_step:
  fixes name isHead cur plan ctx
  defines "ctx' \<equiv> aggregateDesiredStaticNodeStatus name isHead cur plan ctx"
  shows "ctx_DesiredNodes ctx' = ctx_DesiredNodes ctx"
    and "ctx_Upgrade ctx' = ctx_Upgrade ctx"
    and "ctx_HasStale ctx' = ctx_HasStale ctx"
    and "ctx_ReadyNodes ctx' = ctx_ReadyNodes ctx + (if node_ready cur then 1 else 0)"
    and "ctx_HeadReady ctx' = (if isHead \<and> node_status cur \<noteq> None then node_ready cur else ctx_HeadReady ctx)"
    and "ctx_WarmReady ctx' \<longleftrightarrow> ctx_WarmReady ctx \<and> node_warm cur"
    and "ctx_AnyNodeFailed ctx' \<longleftrightarrow> ctx_AnyNodeFailed ctx \<or> node_failed cur"
    and "ctx_HasMissing ctx' \<longleftrightarrow> ctx_HasMissing ctx \<or> cur = None"
    and "ctx_HasSpecDrift ctx' \<longleftrightarrow> ctx_HasSpecDrift ctx \<or> staticNodeSpecDrifted (Option.bind plan dp_Node) cur"
    and "ctx_HasStatusDrift ctx' \<longleftrightarrow> ctx_HasStatusDrift ctx \<or>
           cur \<noteq> None \<and> (node_status cur = None \<or> \<not> components_observed cur plan)"
  unfolding ctx'_def aggregateDesiredStaticNodeStatus_def node_ready_def node_warm_def node_failed_def components_observed_def
  by (auto simp: block_def Let_def staticNodeSpecDrifted_def split: option.splits)

section \<open>What all nodes contribute\<close>

lemma nodes_fold:
  fixes names cur plan headName ctx
  defines "ctx' \<equiv> fold (\<lambda>n. aggregateDesiredStaticNodeStatus n (n = headName) (cur n) (plan n)) names ctx"
  shows "ctx_DesiredNodes ctx' = ctx_DesiredNodes ctx"
    and "ctx_Upgrade ctx' = ctx_Upgrade ctx"
    and "ctx_HasStale ctx' = ctx_HasStale ctx"
    and "ctx_ReadyNodes ctx' = ctx_ReadyNodes ctx + int (length (filter (\<lambda>n. node_ready (cur n)) names))"
    and "ctx_HeadReady ctx' = (if headName \<in> set names \<and> node_status (cur headName) \<noteq> None
           then node_ready (cur headName) else ctx_HeadReady ctx)"
    and "ctx_WarmReady ctx' \<longleftrightarrow> ctx_WarmReady ctx \<and> (\<forall>n \<in> set names. node_warm (cur n))"
    and "ctx_AnyNodeFailed ctx' \<longleftrightarrow> ctx_AnyNodeFailed ctx \<or> (\<exists>n \<in> set names. node_failed (cur n))"
    and "ctx_HasMissing ctx' \<longleftrightarrow> ctx_HasMissing ctx \<or> (\<exists>n \<in> set names. cur n = None)"
    and "ctx_HasSpecDrift ctx' \<longleftrightarrow> ctx_HasSpecDrift ctx \<or>
           (\<exists>n \<in> set names. staticNodeSpecDrifted (Option.bind (plan n) dp_Node) (cur n))"
    and "ctx_HasStatusDrift ctx' \<longleftrightarrow> ctx_HasStatusDrift ctx \<or>
           (\<exists>n \<in> set names. cur n \<noteq> None \<and> (node_status (cur n) = None \<or> \<not> components_observed (cur n) (plan n)))"
  unfolding ctx'_def by (induction names arbitrary: ctx) (auto simp: node_step)

lemma stale_fold:
  fixes desired nodes ctx
  defines "ctx' \<equiv> fold (note_stale desired) nodes ctx"
  shows "ctx_HasStale ctx' \<longleftrightarrow> ctx_HasStale ctx \<or> (\<exists>n. Some n \<in> set nodes \<and> node_name n \<notin> desired)"
    and "ctx_DesiredNodes ctx' = ctx_DesiredNodes ctx" "ctx_Upgrade ctx' = ctx_Upgrade ctx"
    "ctx_ReadyNodes ctx' = ctx_ReadyNodes ctx" "ctx_HeadReady ctx' = ctx_HeadReady ctx"
    "ctx_WarmReady ctx' = ctx_WarmReady ctx" "ctx_AnyNodeFailed ctx' = ctx_AnyNodeFailed ctx"
    "ctx_HasMissing ctx' = ctx_HasMissing ctx" "ctx_HasSpecDrift ctx' = ctx_HasSpecDrift ctx"
    "ctx_HasStatusDrift ctx' = ctx_HasStatusDrift ctx"
  unfolding ctx'_def
  by (induction nodes arbitrary: ctx) (auto simp: note_stale_def split: option.splits)

lemma uniq_by_self [simp]:
  "set (uniq_by id [] xs) = set xs" "distinct (uniq_by id [] xs)"
  "set (uniq_by (\<lambda>x. x) [] xs) = set xs" "distinct (uniq_by (\<lambda>x. x) [] xs)"
  using uniq_by_keys [of id "[]" xs] uniq_by_distinct [of id "[]" xs] by (simp_all add: id_def)

lemma desired_names:
  "set (staticNodeClusterDesiredNodeNameList cluster) = fst (staticNodeClusterDesiredNodeNames cluster)"
  "distinct (staticNodeClusterDesiredNodeNameList cluster)"
  by (auto simp: staticNodeClusterDesiredNodeNameList_def staticNodeClusterDesiredNodeNames_def split: option.splits)

lemma card_desired:
  "card (fst (staticNodeClusterDesiredNodeNames cluster)) = length (staticNodeClusterDesiredNodeNameList cluster)"
  using desired_names [of cluster] distinct_card by metis

section \<open>The abstract specification of readiness\<close>

text \<open>
  A cluster has converged when it has desired nodes, no other nodes, its head among the desired ones,
  and every desired node exists, has the planned specification, is ready and warm, and runs every
  planned component as planned.
\<close>

definition node_converged :: "static_node ptr \<Rightarrow> desired_node_plan ptr \<Rightarrow> bool" where
  "node_converged cur plan \<longleftrightarrow>
     node_ready cur \<and> node_warm cur \<and> components_observed cur plan \<and>
     \<not> staticNodeSpecDrifted (Option.bind plan dp_Node) cur"

definition cluster_converged ::
  "static_node_cluster ptr \<Rightarrow> static_node ptr list \<Rightarrow> desired_node_plan list \<Rightarrow> bool" where
  "cluster_converged cluster nodes plans =
     (let (desired, headName) = staticNodeClusterDesiredNodeNames cluster in
      headName \<in> desired \<and>
      list_all (\<lambda>p. case p of None \<Rightarrow> True | Some n \<Rightarrow> node_name n \<in> desired) nodes \<and>
      (\<forall>name \<in> desired. node_converged (map_of (staticNodeByName nodes) name)
                                        (map_of (staticNodeClusterPlanByName plans) name)))"

definition cluster_failed :: "static_node_cluster ptr \<Rightarrow> static_node ptr list \<Rightarrow> bool" where
  "cluster_failed cluster nodes =
     (let desired = fst (staticNodeClusterDesiredNodeNames cluster) in
      desired = {} \<or> (\<exists>name \<in> desired. node_failed (map_of (staticNodeByName nodes) name)))"

definition upgrade_done ::
  "static_node_cluster ptr \<Rightarrow> static_node ptr list \<Rightarrow> desired_node_plan list \<Rightarrow> bool" where
  "upgrade_done cluster nodes plans =
     (case staticNodeClusterUpgrade cluster nodes plans of
        None \<Rightarrow> True
      | Some u \<Rightarrow> us_TargetRuntimeObserved u)"

lemma finite_desired [simp]: "finite (fst (staticNodeClusterDesiredNodeNames cluster))"
  by (simp add: desired_names(1) [symmetric])

lemma head_name_pair: "snd (staticNodeClusterDesiredNodeNames cluster) = [] \<or>
    snd (staticNodeClusterDesiredNodeNames cluster) = staticNodeClusterHeadName cluster"
  by (auto simp: staticNodeClusterDesiredNodeNames_def split: option.splits)

lemma context_desired:
  assumes "fst (staticNodeClusterDesiredNodeNames cluster) \<noteq> {}"
  shows "buildStaticNodeClusterStatusContext cluster nodes plans =
    fold (\<lambda>n. aggregateDesiredStaticNodeStatus n (n = snd (staticNodeClusterDesiredNodeNames cluster))
            (map_of (staticNodeByName nodes) n) (map_of (staticNodeClusterPlanByName plans) n))
      (staticNodeClusterDesiredNodeNameList cluster)
      (fold (note_stale (fst (staticNodeClusterDesiredNodeNames cluster))) nodes
        \<lparr>ctx_DesiredNodes = int (card (fst (staticNodeClusterDesiredNodeNames cluster))), ctx_ReadyNodes = 0,
         ctx_HeadReady = False, ctx_WarmReady = True, ctx_AnyNodeFailed = False, ctx_HasMissing = False,
         ctx_HasStale = False, ctx_HasSpecDrift = False, ctx_HasStatusDrift = False,
         ctx_Upgrade = staticNodeClusterUpgrade cluster nodes plans, ctx_StaleMessages = [], ctx_BlockingMessages = []\<rparr>)"
  using assms by (simp add: buildStaticNodeClusterStatusContext_def Let_def split_beta)

lemma context_empty:
  assumes "fst (staticNodeClusterDesiredNodeNames cluster) = {}"
  shows "ctx_DesiredNodes (buildStaticNodeClusterStatusContext cluster nodes plans) = 0"
    and "ctx_ReadyNodes (buildStaticNodeClusterStatusContext cluster nodes plans) = 0"
  using assms by (simp_all add: buildStaticNodeClusterStatusContext_def Let_def split_beta block_def)

lemma filter_all_length: "length (filter P xs) = length xs \<longleftrightarrow> (\<forall>x \<in> set xs. P x)"
  by (metis filter_id_conv length_filter_less order_less_irrefl)

text \<open>Every field of the context, over the desired names.\<close>

lemma context_fields:
  fixes cluster nodes plans
  defines "ctx \<equiv> buildStaticNodeClusterStatusContext cluster nodes plans"
    and "desired \<equiv> fst (staticNodeClusterDesiredNodeNames cluster)"
    and "headName \<equiv> snd (staticNodeClusterDesiredNodeNames cluster)"
    and "cur \<equiv> map_of (staticNodeByName nodes)"
    and "plan \<equiv> map_of (staticNodeClusterPlanByName plans)"
  assumes ne: "desired \<noteq> {}"
  shows "ctx_DesiredNodes ctx = int (card desired)"
    and "ctx_Upgrade ctx = staticNodeClusterUpgrade cluster nodes plans"
    and "ctx_ReadyNodes ctx = ctx_DesiredNodes ctx \<longleftrightarrow> (\<forall>n \<in> desired. node_ready (cur n))"
    and "ctx_HeadReady ctx \<longleftrightarrow> headName \<in> desired \<and> node_ready (cur headName)"
    and "ctx_WarmReady ctx \<longleftrightarrow> (\<forall>n \<in> desired. node_warm (cur n))"
    and "ctx_AnyNodeFailed ctx \<longleftrightarrow> (\<exists>n \<in> desired. node_failed (cur n))"
    and "ctx_HasMissing ctx \<longleftrightarrow> (\<exists>n \<in> desired. cur n = None)"
    and "ctx_HasStale ctx \<longleftrightarrow> (\<exists>n. Some n \<in> set nodes \<and> node_name n \<notin> desired)"
    and "ctx_HasSpecDrift ctx \<longleftrightarrow> (\<exists>n \<in> desired. staticNodeSpecDrifted (Option.bind (plan n) dp_Node) (cur n))"
    and "ctx_HasStatusDrift ctx \<longleftrightarrow>
      (\<exists>n \<in> desired. cur n \<noteq> None \<and> (node_status (cur n) = None \<or> \<not> components_observed (cur n) (plan n)))"
proof -
  have r: "node_ready (cur headName) \<Longrightarrow> node_status (cur headName) \<noteq> None"
    by (auto simp: node_ready_def split: option.splits)
  note c = context_desired [OF ne [unfolded desired_def], of nodes plans, folded ctx_def desired_def headName_def cur_def plan_def]
  show "ctx_ReadyNodes ctx = ctx_DesiredNodes ctx \<longleftrightarrow> (\<forall>n \<in> desired. node_ready (cur n))"
    using filter_all_length [of "\<lambda>n. node_ready (cur n)" "staticNodeClusterDesiredNodeNameList cluster"]
    by (simp add: c nodes_fold stale_fold card_desired [of cluster, folded desired_def] desired_names(1) [of cluster, folded desired_def])
  show "ctx_HeadReady ctx \<longleftrightarrow> headName \<in> desired \<and> node_ready (cur headName)"
    using r by (auto simp: c nodes_fold stale_fold desired_names(1) [of cluster, folded desired_def])
  show "ctx_DesiredNodes ctx = int (card desired)"
    "ctx_Upgrade ctx = staticNodeClusterUpgrade cluster nodes plans"
    "ctx_WarmReady ctx \<longleftrightarrow> (\<forall>n \<in> desired. node_warm (cur n))"
    "ctx_AnyNodeFailed ctx \<longleftrightarrow> (\<exists>n \<in> desired. node_failed (cur n))"
    "ctx_HasMissing ctx \<longleftrightarrow> (\<exists>n \<in> desired. cur n = None)"
    "ctx_HasStale ctx \<longleftrightarrow> (\<exists>n. Some n \<in> set nodes \<and> node_name n \<notin> desired)"
    "ctx_HasSpecDrift ctx \<longleftrightarrow> (\<exists>n \<in> desired. staticNodeSpecDrifted (Option.bind (plan n) dp_Node) (cur n))"
    "ctx_HasStatusDrift ctx \<longleftrightarrow>
      (\<exists>n \<in> desired. cur n \<noteq> None \<and> (node_status (cur n) = None \<or> \<not> components_observed (cur n) (plan n)))"
    by (simp_all add: c nodes_fold stale_fold desired_names(1) [of cluster, folded desired_def])
qed

lemma cluster_converged_unfold:
  "cluster_converged cluster nodes plans \<longleftrightarrow>
     snd (staticNodeClusterDesiredNodeNames cluster) \<in> fst (staticNodeClusterDesiredNodeNames cluster) \<and>
     (\<nexists>n. Some n \<in> set nodes \<and> node_name n \<notin> fst (staticNodeClusterDesiredNodeNames cluster)) \<and>
     (\<forall>name \<in> fst (staticNodeClusterDesiredNodeNames cluster).
        node_converged (map_of (staticNodeByName nodes) name) (map_of (staticNodeClusterPlanByName plans) name))"
proof -
  have "list_all (\<lambda>p. case p of None \<Rightarrow> True | Some n \<Rightarrow> node_name n \<in> D) nodes \<longleftrightarrow>
      (\<nexists>n. Some n \<in> set nodes \<and> node_name n \<notin> D)" for D
    by (auto simp: list_all_iff split: option.splits)
  then show ?thesis by (simp add: cluster_converged_def split_beta)
qed

lemma converged_iff:
  assumes "fst (staticNodeClusterDesiredNodeNames cluster) \<noteq> {}"
  shows "staticNodeClusterStatusConverged (buildStaticNodeClusterStatusContext cluster nodes plans) \<longleftrightarrow>
    cluster_converged cluster nodes plans"
proof -
  have some: "node_ready x \<Longrightarrow> x \<noteq> None \<and> node_status x \<noteq> None" for x
    by (cases x) (auto simp: node_ready_def split: option.splits)
  show ?thesis
    unfolding staticNodeClusterStatusConverged_def context_fields(3-5,7-10) [OF assms] cluster_converged_unfold node_converged_def
    using some by blast
qed

lemma ready_not_failed: "node_ready x \<Longrightarrow> \<not> node_failed x"
  by (auto simp: node_ready_def node_failed_def split: option.splits)

lemma converged_not_failed: "cluster_converged cluster nodes plans \<Longrightarrow> \<not> cluster_failed cluster nodes"
  by (auto simp: cluster_converged_def cluster_failed_def node_converged_def Let_def split_beta dest: ready_not_failed)

lemma phase_of_context:
  "determineStaticNodeClusterPhase (buildStaticNodeClusterStatusContext cluster nodes plans) =
     (if cluster_failed cluster nodes then StaticNodeClusterPhaseFailed
      else if cluster_converged cluster nodes plans \<and> upgrade_done cluster nodes plans then StaticNodeClusterPhaseReady
      else if staticNodeClusterUpgrade cluster nodes plans \<noteq> None then StaticNodeClusterPhaseUpgrading
      else StaticNodeClusterPhaseProvisioning)"
proof (cases "fst (staticNodeClusterDesiredNodeNames cluster) = {}")
  case True
  then show ?thesis
    by (simp add: determineStaticNodeClusterPhase_def context_empty cluster_failed_def)
next
  case False
  define ctx where "ctx = buildStaticNodeClusterStatusContext cluster nodes plans"
  have d: "ctx_DesiredNodes ctx \<noteq> 0"
    using False context_fields(1) [OF False, of nodes plans] by (simp add: ctx_def)
  have f: "ctx_AnyNodeFailed ctx \<longleftrightarrow> cluster_failed cluster nodes"
    using False context_fields(6) [OF False, of nodes plans] by (simp add: ctx_def cluster_failed_def)
  have u: "ctx_Upgrade ctx = staticNodeClusterUpgrade cluster nodes plans"
    using context_fields(2) [OF False, of nodes plans] by (simp add: ctx_def)
  have c: "staticNodeClusterStatusConverged ctx \<longleftrightarrow> cluster_converged cluster nodes plans"
    using converged_iff [OF False] by (simp add: ctx_def)
  show ?thesis
    unfolding ctx_def [symmetric]
    by (auto simp: determineStaticNodeClusterPhase_def d f u c upgrade_done_def staticNodeClusterUpgradeReady_def
        split: option.splits)
qed

lemma Aggregate_fields:
  "cst_Phase (Aggregate cluster nodes plans) =
     determineStaticNodeClusterPhase (buildStaticNodeClusterStatusContext cluster nodes plans)"
  "cst_ReadyNodes (Aggregate cluster nodes plans) = ctx_ReadyNodes (buildStaticNodeClusterStatusContext cluster nodes plans)"
  "cst_DesiredNodes (Aggregate cluster nodes plans) = ctx_DesiredNodes (buildStaticNodeClusterStatusContext cluster nodes plans)"
  by (auto simp: Aggregate_def Let_def split: option.splits)

lemma context_counts:
  "ctx_DesiredNodes (buildStaticNodeClusterStatusContext cluster nodes plans) =
     int (card (fst (staticNodeClusterDesiredNodeNames cluster)))"
  "ctx_ReadyNodes (buildStaticNodeClusterStatusContext cluster nodes plans) =
     int (card {n \<in> fst (staticNodeClusterDesiredNodeNames cluster). node_ready (map_of (staticNodeByName nodes) n)})"
proof -
  let ?D = "fst (staticNodeClusterDesiredNodeNames cluster)"
  let ?l = "staticNodeClusterDesiredNodeNameList cluster"
  let ?P = "\<lambda>n. node_ready (map_of (staticNodeByName nodes) n)"
  have s: "set (filter ?P ?l) = {n \<in> ?D. ?P n}"
    using desired_names(1) [of cluster] by auto
  have l: "card {n \<in> ?D. ?P n} = length (filter ?P ?l)"
    using distinct_card [of "filter ?P ?l"] desired_names(2) [of cluster] by (simp only: s distinct_filter)
  show "ctx_ReadyNodes (buildStaticNodeClusterStatusContext cluster nodes plans) = int (card {n \<in> ?D. ?P n})"
  proof (cases "?D = {}")
    case True
    then show ?thesis by (simp add: context_empty)
  next
    case False
    then show ?thesis unfolding l by (simp add: context_desired nodes_fold stale_fold)
  qed
  show "ctx_DesiredNodes (buildStaticNodeClusterStatusContext cluster nodes plans) = int (card ?D)"
    using context_empty(1) context_fields(1) by (cases "?D = {}") simp_all
qed

section \<open>Properties\<close>

definition phase_spec ::
  "static_node_cluster ptr \<Rightarrow> static_node ptr list \<Rightarrow> desired_node_plan list \<Rightarrow> string" where
  "phase_spec cluster nodes plans =
     (if cluster_failed cluster nodes then StaticNodeClusterPhaseFailed
      else if cluster_converged cluster nodes plans \<and> upgrade_done cluster nodes plans then StaticNodeClusterPhaseReady
      else if staticNodeClusterUpgrade cluster nodes plans \<noteq> None then StaticNodeClusterPhaseUpgrading
      else StaticNodeClusterPhaseProvisioning)"

text \<open>
  C7: the phase that \<open>Aggregate\<close> computes by collecting flags over all nodes is the phase of the
  abstract specification: failed exactly when there are no desired nodes or one of them failed,
  otherwise ready exactly when the cluster has converged and a running upgrade has reached its
  target, otherwise upgrading or provisioning.
\<close>

theorem Aggregate_refines_phase_spec:
  "cst_Phase (Aggregate cluster nodes plans) = phase_spec cluster nodes plans"
  by (simp only: Aggregate_fields phase_of_context phase_spec_def)

text \<open>
  C8: the counters of the status are the number of desired names and the number of those whose node
  is ready, so the ready count lies between zero and the desired count.
\<close>

theorem Aggregate_counts:
  fixes cluster nodes plans
  defines "desired \<equiv> fst (staticNodeClusterDesiredNodeNames cluster)"
  shows "cst_DesiredNodes (Aggregate cluster nodes plans) = int (card desired) \<and>
    cst_ReadyNodes (Aggregate cluster nodes plans) =
      int (card {n \<in> desired. node_ready (map_of (staticNodeByName nodes) n)}) \<and>
    0 \<le> cst_ReadyNodes (Aggregate cluster nodes plans) \<and>
    cst_ReadyNodes (Aggregate cluster nodes plans) \<le> cst_DesiredNodes (Aggregate cluster nodes plans)"
proof -
  have "card {n \<in> desired. node_ready (map_of (staticNodeByName nodes) n)} \<le> card desired"
    unfolding desired_def by (rule card_mono) auto
  then show ?thesis
    by (simp add: Aggregate_fields context_counts desired_def [symmetric])
qed

definition ray_alive :: "(string \<Rightarrow> go_error + ray_node list) \<Rightarrow> static_node_cluster ptr \<Rightarrow> bool" where
  "ray_alive listNodes cluster =
     (case listNodes (DashboardURL cluster) of
        Inl _ \<Rightarrow> False
      | Inr rays \<Rightarrow>
          (case cluster_spec cluster of
             None \<Rightarrow> True
           | Some s \<Rightarrow> list_all (\<lambda>n. ns_IP n = [] \<or>
                 list_ex (\<lambda>r. rn_IP r = ns_IP n \<and> rn_RayletState r = AliveNodeState) rays) (els (cls_Nodes s))))"

lemma sort_nil [simp]: "sort xs = [] \<longleftrightarrow> xs = []" for xs :: "'a::linorder list"
  by (metis sort_key_simps(1) set_empty set_sort)

lemma verifyRayCluster_None: "verifyRayCluster listNodes cluster = None \<longleftrightarrow> ray_alive listNodes cluster"
proof (cases "listNodes (DashboardURL cluster)")
  case (Inr rays)
  have alive: "ip \<in> rn_IP ` {r \<in> set rays. rn_RayletState r = AliveNodeState} \<longleftrightarrow>
      list_ex (\<lambda>r. rn_IP r = ip \<and> rn_RayletState r = AliveNodeState) rays" for ip
    by (auto simp: list_ex_iff)
  show ?thesis
  proof (cases "cluster_spec cluster")
    case (Some s)
    then show ?thesis
      using Inr by (auto simp: verifyRayCluster_def ray_alive_def missingDesiredRayNodeIPs_def filter_empty_conv
          list_all_iff Let_def alive)
  qed (simp add: verifyRayCluster_def ray_alive_def missingDesiredRayNodeIPs_def Inr)
qed (simp add: verifyRayCluster_def ray_alive_def)

text \<open>
  C9: a reconcile reports a cluster as ready exactly when the nodes have converged and Ray's
  dashboard answered and lists every address of the specification as alive.
\<close>

theorem cluster_reported_ready_iff:
  "cst_Phase (RequireRayClusterReady L listNodes cluster (Aggregate cluster nodes plans)) = StaticNodeClusterPhaseReady \<longleftrightarrow>
     phase_spec cluster nodes plans = StaticNodeClusterPhaseReady \<and> ray_alive listNodes cluster"
proof -
  have "cst_Phase (Aggregate cluster nodes plans) = phase_spec cluster nodes plans"
    by (simp only: Aggregate_fields phase_of_context phase_spec_def)
  then show ?thesis
    by (auto simp: RequireRayClusterReady_def verifyRayCluster_None [symmetric] split: option.splits)
qed

text \<open>
  C10: when a cluster that is not being upgraded is not ready, the new status carries no version, and
  with such a status no later change of the specified version is treated as an upgrade: the plan of
  the next reconcile is not staged.
\<close>

theorem version_lost_when_not_ready:
  assumes "staticNodeClusterUpgrade cluster nodes plans = None"
    and "cst_Phase (Aggregate cluster nodes plans) \<noteq> StaticNodeClusterPhaseReady"
    and "snc_Status next = Some (Aggregate cluster nodes plans)"
  shows "cst_Version (Aggregate cluster nodes plans) = [] \<and>
    staticNodeClusterUpgrade (Some next) nodes' plans' = None \<and>
    applyRayRecreateUpgradePlan (Some next) cur' plans' = plans'"
proof -
  have u: "ctx_Upgrade (buildStaticNodeClusterStatusContext cluster nodes plans) = None"
  proof (cases "fst (staticNodeClusterDesiredNodeNames cluster) = {}")
    case True
    then show ?thesis
      using assms(1) by (simp add: buildStaticNodeClusterStatusContext_def Let_def split_beta block_def)
  next
    case False
    then show ?thesis using assms(1) by (simp add: context_fields)
  qed
  moreover have "determineStaticNodeClusterPhase (buildStaticNodeClusterStatusContext cluster nodes plans) \<noteq>
      StaticNodeClusterPhaseReady"
    using assms(2) by (simp only: Aggregate_fields simp_thms)
  ultimately have v: "cst_Version (Aggregate cluster nodes plans) = []"
    by (simp add: Aggregate_def Let_def)
  then have "staticNodeClusterUpgrade (Some next) ns ps = None" for ns ps
    using assms(3) by (simp add: staticNodeClusterUpgrade_def split: option.splits)
  then show ?thesis using v by (simp add: applyRayRecreateUpgradePlan_def)
qed

theorem version_lost_when_not_ready_witness:
  "let cluster = sample_cluster (Some (zero_cluster_status\<lparr>cst_Phase := ''Ready'', cst_Version := ''v2''\<rparr>));
       lost = Aggregate (Some cluster) [] [] in
   cst_Phase lost = StaticNodeClusterPhaseProvisioning \<and> cst_Version lost = [] \<and>
   staticNodeClusterUpgrade (Some (cluster\<lparr>snc_Status := Some lost\<rparr>)) [] [] = None"
proof -
  let ?c = "sample_cluster (Some (zero_cluster_status\<lparr>cst_Phase := ''Ready'', cst_Version := ''v2''\<rparr>))"
  have u: "staticNodeClusterUpgrade (Some ?c) [] [] = None"
    by (simp add: staticNodeClusterUpgrade_def sample_cluster_def)
  have f: "\<not> cluster_failed (Some ?c) []" "\<not> cluster_converged (Some ?c) [] []"
    by (simp_all add: cluster_failed_def cluster_converged_def staticNodeClusterDesiredNodeNames_def sample_cluster_def
        staticNodeByName_def node_failed_def node_converged_def node_ready_def)
  have p: "cst_Phase (Aggregate (Some ?c) [] []) = StaticNodeClusterPhaseProvisioning"
    using u f by (simp add: Aggregate_fields phase_of_context)
  show ?thesis
    using version_lost_when_not_ready [OF u, of "?c\<lparr>snc_Status := Some (Aggregate (Some ?c) [] [])\<rparr>" "[]" "[]"] p
    by (simp add: Let_def)
qed

end
