(* ===== verification/Command_Runner.thy ===== *)
theory Command_Runner
  imports Shell_Quote Api_Types
begin

text \<open>
  Running commands and writing files on a remote host over SSH: \<open>pkg/command_runner/ssh_command_runner.go\<close>
  and \<open>pkg/command_runner/file_client.go\<close>. The world is an abstract type; what the program does to it
  is executing a process and using the local temporary directory, the fields of the record \<open>os\<close>. An
  operation takes the world as its last argument and returns it changed.
\<close>

section \<open>The operating system\<close>

record 'w os =
  os_Execute :: "string \<Rightarrow> string list \<Rightarrow> 'w \<Rightarrow> (string \<times> go_error option) \<times> 'w"
  os_CreateTemp :: "string \<Rightarrow> string \<Rightarrow> 'w \<Rightarrow> (go_error + string) \<times> 'w"
  os_Write :: "string \<Rightarrow> string \<Rightarrow> 'w \<Rightarrow> go_error option \<times> 'w"
  os_Close :: "string \<Rightarrow> 'w \<Rightarrow> go_error option \<times> 'w"
  os_Remove :: "string \<Rightarrow> 'w \<Rightarrow> 'w"
  os_MkdirTemp :: "string \<Rightarrow> string \<Rightarrow> 'w \<Rightarrow> (go_error + string) \<times> 'w"
  os_WriteFile :: "string \<Rightarrow> string \<Rightarrow> 'w \<Rightarrow> go_error option \<times> 'w"
  os_RemoveAll :: "string \<Rightarrow> 'w \<Rightarrow> go_error option \<times> 'w"

text \<open>\<open>path.Clean\<close> and \<open>path.Dir\<close>: lexical processing of the elements of a path.\<close>

fun clean_elems :: "bool \<Rightarrow> string list \<Rightarrow> string list \<Rightarrow> string list" where
  "clean_elems rooted out [] = out"
| "clean_elems rooted out (e # es) =
     (if e = [] \<or> e = ''.'' then clean_elems rooted out es
      else if e = ''..'' then
        (if out \<noteq> [] \<and> last out \<noteq> ''..'' then clean_elems rooted (butlast out) es
         else if rooted then clean_elems rooted out es
         else clean_elems rooted (out @ [e]) es)
      else clean_elems rooted (out @ [e]) es)"

definition path_Clean :: "string \<Rightarrow> string" where
  "path_Clean p =
     (let rooted = (p \<noteq> [] \<and> hd p = CHR 0x2F);
          out = clean_elems rooted [] (Split p CHR 0x2F)
      in if rooted then CHR 0x2F # Join out ''/'' else if out = [] then ''.'' else Join out ''/'')"

definition path_Dir :: "string \<Rightarrow> string" where
  "path_Dir p = path_Clean (rev (dropWhile (\<lambda>c. c \<noteq> CHR 0x2F) (rev p)))"

section \<open>The SSH command runner\<close>

record ssh_command_runner =
  ssh_nodeID :: string
  ssh_PrivateKey :: string
  ssh_User :: string
  ssh_ControlPath :: string
  ssh_IP :: string

definition NewSSHCommandRunner :: "string \<Rightarrow> string \<Rightarrow> auth \<Rightarrow> string \<Rightarrow> ssh_command_runner" where
  "NewSSHCommandRunner nodeID sshIP authConfig sshControlPath =
     \<lparr>ssh_nodeID = nodeID, ssh_PrivateKey = auth_SSHPrivateKey authConfig, ssh_User = auth_SSHUser authConfig,
      ssh_ControlPath = sshControlPath, ssh_IP = sshIP\<rparr>"

definition staticClusterConnectionHint :: string where
  "staticClusterConnectionHint =
     ''verify the node IP is the physical server '' @
     ''address (not the management plane IP), the ssh_user can log in to that host, '' @
     ''and the ssh_private_key matches''"

definition sshConnectionError :: "string \<Rightarrow> string \<Rightarrow> go_error" where
  "sshConnectionError ip cause =
     ErrNew (''ssh connection failed to node '' @ ip @ '': '' @ cause @ '' (hint: '' @ staticClusterConnectionHint @ '')'')"

definition getSSHOptions :: "ssh_command_runner \<Rightarrow> string \<Rightarrow> string list" where
  "getSSHOptions s sshOptionsOverrideSSHKey =
     (let sshKey = (if sshOptionsOverrideSSHKey \<noteq> [] then sshOptionsOverrideSSHKey else ssh_PrivateKey s)
      in [''-o'', ''StrictHostKeyChecking=no'', ''-o'', ''UserKnownHostsFile=/dev/null'', ''-o'', ''LogLevel=ERROR'',
          ''-o'', ''IdentitiesOnly=yes'', ''-o'', ''ExitOnForwardFailure=yes'', ''-o'', ''ServerAliveInterval=5'',
          ''-o'', ''ServerAliveCountMax=3''] @
         (if ssh_ControlPath s \<noteq> []
          then [''-o'', ''ControlMaster=auto'', ''-o'', ''ControlPath='' @ ssh_ControlPath s @ ''/%C'',
                ''-o'', ''ControlPersist=10s''] else []) @
         (if sshKey \<noteq> [] then [''-i'', sshKey] else []))"

definition checkConnection :: "'w os \<Rightarrow> err_lib \<Rightarrow> string list \<Rightarrow> 'w \<Rightarrow> go_error option \<times> 'w" where
  "checkConnection OS L sshCommand w =
     (let connectCommand = butlast sshCommand @ [''-o'', ''ConnectTimeout=10''] @ [last sshCommand] @ [''uptime'']
      in case os_Execute OS (hd connectCommand) (tl connectCommand) w of
           ((_, None), w1) \<Rightarrow> (None, w1)
         | ((output, Some e), w1) \<Rightarrow>
             (let outputText = TrimSpace output
              in (Some (if outputText \<noteq> [] then ErrNew (error_text L e @ '': '' @ outputText) else e), w1)))"

text \<open>The environment is the list of its entries, rendered, in the order the map is walked.\<close>

definition prependEnvVars :: "string \<Rightarrow> (string \<times> string) list \<Rightarrow> string" where
  "prependEnvVars cmd environmentVariables =
     Join (map (\<lambda>(k, v). ''export '' @ k @ ''='' @ v @ '';'') environmentVariables) [] @ cmd"

definition Run ::
  "'w os \<Rightarrow> err_lib \<Rightarrow> ssh_command_runner \<Rightarrow> string \<Rightarrow> bool \<Rightarrow> string slice \<Rightarrow> bool \<Rightarrow>
   (string \<times> string) list option \<Rightarrow> string \<Rightarrow> bool \<Rightarrow> 'w \<Rightarrow> (go_error + string) \<times> 'w" where
  "Run OS L s cmd0 exitOnFail portForward withOutput environmentVariables sshOptionsOverrideSSHKey shutdownAfterRun w =
     (let sshCommand = [''ssh''] @ concat (map (\<lambda>pf. [''-L'', pf]) (els portForward)) @
            getSSHOptions s sshOptionsOverrideSSHKey @ [ssh_User s @ ''@'' @ ssh_IP s]
      in case checkConnection OS L sshCommand w of
           (Some e, w1) \<Rightarrow> (Inl (sshConnectionError (ssh_IP s) (error_text L e)), w1)
         | (None, w1) \<Rightarrow>
             (let cmd1 = (if shutdownAfterRun then cmd0 @ ''; sudo shutdown -h now'' else cmd0);
                  cmd = (if cmd1 \<noteq> [] then
                           (case environmentVariables of None \<Rightarrow> cmd1 | Some env \<Rightarrow> prependEnvVars cmd1 env)
                         else ''while true; do sleep 86400; done'');
                  full = sshCommand @ [cmd]
              in case os_Execute OS (hd full) (tl full) w1 of
                   ((output, Some _), w2) \<Rightarrow>
                     if exitOnFail then
                       (Inl (ErrNew (''command failed:'' @ [newline, newline] @ ''  '' @ Join full '' '' @ [newline])), w2)
                     else
                       (Inl (ErrNew (''SSH command failed.'' @
                          (if output \<noteq> [] then [newline] @ output @ [newline] @
                             ''See above for the output from the failure.'' else []))), w2)
                 | ((output, None), w2) \<Rightarrow> (Inr (if withOutput then output else []), w2)))"

section \<open>The file client\<close>

record write_file_options =
  wfo_Mode :: string
  wfo_Owner :: string
  wfo_Group :: string
  wfo_Sudo :: bool
  wfo_Atomic :: bool
  wfo_CreateParent :: bool

definition sha256Hex :: "string \<Rightarrow> string" where
  "sha256Hex content = hex_EncodeToString (Sum256 content)"

definition withSudo :: "bool \<Rightarrow> string \<Rightarrow> string" where
  "withSudo sudo command = (if sudo then ''sudo sh -c '' @ shellQuote command else command)"

definition isSHA256Hex :: "string \<Rightarrow> bool" where
  "isSHA256Hex value \<longleftrightarrow>
     length value = 64 \<and> list_all (\<lambda>c. is_digit c \<or> in_range 97 102 c \<or> in_range 65 70 c) value"

text \<open>The first hash of each line, and of those the one of the last line that has one.\<close>

definition line_hash :: "string \<Rightarrow> string \<Rightarrow> string" where
  "line_hash line hash =
     (case List.find isSHA256Hex (Fields line) of None \<Rightarrow> hash | Some field \<Rightarrow> ToLower field)"

definition remoteSHA256FromOutput :: "string \<Rightarrow> string" where
  "remoteSHA256FromOutput output = fold line_hash (Split output newline) []"

definition writeTempFile :: "'w os \<Rightarrow> string \<Rightarrow> 'w \<Rightarrow> (go_error + string) \<times> 'w" where
  "writeTempFile OS content w =
     (case os_CreateTemp OS [] ''neutree-remote-file-*'' w of
        (Inl e, w1) \<Rightarrow> (Inl (ErrWrap e ''failed to create local temp file''), w1)
      | (Inr name, w1) \<Rightarrow>
          (case os_Write OS name content w1 of
             (Some e, w2) \<Rightarrow>
               (Inl (ErrWrap e ''failed to write local temp file''), os_Remove OS name (snd (os_Close OS name w2)))
           | (None, w2) \<Rightarrow>
               (case os_Close OS name w2 of
                  (Some e, w3) \<Rightarrow> (Inl (ErrWrap e ''failed to close local temp file''), os_Remove OS name w3)
                | (None, w3) \<Rightarrow> (Inr name, w3))))"

definition upload :: "'w os \<Rightarrow> ssh_command_runner \<Rightarrow> string \<Rightarrow> string \<Rightarrow> 'w \<Rightarrow> go_error option \<times> 'w" where
  "upload OS s localPath remotePath w =
     (case os_Execute OS ''scp'' (getSSHOptions s [] @ [localPath, ssh_User s @ ''@'' @ ssh_IP s @ '':'' @ remotePath]) w of
        ((_, Some e), w1) \<Rightarrow> (Some (ErrWrap e ''failed to upload remote file''), w1)
      | ((_, None), w1) \<Rightarrow> (None, w1))"

definition install_parts :: "write_file_options \<Rightarrow> string list" where
  "install_parts opts =
     [''install'', ''-m'', (if wfo_Mode opts = [] then ''0644'' else wfo_Mode opts)] @
     (if wfo_Owner opts \<noteq> [] then [''-o'', shellQuote (wfo_Owner opts)] else []) @
     (if wfo_Group opts \<noteq> [] then [''-g'', shellQuote (wfo_Group opts)] else [])"

definition installCommand :: "string \<Rightarrow> string \<Rightarrow> string \<Rightarrow> write_file_options \<Rightarrow> string" where
  "installCommand remoteTmpPath remotePath hashPrefix opts =
     (if \<not> wfo_Atomic opts then
        Join [withSudo (wfo_Sudo opts) (Join (install_parts opts @ [shellQuote remoteTmpPath, shellQuote remotePath]) '' ''),
              withSudo (wfo_Sudo opts) (''rm -f '' @ shellQuote remoteTmpPath)] '' && ''
      else
        let stagedPath = remotePath @ ''.neutree-tmp-'' @ hashPrefix
        in Join [withSudo (wfo_Sudo opts) (Join (install_parts opts @ [shellQuote remoteTmpPath, shellQuote stagedPath]) '' ''),
                 withSudo (wfo_Sudo opts) (''mv '' @ shellQuote stagedPath @ '' '' @ shellQuote remotePath),
                 withSudo (wfo_Sudo opts) (''rm -f '' @ shellQuote remoteTmpPath)] '' && '')"

definition remote_sha_command :: "string \<Rightarrow> string" where
  "remote_sha_command remotePath =
     ''if command -v sha256sum >/dev/null 2>&1 && test -f '' @ shellQuote remotePath @
     ''; then sha256sum '' @ shellQuote remotePath @ '' | awk '' @ [squote] @ ''{print $1}'' @ [squote] @ ''; fi''"

definition remoteSha256 ::
  "'w os \<Rightarrow> err_lib \<Rightarrow> ssh_command_runner \<Rightarrow> string \<Rightarrow> bool \<Rightarrow> 'w \<Rightarrow> (go_error + string) \<times> 'w" where
  "remoteSha256 OS L s remotePath sudo w =
     (case Run OS L s (withSudo sudo (remote_sha_command remotePath)) True None True None [] False w of
        (Inl e, w1) \<Rightarrow> (Inl (ErrWrap e ''failed to calculate remote file hash''), w1)
      | (Inr output, w1) \<Rightarrow> (Inr (remoteSHA256FromOutput output), w1))"

text \<open>The local copy is removed on every way out of \<open>writeFile\<close> once it exists.\<close>

definition write_uploaded ::
  "'w os \<Rightarrow> err_lib \<Rightarrow> ssh_command_runner \<Rightarrow> string \<Rightarrow> string \<Rightarrow> string \<Rightarrow> write_file_options \<Rightarrow> 'w \<Rightarrow> go_error option \<times> 'w" where
  "write_uploaded OS L s localPath remotePath content opts w =
     (let hash = sha256Hex content;
          remoteTmpPath = ''/tmp/neutree-remote-file-'' @ take 16 hash @ ''-'' @ take 16 (sha256Hex remotePath) @ ''.tmp''
      in case upload OS s localPath remoteTmpPath w of
           (Some e, w1) \<Rightarrow> (Some e, w1)
         | (None, w1) \<Rightarrow>
             (case (if wfo_CreateParent opts
                    then Run OS L s (withSudo (wfo_Sudo opts) (''mkdir -p '' @ shellQuote (path_Dir remotePath)))
                           True None False None [] False w1
                    else (Inr [], w1)) of
                (Inl e, w2) \<Rightarrow> (Some (ErrWrap e ''failed to create remote parent directory''), w2)
              | (Inr _, w2) \<Rightarrow>
                  (case Run OS L s (installCommand remoteTmpPath remotePath (take 16 hash) opts) True None False None [] False w2 of
                     (Inl e, w3) \<Rightarrow> (Some (ErrWrap e ''failed to install remote file''), w3)
                   | (Inr _, w3) \<Rightarrow> (None, w3))))"

definition writeFile ::
  "'w os \<Rightarrow> err_lib \<Rightarrow> ssh_command_runner \<Rightarrow> string \<Rightarrow> string \<Rightarrow> write_file_options \<Rightarrow> 'w \<Rightarrow> go_error option \<times> 'w" where
  "writeFile OS L s remotePath content opts w =
     (case writeTempFile OS content w of
        (Inl e, w1) \<Rightarrow> (Some e, w1)
      | (Inr localPath, w1) \<Rightarrow>
          (case write_uploaded OS L s localPath remotePath content opts w1 of
             (r, w2) \<Rightarrow> (r, os_Remove OS localPath w2)))"

definition WriteFileIfChanged ::
  "'w os \<Rightarrow> err_lib \<Rightarrow> ssh_command_runner \<Rightarrow> string \<Rightarrow> string \<Rightarrow> write_file_options \<Rightarrow> 'w \<Rightarrow> (go_error + bool) \<times> 'w" where
  "WriteFileIfChanged OS L s remotePath content opts w =
     (let localHash = sha256Hex content in
      case remoteSha256 OS L s remotePath (wfo_Sudo opts) w of
        (Inl e, w1) \<Rightarrow> (Inl e, w1)
      | (Inr remoteHash, w1) \<Rightarrow>
          if remoteHash = localHash then (Inr False, w1)
          else (case writeFile OS L s remotePath content opts w1 of
                  (Some e, w2) \<Rightarrow> (Inl e, w2)
                | (None, w2) \<Rightarrow> (Inr True, w2)))"

definition Remove ::
  "'w os \<Rightarrow> err_lib \<Rightarrow> ssh_command_runner \<Rightarrow> string \<Rightarrow> bool \<Rightarrow> 'w \<Rightarrow> go_error option \<times> 'w" where
  "Remove OS L s remotePath sudo w =
     (case Run OS L s (withSudo sudo (''rm -f '' @ shellQuote remotePath)) True None False None [] False w of
        (Inl e, w1) \<Rightarrow> (Some (ErrWrap e ''failed to remove remote file''), w1)
      | (Inr _, w1) \<Rightarrow> (None, w1))"

section \<open>Facts\<close>

lemma length_sha256Hex [simp]: "length (sha256Hex s) = 64"
  by (simp add: sha256Hex_def)

lemma sha256Hex_chars: "c \<in> set (sha256Hex s) \<Longrightarrow> is_hex_lower c"
  unfolding sha256Hex_def by (rule hex_EncodeToString_lower)

lemma hex_lower_facts:
  "is_hex_lower c \<Longrightarrow> is_digit c \<or> in_range 97 102 c"
  "is_hex_lower c \<Longrightarrow> \<not> is_space c"
  "is_hex_lower c \<Longrightarrow> to_lower c = c"
  "is_hex_lower c \<Longrightarrow> c \<noteq> newline"
  by (auto simp: is_hex_lower_def is_digit_def in_range_def is_space_def to_lower_def is_upper_def)

lemma isSHA256Hex_sha256Hex: "isSHA256Hex (sha256Hex s)"
  using sha256Hex_chars hex_lower_facts(1) by (auto simp: isSHA256Hex_def list_all_iff)

lemma ToLower_sha256Hex: "ToLower (sha256Hex s) = sha256Hex s"
  unfolding ToLower_def by (rule map_idI) (rule hex_lower_facts(3) [OF sha256Hex_chars])

lemma line_hash_sha256Hex: "line_hash (sha256Hex s) h = sha256Hex s"
proof -
  have "sha256Hex s \<noteq> []"
  proof
    assume "sha256Hex s = []"
    with length_sha256Hex [of s] show False by simp
  qed
  moreover have "\<forall>c \<in> set (sha256Hex s). \<not> is_space c"
    using sha256Hex_chars hex_lower_facts(2) by blast
  ultimately have "Fields (sha256Hex s) = [sha256Hex s]"
    by (simp add: Fields_def FieldsFunc_clean)
  then show ?thesis
    by (simp add: line_hash_def isSHA256Hex_sha256Hex ToLower_sha256Hex)
qed

lemma line_hash_Nil [simp]: "line_hash [] h = h"
  by (simp add: line_hash_def Fields_def FieldsFunc_def)

lemma Split_append: "Split (s @ c # t) c = Split s c @ Split t c"
  by (simp add: Split_def split_at_append)

lemma remote_hash_aux:
  "remoteSHA256FromOutput (banner @ [newline] @ sha256Hex content @ [newline]) = sha256Hex content"
proof -
  have "\<forall>c \<in> set (sha256Hex content). \<not> c = newline"
    using sha256Hex_chars hex_lower_facts(4) by blast
  then have "Split (sha256Hex content) newline = [sha256Hex content]"
    by (simp add: Split_def split_at_clean)
  then have "Split (banner @ newline # sha256Hex content @ [newline]) newline =
      Split banner newline @ [sha256Hex content, []]"
    by (simp add: Split_append) (simp add: Split_def)
  then show ?thesis
    by (simp add: remoteSHA256FromOutput_def line_hash_sha256Hex)
qed

lemma plain_simps:
  "sh_denotes ''sudo'' ''sudo''" "sh_denotes ''sh'' ''sh''" "sh_denotes ''-c'' ''-c''" "sh_denotes ''install'' ''install''"
  "sh_denotes ''-m'' ''-m''" "sh_denotes ''-o'' ''-o''" "sh_denotes ''-g'' ''-g''" "sh_denotes ''0644'' ''0644''"
  by (rule sh_denotes_plain; simp add: sh_plain_char_def is_lower_def is_upper_def is_digit_def in_range_def)+

section \<open>Properties\<close>

text \<open>
  C11: whatever a login banner or \<open>sudo\<close> prints before it, the hash printed for a file with the
  given content is read back as the hash of that content.
\<close>

theorem remote_hash_recovered:
  "remoteSHA256FromOutput (banner @ [newline] @ sha256Hex content @ [newline]) = sha256Hex content"
  by (rule remote_hash_aux)

text \<open>
  A file whose hash on the host is the hash of the wanted content is reported unchanged and
  nothing is written: the world is the one after the hash was read.
\<close>

theorem WriteFileIfChanged_unchanged:
  assumes "Run OS L s (withSudo (wfo_Sudo opts) (remote_sha_command path)) True None True None [] False w =
    (Inr (banner @ [newline] @ sha256Hex content @ [newline]), w')"
  shows "WriteFileIfChanged OS L s path content opts w = (Inr False, w')"
  by (simp add: WriteFileIfChanged_def remoteSha256_def assms remote_hash_aux [simplified])

definition echo_os :: "string \<Rightarrow> unit os" where
  "echo_os out = \<lparr>os_Execute = \<lambda>c as w. ((out, None), w), os_CreateTemp = \<lambda>d p w. (Inr p, w),
     os_Write = \<lambda>n c w. (None, w), os_Close = \<lambda>n w. (None, w), os_Remove = \<lambda>n w. w,
     os_MkdirTemp = \<lambda>d p w. (Inr ''/tmp/dir'', w), os_WriteFile = \<lambda>n c w. (None, w), os_RemoveAll = \<lambda>n w. (None, w)\<rparr>"

definition sample_ssh :: ssh_command_runner where
  "sample_ssh = NewSSHCommandRunner ''n'' ''10.0.0.1'' \<lparr>auth_SSHUser = ''root'', auth_SSHPrivateKey = []\<rparr> []"

definition sample_opts :: write_file_options where
  "sample_opts = \<lparr>wfo_Mode = ''0644'', wfo_Owner = ''root'', wfo_Group = ''root'', wfo_Sudo = True, wfo_Atomic = True,
     wfo_CreateParent = True\<rparr>"

theorem WriteFileIfChanged_unchanged_witness:
  "WriteFileIfChanged (echo_os (''hello'' @ [newline] @ sha256Hex ''x'' @ [newline])) plain_errors sample_ssh
     ''/etc/x'' ''x'' sample_opts () = (Inr False, ())"
  by (rule WriteFileIfChanged_unchanged [where banner = "''hello''"])
    (simp add: Run_def checkConnection_def echo_os_def Let_def)

text \<open>
  A command run with \<open>sudo\<close> reaches the inner shell as it is: the outer shell splits the line
  into \<open>sudo\<close>, \<open>sh\<close>, \<open>-c\<close> and one word that is the command, whatever quotes the command contains.
\<close>

theorem withSudo_words: "sh_words (withSudo True command) = Some [''sudo'', ''sh'', ''-c'', command]"
proof -
  have "sh_words (Join [''sudo'', ''sh'', ''-c'', shellQuote command] '' '') = Some [''sudo'', ''sh'', ''-c'', command]"
    by (rule sh_words_Join) (simp add: plain_simps fq.quote_denotes)
  then show ?thesis by (simp add: withSudo_def)
qed

definition install_words :: "write_file_options \<Rightarrow> string list" where
  "install_words opts =
     [''install'', ''-m'', (if wfo_Mode opts = [] then ''0644'' else wfo_Mode opts)] @
     (if wfo_Owner opts \<noteq> [] then [''-o'', wfo_Owner opts] else []) @
     (if wfo_Group opts \<noteq> [] then [''-g'', wfo_Group opts] else [])"

text \<open>The commands that installing a file should run, each with its words.\<close>

definition install_steps :: "string \<Rightarrow> string \<Rightarrow> string \<Rightarrow> write_file_options \<Rightarrow> string list list" where
  "install_steps tmp path hash opts =
     (let target = (if wfo_Atomic opts then path @ ''.neutree-tmp-'' @ hash else path) in
      [install_words opts @ [tmp, target]] @
      (if wfo_Atomic opts then [[''mv'', target, path]] else []) @
      [[''rm'', ''-f'', tmp]])"

text \<open>The words of the command that a command of the outer shell runs: its own, or under \<open>sudo\<close> those of the inner shell.\<close>

definition run_words :: "bool \<Rightarrow> string list \<Rightarrow> string list option" where
  "run_words sudo ws =
     (if \<not> sudo then Some ws
      else if length ws = 4 \<and> take 3 ws = [''sudo'', ''sh'', ''-c''] then sh_words (last ws) else None)"

definition sudo_parts :: "bool \<Rightarrow> string list \<Rightarrow> string list" where
  "sudo_parts sudo ps = (if sudo then [''sudo'', ''sh'', ''-c'', shellQuote (Join ps '' '')] else ps)"

definition sudo_words :: "bool \<Rightarrow> string list \<Rightarrow> string list \<Rightarrow> string list" where
  "sudo_words sudo ps vs = (if sudo then [''sudo'', ''sh'', ''-c'', Join ps '' ''] else vs)"

definition piece :: "string \<Rightarrow> string \<Rightarrow> bool" where
  "piece p v \<longleftrightarrow> sh_denotes p v \<and> sh_closed p"

lemma piece_plain: "w \<noteq> [] \<Longrightarrow> \<forall>c \<in> set w. sh_plain_char c \<Longrightarrow> piece w w"
  by (simp add: piece_def sh_denotes_plain sh_closed_plain)

lemma piece_quote: "piece (shellQuote v) v"
  by (simp add: piece_def fq.quote_denotes fq.quote_closed)

lemma piece_simps:
  "piece ''sudo'' ''sudo''" "piece ''sh'' ''sh''" "piece ''-c'' ''-c''" "piece ''install'' ''install''" "piece ''mv'' ''mv''"
  "piece ''rm'' ''rm''" "piece ''-f'' ''-f''" "piece ''-m'' ''-m''" "piece ''-o'' ''-o''" "piece ''-g'' ''-g''" "piece ''0644'' ''0644''"
  by (rule piece_plain; simp add: sh_plain_char_def is_lower_def is_upper_def is_digit_def in_range_def)+

lemma pieces_shell:
  assumes "list_all2 piece ps vs"
  shows "list_all2 sh_denotes ps vs" "\<forall>p \<in> set ps. sh_closed p"
  using assms by (auto simp: piece_def list_all2_conv_all_nth in_set_conv_nth)

lemma sudo_pieces: "list_all2 piece ps vs \<Longrightarrow> list_all2 piece (sudo_parts sudo ps) (sudo_words sudo ps vs)"
  by (simp add: sudo_parts_def sudo_words_def piece_simps piece_quote)

lemma withSudo_parts: "withSudo sudo (Join ps '' '') = Join (sudo_parts sudo ps) '' ''"
  by (simp add: withSudo_def sudo_parts_def)

lemma run_sudo_words: "list_all2 piece ps vs \<Longrightarrow> run_words sudo (sudo_words sudo ps vs) = Some vs"
  by (simp add: run_words_def sudo_words_def sh_words_Join pieces_shell)

text \<open>Commands built from pieces, each under \<open>sudo\<close> or not, run with the words of the pieces.\<close>

lemma sudo_commands:
  assumes "cs \<noteq> []" "list_all2 (\<lambda>ps vs. ps \<noteq> [] \<and> list_all2 piece ps vs) cs vss"
  shows "Option.bind (sh_and_list (Join (map (\<lambda>ps. withSudo sudo (Join ps '' '')) cs) '' && ''))
    (\<lambda>ws. those (map (run_words sudo) ws)) = Some vss"
proof -
  let ?ws = "map2 (sudo_words sudo) cs vss"
  have "list_all2 (\<lambda>ps vs. ps \<noteq> [] \<and> (\<forall>p \<in> set ps. sh_closed p) \<and> list_all2 sh_denotes ps vs) (map (sudo_parts sudo) cs) ?ws"
    using assms(2)
  proof (induction rule: list_all2_induct)
    case (Cons ps cs vs vss)
    then show ?case using pieces_shell [OF sudo_pieces [of ps vs sudo]] by (simp add: sudo_parts_def)
  qed simp
  then have "sh_and_list (Join (map (\<lambda>ps. Join ps '' '') (map (sudo_parts sudo) cs)) '' && '') = Some ?ws"
    using assms(1) by (intro sh_and_list_Join) simp_all
  moreover have "those (map (run_words sudo) ?ws) = Some vss"
    using assms(2) by (induction rule: list_all2_induct) (simp_all add: run_sudo_words)
  ultimately show ?thesis by (simp add: withSudo_parts comp_def)
qed

lemma install_pieces:
  assumes "list_all sh_plain_char (wfo_Mode opts)"
  shows "list_all2 piece (install_parts opts @ [shellQuote src, shellQuote dst]) (install_words opts @ [src, dst])"
proof -
  have "piece (if wfo_Mode opts = [] then ''0644'' else wfo_Mode opts) (if wfo_Mode opts = [] then ''0644'' else wfo_Mode opts)"
    using assms by (auto simp: piece_simps list_all_iff intro: piece_plain)
  then show ?thesis
    by (simp add: install_parts_def install_words_def piece_simps piece_quote)
qed

text \<open>
  C12: the command line that installs a file, given to the shell of the host, is a list of commands that
  run exactly with the intended words: \<open>install\<close> with its options from the uploaded file to the target, or
  for an atomic write to a staged file that \<open>mv\<close> then renames, and \<open>rm -f\<close> of the upload, with \<open>sudo\<close> in
  the inner shell. This holds for every path, owner and group, whatever quotes or blanks they contain; the
  mode, which is not quoted, must consist of plain characters.
\<close>

theorem install_command_words:
  assumes "list_all sh_plain_char (wfo_Mode opts)"
  shows "Option.bind (sh_and_list (installCommand tmp path hash opts)) (\<lambda>ws. those (map (run_words (wfo_Sudo opts)) ws)) =
    Some (install_steps tmp path hash opts)"
proof -
  let ?target = "if wfo_Atomic opts then path @ ''.neutree-tmp-'' @ hash else path"
  let ?cs = "[install_parts opts @ [shellQuote tmp, shellQuote ?target]] @
     (if wfo_Atomic opts then [[''mv'', shellQuote ?target, shellQuote path]] else []) @ [[''rm'', ''-f'', shellQuote tmp]]"
  have "installCommand tmp path hash opts = Join (map (\<lambda>ps. withSudo (wfo_Sudo opts) (Join ps '' '')) ?cs) '' && ''"
    by (simp add: installCommand_def Let_def)
  moreover have "list_all2 (\<lambda>ps vs. ps \<noteq> [] \<and> list_all2 piece ps vs) ?cs (install_steps tmp path hash opts)"
    using install_pieces [OF assms] by (simp add: install_steps_def Let_def piece_simps piece_quote)
  ultimately show ?thesis using sudo_commands [of ?cs "install_steps tmp path hash opts" "wfo_Sudo opts"] by (simp only:) simp
qed

theorem install_command_words_witness:
  "Option.bind (sh_and_list (installCommand ''/tmp/a b'' ''/etc/x'' ''0f'' sample_opts)) (\<lambda>ws. those (map (run_words True) ws)) =
     Some [[''install'', ''-m'', ''0644'', ''-o'', ''root'', ''-g'', ''root'', ''/tmp/a b'', ''/etc/x.neutree-tmp-0f''],
           [''mv'', ''/etc/x.neutree-tmp-0f'', ''/etc/x''], [''rm'', ''-f'', ''/tmp/a b'']]"
  using install_command_words [of sample_opts "''/tmp/a b''" "''/etc/x''" "''0f''"]
  by (simp add: sample_opts_def install_words_def install_steps_def Let_def sh_plain_char_def is_digit_def in_range_def)

text \<open>What the operating system promises about temporary files.\<close>

definition temp_laws :: "'w os \<Rightarrow> ('w \<Rightarrow> string set) \<Rightarrow> bool" where
  "temp_laws OS temps \<longleftrightarrow>
     (\<forall>d p w. case fst (os_CreateTemp OS d p w) of
        Inl _ \<Rightarrow> temps (snd (os_CreateTemp OS d p w)) = temps w
      | Inr n \<Rightarrow> n \<notin> temps w \<and> temps (snd (os_CreateTemp OS d p w)) = insert n (temps w)) \<and>
     (\<forall>n c w. temps (snd (os_Write OS n c w)) = temps w) \<and>
     (\<forall>n w. temps (snd (os_Close OS n w)) = temps w) \<and>
     (\<forall>c as w. temps (snd (os_Execute OS c as w)) = temps w) \<and>
     (\<forall>n w. temps (os_Remove OS n w) = temps w - {n})"

lemma temp_step:
  assumes "temp_laws OS temps"
  shows "fst (os_CreateTemp OS d p w) = Inl e \<Longrightarrow> temps (snd (os_CreateTemp OS d p w)) = temps w"
    and "fst (os_CreateTemp OS d p w) = Inr n \<Longrightarrow>
      n \<notin> temps w \<and> temps (snd (os_CreateTemp OS d p w)) = insert n (temps w)"
    and "temps (snd (os_Write OS n c w)) = temps w"
    and "temps (snd (os_Close OS n w)) = temps w"
    and "temps (snd (os_Execute OS cmd as w)) = temps w"
    and "temps (os_Remove OS n w) = temps w - {n}"
proof -
  note laws = assms [unfolded temp_laws_def]
  note create = conjunct1 [OF laws, rule_format, of d p w]
  show "fst (os_CreateTemp OS d p w) = Inl e \<Longrightarrow> temps (snd (os_CreateTemp OS d p w)) = temps w"
    "fst (os_CreateTemp OS d p w) = Inr n \<Longrightarrow>
      n \<notin> temps w \<and> temps (snd (os_CreateTemp OS d p w)) = insert n (temps w)"
    using create by simp_all
  show "temps (snd (os_Write OS n c w)) = temps w" "temps (snd (os_Close OS n w)) = temps w"
    "temps (snd (os_Execute OS cmd as w)) = temps w" "temps (os_Remove OS n w) = temps w - {n}"
    using conjunct2 [OF laws] by simp_all
qed

text \<open>
  A part \<open>tab\<close> of the world that running a program leaves alone is left alone by everything built on
  running programs.
\<close>

definition quiet_execute :: "('w \<Rightarrow> 't) \<Rightarrow> 'w os \<Rightarrow> bool" where
  "quiet_execute tab OS \<longleftrightarrow> (\<forall>c as w. tab (snd (os_Execute OS c as w)) = tab w)"

lemma quiet_executeD: "quiet_execute tab OS \<Longrightarrow> tab (snd (os_Execute OS c as w)) = tab w"
  by (simp add: quiet_execute_def)

lemma checkConnection_quiet:
  assumes "quiet_execute tab OS"
  shows "tab (snd (checkConnection OS L c w)) = tab w"
  unfolding checkConnection_def Let_def
  by (simp only: split_beta snd_conv quiet_executeD [OF assms] simp_thms split: option.split)

lemma Run_quiet:
  assumes "quiet_execute tab OS"
  shows "tab (snd (Run OS L s cmd ef pf wo env key sd w)) = tab w"
  unfolding Run_def Let_def
  by (simp only: split_beta snd_conv if_distrib [of snd] if_cancel quiet_executeD [OF assms]
      checkConnection_quiet [OF assms] simp_thms split: option.split)

lemma upload_quiet:
  assumes "quiet_execute tab OS"
  shows "tab (snd (upload OS s lp rp w)) = tab w"
  unfolding upload_def
  by (simp only: split_beta snd_conv quiet_executeD [OF assms] simp_thms split: option.split)

lemma write_uploaded_quiet:
  assumes "quiet_execute tab OS"
  shows "tab (snd (write_uploaded OS L s lp rp content opts w)) = tab w"
  unfolding write_uploaded_def Let_def
  by (simp only: split_beta snd_conv upload_quiet [OF assms] Run_quiet [OF assms] simp_thms
      split: option.split sum.split if_split)

lemma Remove_quiet:
  assumes "quiet_execute tab OS"
  shows "tab (snd (Remove OS L s rp sudo w)) = tab w"
  unfolding Remove_def
  by (simp only: split_beta snd_conv Run_quiet [OF assms] simp_thms split: sum.split)

text \<open>Writing a file leaves alone what writing its local copy and uploading leave alone.\<close>

lemma WriteFileIfChanged_quiet:
  assumes "quiet_execute tab OS" "\<And>w. tab (snd (writeFile OS L s path content opts w)) = tab w"
  shows "tab (snd (WriteFileIfChanged OS L s path content opts w)) = tab w"
  unfolding WriteFileIfChanged_def remoteSha256_def Let_def
  by (simp only: split_beta snd_conv assms(2) Run_quiet [OF assms(1)] simp_thms split: option.split sum.split if_split)

lemma temp_quiet: "temp_laws OS temps \<Longrightarrow> quiet_execute temps OS"
  by (simp add: quiet_execute_def temp_step(5))

lemma writeTempFile_temps:
  assumes "temp_laws OS temps"
  shows "fst (writeTempFile OS content w) = Inl e \<Longrightarrow> temps (snd (writeTempFile OS content w)) = temps w"
    and "fst (writeTempFile OS content w) = Inr n \<Longrightarrow>
      n \<notin> temps w \<and> temps (snd (writeTempFile OS content w)) = insert n (temps w)"
  unfolding writeTempFile_def
  by (auto simp: split_beta temp_step(3-6) [OF assms] temp_step(1,2) [OF assms] split: option.splits sum.splits)

lemma writeFile_temps:
  assumes "temp_laws OS temps"
  shows "temps (snd (writeFile OS L s rp content opts w)) = temps w"
  unfolding writeFile_def
  by (auto simp: split_beta temp_step(6) [OF assms] write_uploaded_quiet [OF temp_quiet [OF assms]]
      writeTempFile_temps [OF assms] split: sum.split)

text \<open>
  Writing a file leaves no local temporary file behind, on success and on every error path, when
  the operating system creates, keeps and removes temporary files as documented.
\<close>

theorem WriteFileIfChanged_no_temp_leak:
  assumes "temp_laws OS temps"
  shows "temps (snd (WriteFileIfChanged OS L s path content opts w)) = temps w"
  using WriteFileIfChanged_quiet [OF temp_quiet [OF assms] writeFile_temps [OF assms]] .

definition temp_os :: "string list os" where
  "temp_os = \<lparr>os_Execute = \<lambda>c as w. (([], if c = ''scp'' then Some (ErrNew ''no route'') else None), w),
     os_CreateTemp = \<lambda>d p w. (Inr (CHR ''x'' # concat w), (CHR ''x'' # concat w) # w),
     os_Write = \<lambda>n c w. (None, w), os_Close = \<lambda>n w. (None, w), os_Remove = \<lambda>n w. removeAll n w,
     os_MkdirTemp = \<lambda>d p w. (Inr ''/tmp/dir'', w), os_WriteFile = \<lambda>n c w. (None, w), os_RemoveAll = \<lambda>n w. (None, w)\<rparr>"

lemma length_le_concat: "n \<in> set w \<Longrightarrow> length n \<le> length (concat w)"
  by (induction w) auto

lemma temp_os_fresh: "CHR ''x'' # concat w \<notin> set w"
  using length_le_concat [of "CHR ''x'' # concat w" w] by (metis Suc_n_not_le_n length_Cons)

lemma temp_os_laws: "temp_laws temp_os set"
  unfolding temp_laws_def temp_os_def using temp_os_fresh by simp

theorem WriteFileIfChanged_no_temp_leak_witness:
  "set (snd (WriteFileIfChanged temp_os plain_errors sample_ssh ''/etc/x'' ''x'' sample_opts [''old''])) = {''old''}"
  using WriteFileIfChanged_no_temp_leak [OF temp_os_laws, of plain_errors sample_ssh "''/etc/x''" "''x''" sample_opts "[''old'']"]
  by simp

end
