(* ===== verification/Go_Json.thy ===== *)
theory Go_Json
  imports Go_Encoding
begin

text \<open>
  Reading JSON: \<open>json.Unmarshal\<close> of Go's \<open>encoding/json\<close> as far as the sources use it. A document
  is parsed into a value of \<open>jval\<close>, numbers kept as their text; each caller decodes the value into
  its struct. Field names are matched without regard to ASCII case. The parser recurses on a fuel
  argument; \<open>json_parse\<close> passes one more than twice the length of the document and
  \<open>p_value_fuel\<close> shows that more changes nothing. Go's limit of 10000 nested levels is not modelled.
\<close>

section \<open>Lexical elements\<close>

datatype jval = VNull | VBool bool | VNum string | VStr string | VArr "jval list" | VObj "(string \<times> jval) list"

definition json_ws :: "char \<Rightarrow> bool" where
  "json_ws c \<longleftrightarrow> c = CHR '' '' \<or> c = CHR 0x09 \<or> c = newline \<or> c = CHR 0x0D"

definition skip_ws :: "string \<Rightarrow> string" where
  "skip_ws s = dropWhile json_ws s"

definition hex_val :: "char \<Rightarrow> nat option" where
  "hex_val c =
     (if is_digit c then Some (of_char c - 48)
      else if in_range 97 102 c then Some (of_char c - 87)
      else if in_range 65 70 c then Some (of_char c - 55) else None)"

definition hex4 :: "string \<Rightarrow> nat option" where
  "hex4 s =
     (if length s < 4 then None
      else fold (\<lambda>c acc. case (acc, hex_val c) of (Some n, Some d) \<Rightarrow> Some (16 * n + d) | _ \<Rightarrow> None) (take 4 s) (Some 0))"

text \<open>The UTF-8 encoding of a code point.\<close>

definition utf8_encode :: "nat \<Rightarrow> string" where
  "utf8_encode n =
     map char_of
       (if n < 0x80 then [n]
        else if n < 0x800 then [0xC0 + n div 64, 0x80 + n mod 64]
        else if n < 0x10000 then [0xE0 + n div 4096, 0x80 + n div 64 mod 64, 0x80 + n mod 64]
        else [0xF0 + n div 262144, 0x80 + n div 4096 mod 64, 0x80 + n div 64 mod 64, 0x80 + n mod 64])"

definition simple_escape :: "char \<Rightarrow> char option" where
  "simple_escape c =
     (if c = dquote \<or> c = backslash \<or> c = CHR 0x2F then Some c
      else if c = CHR ''b'' then Some (CHR 0x08) else if c = CHR ''f'' then Some (CHR 0x0C)
      else if c = CHR ''n'' then Some newline else if c = CHR ''r'' then Some (CHR 0x0D)
      else if c = CHR ''t'' then Some (CHR 0x09) else None)"

text \<open>The low half of a surrogate pair, written as an escape at the head of the text.\<close>

definition low_surrogate :: "string \<Rightarrow> nat option" where
  "low_surrogate s =
     (if take 2 s = [backslash, CHR ''u''] then
        (case hex4 (drop 2 s) of
           None \<Rightarrow> None
         | Some v \<Rightarrow> if 0xDC00 \<le> v \<and> v < 0xE000 then Some v else None)
      else None)"

text \<open>The rest of a string after its opening quote: its bytes and what follows the closing quote.\<close>

function p_str :: "string \<Rightarrow> (string \<times> string) option" where
  "p_str [] = None"
| "p_str (c # cs) =
     (if c = dquote then Some ([], cs)
      else if c = backslash then
        (case cs of
           [] \<Rightarrow> None
         | e # es \<Rightarrow>
             (case simple_escape e of
                Some x \<Rightarrow> map_option (\<lambda>(s, r). (x # s, r)) (p_str es)
              | None \<Rightarrow>
                  if e \<noteq> CHR ''u'' then None
                  else case hex4 es of
                    None \<Rightarrow> None
                  | Some u \<Rightarrow>
                      if 0xD800 \<le> u \<and> u < 0xE000 then
                        (case low_surrogate (drop 4 es) of
                           Some v \<Rightarrow>
                             if u < 0xDC00
                             then map_option (\<lambda>(s, r). (utf8_encode (0x10000 + (u - 0xD800) * 1024 + (v - 0xDC00)) @ s, r))
                                    (p_str (drop 10 es))
                             else map_option (\<lambda>(s, r). (utf8_encode 0xFFFD @ s, r)) (p_str (drop 4 es))
                         | None \<Rightarrow> map_option (\<lambda>(s, r). (utf8_encode 0xFFFD @ s, r)) (p_str (drop 4 es)))
                      else map_option (\<lambda>(s, r). (utf8_encode u @ s, r)) (p_str (drop 4 es))))
      else if of_char c < (32::nat) then None
      else if of_char c < (128::nat) then map_option (\<lambda>(s, r). (c # s, r)) (p_str cs)
      else
        let k = utf8_len (map of_char (take 4 (c # cs)))
        in if k = 0 then map_option (\<lambda>(s, r). (utf8_encode 0xFFFD @ s, r)) (p_str cs)
           else map_option (\<lambda>(s, r). (take k (c # cs) @ s, r)) (p_str (drop (k - 1) cs)))"
  by pat_completeness auto
termination
  by (relation "measure length") auto

definition p_digits :: "string \<Rightarrow> (string \<times> string) option" where
  "p_digits s = (if takeWhile is_digit s = [] then None else Some (takeWhile is_digit s, dropWhile is_digit s))"

definition p_frac :: "string \<Rightarrow> (string \<times> string) option" where
  "p_frac s =
     (case s of
        c # cs \<Rightarrow> if c = CHR ''.'' then map_option (\<lambda>(d, r). (c # d, r)) (p_digits cs) else Some ([], s)
      | [] \<Rightarrow> Some ([], []))"

definition p_exp :: "string \<Rightarrow> (string \<times> string) option" where
  "p_exp s =
     (case s of
        c # cs \<Rightarrow>
          if c = CHR ''e'' \<or> c = CHR ''E'' then
            (case cs of
               d # ds \<Rightarrow>
                 if d = CHR ''+'' \<or> d = CHR ''-'' then map_option (\<lambda>(n, r). (c # d # n, r)) (p_digits ds)
                 else map_option (\<lambda>(n, r). (c # n, r)) (p_digits cs)
             | [] \<Rightarrow> None)
          else Some ([], s)
      | [] \<Rightarrow> Some ([], []))"

definition p_num :: "string \<Rightarrow> (string \<times> string) option" where
  "p_num s =
     (let neg = (if s \<noteq> [] \<and> hd s = CHR ''-'' then ''-'' else [])
      in case p_digits (drop (length neg) s) of
           None \<Rightarrow> None
         | Some (i, r) \<Rightarrow>
             if hd i = CHR ''0'' \<and> length i > 1 then None
             else case p_frac r of
                    None \<Rightarrow> None
                  | Some (f, r1) \<Rightarrow> map_option (\<lambda>(e, r2). (neg @ i @ f @ e, r2)) (p_exp r1))"

section \<open>Values\<close>

fun p_value :: "nat \<Rightarrow> string \<Rightarrow> (jval \<times> string) option"
  and p_elems :: "nat \<Rightarrow> string \<Rightarrow> (jval list \<times> string) option"
  and p_members :: "nat \<Rightarrow> string \<Rightarrow> ((string \<times> jval) list \<times> string) option" where
  "p_value 0 s = None"
| "p_value (Suc n) s =
     (case skip_ws s of
        [] \<Rightarrow> None
      | c # cs \<Rightarrow>
          if c = CHR 0x7B then
            (if skip_ws cs \<noteq> [] \<and> hd (skip_ws cs) = CHR 0x7D then Some (VObj [], tl (skip_ws cs))
             else map_option (\<lambda>(ms, r). (VObj ms, r)) (p_members n cs))
          else if c = CHR ''['' then
            (if skip_ws cs \<noteq> [] \<and> hd (skip_ws cs) = CHR '']'' then Some (VArr [], tl (skip_ws cs))
             else map_option (\<lambda>(vs, r). (VArr vs, r)) (p_elems n cs))
          else if c = dquote then map_option (\<lambda>(s, r). (VStr s, r)) (p_str cs)
          else if HasPrefix (c # cs) ''true'' then Some (VBool True, drop 3 cs)
          else if HasPrefix (c # cs) ''false'' then Some (VBool False, drop 4 cs)
          else if HasPrefix (c # cs) ''null'' then Some (VNull, drop 3 cs)
          else map_option (\<lambda>(s, r). (VNum s, r)) (p_num (c # cs)))"
| "p_elems 0 s = None"
| "p_elems (Suc n) s =
     (case p_value n s of
        None \<Rightarrow> None
      | Some (v, r) \<Rightarrow>
          (case skip_ws r of
             [] \<Rightarrow> None
           | c # cs \<Rightarrow>
               if c = CHR '','' then map_option (\<lambda>(vs, r1). (v # vs, r1)) (p_elems n cs)
               else if c = CHR '']'' then Some ([v], cs) else None))"
| "p_members 0 s = None"
| "p_members (Suc n) s =
     (case skip_ws s of
        [] \<Rightarrow> None
      | q # qs \<Rightarrow>
          if q \<noteq> dquote then None
          else case p_str qs of
            None \<Rightarrow> None
          | Some (k, r) \<Rightarrow>
              (case skip_ws r of
                 [] \<Rightarrow> None
               | c # cs \<Rightarrow>
                   if c \<noteq> CHR '':'' then None
                   else case p_value n cs of
                     None \<Rightarrow> None
                   | Some (v, r1) \<Rightarrow>
                       (case skip_ws r1 of
                          [] \<Rightarrow> None
                        | d # ds \<Rightarrow>
                            if d = CHR '','' then map_option (\<lambda>(ms, r2). ((k, v) # ms, r2)) (p_members n ds)
                            else if d = CHR 0x7D then Some ([(k, v)], ds) else None)))"

definition json_parse :: "string \<Rightarrow> jval option" where
  "json_parse s =
     (case p_value (Suc (2 * length s)) s of
        None \<Rightarrow> None
      | Some (v, r) \<Rightarrow> if skip_ws r = [] then Some v else None)"

section \<open>Decoding into structs\<close>

text \<open>
  A decoder takes a value and the current content of its target and returns the new content, or
  \<^const>\<open>None\<close> when the value has another type; \<open>null\<close> leaves a string, number, boolean or struct
  as it is and makes a slice, a map or a pointer nil. A struct is decoded from the list of its fields
  and the assignments to them, member by member in the order of the document; members of other names
  are skipped.
\<close>

definition dec_string :: "jval \<Rightarrow> string \<Rightarrow> string option" where
  "dec_string v old = (case v of VNull \<Rightarrow> Some old | VStr s \<Rightarrow> Some s | _ \<Rightarrow> None)"

definition dec_bool :: "jval \<Rightarrow> bool \<Rightarrow> bool option" where
  "dec_bool v old = (case v of VNull \<Rightarrow> Some old | VBool b \<Rightarrow> Some b | _ \<Rightarrow> None)"

definition digits_value :: "string \<Rightarrow> int" where
  "digits_value s = fold (\<lambda>c n. 10 * n + (of_char c - 48)) s 0"

text \<open>A 64-bit signed integer: a fraction, an exponent and a value out of range are errors.\<close>

definition parse_int64 :: "string \<Rightarrow> int option" where
  "parse_int64 s =
     (let neg = HasPrefix s ''-'';
          ds = (if neg then tl s else s);
          n = (if neg then - digits_value ds else digits_value ds)
      in if list_all is_digit ds \<and> - (2 ^ 63) \<le> n \<and> n < 2 ^ 63 then Some n else None)"

definition dec_int64 :: "jval \<Rightarrow> int \<Rightarrow> int option" where
  "dec_int64 v old = (case v of VNull \<Rightarrow> Some old | VNum s \<Rightarrow> parse_int64 s | _ \<Rightarrow> None)"

definition dec_ptr :: "(jval \<Rightarrow> 'a \<Rightarrow> 'a option) \<Rightarrow> 'a \<Rightarrow> jval \<Rightarrow> 'a ptr \<Rightarrow> 'a ptr option" where
  "dec_ptr dec zero v old =
     (case v of VNull \<Rightarrow> Some None | _ \<Rightarrow> map_option Some (dec v (case old of None \<Rightarrow> zero | Some x \<Rightarrow> x)))"

fun dec_elems :: "(jval \<Rightarrow> 'a \<Rightarrow> 'a option) \<Rightarrow> 'a \<Rightarrow> jval list \<Rightarrow> 'a list option" where
  "dec_elems dec zero [] = Some []"
| "dec_elems dec zero (v # vs) =
     (case (dec v zero, dec_elems dec zero vs) of (Some x, Some xs) \<Rightarrow> Some (x # xs) | _ \<Rightarrow> None)"

definition dec_slice :: "(jval \<Rightarrow> 'a \<Rightarrow> 'a option) \<Rightarrow> 'a \<Rightarrow> jval \<Rightarrow> 'a slice \<Rightarrow> 'a slice option" where
  "dec_slice dec zero v old =
     (case v of VNull \<Rightarrow> Some None | VArr vs \<Rightarrow> map_option Some (dec_elems dec zero vs) | _ \<Rightarrow> None)"

definition dec_map ::
  "(jval \<Rightarrow> 'a \<Rightarrow> 'a option) \<Rightarrow> 'a \<Rightarrow> jval \<Rightarrow> (string \<times> 'a) list option \<Rightarrow> (string \<times> 'a) list option option" where
  "dec_map dec zero v old =
     (case v of
        VNull \<Rightarrow> Some None
      | VObj ms \<Rightarrow>
          map_option Some
            (fold (\<lambda>(k, v) acc. case (acc, dec v zero) of (Some m, Some x) \<Rightarrow> Some (map_put k x m) | _ \<Rightarrow> None)
               ms (Some (els old)))
      | _ \<Rightarrow> None)"

definition field_named :: "string \<Rightarrow> (string \<times> 'b) list \<Rightarrow> 'b option" where
  "field_named k fs =
     (case map_of fs k of
        Some f \<Rightarrow> Some f
      | None \<Rightarrow> map_option snd (List.find (\<lambda>(n, f). ToLower n = ToLower k) fs))"

definition dec_struct :: "(string \<times> (jval \<Rightarrow> 'r \<Rightarrow> 'r option)) list \<Rightarrow> jval \<Rightarrow> 'r \<Rightarrow> 'r option" where
  "dec_struct fs v r =
     (case v of
        VNull \<Rightarrow> Some r
      | VObj ms \<Rightarrow>
          fold (\<lambda>(k, v) acc. case (acc, field_named k fs) of
                  (Some x, Some assign) \<Rightarrow> assign v x
                | _ \<Rightarrow> acc) ms (Some r)
      | _ \<Rightarrow> None)"

text \<open>\<open>json.Unmarshal\<close>, and \<open>Decoder.Decode\<close>, which reads one value and ignores what follows it.\<close>

definition json_unmarshal :: "(jval \<Rightarrow> 'r \<Rightarrow> 'r option) \<Rightarrow> 'r \<Rightarrow> string \<Rightarrow> 'r option" where
  "json_unmarshal dec zero text = (case json_parse text of None \<Rightarrow> None | Some v \<Rightarrow> dec v zero)"

definition json_decode :: "(jval \<Rightarrow> 'r \<Rightarrow> 'r option) \<Rightarrow> 'r \<Rightarrow> string \<Rightarrow> 'r option" where
  "json_decode dec zero text =
     (case p_value (Suc (2 * length text)) text of None \<Rightarrow> None | Some (v, _) \<Rightarrow> dec v zero)"

section \<open>The fuel is enough\<close>

lemma length_skip_ws: "length (skip_ws s) \<le> length s"
  by (simp add: skip_ws_def length_dropWhile_le)

lemma p_str_shorter: "p_str s = Some (t, r) \<Longrightarrow> length r < length s"
proof (induction "length s" arbitrary: s t r rule: less_induct)
  case less
  show ?case
  proof (cases s)
    case (Cons c cs)
    have IH: "length r < length (c # cs)" if "p_str u = Some (x, r)" "length u \<le> length cs" for u x
      using less(1) [of u x r] that Cons by simp
    show ?thesis
    proof (cases "c = dquote \<or> c = backslash")
      case False
      then show ?thesis
        using less(2) unfolding Cons p_str.simps Let_def
        by (auto split: if_split_asm dest!: IH)
    next
      case True
      show ?thesis
      proof (cases "c = dquote")
        case False
        then obtain e es where es: "cs = e # es"
          using less(2) True unfolding Cons by (cases cs) auto
        show ?thesis
        proof (cases "simple_escape e")
          case (Some x)
          then show ?thesis
            using less(2) True False unfolding Cons es p_str.simps by (auto dest!: IH simp: es)
        next
          case None
          then show ?thesis
            using less(2) True False unfolding Cons es p_str.simps
            by (auto split: if_split_asm option.split_asm dest!: IH simp: es)
        qed
      qed (use less(2) Cons in auto)
    qed
  qed (use less(2) in simp)
qed

lemma p_digits_shorter: "p_digits s = Some (t, r) \<Longrightarrow> length r < length s"
proof -
  assume "p_digits s = Some (t, r)"
  then have "t \<noteq> []" "t = takeWhile is_digit s" "r = dropWhile is_digit s"
    by (auto simp: p_digits_def split: if_splits)
  then show ?thesis by (metis length_append length_greater_0_conv less_add_same_cancel2 takeWhile_dropWhile_id)
qed

lemma p_frac_shorter: "p_frac s = Some (t, r) \<Longrightarrow> length r \<le> length s"
  by (auto simp: p_frac_def split: list.splits if_splits dest!: p_digits_shorter)

lemma p_exp_shorter: "p_exp s = Some (t, r) \<Longrightarrow> length r \<le> length s"
  by (auto simp: p_exp_def split: list.splits if_splits dest!: p_digits_shorter)

lemma p_num_shorter: "p_num s = Some (t, r) \<Longrightarrow> length r < length s"
  unfolding p_num_def Let_def
  by (fastforce split: option.splits prod.splits if_splits
      dest!: p_digits_shorter p_frac_shorter p_exp_shorter)

lemma skip_ws_Cons: "skip_ws s = c # cs \<Longrightarrow> length cs < length s"
  using length_skip_ws [of s] by simp

lemma length_tl_skip: "skip_ws s \<noteq> [] \<Longrightarrow> length (tl (skip_ws s)) < length s"
  using skip_ws_Cons by (cases "skip_ws s") auto

lemma p_shorter_all:
  "(\<forall>s v r. p_value n s = Some (v, r) \<longrightarrow> length r < length s) \<and>
   (\<forall>s vs r. p_elems n s = Some (vs, r) \<longrightarrow> length r < length s) \<and>
   (\<forall>s ms r. p_members n s = Some (ms, r) \<longrightarrow> length r < length s)"
proof (induction n)
  case (Suc n)
  have v: "p_value n s = Some (v, r) \<Longrightarrow> length r < length s" for s v r using Suc by blast
  have e: "p_elems n s = Some (vs, r) \<Longrightarrow> length r < length s" for s vs r using Suc by blast
  have m: "p_members n s = Some (ms, r) \<Longrightarrow> length r < length s" for s ms r using Suc by blast
  have "length r < length s" if val: "p_value (Suc n) s = Some (v, r)" for s v r
  proof -
    obtain c cs where c: "skip_ws s = c # cs" using val by (auto split: list.splits)
    have cs: "length cs < length s" using c by (rule skip_ws_Cons)
    show ?thesis
      using val c cs length_tl_skip [of cs]
      by (auto split: if_split_asm dest!: e m p_str_shorter p_num_shorter)
  qed
  moreover have "length r < length s" if "p_elems (Suc n) s = Some (vs, r)" for s vs r
    using that by (auto split: option.split_asm list.split_asm if_split_asm dest!: v e skip_ws_Cons)
  moreover have "length r < length s" if "p_members (Suc n) s = Some (ms, r)" for s ms r
    using that
    by (auto split: option.split_asm list.split_asm if_split_asm dest!: v m p_str_shorter skip_ws_Cons)
  ultimately show ?case by blast
qed simp

lemma p_value_shorter: "p_value n s = Some (v, r) \<Longrightarrow> length r < length s"
  using p_shorter_all by blast

lemma p_fuel_all:
  "(\<forall>s. 2 * length s + 1 \<le> n \<longrightarrow> p_value (Suc n) s = p_value n s) \<and>
   (\<forall>s. 2 * length s + 2 \<le> n \<longrightarrow> p_elems (Suc n) s = p_elems n s) \<and>
   (\<forall>s. 2 * length s + 2 \<le> n \<longrightarrow> p_members (Suc n) s = p_members n s)"
proof (induction n)
  case (Suc n)
  have v: "2 * length s + 1 \<le> n \<Longrightarrow> p_value (Suc n) s = p_value n s" for s using Suc by blast
  have e: "2 * length s + 2 \<le> n \<Longrightarrow> p_elems (Suc n) s = p_elems n s" for s using Suc by blast
  have m: "2 * length s + 2 \<le> n \<Longrightarrow> p_members (Suc n) s = p_members n s" for s using Suc by blast
  have "p_value (Suc (Suc n)) s = p_value (Suc n) s" if "2 * length s + 1 \<le> Suc n" for s
  proof (cases "skip_ws s")
    case (Cons c cs)
    then have "2 * length cs + 2 \<le> n" using skip_ws_Cons [OF Cons] that by simp
    then show ?thesis using Cons by (simp only: p_value.simps(2) [of "Suc n"] p_value.simps(2) [of n] list.case e m)
  qed simp
  moreover have "p_elems (Suc (Suc n)) s = p_elems (Suc n) s" if l: "2 * length s + 2 \<le> Suc n" for s
  proof -
    have "p_value (Suc n) s = p_value n s" using v l by simp
    moreover have "p_elems (Suc n) cs = p_elems n cs" if "p_value n s = Some (w, r)" "skip_ws r = c # cs" for w r c cs
      using e p_value_shorter [OF that(1)] skip_ws_Cons [OF that(2)] l by simp
    ultimately show ?thesis
      by (simp only: p_elems.simps(2) [of "Suc n"] p_elems.simps(2) [of n] cong: option.case_cong)
        (auto split: option.split list.split)
  qed
  moreover have "p_members (Suc (Suc n)) s = p_members (Suc n) s" if l: "2 * length s + 2 \<le> Suc n" for s
  proof -
    have "p_value (Suc n) cs = p_value n cs"
      if "skip_ws s = q # qs" "p_str qs = Some (k, r)" "skip_ws r = c # cs" for q qs k r c cs
      using v p_str_shorter [OF that(2)] skip_ws_Cons [OF that(1)] skip_ws_Cons [OF that(3)] l by simp
    moreover have "p_members (Suc n) ds = p_members n ds"
      if "skip_ws s = q # qs" "p_str qs = Some (k, r)" "skip_ws r = c # cs" "p_value n cs = Some (w, r1)"
        "skip_ws r1 = d # ds" for q qs k r c cs w r1 d ds
      using m p_str_shorter [OF that(2)] skip_ws_Cons [OF that(1)] skip_ws_Cons [OF that(3)]
        p_value_shorter [OF that(4)] skip_ws_Cons [OF that(5)] l by simp
    ultimately show ?thesis
      by (simp only: p_members.simps(2) [of "Suc n"] p_members.simps(2) [of n])
        (auto split: option.split list.split)
  qed
  ultimately show ?case by blast
qed simp

lemma p_value_fuel: "2 * length s + 1 \<le> n \<Longrightarrow> p_value n s = p_value (Suc (2 * length s)) s"
proof (induction n)
  case (Suc n)
  then show ?case
    using p_fuel_all [of n] by (cases "2 * length s + 1 \<le> n") (auto simp: le_Suc_eq)
qed simp

section \<open>Reading back what was written\<close>

lemma hex_val_digit: "n < 16 \<Longrightarrow> hex_val (hex_digit n) = Some n"
  by (auto simp: hex_val_def hex_digit_def is_digit_def in_range_def)

lemma hex4_byte: "n < 256 \<Longrightarrow> hex4 (''00'' @ hex_byte n @ r) = Some n"
proof -
  assume "n < 256"
  then have "n div 16 < 16" "n mod 16 < 16" by auto
  moreover have "hex_val CHR ''0'' = Some 0" by code_simp
  ultimately show ?thesis
    by (simp add: hex4_def hex_byte_def hex_val_digit)
qed

lemma p_str_plain:
  "of_char c < (128::nat) \<Longrightarrow> 32 \<le> (of_char c :: nat) \<Longrightarrow> c \<noteq> dquote \<Longrightarrow> c \<noteq> backslash \<Longrightarrow>
   p_str (c # r) = map_option (\<lambda>(s, t). (c # s, t)) (p_str r)"
  by simp

lemma p_str_u00:
  assumes "n < 128"
  shows "p_str (backslash # ''u00'' @ hex_byte n @ r) = map_option (\<lambda>(s, t). (char_of n # s, t)) (p_str r)"
proof -
  have d: "drop 4 (''00'' @ hex_byte n @ r) = r" by (simp add: hex_byte_def)
  have h: "hex4 (''00'' @ hex_byte n @ r) = Some n" using assms by (intro hex4_byte) simp
  have e: "utf8_encode n = [char_of n]" using assms by (simp add: utf8_encode_def)
  show ?thesis
    using assms h d e by (simp add: simple_escape_def)
qed

lemma control_chars:
  "of_char c = (8::nat) \<Longrightarrow> c = CHR 0x08" "of_char c = (12::nat) \<Longrightarrow> c = CHR 0x0C"
  "of_char c = (10::nat) \<Longrightarrow> c = newline" "of_char c = (13::nat) \<Longrightarrow> c = CHR 0x0D" "of_char c = (9::nat) \<Longrightarrow> c = CHR 0x09"
  by (rule of_char_eqI [where 'a = nat]; simp)+

lemma p_str_ascii:
  assumes "of_char c < (128::nat)"
  shows "p_str (json_ascii c @ r) = map_option (\<lambda>(s, t). (c # s, t)) (p_str r)"
proof -
  let ?n = "of_char c :: nat"
  consider "c = dquote" | "c = backslash" | "?n = 8" | "?n = 12" | "?n = 10" | "?n = 13" | "?n = 9"
    | "c \<noteq> dquote" "c \<noteq> backslash" "?n \<notin> {8, 12, 10, 13, 9}" by blast
  then show ?thesis
  proof cases
    case 8
    show ?thesis
    proof (cases "?n < 32 \<or> ?n = 38 \<or> ?n = 60 \<or> ?n = 62")
      case True
      then have "json_ascii c = backslash # ''u00'' @ hex_byte ?n" using 8 by (simp add: json_ascii_def Let_def)
      then show ?thesis using p_str_u00 [OF assms, of r] by simp
    next
      case False
      then have "json_ascii c = [c]" using 8 by (simp add: json_ascii_def Let_def)
      then show ?thesis using p_str_plain [of c r] assms 8 False by simp
    qed
  qed (auto simp: json_ascii_def Let_def simple_escape_def dest!: control_chars)
qed

definition ascii :: "string \<Rightarrow> bool" where
  "ascii s \<longleftrightarrow> (\<forall>c \<in> set s. of_char c < (128::nat))"

lemma p_str_json_body: "ascii s \<Longrightarrow> p_str (json_body s @ dquote # r) = Some (s, r)"
proof (induction s)
  case (Cons c s)
  then have c: "of_char c < (128::nat)" by (simp add: ascii_def)
  then have b: "json_body (c # s) = json_ascii c @ json_body s" by (simp add: Let_def)
  have "p_str (json_body s @ dquote # r) = Some (s, r)" using Cons by (simp add: ascii_def)
  then show ?case by (simp only: b append_assoc p_str_ascii [OF c] option.map prod.case)
qed simp

lemma skip_ws_token [simp]: "\<not> json_ws c \<Longrightarrow> skip_ws (c # s) = c # s"
  by (simp add: skip_ws_def)

lemma json_tokens [simp]: "\<not> json_ws CHR 0x7B" "\<not> json_ws CHR 0x7D" "\<not> json_ws dquote" "\<not> json_ws CHR '':''"
  by (simp_all add: json_ws_def)

lemma p_value_string: "ascii s \<Longrightarrow> p_value (Suc n) (json_string s @ r) = Some (VStr s, r)"
  by (simp add: json_string_def p_str_json_body)

lemma p_value_single:
  assumes "ascii k" "p_value n (body @ CHR 0x7D # r) = Some (v, CHR 0x7D # r)"
  shows "p_value (Suc (Suc n)) (CHR 0x7B # json_string k @ '':'' @ body @ CHR 0x7D # r) = Some (VObj [(k, v)], r)"
  using assms p_str_json_body [OF assms(1), of "'':'' @ body @ CHR 0x7D # r"] by (simp add: json_string_def)

end
