(* ===== verification/Docker_Runtime.thy ===== *)
theory Docker_Runtime
  imports Command_Runner Component_Hash Go_Json
begin

text \<open>
  Docker on one static node, \<open>staticnode/docker_runtime.go\<close> and \<open>staticnode/registry_auth.go\<close>:
  building the docker commands, running them on the node and turning failures into reasons. The
  runner and the file client are the interfaces \<open>CommandRunner\<close> and \<open>FileClient\<close> of the sources,
  records of operations on the world; \<open>staticnode/runner.go\<close> builds one from the SSH runner.
\<close>

section \<open>The interfaces\<close>

record 'w file_client =
  fc_WriteFileIfChanged :: "string \<Rightarrow> string \<Rightarrow> write_file_options \<Rightarrow> 'w \<Rightarrow> (go_error + bool) \<times> 'w"
  fc_Remove :: "string \<Rightarrow> bool \<Rightarrow> 'w \<Rightarrow> go_error option \<times> 'w"

record 'w command_runner =
  cr_Run :: "string \<Rightarrow> 'w \<Rightarrow> (go_error + string) \<times> 'w"
  cr_Files :: "'w file_client ptr"
  cr_Close :: "'w \<Rightarrow> go_error option \<times> 'w"

record registry_auth =
  ra_Server :: string
  ra_Username :: string
  ra_Password :: string

definition configured :: "registry_auth ptr \<Rightarrow> bool" where
  "configured a = (case a of None \<Rightarrow> False | Some r \<Rightarrow> ra_Server r \<noteq> [] \<and> ra_Username r \<noteq> [] \<and> ra_Password r \<noteq> [])"

record 'w docker_runtime =
  dr_runner :: "'w command_runner"
  dr_registryAuth :: "registry_auth ptr"

abbreviation componentReasonImagePullFailed :: string where "componentReasonImagePullFailed \<equiv> ''ImagePullFailed''"
abbreviation componentReasonDockerConfigFailed :: string where "componentReasonDockerConfigFailed \<equiv> ''DockerConfigFailed''"
abbreviation componentReasonRegistryLoginFailed :: string where "componentReasonRegistryLoginFailed \<equiv> ''RegistryLoginFailed''"
abbreviation componentReasonRemoveFailed :: string where "componentReasonRemoveFailed \<equiv> ''ContainerRemoveFailed''"
abbreviation componentReasonInspectFailed :: string where "componentReasonInspectFailed \<equiv> ''ContainerInspectFailed''"
abbreviation componentReasonRunFailed :: string where "componentReasonRunFailed \<equiv> ''ContainerRunFailed''"
abbreviation warmReasonImageInspectFailed :: string where "warmReasonImageInspectFailed \<equiv> ''ImageInspectFailed''"
abbreviation DockerConfigHostDir :: string where "DockerConfigHostDir \<equiv> ''/etc/neutree/docker''"
abbreviation componentHashLabel :: string where "componentHashLabel \<equiv> ''neutree.ai/component-hash''"
abbreviation componentNameLabel :: string where "componentNameLabel \<equiv> ''neutree.ai/component''"
abbreviation clusterNameLabel :: string where "clusterNameLabel \<equiv> ''neutree.ai/static-node-cluster''"

section \<open>Docker errors\<close>

definition dockerError :: "string \<Rightarrow> string \<Rightarrow> go_error option \<Rightarrow> go_error" where
  "dockerError reason message e = DockerError reason message e"

text \<open>The first Docker error of a chain of wrapped errors, \<open>errors.As\<close>; an aggregate is not unwrapped.\<close>

fun as_docker_error :: "go_error \<Rightarrow> string option" where
  "as_docker_error (DockerError reason m e) = Some reason"
| "as_docker_error (ErrWrap e m) = as_docker_error e"
| "as_docker_error e = None"

definition dockerReason :: "go_error \<Rightarrow> string \<Rightarrow> string" where
  "dockerReason e fallback =
     (case as_docker_error e of
        None \<Rightarrow> fallback
      | Some reason \<Rightarrow> if reason \<noteq> [] then reason else fallback)"

definition redactSecret :: "err_lib \<Rightarrow> go_error option \<Rightarrow> string \<Rightarrow> go_error option" where
  "redactSecret L e secret =
     (case e of
        None \<Rightarrow> None
      | Some err \<Rightarrow>
          if secret = [] then Some err
          else Some (ErrNew (ReplaceAll (error_text L err) secret ''[REDACTED]'')))"

definition lastNonEmptyLine :: "string \<Rightarrow> string" where
  "lastNonEmptyLine output =
     (case List.find (\<lambda>l. l \<noteq> []) (map TrimSpace (rev (Split output newline))) of None \<Rightarrow> [] | Some l \<Rightarrow> l)"

section \<open>Images\<close>

definition InspectImageDigest :: "'w docker_runtime \<Rightarrow> string \<Rightarrow> 'w \<Rightarrow> (go_error + string) \<times> 'w" where
  "InspectImageDigest r imageRef w =
     (case cr_Run (dr_runner r)
             (''docker image inspect --format='' @ [squote, CHR 0x7B, CHR 0x7B] @ ''index .RepoDigests 0'' @
              [CHR 0x7D, CHR 0x7D, squote] @ '' '' @ shellArg imageRef) w of
        (Inl e, w1) \<Rightarrow>
          (Inl (dockerError warmReasonImageInspectFailed (''failed to inspect image '' @ imageRef) (Some e)), w1)
      | (Inr output, w1) \<Rightarrow> (Inr (lastNonEmptyLine output), w1))"

definition pull_command :: "registry_auth ptr \<Rightarrow> string \<Rightarrow> string" where
  "pull_command auth img =
     (if configured auth then ''docker --config '' @ shellArg DockerConfigHostDir @ '' pull '' @ shellArg img
      else ''docker pull '' @ shellArg img)"

definition pullImage :: "'w docker_runtime \<Rightarrow> string \<Rightarrow> 'w \<Rightarrow> go_error option \<times> 'w" where
  "pullImage r img w =
     (case cr_Run (dr_runner r) (pull_command (dr_registryAuth r) img) w of
        (Inl e, w1) \<Rightarrow>
          (Some (dockerError componentReasonImagePullFailed (''failed to pull image '' @ img) (Some e)), w1)
      | (Inr _, w1) \<Rightarrow> (None, w1))"

definition PullImage :: "'w docker_runtime \<Rightarrow> string \<Rightarrow> 'w \<Rightarrow> go_error option \<times> 'w" where
  "PullImage r img w = pullImage r img w"

definition InspectLocalImage :: "'w docker_runtime \<Rightarrow> string \<Rightarrow> 'w \<Rightarrow> go_error option \<times> 'w" where
  "InspectLocalImage r img w =
     (case cr_Run (dr_runner r) (''docker image inspect '' @ shellArg img @ '' >/dev/null'') w of
        (Inl e, w1) \<Rightarrow>
          (Some (dockerError warmReasonImageInspectFailed (''failed to inspect image '' @ img) (Some e)), w1)
      | (Inr _, w1) \<Rightarrow> (None, w1))"

definition EnsureImage :: "'w docker_runtime \<Rightarrow> string \<Rightarrow> 'w \<Rightarrow> go_error option \<times> 'w" where
  "EnsureImage r img w =
     (case InspectLocalImage r img w of
        (None, w1) \<Rightarrow> (None, w1)
      | (Some _, w1) \<Rightarrow>
          (case pullImage r img w1 of
             (Some e, w2) \<Rightarrow> (Some e, w2)
           | (None, w2) \<Rightarrow> (None, w2)))"

section \<open>Registry credentials\<close>

text \<open>
  \<open>dockerConfigAuth\<close> has the one field \<open>auth\<close> and \<open>dockerConfigFile\<close> the one field \<open>auths\<close>; each is
  modelled by its field. \<^const>\<open>None\<close> is \<open>json.Unmarshal\<close> failing.
\<close>

definition dockerConfigAuth :: "jval \<Rightarrow> string \<Rightarrow> string option" where
  "dockerConfigAuth v a = dec_struct [(''auth'', dec_string)] v a"

definition dockerConfigFile :: "jval \<Rightarrow> strmap \<Rightarrow> strmap option" where
  "dockerConfigFile v auths = dec_struct [(''auths'', dec_map dockerConfigAuth [])] v auths"

definition unmarshal_docker_config :: "string \<Rightarrow> strmap option" where
  "unmarshal_docker_config text = json_unmarshal dockerConfigFile None text"

definition expectedRegistryAuth :: "registry_auth ptr \<Rightarrow> string" where
  "expectedRegistryAuth auth =
     (case auth of None \<Rightarrow> [] | Some a \<Rightarrow> base64_EncodeToString (ra_Username a @ '':'' @ ra_Password a))"

definition config_matches :: "registry_auth \<Rightarrow> string \<Rightarrow> bool" where
  "config_matches a output =
     (case unmarshal_docker_config output of
        None \<Rightarrow> False
      | Some auths \<Rightarrow>
          (case map_of (els auths) (ra_Server a) of
             None \<Rightarrow> False
           | Some stored \<Rightarrow> stored = expectedRegistryAuth (Some a)))"

text \<open>Called with configured credentials only, as \<open>EnsureRegistryAuth\<close> does.\<close>

definition registryConfigMatches :: "'w docker_runtime \<Rightarrow> registry_auth \<Rightarrow> 'w \<Rightarrow> bool \<times> 'w" where
  "registryConfigMatches r a w =
     (case cr_Run (dr_runner r) (''cat '' @ shellArg (DockerConfigHostDir @ ''/config.json'')) w of
        (Inl _, w1) \<Rightarrow> (False, w1)
      | (Inr output, w1) \<Rightarrow> (config_matches a output, w1))"

definition login_command :: "registry_auth \<Rightarrow> string" where
  "login_command a =
     ''docker --config '' @ shellArg DockerConfigHostDir @ '' login '' @ shellArg (ra_Server a) @
     '' -u '' @ shellArg (ra_Username a) @ '' -p '' @ shellArg (ra_Password a)"

definition Login :: "err_lib \<Rightarrow> 'w docker_runtime \<Rightarrow> 'w \<Rightarrow> go_error option \<times> 'w" where
  "Login L r w =
     (if \<not> configured (dr_registryAuth r) then (None, w)
      else
        let a = the (dr_registryAuth r) in
        case cr_Run (dr_runner r) (login_command a) w of
          (Inl e, w1) \<Rightarrow>
            (Some (dockerError componentReasonRegistryLoginFailed (''failed to login docker registry '' @ ra_Server a)
                     (redactSecret L (Some e) (ra_Password a))), w1)
        | (Inr _, w1) \<Rightarrow> (None, w1))"

definition EnsureRegistryAuth :: "err_lib \<Rightarrow> 'w docker_runtime \<Rightarrow> 'w \<Rightarrow> go_error option \<times> 'w" where
  "EnsureRegistryAuth L r w =
     (if \<not> configured (dr_registryAuth r) then (None, w)
      else case registryConfigMatches r (the (dr_registryAuth r)) w of
             (True, w1) \<Rightarrow> (None, w1)
           | (False, w1) \<Rightarrow> Login L r w1)"

definition EnsureDockerConfigDir :: "'w docker_runtime \<Rightarrow> 'w \<Rightarrow> go_error option \<times> 'w" where
  "EnsureDockerConfigDir r w =
     (case cr_Run (dr_runner r) (''mkdir -p '' @ shellArg DockerConfigHostDir) w of
        (Inl e, w1) \<Rightarrow>
          (Some (dockerError componentReasonDockerConfigFailed
             (''failed to create docker config dir '' @ DockerConfigHostDir) (Some e)), w1)
      | (Inr _, w1) \<Rightarrow> (None, w1))"

definition NewDockerRuntime ::
  "err_lib \<Rightarrow> 'w command_runner \<Rightarrow> registry_auth ptr \<Rightarrow> 'w \<Rightarrow> (go_error + 'w docker_runtime) \<times> 'w" where
  "NewDockerRuntime L runner registryAuth w =
     (let runtime = \<lparr>dr_runner = runner, dr_registryAuth = registryAuth\<rparr>
      in case EnsureDockerConfigDir runtime w of
           (Some e, w1) \<Rightarrow> (Inl e, w1)
         | (None, w1) \<Rightarrow>
             (case EnsureRegistryAuth L runtime w1 of
                (Some e, w2) \<Rightarrow> (Inl e, w2)
              | (None, w2) \<Rightarrow> (Inr runtime, w2)))"

section \<open>Containers\<close>

text \<open>\<open>sanitizeContainerName\<close>: the loop keeps the text built so far and whether it ends in a dash.\<close>

fun sanitize_container_loop :: "string \<Rightarrow> bool \<Rightarrow> string \<Rightarrow> string" where
  "sanitize_container_loop built lastDash [] = built"
| "sanitize_container_loop built lastDash (c # cs) =
     (if name_char c then sanitize_container_loop (built @ [c]) False cs
      else if \<not> lastDash then sanitize_container_loop (built @ ''-'') True cs
      else sanitize_container_loop built lastDash cs)"

definition sanitizeContainerName :: "string \<Rightarrow> string" where
  "sanitizeContainerName s = Trim (sanitize_container_loop [] False (ToLower s)) CHR ''-''"

definition spec_cluster :: "static_node ptr \<Rightarrow> string" where
  "spec_cluster node = (case Option.bind node sn_Spec of None \<Rightarrow> [] | Some s \<Rightarrow> sns_Cluster s)"

definition componentContainerName :: "static_node ptr \<Rightarrow> node_component_spec \<Rightarrow> string" where
  "componentContainerName node component =
     (let prefix = (if spec_cluster node \<noteq> [] then ''neutree-'' @ spec_cluster node else ''neutree'')
      in sanitizeContainerName (prefix @ ''-'' @ comp_Name component))"

definition dockerRunOptionArgs :: "string list \<Rightarrow> string list" where
  "dockerRunOptionArgs options = concat (map (\<lambda>option. shellArgs (Fields option)) options)"

definition usesHostNetwork :: "string list \<Rightarrow> bool" where
  "usesHostNetwork options =
     list_ex (\<lambda>option. case Fields option of
        [] \<Rightarrow> False
      | f # fs \<Rightarrow> f = ''--net=host'' \<or> f = ''--network=host'' \<or>
          (fs \<noteq> [] \<and> (f = ''--net'' \<or> f = ''--network'') \<and> hd fs = ''host'')) options"

definition volume_value :: "node_component_volume \<Rightarrow> string" where
  "volume_value volume =
     vol_HostPath volume @ '':'' @ vol_MountPath volume @ (if vol_ReadOnly volume then '':ro'' else [])"

definition run_parts :: "static_node ptr \<Rightarrow> node_component_spec \<Rightarrow> string \<Rightarrow> string list" where
  "run_parts node component componentHash =
     [''docker'', ''run'', ''-d'',
      ''--name'', shellArg (componentContainerName node component),
      ''--label'', shellArg (componentHashLabel @ ''='' @ componentHash),
      ''--label'', shellArg (componentNameLabel @ ''='' @ comp_Name component)] @
     (if spec_cluster node \<noteq> [] then [''--label'', shellArg (clusterNameLabel @ ''='' @ spec_cluster node)] else []) @
     [''--restart'', ''unless-stopped''] @
     dockerRunOptionArgs (els (comp_DockerRunOptions component)) @
     (if \<not> usesHostNetwork (els (comp_DockerRunOptions component)) then
        concat (map (\<lambda>port. if port_Port port = 0 then []
                     else [''-p'', Itoa (port_Port port) @ '':'' @ Itoa (port_Port port)]) (els (comp_Ports component)))
      else []) @
     concat (map (\<lambda>(key, v). [''-e'', shellArg (key @ ''='' @ v)]) (els (comp_Env component))) @
     concat (map (\<lambda>volume. if vol_HostPath volume = [] \<or> vol_MountPath volume = [] then []
                   else [''-v'', shellArg (volume_value volume)]) (els (comp_Volumes component))) @
     [shellArg (comp_Image component)] @ shellArgs (els (comp_Command component)) @ shellArgs (els (comp_Args component))"

definition buildDockerRunCommand :: "static_node ptr \<Rightarrow> node_component_spec \<Rightarrow> string \<Rightarrow> string" where
  "buildDockerRunCommand node component componentHash = Join (run_parts node component componentHash) '' ''"

definition container_state_matches :: "string \<Rightarrow> string \<Rightarrow> bool" where
  "container_state_matches componentHash output =
     (case Fields (lastNonEmptyLine output) of
        [h, running] \<Rightarrow> h = componentHash \<and> running = ''true''
      | _ \<Rightarrow> False)"

definition ComponentContainerMatches ::
  "'w docker_runtime \<Rightarrow> string \<Rightarrow> string \<Rightarrow> 'w \<Rightarrow> (go_error + bool) \<times> 'w" where
  "ComponentContainerMatches r containerName componentHash w =
     (case cr_Run (dr_runner r)
             (''docker inspect --format='' @ [squote, CHR 0x7B, CHR 0x7B] @ ''index .Config.Labels '' @
              [dquote] @ ''neutree.ai/component-hash'' @ [dquote, CHR 0x7D, CHR 0x7D] @ '' '' @
              [CHR 0x7B, CHR 0x7B] @ ''.State.Running'' @ [CHR 0x7D, CHR 0x7D, squote] @ '' '' @ shellArg containerName) w of
        (Inl e, w1) \<Rightarrow>
          (Inl (dockerError componentReasonInspectFailed
             (''failed to inspect component container '' @ containerName) (Some e)), w1)
      | (Inr output, w1) \<Rightarrow> (Inr (container_state_matches componentHash output), w1))"

definition remove_command :: "string \<Rightarrow> string" where
  "remove_command containerName = ''docker rm -f '' @ shellArg containerName @ '' >/dev/null 2>&1 || true''"

definition RemoveContainer :: "'w docker_runtime \<Rightarrow> string \<Rightarrow> 'w \<Rightarrow> go_error option \<times> 'w" where
  "RemoveContainer r containerName w =
     (case cr_Run (dr_runner r) (remove_command containerName) w of
        (Inl e, w1) \<Rightarrow>
          (Some (dockerError componentReasonRemoveFailed
             (''failed to remove component container '' @ containerName) (Some e)), w1)
      | (Inr _, w1) \<Rightarrow> (None, w1))"

definition RestartComponentContainer ::
  "'w docker_runtime \<Rightarrow> static_node ptr \<Rightarrow> node_component_spec \<Rightarrow> string \<Rightarrow> 'w \<Rightarrow> go_error option \<times> 'w" where
  "RestartComponentContainer r node component componentHash w =
     (case EnsureImage r (comp_Image component) w of
        (Some e, w1) \<Rightarrow> (Some e, w1)
      | (None, w1) \<Rightarrow>
          (let containerName = componentContainerName node component in
           case RemoveContainer r containerName w1 of
             (Some e, w2) \<Rightarrow> (Some e, w2)
           | (None, w2) \<Rightarrow>
               (case cr_Run (dr_runner r) (buildDockerRunCommand node component componentHash) w2 of
                  (Inl e, w3) \<Rightarrow>
                    (Some (dockerError componentReasonRunFailed
                       (''failed to run component container '' @ containerName) (Some e)), w3)
                | (Inr _, w3) \<Rightarrow> (None, w3))))"

section \<open>Container names\<close>

lemma sanitize_container_loop_chars:
  "\<forall>c \<in> set built. name_char c \<or> c = CHR ''-'' \<Longrightarrow>
   \<forall>c \<in> set (sanitize_container_loop built l s). name_char c \<or> c = CHR ''-''"
  by (induction built l s rule: sanitize_container_loop.induct) auto

lemma sanitize_container_loop_single:
  "single_dashes built \<Longrightarrow> (built \<noteq> [] \<and> last built = CHR ''-'' \<longrightarrow> l) \<Longrightarrow>
   single_dashes (sanitize_container_loop built l s)"
proof (induction built l s rule: sanitize_container_loop.induct)
  case (2 built l c cs)
  then show ?case using name_char_not_dash [of c] by (auto simp: successively_append_iff)
qed simp

lemma sanitize_container_loop_keeps:
  "single_dashes (d @ s) \<Longrightarrow> \<forall>c \<in> set s. name_char c \<or> c = CHR ''-'' \<Longrightarrow> (l \<longrightarrow> d \<noteq> [] \<and> last d = CHR ''-'') \<Longrightarrow>
   sanitize_container_loop built l s = built @ s"
proof (induction built l s arbitrary: d rule: sanitize_container_loop.induct)
  case (2 built l c cs)
  have c: "name_char c \<or> c = CHR ''-''" using 2 by simp
  show ?case
  proof (cases "name_char c")
    case True
    then show ?thesis using 2(1) [of "d @ [c]"] 2(4-6) by simp
  next
    case False
    then have "c = CHR ''-''" "\<not> l" using c 2(4,6) by (auto simp: successively_append_iff)
    then show ?thesis using 2(2) [of "d @ ''-''"] 2(4,5) False by simp
  qed
qed simp

interpretation csan: name_sanitizer sanitizeContainerName
proof
  show "clean_name (sanitizeContainerName s)" for s
    unfolding sanitizeContainerName_def
    by (rule clean_name_Trim) (rule sanitize_container_loop_chars sanitize_container_loop_single; simp)+
  show "sanitizeContainerName s = s" if "clean_name s" for s
    using that sanitize_container_loop_keeps [of "[]" s False "[]"] ToLower_clean [of s] Trim_clean [of s]
    by (simp add: sanitizeContainerName_def clean_name_def)
qed

text \<open>The loop works from left to right: what it builds is the start of what it returns.\<close>

lemma sanitize_container_loop_append:
  "sanitize_container_loop built l (s @ t) =
     (let b = sanitize_container_loop built l s in
      sanitize_container_loop b (if s = [] then l else b \<noteq> [] \<and> last b = CHR ''-'') t)"
  if "built \<noteq> [] \<and> last built = CHR ''-'' \<longleftrightarrow> l"
  using that
proof (induction built l s rule: sanitize_container_loop.induct)
  case (2 built l c cs)
  then show ?case using name_char_not_dash [of c] by (auto simp: Let_def)
qed (simp add: Let_def)

lemma sanitize_container_loop_last:
  "(built \<noteq> [] \<and> last built = CHR ''-'' \<longleftrightarrow> l) \<Longrightarrow>
   sanitize_container_loop built l (s @ ''-'') \<noteq> [] \<and> last (sanitize_container_loop built l (s @ ''-'')) = CHR ''-''"
proof (induction built l s rule: sanitize_container_loop.induct)
  case (1 built l)
  then show ?case using name_char_not_dash [of "CHR ''-''"] by auto
next
  case (2 built l c cs)
  then show ?case using name_char_not_dash [of c] by auto
qed

definition container_prefix :: "string \<Rightarrow> string" where
  "container_prefix p = dropWhile (\<lambda>c. c = CHR ''-'') (sanitize_container_loop [] False (ToLower (p @ ''-'')))"

text \<open>A clean name is kept as it is at the end of a container name, whatever the prefix.\<close>

lemma sanitize_clean_suffix:
  assumes n: "clean_name n" "n \<noteq> []"
  shows "sanitizeContainerName (p @ ''-'' @ n) = container_prefix p @ n"
proof -
  let ?b = "sanitize_container_loop [] False (ToLower (p @ ''-''))"
  have low: "ToLower (p @ ''-'' @ n) = ToLower (p @ ''-'') @ n"
    using ToLower_clean [of n] n(1) by (simp add: ToLower_def clean_name_def)
  have b: "?b \<noteq> []" "last ?b = CHR ''-''"
    using sanitize_container_loop_last [of "[]" False "ToLower p"]
    by (simp_all add: ToLower_def to_lower_def is_upper_def in_range_def)
  have "sanitize_container_loop ?b True n = ?b @ n"
    by (rule sanitize_container_loop_keeps [of "''-''"]) (use n in \<open>auto simp: clean_name_def successively_Cons\<close>)
  then have s: "sanitize_container_loop [] False (ToLower (p @ ''-'' @ n)) = ?b @ n"
    unfolding low using b by (subst sanitize_container_loop_append) (simp_all add: Let_def ToLower_def)
  have "dropWhile (\<lambda>c. c = CHR ''-'') (?b @ n) = container_prefix p @ n"
    using n by (auto simp: container_prefix_def dropWhile_append clean_name_def dropWhile_hd)
  then show ?thesis
    using n unfolding sanitizeContainerName_def s Trim_def TrimFunc_def TrimRightFunc_def TrimLeftFunc_def
    by (auto simp: clean_name_def dropWhile_hd hd_append hd_rev)
qed

text \<open>
  C13: on one node two components with different clean names never share a container name, whatever
  the cluster is called; a component that is stopped or restarted is removed by this name.
\<close>

theorem container_names_distinct:
  assumes "clean_name (comp_Name c)" "comp_Name c \<noteq> []" "clean_name (comp_Name d)" "comp_Name d \<noteq> []"
  shows "componentContainerName node c = componentContainerName node d \<longleftrightarrow> comp_Name c = comp_Name d"
  by (simp only: componentContainerName_def Let_def sanitize_clean_suffix [OF assms(1,2)]
      sanitize_clean_suffix [OF assms(3,4)] same_append_eq)

theorem container_names_distinct_witness:
  "componentContainerName None (zero_component\<lparr>comp_Name := ''ray-head''\<rparr>) \<noteq>
   componentContainerName None (zero_component\<lparr>comp_Name := ''vmagent''\<rparr>)"
proof -
  have "clean_name ''ray-head''" "clean_name ''vmagent''"
    by (simp_all add: clean_name_def name_char_def is_lower_def is_digit_def in_range_def)
  then show ?thesis
    using container_names_distinct [of "zero_component\<lparr>comp_Name := ''ray-head''\<rparr>" "zero_component\<lparr>comp_Name := ''vmagent''\<rparr>" None]
    by simp
qed

section \<open>The words of the run command\<close>

text \<open>What \<open>docker run\<close> is meant to be called with: the arguments before any quoting.\<close>

definition docker_argv :: "static_node ptr \<Rightarrow> node_component_spec \<Rightarrow> string \<Rightarrow> string list" where
  "docker_argv node c h =
     [''docker'', ''run'', ''-d'', ''--name'', componentContainerName node c,
      ''--label'', componentHashLabel @ ''='' @ h, ''--label'', componentNameLabel @ ''='' @ comp_Name c] @
     (if spec_cluster node \<noteq> [] then [''--label'', clusterNameLabel @ ''='' @ spec_cluster node] else []) @
     [''--restart'', ''unless-stopped''] @ concat (map Fields (els (comp_DockerRunOptions c))) @
     (if usesHostNetwork (els (comp_DockerRunOptions c)) then []
      else concat (map (\<lambda>p. if port_Port p = 0 then [] else [''-p'', Itoa (port_Port p) @ '':'' @ Itoa (port_Port p)])
             (els (comp_Ports c)))) @
     concat (map (\<lambda>(k, v). [''-e'', k @ ''='' @ v]) (els (comp_Env c))) @
     concat (map (\<lambda>v. if vol_HostPath v = [] \<or> vol_MountPath v = [] then [] else [''-v'', volume_value v]) (els (comp_Volumes c))) @
     [comp_Image c] @ els (comp_Command c) @ els (comp_Args c)"

lemma shellArgs_denote: "list_all2 sh_denotes (shellArgs vs) vs"
  by (simp add: shellArgs_def list_all2_conv_all_nth arg.quote_denotes)

lemma run_words_plain:
  "sh_denotes ''docker'' ''docker''" "sh_denotes ''run'' ''run''" "sh_denotes ''-d'' ''-d''"
  "sh_denotes ''--name'' ''--name''" "sh_denotes ''--label'' ''--label''" "sh_denotes ''--restart'' ''--restart''"
  "sh_denotes ''unless-stopped'' ''unless-stopped''" "sh_denotes ''-p'' ''-p''" "sh_denotes ''-e'' ''-e''"
  "sh_denotes ''-v'' ''-v''"
  by (rule sh_denotes_plain; simp add: sh_plain_char_def is_lower_def in_range_def)+

lemma Itoa_plain: "c \<in> set (Itoa i) \<Longrightarrow> sh_plain_char c"
  by (cases "i < 0") (auto simp: Itoa_def sh_plain_char_def dest: itoa_nat_digits)

lemma port_denotes: "sh_denotes (Itoa p @ '':'' @ Itoa q) (Itoa p @ '':'' @ Itoa q)"
proof (rule sh_denotes_plain)
  have "sh_plain_char CHR '':''" by (simp add: sh_plain_char_def)
  then show "\<forall>c \<in> set (Itoa p @ '':'' @ Itoa q). sh_plain_char c"
    using Itoa_plain by (simp add: ball_Un)
qed simp

lemmas run_words = run_words_plain arg.quote_denotes shellArgs_denote port_denotes [simplified]

lemma run_parts_denote: "list_all2 sh_denotes (run_parts node c h) (docker_argv node c h)"
  unfolding run_parts_def docker_argv_def dockerRunOptionArgs_def if_not_P
  apply (intro list_all2_appendI)
  subgoal by (simp add: run_words)
  subgoal by (simp add: run_words)
  subgoal by (simp add: run_words)
  subgoal by (rule list_all2_concat_map) (rule run_words)
  subgoal by (auto simp: run_words intro!: list_all2_concat_map)
  subgoal by (rule list_all2_concat_map) (simp add: run_words split: prod.split)
  subgoal by (rule list_all2_concat_map) (simp add: run_words)
  subgoal by (simp add: run_words)
  subgoal by (rule run_words)
  subgoal by (rule run_words)
  done

text \<open>
  C14: the shell of the node calls \<open>docker run\<close> with exactly the intended arguments: names, labels,
  environment values, paths, image and arguments reach it as single words whatever bytes they
  contain, so no field of a component can add a word or a command.
\<close>

theorem docker_run_words:
  "sh_words (buildDockerRunCommand node component h) = Some (docker_argv node component h)"
  unfolding buildDockerRunCommand_def using run_parts_denote by (rule sh_words_Join)

section \<open>A runner that records\<close>

text \<open>
  A runner that answers every command and file operation by a function of its text and records it:
  the world is the list of what was asked for so far.
\<close>

definition log_files :: "(string \<Rightarrow> go_error + string) \<Rightarrow> string list file_client" where
  "log_files f =
     \<lparr>fc_WriteFileIfChanged = \<lambda>path content opts w.
        ((case f (''write '' @ path) of Inl e \<Rightarrow> Inl e | Inr answer \<Rightarrow> Inr (answer \<noteq> [])), w @ [''write '' @ path]),
      fc_Remove = \<lambda>path sudo w.
        ((case f (''remove '' @ path) of Inl e \<Rightarrow> Some e | Inr _ \<Rightarrow> None), w @ [''remove '' @ path])\<rparr>"

definition log_runner :: "(string \<Rightarrow> go_error + string) \<Rightarrow> string list command_runner" where
  "log_runner f = \<lparr>cr_Run = \<lambda>c w. (f c, w @ [c]), cr_Files = Some (log_files f), cr_Close = \<lambda>w. (None, w @ [''close''])\<rparr>"

lemma log_runner_Run [simp]: "cr_Run (log_runner f) c w = (f c, w @ [c])"
  by (simp add: log_runner_def)

end
