(* ===== verification/Registry_Login.thy ===== *)
theory Registry_Login
  imports Docker_Runtime "HOL-Library.Sublist"
begin

text \<open>
  The registry credentials on a node: a failed login keeps the password out of the error, and the
  login is skipped only when the wanted credentials are the stored ones.
\<close>

section \<open>Redacting a secret\<close>

lemma replaced_prefix:
  assumes "new \<noteq> []"
  shows "set p \<inter> set new = {} \<Longrightarrow> prefix p (ReplaceAll s old new) \<Longrightarrow> prefix p s"
proof (induction p arbitrary: s)
  case (Cons x p)
  obtain c s' where s: "s = c # s'" using Cons.prems(2) by (cases s) auto
  obtain n ns where n: "new = n # ns" using assms by (cases new) auto
  show ?case using Cons n by (auto simp: s split: if_splits)
qed simp

lemma not_prefix_replaced:
  assumes "old \<noteq> []" "new \<noteq> []" "set old \<inter> set new = {}"
  shows "\<not> prefix old (ReplaceAll s old new)"
proof
  assume p: "prefix old (ReplaceAll s old new)"
  then have "prefix old s" using replaced_prefix assms by blast
  then obtain c s' where s: "s = c # s'" "HasPrefix (c # s') old"
    using assms by (cases s) (auto simp: prefix_def HasPrefix_def)
  obtain o1 os n ns where "old = o1 # os" "new = n # ns" using assms by (metis list.exhaust)
  then show False using p s assms(3) by auto
qed

lemma sublist_skip: "old \<noteq> [] \<Longrightarrow> set xs \<inter> set old = {} \<Longrightarrow> sublist old (xs @ ys) \<Longrightarrow> sublist old ys"
proof (induction xs)
  case (Cons x xs)
  then show ?case by (cases old) (auto simp: sublist_Cons_right)
qed simp

lemma not_sublist_replaced:
  assumes "old \<noteq> []" "new \<noteq> []" "set old \<inter> set new = {}"
  shows "\<not> sublist old (ReplaceAll s old new)"
proof (induction "length s" arbitrary: s rule: less_induct)
  case less
  show ?case
  proof (cases s)
    case (Cons c s')
    show ?thesis
    proof (cases "HasPrefix s old")
      case True
      have "\<not> sublist old (ReplaceAll (drop (length old - 1) s') old new)" using less Cons by simp
      moreover have "ReplaceAll s old new = new @ ReplaceAll (drop (length old - 1) s') old new"
        using True assms(1) Cons by simp
      ultimately show ?thesis using sublist_skip [of old new] assms by (metis Int_commute)
    next
      case False
      have "\<not> sublist old (ReplaceAll s' old new)" using less Cons by simp
      moreover have "ReplaceAll s old new = c # ReplaceAll s' old new" using False Cons by simp
      ultimately show ?thesis using not_prefix_replaced [OF assms, of s] by (simp add: sublist_Cons_right)
    qed
  qed (use assms in simp)
qed

text \<open>
  C15: for a password that shares no character with \<open>[REDACTED]\<close>, which is put in its place: when the login
  to a registry fails, the cause kept in the error does not contain the password, whatever the command
  printed.
\<close>

theorem Login_hides_password:
  assumes "dr_registryAuth r = Some a" "set (ra_Password a) \<inter> set ''[REDACTED]'' = {}"
    and "fst (Login L r w) = Some e"
  shows "\<exists>m c. e = DockerError componentReasonRegistryLoginFailed m (Some c) \<and>
    \<not> sublist (ra_Password a) (error_text L c)"
proof -
  have ne: "ra_Password a \<noteq> []"
    using assms(1,3) by (auto simp: Login_def configured_def split: if_splits)
  have "\<not> sublist (ra_Password a) (ReplaceAll t (ra_Password a) ''[REDACTED]'')" for t
    by (rule not_sublist_replaced) (use ne assms(2) in auto)
  then show ?thesis
    using assms(1,3) ne
    by (auto simp: Login_def Let_def dockerError_def redactSecret_def split: if_splits prod.splits sum.splits)
qed

definition sample_registry :: registry_auth where
  "sample_registry = \<lparr>ra_Server = ''reg.io'', ra_Username = ''bot'', ra_Password = ''hunter2''\<rparr>"

theorem Login_hides_password_witness:
  "\<exists>m c. fst (Login plain_errors \<lparr>dr_runner = log_runner (\<lambda>c. Inl (ErrNew ''bad hunter2'')), dr_registryAuth = Some sample_registry\<rparr> []) =
     Some (DockerError ''RegistryLoginFailed'' m (Some c)) \<and> \<not> sublist ''hunter2'' (error_text plain_errors c)"
proof -
  let ?r = "\<lparr>dr_runner = log_runner (\<lambda>c. Inl (ErrNew ''bad hunter2'')), dr_registryAuth = Some sample_registry\<rparr>"
  obtain e where e: "fst (Login plain_errors ?r []) = Some e"
    by (simp add: Login_def configured_def sample_registry_def)
  show ?thesis
    using Login_hides_password [of ?r sample_registry plain_errors "[]" e] e
    by (simp add: sample_registry_def) 
qed

section \<open>A stored login\<close>

text \<open>Credentials joined by a colon, with none in the user name, come apart in one way.\<close>

lemma credentials_apart:
  assumes "u @ '':'' @ p = v @ '':'' @ q" "CHR '':'' \<notin> set u" "CHR '':'' \<notin> set v"
  shows "u = v \<and> p = q"
  using assms
proof (induction u arbitrary: v)
  case Nil
  then show ?case by (cases v) auto
next
  case (Cons x u)
  then show ?case by (cases v) auto
qed

text \<open>
  C16: the login is skipped only for the credentials the node has stored. A Docker configuration that
  matches the wanted credentials of a registry stores for its server a value that decodes to the wanted
  user and password; and, for user names without a colon, the same configuration matches no other
  credentials for that server, so that a changed user or password leads to a new login.
\<close>

theorem stored_login_is_the_wanted:
  assumes "registryConfigMatches r a w = (True, w1)"
  shows "\<exists>out auths stored. cr_Run (dr_runner r) (''cat '' @ shellArg (DockerConfigHostDir @ ''/config.json'')) w = (Inr out, w1) \<and>
    unmarshal_docker_config out = Some auths \<and> map_of (els auths) (ra_Server a) = Some stored \<and>
    base64_DecodeString stored = Some (ra_Username a @ '':'' @ ra_Password a) \<and>
    (\<forall>b. ra_Server b = ra_Server a \<longrightarrow> CHR '':'' \<notin> set (ra_Username a) \<longrightarrow> CHR '':'' \<notin> set (ra_Username b) \<longrightarrow> config_matches b out \<longrightarrow>
       ra_Username b = ra_Username a \<and> ra_Password b = ra_Password a)"
proof -
  obtain out where o: "cr_Run (dr_runner r) (''cat '' @ shellArg (DockerConfigHostDir @ ''/config.json'')) w = (Inr out, w1)"
    "config_matches a out"
    using assms by (auto simp: registryConfigMatches_def split: prod.splits sum.splits)
  then obtain auths where u: "unmarshal_docker_config out = Some auths"
    "map_of (els auths) (ra_Server a) = Some (expectedRegistryAuth (Some a))"
    by (auto simp: config_matches_def split: option.splits)
  have "ra_Username b = ra_Username a \<and> ra_Password b = ra_Password a"
    if "ra_Server b = ra_Server a" "CHR '':'' \<notin> set (ra_Username a)" "CHR '':'' \<notin> set (ra_Username b)" "config_matches b out" for b
  proof -
    have "base64_EncodeToString (ra_Username b @ '':'' @ ra_Password b) = base64_EncodeToString (ra_Username a @ '':'' @ ra_Password a)"
      using that(1,4) u by (simp add: config_matches_def expectedRegistryAuth_def)
    then have "ra_Username b @ '':'' @ ra_Password b = ra_Username a @ '':'' @ ra_Password a"
      by (metis base64_decode_encode option.inject)
    then show ?thesis using that(3,2) by (rule credentials_apart)
  qed
  with o(1) u show ?thesis by (auto simp: expectedRegistryAuth_def base64_decode_encode)
qed

text \<open>A node that has stored user \<open>u\<close> and password \<open>p\<close> for the registry \<open>r\<close>.\<close>

definition sample_stored :: string where
  "sample_stored = ''{\"auths\":{\"r\":{\"auth\":\"dTpw\"}}}''"

definition sample_login :: "string \<Rightarrow> registry_auth" where
  "sample_login password = \<lparr>ra_Server = ''r'', ra_Username = ''u'', ra_Password = password\<rparr>"

lemma sample_login_matches: "config_matches (sample_login ''p'') sample_stored"
  by code_simp

theorem stored_login_is_the_wanted_witness:
  "fst (registryConfigMatches \<lparr>dr_runner = log_runner (\<lambda>c. Inr sample_stored), dr_registryAuth = None\<rparr> (sample_login ''p'') []) \<and>
   \<not> config_matches (sample_login ''q'') sample_stored"
proof -
  let ?r = "\<lparr>dr_runner = log_runner (\<lambda>c. Inr sample_stored), dr_registryAuth = None\<rparr>"
  obtain w where w: "registryConfigMatches ?r (sample_login ''p'') [] = (True, w)"
    by (simp add: registryConfigMatches_def log_runner_def sample_login_matches)
  then show ?thesis
    using stored_login_is_the_wanted [OF w]
    by (auto simp: log_runner_def sample_login_def dest!: spec [of _ "sample_login ''q''"])
qed

end
