(* ===== verification/Store.thy ===== *)
theory Store
  imports Image_Ref
begin

text \<open>
  The storage interface the controllers call, \<open>pkg/storage/storage.go\<close>, as a record of operations on
  the world, with \<open>staticnode/helper.go\<close> and \<open>controllers/static_node_helpers.go\<close> on top of it. The
  object passed to an update is a patch: PostgREST writes the columns the JSON of the object has, and
  a nil pointer leaves its column out. \<open>tables\<close> is the contract of the storage on the two
  tables of the static-node path, and \<open>mem_store\<close> an instance of it.
\<close>

section \<open>The interface\<close>

record list_filter =
  flt_Column :: string
  flt_Operator :: string
  flt_Value :: string

record static_node_patch =
  snp_ID :: int
  snp_APIVersion :: string
  snp_Kind :: string
  snp_Metadata :: "metadata ptr"
  snp_Spec :: "static_node_spec ptr"
  snp_Status :: "static_node_status ptr"

record static_node_cluster_patch =
  scp_ID :: int
  scp_APIVersion :: string
  scp_Kind :: string
  scp_Metadata :: "metadata ptr"
  scp_Spec :: "static_node_cluster_spec ptr"
  scp_Status :: "static_node_cluster_status ptr"

definition zero_node_patch :: static_node_patch where
  "zero_node_patch =
     \<lparr>snp_ID = 0, snp_APIVersion = [], snp_Kind = [], snp_Metadata = None, snp_Spec = None, snp_Status = None\<rparr>"

definition zero_cluster_patch :: static_node_cluster_patch where
  "zero_cluster_patch =
     \<lparr>scp_ID = 0, scp_APIVersion = [], scp_Kind = [], scp_Metadata = None, scp_Spec = None, scp_Status = None\<rparr>"

record 'w store =
  st_ListStaticNode :: "list_filter list \<Rightarrow> 'w \<Rightarrow> (go_error + static_node list) \<times> 'w"
  st_CreateStaticNode :: "static_node \<Rightarrow> 'w \<Rightarrow> go_error option \<times> 'w"
  st_UpdateStaticNode :: "string \<Rightarrow> static_node_patch \<Rightarrow> 'w \<Rightarrow> go_error option \<times> 'w"
  st_DeleteStaticNode :: "string \<Rightarrow> 'w \<Rightarrow> go_error option \<times> 'w"
  st_ListStaticNodeCluster :: "list_filter list \<Rightarrow> 'w \<Rightarrow> (go_error + static_node_cluster list) \<times> 'w"
  st_CreateStaticNodeCluster :: "static_node_cluster \<Rightarrow> 'w \<Rightarrow> go_error option \<times> 'w"
  st_UpdateStaticNodeCluster :: "string \<Rightarrow> static_node_cluster_patch \<Rightarrow> 'w \<Rightarrow> go_error option \<times> 'w"
  st_DeleteStaticNodeCluster :: "string \<Rightarrow> 'w \<Rightarrow> go_error option \<times> 'w"
  st_ListCluster :: "list_filter list \<Rightarrow> 'w \<Rightarrow> (go_error + cluster list) \<times> 'w"
  st_ListImageRegistry :: "list_filter list \<Rightarrow> 'w \<Rightarrow> (go_error + image_registry list) \<times> 'w"

definition eq_filter :: "string \<Rightarrow> string \<Rightarrow> list_filter" where
  "eq_filter column v = \<lparr>flt_Column = column, flt_Operator = ''eq'', flt_Value = v\<rparr>"

text \<open>A value in double quotes, as the filters on JSON columns have it.\<close>

definition in_quotes :: "string \<Rightarrow> string" where
  "in_quotes v = dquote # v @ [dquote]"

section \<open>Listing the nodes of a cluster\<close>

definition ListByCluster ::
  "'w store \<Rightarrow> string \<Rightarrow> string \<Rightarrow> 'w \<Rightarrow> (go_error + static_node list) \<times> 'w" where
  "ListByCluster store workspace clusterName w =
     (case st_ListStaticNode store
             [eq_filter ''metadata->>workspace'' workspace, eq_filter ''spec->>cluster'' clusterName] w of
        (Inl e, w1) \<Rightarrow> (Inl e, w1)
      | (Inr items, w1) \<Rightarrow>
          (Inr (filter (\<lambda>node. case sn_Spec node of
                   None \<Rightarrow> False
                 | Some spec \<Rightarrow> meta_Workspace (sn_Metadata node) = workspace \<and> sns_Cluster spec = clusterName) items), w1))"

section \<open>Static node helpers\<close>

definition prepareStaticNode :: "static_node \<Rightarrow> static_node" where
  "prepareStaticNode node =
     node\<lparr>sn_APIVersion := (if sn_APIVersion node = [] then ''v1'' else sn_APIVersion node),
          sn_Kind := (if sn_Kind node = [] then StaticNodeKind else sn_Kind node)\<rparr>"

definition prepareStaticNodeCluster :: "static_node_cluster \<Rightarrow> static_node_cluster" where
  "prepareStaticNodeCluster cluster =
     cluster\<lparr>snc_APIVersion := (if snc_APIVersion cluster = [] then ''v1'' else snc_APIVersion cluster),
             snc_Kind := (if snc_Kind cluster = [] then StaticNodeClusterKind else snc_Kind cluster)\<rparr>"

definition findStaticNode ::
  "'w store \<Rightarrow> string \<Rightarrow> string \<Rightarrow> 'w \<Rightarrow> (go_error + static_node option) \<times> 'w" where
  "findStaticNode store workspace name w =
     (case st_ListStaticNode store
             [eq_filter ''metadata->>workspace'' workspace, eq_filter ''metadata->>name'' name] w of
        (Inl e, w1) \<Rightarrow> (Inl e, w1)
      | (Inr nodes, w1) \<Rightarrow>
          (Inr (List.find (\<lambda>node. meta_Workspace (sn_Metadata node) = workspace \<and> node_name node = name) nodes), w1))"

definition staticNodeDesiredUpdate :: "static_node \<Rightarrow> static_node_patch" where
  "staticNodeDesiredUpdate node =
     \<lparr>snp_ID = sn_ID node, snp_APIVersion = sn_APIVersion node, snp_Kind = sn_Kind node,
      snp_Metadata = Some (sn_Metadata node), snp_Spec = sn_Spec node, snp_Status = None\<rparr>"

definition staticNodeMetadataUpdate :: "static_node \<Rightarrow> static_node_patch" where
  "staticNodeMetadataUpdate node =
     \<lparr>snp_ID = sn_ID node, snp_APIVersion = sn_APIVersion node, snp_Kind = sn_Kind node,
      snp_Metadata = Some (sn_Metadata node), snp_Spec = None, snp_Status = None\<rparr>"

definition validateStaticNodeOwner :: "static_node \<Rightarrow> static_node \<Rightarrow> go_error option" where
  "validateStaticNodeOwner existing desired =
     (case (sn_Spec existing, sn_Spec desired) of
        (Some e, Some d) \<Rightarrow>
          if sns_Cluster e = [] \<or> sns_Cluster d = [] \<or> sns_Cluster e = sns_Cluster d then None
          else Some (ErrNew (''static node '' @ node_name desired @ '' is already owned by static node cluster '' @ sns_Cluster e))
      | _ \<Rightarrow> None)"

definition upsertStaticNode ::
  "'w store ptr \<Rightarrow> static_node ptr \<Rightarrow> 'w \<Rightarrow> go_error option \<times> 'w" where
  "upsertStaticNode storePtr nodePtr w =
     (case storePtr of
        None \<Rightarrow> (Some (ErrNew ''storage is required''), w)
      | Some store \<Rightarrow>
          (case nodePtr of
             None \<Rightarrow> (Some (ErrNew ''static node is required''), w)
           | Some node0 \<Rightarrow>
               let node = prepareStaticNode node0 in
               case findStaticNode store (meta_Workspace (sn_Metadata node)) (node_name node) w of
                 (Inl e, w1) \<Rightarrow> (Some e, w1)
               | (Inr None, w1) \<Rightarrow> st_CreateStaticNode store node w1
               | (Inr (Some existing), w1) \<Rightarrow>
                   (case validateStaticNodeOwner existing node of
                      Some e \<Rightarrow> (Some e, w1)
                    | None \<Rightarrow>
                        st_UpdateStaticNode store (StaticNode_GetID existing)
                          (staticNodeDesiredUpdate (node\<lparr>sn_ID := sn_ID existing\<rparr>)) w1)))"

text \<open>The clock is the argument \<open>now\<close>: the time of the call, formatted.\<close>

definition softDeleteStaticNode ::
  "string \<Rightarrow> 'w store ptr \<Rightarrow> static_node ptr \<Rightarrow> 'w \<Rightarrow> go_error option \<times> 'w" where
  "softDeleteStaticNode now storePtr nodePtr w =
     (case storePtr of
        None \<Rightarrow> (Some (ErrNew ''storage is required''), w)
      | Some store \<Rightarrow>
          (case nodePtr of
             None \<Rightarrow> (Some (ErrNew ''static node is required''), w)
           | Some node0 \<Rightarrow>
               let node = prepareStaticNode node0;
                   marked = (if meta_DeletionTimestamp (sn_Metadata node) = []
                             then node\<lparr>sn_Metadata := (sn_Metadata node)\<lparr>meta_DeletionTimestamp := now\<rparr>\<rparr> else node)
               in st_UpdateStaticNode store (StaticNode_GetID marked) (staticNodeMetadataUpdate marked) w))"

definition hardDeleteStaticNode :: "'w store ptr \<Rightarrow> static_node ptr \<Rightarrow> 'w \<Rightarrow> go_error option \<times> 'w" where
  "hardDeleteStaticNode storePtr nodePtr w =
     (case storePtr of
        None \<Rightarrow> (Some (ErrNew ''storage is required''), w)
      | Some store \<Rightarrow>
          (case nodePtr of
             None \<Rightarrow> (Some (ErrNew ''static node is required''), w)
           | Some node \<Rightarrow> st_DeleteStaticNode store (StaticNode_GetID (prepareStaticNode node)) w))"

definition hardDeleteStaticNodeCluster ::
  "'w store ptr \<Rightarrow> static_node_cluster ptr \<Rightarrow> 'w \<Rightarrow> go_error option \<times> 'w" where
  "hardDeleteStaticNodeCluster storePtr clusterPtr w =
     (case storePtr of
        None \<Rightarrow> (Some (ErrNew ''storage is required''), w)
      | Some store \<Rightarrow>
          (case clusterPtr of
             None \<Rightarrow> (Some (ErrNew ''static node cluster is required''), w)
           | Some cluster \<Rightarrow>
               st_DeleteStaticNodeCluster store (StaticNodeCluster_GetID (prepareStaticNodeCluster cluster)) w))"

definition updateStaticNodeClusterStatus ::
  "'w store ptr \<Rightarrow> static_node_cluster ptr \<Rightarrow> static_node_cluster_status \<Rightarrow> 'w \<Rightarrow> go_error option \<times> 'w" where
  "updateStaticNodeClusterStatus storePtr clusterPtr status w =
     (case storePtr of
        None \<Rightarrow> (Some (ErrNew ''storage is required''), w)
      | Some store \<Rightarrow>
          (case clusterPtr of
             None \<Rightarrow> (Some (ErrNew ''static node cluster is required''), w)
           | Some cluster \<Rightarrow>
               st_UpdateStaticNodeCluster store (StaticNodeCluster_GetID (prepareStaticNodeCluster cluster))
                 (zero_cluster_patch\<lparr>scp_Status := Some status\<rparr>) w))"

definition updateStaticNodeStatus ::
  "'w store ptr \<Rightarrow> static_node ptr \<Rightarrow> static_node_status \<Rightarrow> 'w \<Rightarrow> go_error option \<times> 'w" where
  "updateStaticNodeStatus storePtr nodePtr status w =
     (case storePtr of
        None \<Rightarrow> (Some (ErrNew ''storage is required''), w)
      | Some store \<Rightarrow>
          (case nodePtr of
             None \<Rightarrow> (Some (ErrNew ''static node is required''), w)
           | Some node \<Rightarrow>
               if sn_Status node = Some status then (None, w)
               else st_UpdateStaticNode store (StaticNode_GetID (prepareStaticNode node))
                      (zero_node_patch\<lparr>snp_Status := Some status\<rparr>) w))"

section \<open>The contract of the storage\<close>

text \<open>
  What the controllers rely on, on the columns they use: a row of the table of static nodes is its
  identifier, workspace, name, owning cluster, and whether it is marked for deletion and for forced
  deletion; a row of the table of static node clusters is its identifier, workspace and name. The
  columns that triggers of the database maintain are not part of a row.
\<close>

record node_row =
  nr_id :: string
  nr_workspace :: string
  nr_name :: string
  nr_owner :: string
  nr_deleting :: bool
  nr_force :: bool

definition owner_of :: "static_node_spec ptr \<Rightarrow> string" where
  "owner_of spec = (case spec of None \<Rightarrow> [] | Some s \<Rightarrow> sns_Cluster s)"

definition node_row_of :: "static_node \<Rightarrow> node_row" where
  "node_row_of n =
     \<lparr>nr_id = StaticNode_GetID n, nr_workspace = meta_Workspace (sn_Metadata n), nr_name = node_name n,
      nr_owner = owner_of (sn_Spec n), nr_deleting = (meta_DeletionTimestamp (sn_Metadata n) \<noteq> []),
      nr_force = IsForceDelete (meta_Annotations (sn_Metadata n))\<rparr>"

definition patch_row :: "static_node_patch \<Rightarrow> node_row \<Rightarrow> node_row" where
  "patch_row p r =
     (let r1 = (case snp_Metadata p of
            None \<Rightarrow> r
          | Some m \<Rightarrow> r\<lparr>nr_workspace := meta_Workspace m, nr_name := meta_Name m,
              nr_deleting := (meta_DeletionTimestamp m \<noteq> []), nr_force := IsForceDelete (meta_Annotations m)\<rparr>)
      in case snp_Spec p of None \<Rightarrow> r1 | Some s \<Rightarrow> r1\<lparr>nr_owner := sns_Cluster s\<rparr>)"

definition row_column :: "string \<Rightarrow> node_row \<Rightarrow> string" where
  "row_column column r =
     (if column = ''metadata->>workspace'' then nr_workspace r
      else if column = ''metadata->>name'' then nr_name r else nr_owner r)"

definition row_matches :: "list_filter list \<Rightarrow> node_row \<Rightarrow> bool" where
  "row_matches fs r \<longleftrightarrow> list_all (\<lambda>f. row_column (flt_Column f) r = flt_Value f) fs"

definition row_filters :: "list_filter list \<Rightarrow> bool" where
  "row_filters fs \<longleftrightarrow> list_all (\<lambda>f. flt_Operator f = ''eq'' \<and>
     flt_Column f \<in> {''metadata->>workspace'', ''metadata->>name'', ''spec->>cluster''}) fs"

definition cluster_row_of :: "static_node_cluster \<Rightarrow> string \<times> string \<times> string" where
  "cluster_row_of c = (StaticNodeCluster_GetID c, meta_Workspace (snc_Metadata c), cluster_name c)"

text \<open>A failed write leaves both tables as they were.\<close>

definition write_law :: "('w \<Rightarrow> node_row list) \<Rightarrow> ('w \<Rightarrow> (string \<times> string \<times> string) list) \<Rightarrow>
    (node_row list \<Rightarrow> node_row list \<Rightarrow> bool) \<Rightarrow>
    ((string \<times> string \<times> string) list \<Rightarrow> (string \<times> string \<times> string) list \<Rightarrow> bool) \<Rightarrow> ('w \<Rightarrow> go_error option \<times> 'w) \<Rightarrow> bool" where
  "write_law nodes clusters P Q f \<longleftrightarrow>
     (\<forall>w. if fst (f w) = None then P (nodes w) (nodes (snd (f w))) \<and> Q (clusters w) (clusters (snd (f w)))
          else nodes (snd (f w)) = nodes w \<and> clusters (snd (f w)) = clusters w)"

definition node_list_law :: "'w store \<Rightarrow> ('w \<Rightarrow> node_row list) \<Rightarrow> ('w \<Rightarrow> (string \<times> string \<times> string) list) \<Rightarrow> bool" where
  "node_list_law S nodes clusters \<longleftrightarrow>
     (\<forall>fs w. nodes (snd (st_ListStaticNode S fs w)) = nodes w \<and> clusters (snd (st_ListStaticNode S fs w)) = clusters w \<and>
        (\<forall>ns. row_filters fs \<longrightarrow> fst (st_ListStaticNode S fs w) = Inr ns \<longrightarrow> map node_row_of ns = filter (row_matches fs) (nodes w)))"

definition tables :: "'w store \<Rightarrow> ('w \<Rightarrow> node_row list) \<Rightarrow> ('w \<Rightarrow> (string \<times> string \<times> string) list) \<Rightarrow> bool" where
  "tables S nodes clusters \<longleftrightarrow>
     node_list_law S nodes clusters \<and>
     (\<forall>n. write_law nodes clusters
        (\<lambda>rows rows'. \<exists>i. i \<notin> nr_id ` set rows \<and> rows' = rows @ [(node_row_of n)\<lparr>nr_id := i\<rparr>]) (=) (st_CreateStaticNode S n)) \<and>
     (\<forall>i p. write_law nodes clusters
        (\<lambda>rows rows'. rows' = map (\<lambda>r. if nr_id r = i then patch_row p r else r) rows) (=) (st_UpdateStaticNode S i p)) \<and>
     (\<forall>i. write_law nodes clusters (\<lambda>rows rows'. rows' = filter (\<lambda>r. nr_id r \<noteq> i) rows) (=) (st_DeleteStaticNode S i)) \<and>
     (\<forall>i p. write_law nodes clusters (=) (\<lambda>cs cs'. map fst cs' = map fst cs \<and> (scp_Metadata p = None \<longrightarrow> cs' = cs)) (st_UpdateStaticNodeCluster S i p)) \<and>
     (\<forall>i. write_law nodes clusters (=) (\<lambda>cs cs'. cs' = filter (\<lambda>c. fst c \<noteq> i) cs) (st_DeleteStaticNodeCluster S i)) \<and>
     (\<forall>fs w. nodes (snd (st_ListCluster S fs w)) = nodes w \<and> clusters (snd (st_ListCluster S fs w)) = clusters w) \<and>
     (\<forall>fs w. nodes (snd (st_ListImageRegistry S fs w)) = nodes w \<and> clusters (snd (st_ListImageRegistry S fs w)) = clusters w)"


section \<open>A storage in memory\<close>

record db =
  db_nodes :: "static_node list"
  db_clusters :: "static_node_cluster list"
  db_parents :: "cluster list"
  db_registries :: "image_registry list"

text \<open>Identifiers count up, as the serial columns of the database do.\<close>

definition next_id :: "int list \<Rightarrow> int" where
  "next_id ids = 1 + foldr max ids 0"

definition patch_node :: "static_node_patch \<Rightarrow> static_node \<Rightarrow> static_node" where
  "patch_node p n = n
     \<lparr>sn_APIVersion := (if snp_APIVersion p = [] then sn_APIVersion n else snp_APIVersion p),
      sn_Kind := (if snp_Kind p = [] then sn_Kind n else snp_Kind p),
      sn_Metadata := (case snp_Metadata p of None \<Rightarrow> sn_Metadata n | Some m \<Rightarrow> m),
      sn_Spec := (case snp_Spec p of None \<Rightarrow> sn_Spec n | Some s \<Rightarrow> Some s),
      sn_Status := (case snp_Status p of None \<Rightarrow> sn_Status n | Some s \<Rightarrow> Some s)\<rparr>"

definition patch_cluster :: "static_node_cluster_patch \<Rightarrow> static_node_cluster \<Rightarrow> static_node_cluster" where
  "patch_cluster p c = c
     \<lparr>snc_APIVersion := (if scp_APIVersion p = [] then snc_APIVersion c else scp_APIVersion p),
      snc_Kind := (if scp_Kind p = [] then snc_Kind c else scp_Kind p),
      snc_Metadata := (case scp_Metadata p of None \<Rightarrow> snc_Metadata c | Some m \<Rightarrow> m),
      snc_Spec := (case scp_Spec p of None \<Rightarrow> snc_Spec c | Some s \<Rightarrow> Some s),
      snc_Status := (case scp_Status p of None \<Rightarrow> snc_Status c | Some s \<Rightarrow> Some s)\<rparr>"

definition mem_store :: "('a db_scheme) store" where
  "mem_store =
     \<lparr>st_ListStaticNode = (\<lambda>fs w. (Inr (filter (\<lambda>n. row_matches fs (node_row_of n)) (db_nodes w)), w)),
      st_CreateStaticNode = (\<lambda>n w. (None, w\<lparr>db_nodes := db_nodes w @ [n\<lparr>sn_ID := next_id (map sn_ID (db_nodes w))\<rparr>]\<rparr>)),
      st_UpdateStaticNode = (\<lambda>i p w. (None, w\<lparr>db_nodes := map (\<lambda>n. if StaticNode_GetID n = i then patch_node p n else n) (db_nodes w)\<rparr>)),
      st_DeleteStaticNode = (\<lambda>i w. (None, w\<lparr>db_nodes := filter (\<lambda>n. StaticNode_GetID n \<noteq> i) (db_nodes w)\<rparr>)),
      st_ListStaticNodeCluster = (\<lambda>fs w. (Inr (db_clusters w), w)),
      st_CreateStaticNodeCluster = (\<lambda>c w. (None, w\<lparr>db_clusters := db_clusters w @ [c\<lparr>snc_ID := next_id (map snc_ID (db_clusters w))\<rparr>]\<rparr>)),
      st_UpdateStaticNodeCluster = (\<lambda>i p w. (None, w\<lparr>db_clusters := map (\<lambda>c. if StaticNodeCluster_GetID c = i then patch_cluster p c else c) (db_clusters w)\<rparr>)),
      st_DeleteStaticNodeCluster = (\<lambda>i w. (None, w\<lparr>db_clusters := filter (\<lambda>c. StaticNodeCluster_GetID c \<noteq> i) (db_clusters w)\<rparr>)),
      st_ListCluster = (\<lambda>fs w. (Inr (db_parents w), w)),
      st_ListImageRegistry = (\<lambda>fs w. (Inr (db_registries w), w))\<rparr>"

definition db_node_rows :: "('a db_scheme) \<Rightarrow> node_row list" where
  "db_node_rows w = map node_row_of (db_nodes w)"

definition db_cluster_rows :: "('a db_scheme) \<Rightarrow> (string \<times> string \<times> string) list" where
  "db_cluster_rows w = map cluster_row_of (db_clusters w)"

lemma le_foldr_max: "i \<in> set ids \<Longrightarrow> i \<le> foldr max ids (0::int)"
  by (induction ids) auto

lemma next_id_fresh: "n \<in> set ns \<Longrightarrow> next_id (map sn_ID ns) \<noteq> sn_ID n"
  using le_foldr_max [of "sn_ID n" "map sn_ID ns"] by (auto simp: next_id_def)

lemma patch_node_row:
  "node_row_of (patch_node p n) = patch_row p (node_row_of n)"
  by (simp add: node_row_of_def patch_node_def patch_row_def StaticNode_GetID_def owner_of_def Let_def split: option.split)

lemma cluster_row_id [simp]: "fst (cluster_row_of c) = StaticNodeCluster_GetID c"
  by (simp add: cluster_row_of_def)

lemma node_row_id [simp]: "nr_id (node_row_of n) = StaticNode_GetID n"
  by (simp add: node_row_of_def)

lemma node_row_of_new:
  "node_row_of (n\<lparr>sn_ID := i\<rparr>) = (node_row_of n)\<lparr>nr_id := Itoa i\<rparr>"
  by (simp add: node_row_of_def StaticNode_GetID_def)

lemma mem_store_create:
  "write_law db_node_rows db_cluster_rows
     (\<lambda>rows rows'. \<exists>i. i \<notin> nr_id ` set rows \<and> rows' = rows @ [(node_row_of n)\<lparr>nr_id := i\<rparr>]) (=)
     (st_CreateStaticNode mem_store n)"
  by (auto simp: write_law_def mem_store_def db_node_rows_def db_cluster_rows_def node_row_of_new
        StaticNode_GetID_def image_image intro!: exI [of _ "Itoa (next_id ids)" for ids] dest: next_id_fresh)

lemma patch_cluster_id [simp]: "StaticNodeCluster_GetID (patch_cluster p c) = StaticNodeCluster_GetID c"
  by (simp add: patch_cluster_def StaticNodeCluster_GetID_def)

lemma patch_cluster_row: "scp_Metadata p = None \<Longrightarrow> cluster_row_of (patch_cluster p c) = cluster_row_of c"
  by (simp add: patch_cluster_def cluster_row_of_def StaticNodeCluster_GetID_def)

lemma mem_store_tables: "tables mem_store db_node_rows db_cluster_rows"
  unfolding tables_def
  using mem_store_create
  by (auto simp: node_list_law_def write_law_def mem_store_def db_node_rows_def db_cluster_rows_def
        filter_map comp_def patch_node_row patch_cluster_row)

end
