(* ===== verification/Node_Reconciler.thy ===== *)
theory Node_Reconciler
  imports Docker_Runtime Store
begin

text \<open>
  Reconciling one static node, \<open>staticnode/reconciler.go\<close> and \<open>staticnode/component_files.go\<close>:
  discovering the accelerator, warming images, stopping stale components, bringing the wanted ones
  up in the order of the specification, reading the device snapshot, and removing everything on
  deletion. The interfaces of the reconciler and the HTTP client are parameters; logging is left out.
\<close>

section \<open>The reconciler and its interfaces\<close>

record http_response =
  resp_StatusCode :: int
  resp_Status :: string
  resp_Body :: string

text \<open>\<open>http.Client.Do\<close> of a GET request: the URL and the timeout in seconds.\<close>

type_synonym 'w http_client = "string \<Rightarrow> int \<Rightarrow> 'w \<Rightarrow> (go_error + http_response) \<times> 'w"

type_synonym 'w snapshot_client = "static_node ptr \<Rightarrow> 'w \<Rightarrow> (go_error + node_device_snapshot ptr) \<times> 'w"

record 'w reconciler =
  rec_AcceleratorManager :: "(string \<Rightarrow> auth \<Rightarrow> 'w \<Rightarrow> (go_error + accelerator_status ptr) \<times> 'w) ptr"
  rec_HeadReadyChecker :: "(static_node ptr \<Rightarrow> 'w \<Rightarrow> (go_error + bool) \<times> 'w) ptr"
  rec_NodeDeviceSnapshotClient :: "'w snapshot_client ptr"

record reconcile_result =
  rr_Accelerator :: "accelerator_status ptr"
  rr_Allocations :: "allocation_status slice"
  rr_Warm :: "warm_status ptr"
  rr_Components :: "node_component_status slice"

abbreviation warmReasonImagePullFailed :: string where "warmReasonImagePullFailed \<equiv> ''ImagePullFailed''"
abbreviation warmReasonImagePulled :: string where "warmReasonImagePulled \<equiv> ''ImagePulled''"
abbreviation warmReasonImageReady :: string where "warmReasonImageReady \<equiv> ''ImageReady''"
abbreviation componentReasonConfigWriteFailed :: string where "componentReasonConfigWriteFailed \<equiv> ''ConfigWriteFailed''"
abbreviation componentReasonHeadPending :: string where "componentReasonHeadPending \<equiv> ''HeadNodePending''"
abbreviation componentReasonHealthCheckFailed :: string where "componentReasonHealthCheckFailed \<equiv> ''HealthCheckFailed''"
abbreviation componentReasonImageMissing :: string where "componentReasonImageMissing \<equiv> ''ImageMissing''"
abbreviation componentReasonRunning :: string where "componentReasonRunning \<equiv> ''Running''"
abbreviation componentReasonStopped :: string where "componentReasonStopped \<equiv> ''Stopped''"
abbreviation agentComponentName :: string where "agentComponentName \<equiv> ''neutree-node-agent''"

definition spec_of :: "static_node ptr \<Rightarrow> static_node_spec ptr" where
  "spec_of node = Option.bind node sn_Spec"

definition status_of :: "static_node ptr \<Rightarrow> static_node_status ptr" where
  "status_of node = Option.bind node sn_Status"

section \<open>Waiting for the head\<close>

fun first_head_ready :: "static_node list \<Rightarrow> bool" where
  "first_head_ready [] = False"
| "first_head_ready (candidate # nodes) =
     (case (sn_Spec candidate, sn_Status candidate) of
        (Some spec, Some status) \<Rightarrow>
          if sns_Role spec = StaticNodeRoleHead then sts_Phase status = StaticNodePhaseReady
          else first_head_ready nodes
      | _ \<Rightarrow> first_head_ready nodes)"

text \<open>\<open>ClusterHeadReadyChecker.HeadReady\<close>; the first argument is the storage of the checker.\<close>

definition HeadReady :: "'w store ptr \<Rightarrow> static_node ptr \<Rightarrow> 'w \<Rightarrow> (go_error + bool) \<times> 'w" where
  "HeadReady c node w =
     (case (node, spec_of node) of
        (Some n, Some spec) \<Rightarrow>
          if sns_Role spec \<noteq> StaticNodeRoleWorker then (Inr True, w)
          else (case c of
                  None \<Rightarrow> (Inr False, w)
                | Some storage \<Rightarrow>
                    (case ListByCluster storage (meta_Workspace (sn_Metadata n)) (sns_Cluster spec) w of
                       (Inl e, w1) \<Rightarrow> (Inl e, w1)
                     | (Inr nodes, w1) \<Rightarrow> (Inr (first_head_ready nodes), w1)))
      | _ \<Rightarrow> (Inr True, w))"

definition shouldWaitForHead ::
  "'w reconciler ptr \<Rightarrow> static_node ptr \<Rightarrow> 'w \<Rightarrow> (bool \<times> go_error option) \<times> 'w" where
  "shouldWaitForHead r node w =
     (case spec_of node of
        None \<Rightarrow> ((False, None), w)
      | Some spec \<Rightarrow>
          if sns_Role spec \<noteq> StaticNodeRoleWorker then ((False, None), w)
          else (case Option.bind r rec_HeadReadyChecker of
                  None \<Rightarrow> ((False, None), w)
                | Some headReady \<Rightarrow>
                    (case headReady node w of
                       (Inl e, w1) \<Rightarrow> ((True, Some e), w1)
                     | (Inr ready, w1) \<Rightarrow> ((\<not> ready, None), w1))))"

section \<open>Accelerators and device snapshots\<close>

definition ReconcileAccelerator ::
  "'w reconciler ptr \<Rightarrow> static_node ptr \<Rightarrow> 'w \<Rightarrow> (go_error + accelerator_status ptr) \<times> 'w" where
  "ReconcileAccelerator r node w =
     (let known = Option.bind (status_of node) sts_Accelerator in
      if known \<noteq> None \<and> acc_Type (the known) \<noteq> [] then (Inr known, w)
      else case Option.bind r rec_AcceleratorManager of
             None \<Rightarrow> (Inr (Some CPUStaticNodeAcceleratorStatus), w)
           | Some detectAccelerator \<Rightarrow>
               (case spec_of node of
                  None \<Rightarrow> (Inl (ErrNew ''static node spec is required for accelerator discovery''), w)
                | Some spec \<Rightarrow>
                    (case sns_SSHAuth spec of
                       None \<Rightarrow> (Inl (ErrNew ''static node spec.ssh_auth is required for accelerator discovery''), w)
                     | Some sshAuth \<Rightarrow> detectAccelerator (sns_IP spec) sshAuth w)))"

definition mergeStaticNodeDeviceSnapshotDevice ::
  "accelerator_device_status \<Rightarrow> accelerator_device_status \<Rightarrow> accelerator_device_status" where
  "mergeStaticNodeDeviceSnapshotDevice fallback snapshot = snapshot
     \<lparr>dev_ID := (if dev_ID snapshot = [] then dev_ID fallback else dev_ID snapshot),
      dev_ProductName := (if dev_ProductName snapshot = [] then dev_ProductName fallback else dev_ProductName snapshot),
      dev_ProductModel := (if dev_ProductModel snapshot = [] then dev_ProductModel fallback else dev_ProductModel snapshot),
      dev_MemoryMiB := (if dev_MemoryMiB snapshot = 0 then dev_MemoryMiB fallback else dev_MemoryMiB snapshot),
      dev_MinorNumber := (if dev_MinorNumber snapshot = None \<and> dev_MinorNumber fallback \<noteq> None
                          then dev_MinorNumber fallback else dev_MinorNumber snapshot)\<rparr>"

text \<open>The map of the fallback devices by UUID; a later device with the same UUID wins.\<close>

definition fallback_by_uuid :: "accelerator_device_status list \<Rightarrow> (string \<times> accelerator_device_status) list" where
  "fallback_by_uuid devices = fold (\<lambda>d m. if dev_UUID d \<noteq> [] then map_put (dev_UUID d) d m else m) devices []"

definition mergeStaticNodeDeviceSnapshotAccelerator ::
  "accelerator_status ptr \<Rightarrow> accelerator_status \<Rightarrow> accelerator_status" where
  "mergeStaticNodeDeviceSnapshotAccelerator fallback snapshot =
     (case fallback of
        None \<Rightarrow> snapshot
      | Some f \<Rightarrow>
          if els (acc_Devices f) = [] \<or> els (acc_Devices snapshot) = [] then snapshot
          else if acc_Type snapshot = [] then snapshot
          else snapshot\<lparr>acc_Devices := map_option (map (\<lambda>d.
                  case map_of (fallback_by_uuid (els (acc_Devices f))) (dev_UUID d) of
                    None \<Rightarrow> d
                  | Some fd \<Rightarrow> mergeStaticNodeDeviceSnapshotDevice fd d)) (acc_Devices snapshot)\<rparr>)"

text \<open>The variadic argument of \<open>nodeAgentReady\<close> is a list of groups of statuses.\<close>

definition nodeAgentReady :: "node_component_status list list \<Rightarrow> bool" where
  "nodeAgentReady statusGroups =
     (if statusGroups = [] then True
      else case List.find (\<lambda>s. cs_Name s = agentComponentName) (concat statusGroups) of
             None \<Rightarrow> False
           | Some s \<Rightarrow> cs_Ready s \<and> cs_Phase s = NodeComponentPhaseRunning)"

definition currentStaticNodeAllocations :: "static_node ptr \<Rightarrow> allocation_status slice" where
  "currentStaticNodeAllocations node =
     (case status_of node of None \<Rightarrow> None | Some status \<Rightarrow> Some (els (sts_Allocations status)))"

definition snapshotStaticNodeAllocations :: "node_device_snapshot ptr \<Rightarrow> allocation_status slice" where
  "snapshotStaticNodeAllocations snapshot =
     (case snapshot of
        None \<Rightarrow> None
      | Some s \<Rightarrow> (case snap_Allocations s of None \<Rightarrow> Some [] | Some as \<Rightarrow> Some as))"

definition staticNodeDeviceSnapshotURL :: "static_node_spec \<Rightarrow> string" where
  "staticNodeDeviceSnapshotURL spec = ''http://'' @ sns_IP spec @ '':19101/v1/node/device-snapshot''"

subsection \<open>The HTTP client of the device snapshot\<close>

definition dec_device :: "jval \<Rightarrow> accelerator_device_status \<Rightarrow> accelerator_device_status option" where
  "dec_device = dec_struct
     [(''id'', \<lambda>v d. map_option (\<lambda>x. d\<lparr>dev_ID := x\<rparr>) (dec_string v (dev_ID d))),
      (''uuid'', \<lambda>v d. map_option (\<lambda>x. d\<lparr>dev_UUID := x\<rparr>) (dec_string v (dev_UUID d))),
      (''product_name'', \<lambda>v d. map_option (\<lambda>x. d\<lparr>dev_ProductName := x\<rparr>) (dec_string v (dev_ProductName d))),
      (''product_model'', \<lambda>v d. map_option (\<lambda>x. d\<lparr>dev_ProductModel := x\<rparr>) (dec_string v (dev_ProductModel d))),
      (''minor_number'', \<lambda>v d. map_option (\<lambda>x. d\<lparr>dev_MinorNumber := x\<rparr>) (dec_ptr dec_int64 0 v (dev_MinorNumber d))),
      (''memory_mib'', \<lambda>v d. map_option (\<lambda>x. d\<lparr>dev_MemoryMiB := x\<rparr>) (dec_int64 v (dev_MemoryMiB d))),
      (''healthy'', \<lambda>v d. map_option (\<lambda>x. d\<lparr>dev_Healthy := x\<rparr>) (dec_bool v (dev_Healthy d)))]"

definition zero_device :: accelerator_device_status where
  "zero_device = \<lparr>dev_ID = [], dev_UUID = [], dev_ProductName = [], dev_ProductModel = [], dev_MinorNumber = None,
     dev_MemoryMiB = 0, dev_Healthy = False\<rparr>"

definition dec_accelerator :: "jval \<Rightarrow> accelerator_status \<Rightarrow> accelerator_status option" where
  "dec_accelerator = dec_struct
     [(''type'', \<lambda>v a. map_option (\<lambda>x. a\<lparr>acc_Type := x\<rparr>) (dec_string v (acc_Type a))),
      (''devices'', \<lambda>v a. map_option (\<lambda>x. a\<lparr>acc_Devices := x\<rparr>) (dec_slice dec_device zero_device v (acc_Devices a)))]"

definition dec_device_allocation :: "jval \<Rightarrow> device_allocation \<Rightarrow> device_allocation option" where
  "dec_device_allocation = dec_struct
     [(''uuid'', \<lambda>v d. map_option (\<lambda>x. d\<lparr>da_UUID := x\<rparr>) (dec_string v (da_UUID d))),
      (''product'', \<lambda>v d. map_option (\<lambda>x. d\<lparr>da_Product := x\<rparr>) (dec_string v (da_Product d))),
      (''order'', \<lambda>v d. map_option (\<lambda>x. d\<lparr>da_Order := x\<rparr>) (dec_ptr dec_int64 0 v (da_Order d))),
      (''vdevice_index'', \<lambda>v d. map_option (\<lambda>x. d\<lparr>da_VDeviceIndex := x\<rparr>) (dec_string v (da_VDeviceIndex d))),
      (''memory_mib'', \<lambda>v d. map_option (\<lambda>x. d\<lparr>da_MemoryMiB := x\<rparr>) (dec_int64 v (da_MemoryMiB d))),
      (''used_memory_mib'', \<lambda>v d. map_option (\<lambda>x. d\<lparr>da_UsedMemoryMiB := x\<rparr>) (dec_int64 v (da_UsedMemoryMiB d))),
      (''core_units'', \<lambda>v d. map_option (\<lambda>x. d\<lparr>da_CoreUnits := x\<rparr>) (dec_int64 v (da_CoreUnits d))),
      (''node_id'', \<lambda>v d. map_option (\<lambda>x. d\<lparr>da_NodeID := x\<rparr>) (dec_string v (da_NodeID d)))]"

definition zero_device_allocation :: device_allocation where
  "zero_device_allocation = \<lparr>da_UUID = [], da_Product = [], da_Order = None, da_VDeviceIndex = [], da_MemoryMiB = 0,
     da_UsedMemoryMiB = 0, da_CoreUnits = 0, da_NodeID = []\<rparr>"

definition dec_allocation :: "jval \<Rightarrow> allocation_status \<Rightarrow> allocation_status option" where
  "dec_allocation = dec_struct
     [(''workload_type'', \<lambda>v a. map_option (\<lambda>x. a\<lparr>al_WorkloadType := x\<rparr>) (dec_string v (al_WorkloadType a))),
      (''workspace'', \<lambda>v a. map_option (\<lambda>x. a\<lparr>al_Workspace := x\<rparr>) (dec_string v (al_Workspace a))),
      (''endpoint'', \<lambda>v a. map_option (\<lambda>x. a\<lparr>al_Endpoint := x\<rparr>) (dec_string v (al_Endpoint a))),
      (''instance_id'', \<lambda>v a. map_option (\<lambda>x. a\<lparr>al_InstanceID := x\<rparr>) (dec_string v (al_InstanceID a))),
      (''replica_id'', \<lambda>v a. map_option (\<lambda>x. a\<lparr>al_ReplicaID := x\<rparr>) (dec_string v (al_ReplicaID a))),
      (''runtime_id'', \<lambda>v a. map_option (\<lambda>x. a\<lparr>al_RuntimeID := x\<rparr>) (dec_string v (al_RuntimeID a))),
      (''pid'', \<lambda>v a. map_option (\<lambda>x. a\<lparr>al_PID := x\<rparr>) (dec_int64 v (al_PID a))),
      (''devices'', \<lambda>v a. map_option (\<lambda>x. a\<lparr>al_Devices := x\<rparr>)
         (dec_slice dec_device_allocation zero_device_allocation v (al_Devices a)))]"

definition zero_allocation :: allocation_status where
  "zero_allocation = \<lparr>al_WorkloadType = [], al_Workspace = [], al_Endpoint = [], al_InstanceID = [], al_ReplicaID = [],
     al_RuntimeID = [], al_PID = 0, al_Devices = None\<rparr>"

definition dec_snapshot :: "jval \<Rightarrow> node_device_snapshot \<Rightarrow> node_device_snapshot option" where
  "dec_snapshot = dec_struct
     [(''accelerator'', \<lambda>v s. map_option (\<lambda>x. s\<lparr>snap_Accelerator := x\<rparr>) (dec_accelerator v (snap_Accelerator s))),
      (''allocations'', \<lambda>v s. map_option (\<lambda>x. s\<lparr>snap_Allocations := x\<rparr>)
         (dec_slice dec_allocation zero_allocation v (snap_Allocations s)))]"

definition zero_snapshot :: node_device_snapshot where
  "zero_snapshot = \<lparr>snap_Accelerator = \<lparr>acc_Type = [], acc_Devices = None\<rparr>, snap_Allocations = None\<rparr>"

text \<open>\<open>HTTPNodeDeviceSnapshotClient.DeviceSnapshot\<close>; the text of a decoding error is left out.\<close>

definition DeviceSnapshot :: "'w http_client \<Rightarrow> 'w snapshot_client" where
  "DeviceSnapshot http node w =
     (case spec_of node of
        None \<Rightarrow> (Inl (ErrNew ''static node ip is required for node device snapshot''), w)
      | Some spec \<Rightarrow>
          if sns_IP spec = [] then (Inl (ErrNew ''static node ip is required for node device snapshot''), w)
          else case http (staticNodeDeviceSnapshotURL spec) 5 w of
                 (Inl e, w1) \<Rightarrow> (Inl e, w1)
               | (Inr response, w1) \<Rightarrow>
                   if resp_StatusCode response < 200 \<or> resp_StatusCode response \<ge> 300 then
                     (Inl (ErrNew (''node device snapshot '' @ staticNodeDeviceSnapshotURL spec @ '' returned '' @
                        resp_Status response)), w1)
                   else (case json_decode dec_snapshot zero_snapshot (resp_Body response) of
                           None \<Rightarrow> (Inl (ErrNew ''invalid device snapshot''), w1)
                         | Some snapshot \<Rightarrow> (Inr (Some snapshot), w1)))"

text \<open>The client of the reconciler, or the given default.\<close>

definition nodeDeviceSnapshotClient :: "'w reconciler ptr \<Rightarrow> 'w snapshot_client \<Rightarrow> 'w snapshot_client" where
  "nodeDeviceSnapshotClient r dflt =
     (case Option.bind r rec_NodeDeviceSnapshotClient of Some client \<Rightarrow> client | None \<Rightarrow> dflt)"

definition ReconcileNodeDeviceSnapshot ::
  "'w reconciler ptr \<Rightarrow> 'w snapshot_client \<Rightarrow> static_node ptr \<Rightarrow> accelerator_status ptr \<Rightarrow>
   node_component_status list list \<Rightarrow> 'w \<Rightarrow> (accelerator_status ptr \<times> allocation_status slice) \<times> 'w" where
  "ReconcileNodeDeviceSnapshot r dflt node fallback componentStatuses w =
     (if fallback \<noteq> None \<and> acc_Type (the fallback) = StaticNodeAcceleratorTypeCPU then
        ((fallback, currentStaticNodeAllocations node), w)
      else if \<not> nodeAgentReady componentStatuses then ((fallback, currentStaticNodeAllocations node), w)
      else case nodeDeviceSnapshotClient r dflt node w of
             (Inl _, w1) \<Rightarrow> ((fallback, currentStaticNodeAllocations node), w1)
           | (Inr None, w1) \<Rightarrow> ((fallback, currentStaticNodeAllocations node), w1)
           | (Inr (Some snapshot), w1) \<Rightarrow>
               let allocations = snapshotStaticNodeAllocations (Some snapshot);
                   accelerator = mergeStaticNodeDeviceSnapshotAccelerator fallback (snap_Accelerator snapshot)
               in if acc_Type accelerator = [] then ((fallback, allocations), w1)
                  else if acc_Type accelerator = StaticNodeAcceleratorTypeCPU \<and> fallback \<noteq> None \<and>
                          acc_Type (the fallback) \<noteq> [] \<and> acc_Type (the fallback) \<noteq> StaticNodeAcceleratorTypeCPU
                    then ((fallback, allocations), w1)
                  else ((Some accelerator, allocations), w1))"

section \<open>Warm images\<close>

definition warm_image_init :: "warm_image_spec \<Rightarrow> warm_image_status" where
  "warm_image_init img =
     \<lparr>wis_Name = wi_Name img, wis_Ref = wi_Ref img, wis_Ready = False, wis_Digest = [], wis_Phase = WarmPhasePending,
      wis_Reason = [], wis_Message = [], wis_LastTransitionTime = []\<rparr>"

definition warm_image_failed :: "string \<Rightarrow> string \<Rightarrow> warm_image_status \<Rightarrow> warm_image_status" where
  "warm_image_failed reason message status =
     status\<lparr>wis_Phase := WarmPhaseFailed, wis_Reason := reason, wis_Message := message\<rparr>"

definition warm_image_ready :: "string \<Rightarrow> string \<Rightarrow> warm_image_status \<Rightarrow> warm_image_status" where
  "warm_image_ready digest reason status =
     status\<lparr>wis_Ready := True, wis_Digest := digest, wis_Phase := WarmPhaseReady, wis_Reason := reason\<rparr>"

definition reconcileWarmImage ::
  "err_lib \<Rightarrow> warm_image_spec \<Rightarrow> 'w docker_runtime \<Rightarrow> 'w \<Rightarrow> (warm_image_status \<times> go_error option) \<times> 'w" where
  "reconcileWarmImage L img dockerRuntime w =
     (let status = warm_image_init img in
      if wi_Ref img = [] then
        ((warm_image_failed warmReasonImageInspectFailed ''warm image ref is required'' status,
          Some (ErrNew ''warm image ref is required'')), w)
      else case InspectImageDigest dockerRuntime (wi_Ref img) w of
        (first, w1) \<Rightarrow>
          (case first of
             Inr (d # ds) \<Rightarrow> ((warm_image_ready (d # ds) warmReasonImageReady status, None), w1)
           | _ \<Rightarrow>
               (case PullImage dockerRuntime (wi_Ref img) w1 of
                  (Some pullErr, w2) \<Rightarrow>
                    ((warm_image_failed warmReasonImagePullFailed (error_text L pullErr) status, Some pullErr), w2)
                | (None, w2) \<Rightarrow>
                    (case InspectImageDigest dockerRuntime (wi_Ref img) w2 of
                       (Inr (d # ds), w3) \<Rightarrow> ((warm_image_ready (d # ds) warmReasonImagePulled status, None), w3)
                     | (second, w3) \<Rightarrow>
                         let message = ''failed to inspect image '' @ wi_Ref img @ '' after pull'' @
                               (case second of Inl e \<Rightarrow> '': '' @ error_text L e | Inr _ \<Rightarrow> [])
                         in ((warm_image_failed warmReasonImageInspectFailed message status, Some (ErrNew message)), w3)))))"

fun warm_loop ::
  "err_lib \<Rightarrow> 'w docker_runtime \<Rightarrow> warm_status \<Rightarrow> warm_image_spec list \<Rightarrow> 'w \<Rightarrow>
   (warm_status \<times> go_error option) \<times> 'w" where
  "warm_loop L dockerRuntime status [] w = ((status, None), w)"
| "warm_loop L dockerRuntime status (img # imgs) w =
     (case reconcileWarmImage L img dockerRuntime w of
        ((imageStatus, err), w1) \<Rightarrow>
          (let status1 = status\<lparr>ws_Images := Some (els (ws_Images status) @ [imageStatus])\<rparr>
           in case err of
                Some e \<Rightarrow>
                  if wi_Required img then
                    ((status1\<lparr>ws_Ready := False, ws_Reason := wis_Reason imageStatus, ws_Message := wis_Message imageStatus\<rparr>,
                      Some e), w1)
                  else warm_loop L dockerRuntime status1 imgs w1
              | None \<Rightarrow>
                  warm_loop L dockerRuntime
                    (if wi_Required img \<and> \<not> wis_Ready imageStatus then status1\<lparr>ws_Ready := False\<rparr> else status1) imgs w1))"

definition ready_warm_status :: "warm_image_status slice \<Rightarrow> warm_status" where
  "ready_warm_status images =
     \<lparr>ws_Ready = True, ws_Images = images, ws_Reason = [], ws_Message = [], ws_LastTransitionTime = []\<rparr>"

definition ReconcileWarmImages ::
  "err_lib \<Rightarrow> static_node ptr \<Rightarrow> 'w docker_runtime \<Rightarrow> 'w \<Rightarrow> (warm_status \<times> go_error option) \<times> 'w" where
  "ReconcileWarmImages L node dockerRuntime w =
     (let images = (case Option.bind (spec_of node) sns_Warm of None \<Rightarrow> [] | Some warm \<Rightarrow> els (warm_Images warm))
      in if images = [] then ((ready_warm_status None, None), w)
         else warm_loop L dockerRuntime (ready_warm_status (Some [])) images w)"

section \<open>Configuration files\<close>

fun write_files ::
  "'w file_client \<Rightarrow> bool \<Rightarrow> node_component_config_file list \<Rightarrow> 'w \<Rightarrow> (bool \<times> go_error option) \<times> 'w" where
  "write_files files changed [] w = ((changed, None), w)"
| "write_files files changed (configFile # configFiles) w =
     (case fc_WriteFileIfChanged files (cf_Path configFile) (cf_Content configFile)
             \<lparr>wfo_Mode = cf_Mode configFile, wfo_Owner = cf_Owner configFile, wfo_Group = cf_Group configFile,
              wfo_Sudo = cf_Sudo configFile, wfo_Atomic = cf_Atomic configFile,
              wfo_CreateParent = cf_CreateParent configFile\<rparr> w of
        (Inl e, w1) \<Rightarrow> ((changed, Some (ErrWrap e (''failed to write config file '' @ cf_Path configFile))), w1)
      | (Inr fileChanged, w1) \<Rightarrow>
          write_files files (changed \<or> fileChanged \<and> \<not> cf_SkipRestartOnChange configFile) configFiles w1)"

definition fileClient :: "'w file_client ptr \<Rightarrow> go_error + 'w file_client" where
  "fileClient files =
     (case files of
        None \<Rightarrow> Inl (ErrNew ''static node component file applier is not configured'')
      | Some f \<Rightarrow> Inr f)"

definition writeComponentConfigFiles ::
  "'w file_client ptr \<Rightarrow> node_component_spec \<Rightarrow> 'w \<Rightarrow> (bool \<times> go_error option) \<times> 'w" where
  "writeComponentConfigFiles applier component w =
     (if els (comp_ConfigFiles component) = [] then ((False, None), w)
      else case fileClient applier of
             Inl e \<Rightarrow> ((False, Some e), w)
           | Inr files \<Rightarrow> write_files files False (els (comp_ConfigFiles component)) w)"

fun remove_files ::
  "'w file_client \<Rightarrow> go_error list \<Rightarrow> node_component_config_file list \<Rightarrow> 'w \<Rightarrow> go_error list \<times> 'w" where
  "remove_files files errs [] w = (errs, w)"
| "remove_files files errs (configFile # configFiles) w =
     (case fc_Remove files (cf_Path configFile) (cf_Sudo configFile) w of
        (Some e, w1) \<Rightarrow>
          remove_files files (errs @ [ErrWrap e (''failed to remove config file '' @ cf_Path configFile)]) configFiles w1
      | (None, w1) \<Rightarrow> remove_files files errs configFiles w1)"

definition removeComponentConfigFiles ::
  "'w file_client ptr \<Rightarrow> node_component_spec \<Rightarrow> 'w \<Rightarrow> go_error option \<times> 'w" where
  "removeComponentConfigFiles applier component w =
     (if els (comp_ConfigFiles component) = [] then (None, w)
      else case fileClient applier of
             Inl e \<Rightarrow> (Some e, w)
           | Inr files \<Rightarrow>
               (case remove_files files [] (els (comp_ConfigFiles component)) w of
                  (errs, w1) \<Rightarrow> (NewAggregate errs, w1)))"

section \<open>Health checks\<close>

definition staticNodeHealthHost :: "static_node ptr \<Rightarrow> string" where
  "staticNodeHealthHost node =
     (case spec_of node of
        None \<Rightarrow> ''127.0.0.1''
      | Some spec \<Rightarrow> if sns_IP spec \<noteq> [] then sns_IP spec else ''127.0.0.1'')"

text \<open>\<open>net.JoinHostPort\<close>: a host with a colon is an IPv6 address and goes into brackets.\<close>

definition JoinHostPort :: "string \<Rightarrow> string \<Rightarrow> string" where
  "JoinHostPort host port =
     (if CHR '':'' \<in> set host then ''['' @ host @ '']:'' @ port else host @ '':'' @ port)"

definition componentHealthBaseURL :: "static_node ptr \<Rightarrow> node_component_health_check \<Rightarrow> string" where
  "componentHealthBaseURL node healthCheck =
     (let host = TrimSpace (hc_HTTPHost healthCheck)
      in ''http://'' @ JoinHostPort (if host = [] then staticNodeHealthHost node else host) (Itoa (hc_Port healthCheck)))"

definition componentHealthURL :: "static_node ptr \<Rightarrow> node_component_health_check \<Rightarrow> string" where
  "componentHealthURL node healthCheck =
     (let path = (if hc_HTTPPath healthCheck = [] then ''/'' else hc_HTTPPath healthCheck)
      in componentHealthBaseURL node healthCheck @ (if HasPrefix path ''/'' then path else ''/'' @ path))"

definition doHealthHTTPGet :: "'w http_client \<Rightarrow> string \<Rightarrow> int \<Rightarrow> 'w \<Rightarrow> (go_error + http_response) \<times> 'w" where
  "doHealthHTTPGet http url timeoutSec w = http url (if timeoutSec \<le> 0 then 5 else timeoutSec) w"

definition checkHTTPHealth :: "'w http_client \<Rightarrow> string \<Rightarrow> int \<Rightarrow> 'w \<Rightarrow> go_error option \<times> 'w" where
  "checkHTTPHealth http url timeoutSec w =
     (case doHealthHTTPGet http url timeoutSec w of
        (Inl e, w1) \<Rightarrow> (Some e, w1)
      | (Inr response, w1) \<Rightarrow>
          if resp_StatusCode response < 200 \<or> resp_StatusCode response \<ge> 400
          then (Some (ErrNew (''http health check '' @ url @ '' returned '' @ resp_Status response)), w1)
          else (None, w1))"

definition checkComponentHealth ::
  "'w http_client \<Rightarrow> static_node ptr \<Rightarrow> 'w command_runner \<Rightarrow> node_component_spec \<Rightarrow> 'w \<Rightarrow> go_error option \<times> 'w" where
  "checkComponentHealth http node runner component w =
     (case comp_HealthCheck component of
        None \<Rightarrow> (None, w)
      | Some hc \<Rightarrow>
          if els (hc_Command hc) \<noteq> [] then
            (case cr_Run runner (Join (shellArgs (els (hc_Command hc))) '' '') w of
               (Inl e, w1) \<Rightarrow> (Some e, w1)
             | (Inr _, w1) \<Rightarrow> (None, w1))
          else if hc_Port hc = 0 then (None, w)
          else checkHTTPHealth http (componentHealthURL node hc)
                 (if hc_TimeoutSec hc \<le> 0 then 5 else hc_TimeoutSec hc) w)"

section \<open>Components\<close>

definition componentHash :: "node_component_spec \<Rightarrow> string" where
  "componentHash component = (if comp_ConfigHash component \<noteq> [] then comp_ConfigHash component else Hash component)"

definition component_status_init :: "node_component_spec \<Rightarrow> node_component_status" where
  "component_status_init component = zero_component_status
     \<lparr>cs_Name := comp_Name component, cs_ObservedHash := componentHash component, cs_ObservedImage := comp_Image component\<rparr>"

definition component_outcome :: "string \<Rightarrow> string \<Rightarrow> string \<Rightarrow> node_component_status \<Rightarrow> node_component_status" where
  "component_outcome phase reason message status = status\<lparr>cs_Phase := phase, cs_Reason := reason, cs_Message := message\<rparr>"

text \<open>The last steps of \<open>reconcileComponent\<close>, once the container is known to match or restarted.\<close>

definition finish_component ::
  "err_lib \<Rightarrow> 'w http_client \<Rightarrow> static_node ptr \<Rightarrow> 'w command_runner \<Rightarrow> node_component_spec \<Rightarrow> node_component_status \<Rightarrow> 'w \<Rightarrow>
   (node_component_status \<times> go_error option) \<times> 'w" where
  "finish_component L http node runner component status w =
     (case checkComponentHealth http node runner component w of
        (Some e, w1) \<Rightarrow>
          ((component_outcome NodeComponentPhaseStarting componentReasonHealthCheckFailed (error_text L e) status, None), w1)
      | (None, w1) \<Rightarrow>
          ((status\<lparr>cs_Ready := True, cs_Phase := NodeComponentPhaseRunning, cs_Reason := componentReasonRunning\<rparr>, None), w1))"

definition reconcileComponent ::
  "err_lib \<Rightarrow> 'w http_client \<Rightarrow> 'w reconciler ptr \<Rightarrow> static_node ptr \<Rightarrow> node_component_spec \<Rightarrow> 'w command_runner \<Rightarrow>
   'w file_client ptr \<Rightarrow> 'w docker_runtime \<Rightarrow> 'w \<Rightarrow> (node_component_status \<times> go_error option) \<times> 'w" where
  "reconcileComponent L http r node component runner fileApplier dockerRuntime w =
     (let status = component_status_init component in
      case shouldWaitForHead r node w of
        ((waitForHead, headErr), w1) \<Rightarrow>
          if headErr \<noteq> None \<or> waitForHead then
            ((component_outcome NodeComponentPhasePending componentReasonHeadPending
                (case headErr of None \<Rightarrow> ''head static node is not ready'' | Some e \<Rightarrow> error_text L e) status, None), w1)
          else if comp_Image component = [] then
            ((component_outcome NodeComponentPhaseFailed componentReasonImageMissing ''component image is required'' status,
              Some (ErrNew ''component image is required'')), w1)
          else case writeComponentConfigFiles fileApplier component w1 of
            ((_, Some e), w2) \<Rightarrow>
              ((component_outcome NodeComponentPhaseFailed componentReasonConfigWriteFailed (error_text L e) status, Some e), w2)
          | ((configChanged, None), w2) \<Rightarrow>
              (case ComponentContainerMatches dockerRuntime (componentContainerName node component)
                      (cs_ObservedHash status) w2 of
                 (inspected, w3) \<Rightarrow>
                   let status1 = (case inspected of
                         Inl e \<Rightarrow> status\<lparr>cs_Phase := NodeComponentPhaseStarting,
                                    cs_Reason := dockerReason e componentReasonInspectFailed\<rparr>
                       | Inr _ \<Rightarrow> status);
                       containerMatches = (case inspected of Inl _ \<Rightarrow> False | Inr m \<Rightarrow> m)
                   in if configChanged \<or> \<not> containerMatches then
                        (case RestartComponentContainer dockerRuntime node component (cs_ObservedHash status1) w3 of
                           (Some e, w4) \<Rightarrow>
                             ((component_outcome NodeComponentPhaseFailed (dockerReason e componentReasonRunFailed)
                                 (error_text L e) status1, Some e), w4)
                         | (None, w4) \<Rightarrow> finish_component L http node runner component status1 w4)
                      else finish_component L http node runner component status1 w3))"

text \<open>The reason a restart is logged with; the log itself is not part of the model.\<close>

definition componentRestartReason :: "err_lib \<Rightarrow> bool \<Rightarrow> bool \<Rightarrow> go_error option \<Rightarrow> string" where
  "componentRestartReason L configChanged containerMatches inspectErr =
     Join ((if configChanged then [''config changed''] else []) @
           (if \<not> containerMatches \<and> inspectErr = None then [''container does not match desired state''] else []) @
           (case inspectErr of None \<Rightarrow> [] | Some e \<Rightarrow> [''container inspect failed: '' @ error_text L e])) ''; ''"

definition existingComponentStatusCount :: "static_node ptr \<Rightarrow> nat" where
  "existingComponentStatusCount node =
     (case status_of node of None \<Rightarrow> 0 | Some status \<Rightarrow> length (els (sts_Components status)))"

definition named_component :: "string \<Rightarrow> node_component_spec" where
  "named_component name = zero_component\<lparr>comp_Name := name\<rparr>"

definition stopped_status :: "string \<Rightarrow> node_component_status" where
  "stopped_status name = zero_component_status
     \<lparr>cs_Name := name, cs_Phase := NodeComponentPhaseStopped, cs_Reason := componentReasonStopped\<rparr>"

fun stop_loop ::
  "err_lib \<Rightarrow> 'w docker_runtime \<Rightarrow> static_node ptr \<Rightarrow> string set \<Rightarrow> node_component_status list \<Rightarrow> 'w \<Rightarrow>
   (node_component_status list \<times> go_error list) \<times> 'w" where
  "stop_loop L dockerRuntime node desired [] w = (([], []), w)"
| "stop_loop L dockerRuntime node desired (current # currents) w =
     (if cs_Name current = [] \<or> cs_Name current \<in> desired then stop_loop L dockerRuntime node desired currents w
      else case RemoveContainer dockerRuntime (componentContainerName node (named_component (cs_Name current))) w of
             (err, w1) \<Rightarrow>
               (case stop_loop L dockerRuntime node desired currents w1 of
                  ((statuses, errs), w2) \<Rightarrow>
                    (case err of
                       None \<Rightarrow> ((stopped_status (cs_Name current) # statuses, errs), w2)
                     | Some e \<Rightarrow>
                         ((component_outcome NodeComponentPhaseFailed (dockerReason e componentReasonRunFailed)
                             (error_text L e) (stopped_status (cs_Name current)) # statuses, e # errs), w2))))"

definition stopStaleComponents ::
  "err_lib \<Rightarrow> static_node ptr \<Rightarrow> 'w command_runner \<Rightarrow> 'w \<Rightarrow> (node_component_status list \<times> go_error list) \<times> 'w" where
  "stopStaleComponents L node runner w =
     (case (spec_of node, status_of node) of
        (Some spec, Some status) \<Rightarrow>
          if els (sts_Components status) = [] then (([], []), w)
          else (case NewDockerRuntime L runner None w of
                  (Inl e, w1) \<Rightarrow> (([], [e]), w1)
                | (Inr dockerRuntime, w1) \<Rightarrow>
                    stop_loop L dockerRuntime node (set (map comp_Name (els (sns_Components spec)))) (els (sts_Components status)) w1)
      | _ \<Rightarrow> (([], []), w))"

fun component_loop ::
  "err_lib \<Rightarrow> 'w http_client \<Rightarrow> 'w reconciler ptr \<Rightarrow> static_node ptr \<Rightarrow> 'w command_runner \<Rightarrow> 'w file_client ptr \<Rightarrow>
   'w docker_runtime \<Rightarrow> node_component_spec list \<Rightarrow> 'w \<Rightarrow> (node_component_status list \<times> go_error list) \<times> 'w" where
  "component_loop L http r node runner fileApplier dockerRuntime [] w = (([], []), w)"
| "component_loop L http r node runner fileApplier dockerRuntime (component # components) w =
     (case reconcileComponent L http r node component runner fileApplier dockerRuntime w of
        ((status, err), w1) \<Rightarrow>
          (case component_loop L http r node runner fileApplier dockerRuntime components w1 of
             ((statuses, errs), w2) \<Rightarrow>
               ((status # statuses, (case err of None \<Rightarrow> errs | Some e \<Rightarrow> e # errs)), w2)))"

definition ReconcileComponents ::
  "err_lib \<Rightarrow> 'w http_client \<Rightarrow> 'w reconciler ptr \<Rightarrow> static_node ptr \<Rightarrow> 'w command_runner ptr \<Rightarrow> 'w docker_runtime \<Rightarrow> 'w \<Rightarrow>
   (node_component_status slice \<times> go_error option) \<times> 'w" where
  "ReconcileComponents L http r node runnerPtr dockerRuntime w =
     (case spec_of node of
        None \<Rightarrow> ((None, None), w)
      | Some spec \<Rightarrow>
          if els (sns_Components spec) = [] \<and> existingComponentStatusCount node = 0 then ((None, None), w)
          else (case runnerPtr of
                  None \<Rightarrow> ((None, Some (ErrNew ''static node command runner is required'')), w)
                | Some runner \<Rightarrow>
                    (case stopStaleComponents L node runner w of
                       ((staleStatuses, staleErrs), w1) \<Rightarrow>
                         (case component_loop L http r node runner (cr_Files runner) dockerRuntime (els (sns_Components spec)) w1 of
                            ((statuses, errs), w2) \<Rightarrow>
                              ((Some (staleStatuses @ statuses), NewAggregate (staleErrs @ errs)), w2)))))"

section \<open>Deletion\<close>

definition removeClusterLabeledComponentContainersCommand :: "static_node ptr \<Rightarrow> string" where
  "removeClusterLabeledComponentContainersCommand node =
     (if spec_cluster node = [] then []
      else ''containers=$(docker ps -aq --filter label='' @ shellArg (clusterNameLabel @ ''='' @ spec_cluster node) @
           ''); if [ -n '' @ [dquote] @ ''$containers'' @ [dquote] @ '' ]; then docker rm -f $containers >/dev/null 2>&1; fi'')"

text \<open>The loops with the \<open>seen\<close> set: a component without a name is always appended.\<close>

definition appendStaticNodeDeleteComponent ::
  "node_component_spec \<Rightarrow> node_component_spec list \<times> string set \<Rightarrow> node_component_spec list \<times> string set" where
  "appendStaticNodeDeleteComponent component acc =
     (case acc of (components, seen) \<Rightarrow>
        if comp_Name component \<noteq> [] \<and> comp_Name component \<in> seen then (components, seen)
        else (components @ [component], if comp_Name component \<noteq> [] then insert (comp_Name component) seen else seen))"

definition staticNodeDeleteComponents :: "static_node ptr \<Rightarrow> node_component_spec list" where
  "staticNodeDeleteComponents node =
     (let specs = (case spec_of node of None \<Rightarrow> [] | Some spec \<Rightarrow> els (sns_Components spec));
          observed = (case status_of node of
             None \<Rightarrow> []
           | Some status \<Rightarrow> map (\<lambda>s. named_component (cs_Name s)) (filter (\<lambda>s. cs_Name s \<noteq> []) (els (sts_Components status))))
      in fst (fold appendStaticNodeDeleteComponent (specs @ observed) ([], {})))"

fun delete_loop ::
  "'w command_runner \<Rightarrow> static_node ptr \<Rightarrow> node_component_spec list \<Rightarrow> 'w \<Rightarrow> go_error list \<times> 'w" where
  "delete_loop runner node [] w = ([], w)"
| "delete_loop runner node (component # components) w =
     (let containerName = componentContainerName node component in
      case cr_Run runner (remove_command containerName) w of
        (removed, w1) \<Rightarrow>
          (case removeComponentConfigFiles (cr_Files runner) component w1 of
             (fileErr, w2) \<Rightarrow>
               (case delete_loop runner node components w2 of
                  (errs, w3) \<Rightarrow>
                    ((case removed of Inl e \<Rightarrow> [ErrWrap e (''failed to remove component container '' @ containerName)] | Inr _ \<Rightarrow> []) @
                     (case fileErr of None \<Rightarrow> [] | Some e \<Rightarrow> [e]) @ errs, w3))))"

definition Delete :: "static_node ptr \<Rightarrow> 'w command_runner ptr \<Rightarrow> 'w \<Rightarrow> go_error option \<times> 'w" where
  "Delete node runnerPtr w =
     (case spec_of node of
        None \<Rightarrow> (None, w)
      | Some spec \<Rightarrow>
          (case runnerPtr of
             None \<Rightarrow> (Some (ErrNew ''static node command runner is required''), w)
           | Some runner \<Rightarrow>
               (case delete_loop runner node (staticNodeDeleteComponents node) w of
                  (errs, w1) \<Rightarrow>
                    (let command = removeClusterLabeledComponentContainersCommand node in
                     case (if command \<noteq> [] then cr_Run runner command w1 else (Inr [], w1)) of
                       (labelled, w2) \<Rightarrow>
                         (case cr_Run runner ''sudo rm -rf /etc/neutree'' w2 of
                            (data, w3) \<Rightarrow>
                              (NewAggregate (errs @
                                 (case labelled of
                                    Inl e \<Rightarrow> [ErrWrap e (''failed to remove static node cluster containers '' @ sns_Cluster spec)]
                                  | Inr _ \<Rightarrow> []) @
                                 (case data of
                                    Inl e \<Rightarrow> [ErrWrap e ''failed to remove static node Neutree data directory'']
                                  | Inr _ \<Rightarrow> [])), w3))))))"

end
