(* ===== verification/Node_Status.thy ===== *)
theory Node_Status
  imports Node_Reconciler
begin

text \<open>
  The status of a static node after a reconcile, \<open>staticnode/status.go\<close>. The clock is the argument
  \<open>now\<close>, the time of the call in the format the code writes.
\<close>

section \<open>Definitions\<close>

definition setPhase :: "string \<Rightarrow> static_node_status \<Rightarrow> string \<Rightarrow> static_node_status" where
  "setPhase now status phase =
     (if sts_Phase status \<noteq> phase \<or> sts_LastTransitionTime status = []
      then status\<lparr>sts_LastTransitionTime := now\<rparr> else status)\<lparr>sts_Phase := phase\<rparr>"

definition allNodeComponentsReady :: "node_component_status list \<Rightarrow> bool" where
  "allNodeComponentsReady components =
     list_all (\<lambda>c. cs_Ready c \<and> cs_Phase c = NodeComponentPhaseRunning) components"

text \<open>The fields of the result that are set replace those of the status.\<close>

definition merge_result :: "reconcile_result ptr \<Rightarrow> static_node_status \<Rightarrow> static_node_status" where
  "merge_result result status =
     (case result of
        None \<Rightarrow> status
      | Some r \<Rightarrow> status
          \<lparr>sts_Accelerator := (if rr_Accelerator r \<noteq> None then rr_Accelerator r else sts_Accelerator status),
           sts_Allocations := (if rr_Allocations r \<noteq> None then rr_Allocations r else sts_Allocations status),
           sts_Warm := (if rr_Warm r \<noteq> None then rr_Warm r else sts_Warm status),
           sts_Components := (if rr_Components r \<noteq> None then rr_Components r else sts_Components status)\<rparr>)"

definition BuildStatus ::
  "err_lib \<Rightarrow> string \<Rightarrow> static_node ptr \<Rightarrow> reconcile_result ptr \<Rightarrow> go_error option \<Rightarrow> static_node_status" where
  "BuildStatus L now node result reconcileErr =
     (let status = merge_result result (case status_of node of None \<Rightarrow> zero_node_status | Some s \<Rightarrow> s)
      in case reconcileErr of
           Some e \<Rightarrow> (setPhase now status StaticNodePhaseFailed)\<lparr>sts_ErrorMessage := error_text L e\<rparr>
         | None \<Rightarrow>
             let clean = status\<lparr>sts_ErrorMessage := []\<rparr>
             in if sts_Warm clean \<noteq> None \<and> \<not> ws_Ready (the (sts_Warm clean)) then
                  setPhase now clean StaticNodePhaseWarming
                else if els (sts_Components clean) = [] then setPhase now clean StaticNodePhaseReconciling
                else if \<not> allNodeComponentsReady (els (sts_Components clean)) then
                  setPhase now clean StaticNodePhaseReconciling
                else setPhase now clean StaticNodePhaseReady)"

section \<open>What the status shows\<close>

lemma setPhase_fields [simp]:
  "sts_Phase (setPhase now s p) = p"
  "sts_Accelerator (setPhase now s p) = sts_Accelerator s"
  "sts_Allocations (setPhase now s p) = sts_Allocations s"
  "sts_Warm (setPhase now s p) = sts_Warm s"
  "sts_Components (setPhase now s p) = sts_Components s"
  "sts_ErrorMessage (setPhase now s p) = sts_ErrorMessage s"
  by (simp_all add: setPhase_def)

definition base_status :: "static_node ptr \<Rightarrow> static_node_status" where
  "base_status node = (case status_of node of None \<Rightarrow> zero_node_status | Some s \<Rightarrow> s)"

definition observed_components :: "static_node ptr \<Rightarrow> reconcile_result ptr \<Rightarrow> node_component_status list" where
  "observed_components node result = els (sts_Components (merge_result result (base_status node)))"

definition observed_warm :: "static_node ptr \<Rightarrow> reconcile_result ptr \<Rightarrow> warm_status ptr" where
  "observed_warm node result = sts_Warm (merge_result result (base_status node))"

lemma BuildStatus_components [simp]:
  "els (sts_Components (BuildStatus L now node result err)) = observed_components node result"
  by (simp add: BuildStatus_def observed_components_def base_status_def Let_def split: option.split)

lemma BuildStatus_phase:
  "sts_Phase (BuildStatus L now node result err) =
     (if err \<noteq> None then StaticNodePhaseFailed
      else if observed_warm node result \<noteq> None \<and> \<not> ws_Ready (the (observed_warm node result)) then StaticNodePhaseWarming
      else if observed_components node result \<noteq> [] \<and> allNodeComponentsReady (observed_components node result)
      then StaticNodePhaseReady else StaticNodePhaseReconciling)"
  by (simp add: BuildStatus_def observed_components_def observed_warm_def base_status_def Let_def split: option.split)

text \<open>
  C17: a node is reported ready exactly when the reconcile had no error, the warm-up, if any was
  recorded, is complete, and there is at least one component and every one of them is ready and
  running.
\<close>

theorem BuildStatus_ready_iff:
  "sts_Phase (BuildStatus L now node result err) = StaticNodePhaseReady \<longleftrightarrow>
     err = None \<and> (case observed_warm node result of None \<Rightarrow> True | Some w \<Rightarrow> ws_Ready w) \<and>
     observed_components node result \<noteq> [] \<and>
     list_all (\<lambda>c. cs_Ready c \<and> cs_Phase c = NodeComponentPhaseRunning) (observed_components node result)"
  by (auto simp: BuildStatus_phase allNodeComponentsReady_def split: option.split)

lemma setPhase_time:
  "sts_LastTransitionTime (setPhase now s p) =
     (if sts_Phase s = p \<and> sts_LastTransitionTime s \<noteq> [] then sts_LastTransitionTime s else now)"
  by (simp add: setPhase_def)

text \<open>
  The transition time of a node moves exactly when its phase does: a reconcile that ends in the
  phase the node already had keeps the recorded time, any other reconcile records the current one.
\<close>

theorem BuildStatus_transition_time:
  "sts_LastTransitionTime (BuildStatus L now node result err) =
     (if sts_Phase (BuildStatus L now node result err) = sts_Phase (base_status node) \<and>
         sts_LastTransitionTime (base_status node) \<noteq> []
      then sts_LastTransitionTime (base_status node) else now)"
proof -
  have m: "sts_Phase (merge_result result s) = sts_Phase s"
    "sts_LastTransitionTime (merge_result result s) = sts_LastTransitionTime s" for s
    by (simp_all add: merge_result_def split: option.split)
  show ?thesis
    by (auto simp: BuildStatus_def base_status_def Let_def setPhase_time m split: option.split)
qed

end
