(* ===== verification/Node_Controller.thy ===== *)
theory Node_Controller
  imports Node_Status
begin

text \<open>
  The controller of static nodes, \<open>controllers/static_node_controller.go\<close>. The node object a reconcile
  works on is threaded through: \<open>updateStatus\<close> replaces its status when the write succeeded. The
  clock is a function of the world, and the runner factory and the reconciler are parameters as in
  the source.
\<close>

section \<open>Definitions\<close>

type_synonym 'w runner_factory = "static_node \<Rightarrow> 'w \<Rightarrow> (go_error + 'w command_runner) \<times> 'w"

record 'w node_controller =
  nc_storage :: "'w store"
  nc_runnerFactory :: "'w runner_factory"
  nc_reconciler :: "'w reconciler ptr"

record 'w node_controller_option =
  nco_Storage :: "'w store ptr"
  nco_RunnerFactory :: "'w runner_factory ptr"
  nco_Reconciler :: "'w reconciler ptr"

text \<open>The first argument is the factory \<open>NewSSHRunnerFactory\<close> returns.\<close>

definition NewStaticNodeController ::
  "'w runner_factory \<Rightarrow> 'w node_controller_option ptr \<Rightarrow> go_error + 'w node_controller" where
  "NewStaticNodeController sshFactory optionPtr =
     (case optionPtr of
        None \<Rightarrow> Inl (ErrNew ''static node controller option is required'')
      | Some option \<Rightarrow>
          (case nco_Storage option of
             None \<Rightarrow> Inl (ErrNew ''storage is required'')
           | Some storage \<Rightarrow>
               let runnerFactory = (case nco_RunnerFactory option of None \<Rightarrow> sshFactory | Some f \<Rightarrow> f);
                   reconciler0 = (case nco_Reconciler option of
                      None \<Rightarrow> \<lparr>rec_AcceleratorManager = None, rec_HeadReadyChecker = None, rec_NodeDeviceSnapshotClient = None\<rparr>
                    | Some r \<Rightarrow> r);
                   reconciler1 = (case rec_HeadReadyChecker reconciler0 of
                      None \<Rightarrow> reconciler0\<lparr>rec_HeadReadyChecker := Some (HeadReady (Some storage))\<rparr>
                    | Some _ \<Rightarrow> reconciler0)
               in Inr \<lparr>nc_storage = storage, nc_runnerFactory = runnerFactory, nc_reconciler = Some reconciler1\<rparr>))"

text \<open>The result is the node with its new status and the error of the reconcile so far.\<close>

definition updateStatus ::
  "'w node_controller \<Rightarrow> static_node \<Rightarrow> static_node_status \<Rightarrow> string \<Rightarrow> go_error option \<Rightarrow> 'w \<Rightarrow>
   (static_node \<times> go_error option) \<times> 'w" where
  "updateStatus c node status message reconcileErr w =
     (case updateStaticNodeStatus (Some (nc_storage c)) (Some node) status w of
        (Some e, w1) \<Rightarrow> ((node, (if reconcileErr = None then Some (ErrWrap e message) else reconcileErr)), w1)
      | (None, w1) \<Rightarrow> ((node\<lparr>sn_Status := Some status\<rparr>, reconcileErr), w1))"

definition closeStaticNodeRunner :: "'w command_runner \<Rightarrow> 'w \<Rightarrow> 'w" where
  "closeStaticNodeRunner runner w = snd (cr_Close runner w)"

definition registry_credentials ::
  "url_parser \<Rightarrow> string \<Rightarrow> image_registry \<Rightarrow> go_error + registry_auth ptr" where
  "registry_credentials parse registryName imageRegistry =
     (if ir_Status imageRegistry = None \<or> irst_Phase (the (ir_Status imageRegistry)) \<noteq> ImageRegistryPhaseCONNECTED
      then Inl (ErrNew (''image registry '' @ registryName @ '' not ready''))
      else case GetImageRegistryAuthInfo (Some imageRegistry) of
             Inl e \<Rightarrow> Inl (ErrWrap e ''failed to get image registry auth info'')
           | Inr (username, password) \<Rightarrow>
               (case GetImageRegistryHost parse (the (ir_Spec imageRegistry)) of
                  Inl e \<Rightarrow> Inl (ErrWrap e ''failed to get image registry host'')
                | Inr server \<Rightarrow>
                    if server = [] \<or> username = [] \<or> password = [] then Inr None
                    else Inr (Some \<lparr>ra_Server = server, ra_Username = username, ra_Password = password\<rparr>)))"

definition registryAuth ::
  "url_parser \<Rightarrow> 'w node_controller \<Rightarrow> static_node \<Rightarrow> 'w \<Rightarrow> (go_error + registry_auth ptr) \<times> 'w" where
  "registryAuth parse c node w =
     (case sn_Spec node of
        None \<Rightarrow> (Inr None, w)
      | Some spec \<Rightarrow>
          if sns_Cluster spec = [] then (Inr None, w)
          else case st_ListCluster (nc_storage c)
                 [eq_filter ''metadata->name'' (in_quotes (sns_Cluster spec)),
                  eq_filter ''metadata->workspace'' (in_quotes (meta_Workspace (sn_Metadata node)))] w of
            (Inl e, w1) \<Rightarrow> (Inl (ErrWrap e ''failed to list parent cluster''), w1)
          | (Inr [], w1) \<Rightarrow> (Inr None, w1)
          | (Inr (cl # _), w1) \<Rightarrow>
              (case cl_Spec cl of
                 None \<Rightarrow> (Inr None, w1)
               | Some cspec \<Rightarrow>
                   if csp_ImageRegistry cspec = [] then (Inr None, w1)
                   else case st_ListImageRegistry (nc_storage c)
                          [eq_filter ''metadata->name'' (in_quotes (csp_ImageRegistry cspec)),
                           eq_filter ''metadata->workspace'' (in_quotes (meta_Workspace (cl_Metadata cl)))] w1 of
                     (Inl e, w2) \<Rightarrow> (Inl (ErrWrap e ''failed to list image registry''), w2)
                   | (Inr [], w2) \<Rightarrow> (Inl ErrResourceNotFound, w2)
                   | (Inr (ir # _), w2) \<Rightarrow> (registry_credentials parse (csp_ImageRegistry cspec) ir, w2)))"

text \<open>
  What the controller takes from outside: the rendering of library errors, the URL parser, the HTTP
  client and the clock.
\<close>

record 'w environment =
  en_errors :: err_lib
  en_parse :: url_parser
  en_http :: "'w http_client"
  en_now :: "'w \<Rightarrow> string"

text \<open>
  \<open>publish\<close> is the pair of calls that ends every stage: building the status and writing it.
\<close>

definition publish ::
  "'w environment \<Rightarrow> 'w node_controller \<Rightarrow> static_node \<Rightarrow> reconcile_result ptr \<Rightarrow> string \<Rightarrow> go_error option \<Rightarrow> 'w \<Rightarrow>
   (static_node \<times> go_error option) \<times> 'w" where
  "publish E c node result message err w =
     updateStatus c node (BuildStatus (en_errors E) (en_now E w) (Some node) result err) message err w"

definition empty_result :: reconcile_result where
  "empty_result = \<lparr>rr_Accelerator = None, rr_Allocations = None, rr_Warm = None, rr_Components = None\<rparr>"

text \<open>The stages of \<open>reconcileNormal\<close> after the runner exists, each with the rest of the work after it.\<close>

definition snapshot_stage ::
  "'w environment \<Rightarrow> 'w node_controller \<Rightarrow> static_node \<Rightarrow> reconcile_result \<Rightarrow> 'w \<Rightarrow> (static_node \<times> go_error option) \<times> 'w" where
  "snapshot_stage E c node result w =
     (case ReconcileNodeDeviceSnapshot (nc_reconciler c) (DeviceSnapshot (en_http E)) (Some node) (rr_Accelerator result)
             [els (rr_Components result)] w of
        ((accelerator, allocations), w1) \<Rightarrow>
          publish E c node (Some (result\<lparr>rr_Accelerator := accelerator, rr_Allocations := allocations\<rparr>))
            ''failed to update static node device snapshot status'' None w1)"

definition component_stage ::
  "'w environment \<Rightarrow> 'w node_controller \<Rightarrow> 'w command_runner \<Rightarrow> 'w docker_runtime \<Rightarrow> static_node \<Rightarrow> reconcile_result \<Rightarrow> 'w \<Rightarrow>
   (static_node \<times> go_error option) \<times> 'w" where
  "component_stage E c runner dockerRuntime node result w =
     (case ReconcileComponents (en_errors E) (en_http E) (nc_reconciler c) (Some node) (Some runner) dockerRuntime w of
        ((components, err), w1) \<Rightarrow>
          (let result1 = result\<lparr>rr_Components := components\<rparr> in
           case publish E c node (Some result1) ''failed to update static node component status'' err w1 of
             ((node1, Some e), w2) \<Rightarrow> ((node1, Some e), w2)
           | ((node1, None), w2) \<Rightarrow> snapshot_stage E c node1 result1 w2))"

definition warm_stage ::
  "'w environment \<Rightarrow> 'w node_controller \<Rightarrow> 'w command_runner \<Rightarrow> 'w docker_runtime \<Rightarrow> static_node \<Rightarrow> reconcile_result \<Rightarrow> 'w \<Rightarrow>
   (static_node \<times> go_error option) \<times> 'w" where
  "warm_stage E c runner dockerRuntime node result w =
     (case ReconcileWarmImages (en_errors E) (Some node) dockerRuntime w of
        ((warm, err), w1) \<Rightarrow>
          (let result1 = result\<lparr>rr_Warm := Some warm\<rparr> in
           case publish E c node (Some result1) ''failed to update static node warm status'' err w1 of
             ((node1, Some e), w2) \<Rightarrow> ((node1, Some e), w2)
           | ((node1, None), w2) \<Rightarrow> component_stage E c runner dockerRuntime node1 result1 w2))"

definition runtime_stage ::
  "'w environment \<Rightarrow> 'w node_controller \<Rightarrow> 'w command_runner \<Rightarrow> static_node \<Rightarrow> reconcile_result \<Rightarrow> 'w \<Rightarrow>
   (static_node \<times> go_error option) \<times> 'w" where
  "runtime_stage E c runner node result w =
     (case registryAuth (en_parse E) c node w of
        (Inl e, w1) \<Rightarrow>
          publish E c node (Some result) ''failed to update static node registry auth status''
            (Some (ErrWrap e ''failed to resolve static node registry auth'')) w1
      | (Inr auth, w1) \<Rightarrow>
          (case NewDockerRuntime (en_errors E) runner auth w1 of
             (Inl e, w2) \<Rightarrow>
               publish E c node (Some result) ''failed to update static node docker runtime status''
                 (Some (ErrWrap e ''failed to initialize static node docker runtime'')) w2
           | (Inr dockerRuntime, w2) \<Rightarrow> warm_stage E c runner dockerRuntime node result w2))"

definition accelerator_stage ::
  "'w environment \<Rightarrow> 'w node_controller \<Rightarrow> 'w command_runner \<Rightarrow> static_node \<Rightarrow> 'w \<Rightarrow> (static_node \<times> go_error option) \<times> 'w" where
  "accelerator_stage E c runner node w =
     (case ReconcileAccelerator (nc_reconciler c) (Some node) w of
        (detected, w1) \<Rightarrow>
          (let result = empty_result\<lparr>rr_Accelerator := (case detected of Inl _ \<Rightarrow> None | Inr a \<Rightarrow> a)\<rparr>;
               err = (case detected of Inl e \<Rightarrow> Some e | Inr _ \<Rightarrow> None)
           in case publish E c node (Some result) ''failed to update static node accelerator status'' err w1 of
                ((node1, Some e), w2) \<Rightarrow> ((node1, Some e), w2)
              | ((node1, None), w2) \<Rightarrow> runtime_stage E c runner node1 result w2))"

definition node_reconcileNormal ::
  "'w environment \<Rightarrow> 'w node_controller \<Rightarrow> static_node \<Rightarrow> 'w \<Rightarrow> (static_node \<times> go_error option) \<times> 'w" where
  "node_reconcileNormal E c node w =
     (case nc_runnerFactory c node w of
        (Inl e, w1) \<Rightarrow>
          publish E c node None ''failed to update static node status''
            (Some (ErrWrap e ''failed to create static node runner'')) w1
      | (Inr runner, w1) \<Rightarrow>
          (case accelerator_stage E c runner node w1 of
             (r, w2) \<Rightarrow> (r, closeStaticNodeRunner runner w2)))"

text \<open>
  \<open>reconcileDelete\<close>: the deferred calls run in reverse order, so the runner is closed before the
  status of a failed deletion is written.
\<close>

definition node_reconcileDelete ::
  "'w environment \<Rightarrow> 'w node_controller \<Rightarrow> static_node \<Rightarrow> 'w \<Rightarrow> (static_node \<times> go_error option) \<times> 'w" where
  "node_reconcileDelete E c node w =
     (let isForceDelete = IsForceDelete (meta_Annotations (sn_Metadata node));
          hardDelete = (\<lambda>w. case hardDeleteStaticNode (Some (nc_storage c)) (Some node) w of (err, w1) \<Rightarrow> ((node, err), w1));
          fail = (\<lambda>e w. publish E c node None ''failed to update static node status'' (Some e) w)
      in case nc_runnerFactory c node w of
           (Inl e, w1) \<Rightarrow>
             if isForceDelete then hardDelete w1 else fail (ErrWrap e ''failed to create static node runner'') w1
         | (Inr runner, w1) \<Rightarrow>
             (case Delete (Some node) (Some runner) w1 of
                (Some e, w2) \<Rightarrow>
                  if isForceDelete then (case hardDelete w2 of (r, w3) \<Rightarrow> (r, closeStaticNodeRunner runner w3))
                  else fail e (closeStaticNodeRunner runner w2)
              | (None, w2) \<Rightarrow> (case hardDelete w2 of (r, w3) \<Rightarrow> (r, closeStaticNodeRunner runner w3))))"

definition node_sync ::
  "'w environment \<Rightarrow> 'w node_controller \<Rightarrow> static_node ptr \<Rightarrow> 'w \<Rightarrow> go_error option \<times> 'w" where
  "node_sync E c nodePtr w =
     (case nodePtr of
        None \<Rightarrow> (Some (ErrNew ''static node is required''), w)
      | Some node \<Rightarrow>
          (case (if meta_DeletionTimestamp (sn_Metadata node) \<noteq> [] then node_reconcileDelete E c node w
                 else node_reconcileNormal E c node w) of
             ((_, err), w1) \<Rightarrow> (err, w1)))"

end
