(* ===== verification/Host_Frame.thy ===== *)
theory Host_Frame
  imports Node_Controller
begin

text \<open>
  Frame lemmas: every operation of the Docker runtime and of the reconciler changes only what the
  runner, the HTTP client and the injected clients change. \<open>keeps tab f\<close> says that \<open>f\<close> leaves the part
  \<open>tab\<close> of the world alone.
\<close>

section \<open>Operations that leave a part of the world alone\<close>

definition keeps :: "('w \<Rightarrow> 't) \<Rightarrow> ('w \<Rightarrow> 'a \<times> 'w) \<Rightarrow> bool" where
  "keeps tab f \<longleftrightarrow> (\<forall>w. tab (snd (f w)) = tab w)"

definition quiet_files :: "('w \<Rightarrow> 't) \<Rightarrow> 'w file_client \<Rightarrow> bool" where
  "quiet_files tab F \<longleftrightarrow> (\<forall>p c m. keeps tab (fc_WriteFileIfChanged F p c m)) \<and> (\<forall>p b. keeps tab (fc_Remove F p b))"

definition quiet_runner :: "('w \<Rightarrow> 't) \<Rightarrow> 'w command_runner \<Rightarrow> bool" where
  "quiet_runner tab R \<longleftrightarrow> (\<forall>c. keeps tab (cr_Run R c)) \<and> pred_option (quiet_files tab) (cr_Files R)"

definition quiet_http :: "('w \<Rightarrow> 't) \<Rightarrow> 'w http_client \<Rightarrow> bool" where
  "quiet_http tab h \<longleftrightarrow> (\<forall>u t. keeps tab (h u t))"

definition quiet_reconciler :: "('w \<Rightarrow> 't) \<Rightarrow> 'w reconciler \<Rightarrow> bool" where
  "quiet_reconciler tab r \<longleftrightarrow>
     pred_option (\<lambda>f. \<forall>ip a. keeps tab (f ip a)) (rec_AcceleratorManager r) \<and>
     pred_option (\<lambda>f. \<forall>n. keeps tab (f n)) (rec_HeadReadyChecker r) \<and>
     pred_option (\<lambda>f. \<forall>n. keeps tab (f n)) (rec_NodeDeviceSnapshotClient r)"

named_theorems quiet

lemma quiet_Run [quiet]: "quiet_runner tab R \<Longrightarrow> tab (snd (cr_Run R c w)) = tab w"
  by (simp add: quiet_runner_def keeps_def)

lemma quiet_Files: "quiet_runner tab R \<Longrightarrow> pred_option (quiet_files tab) (cr_Files R)"
  by (simp add: quiet_runner_def)

lemma quiet_write [quiet]: "quiet_files tab F \<Longrightarrow> tab (snd (fc_WriteFileIfChanged F p c m w)) = tab w"
  by (simp add: quiet_files_def keeps_def)

lemma quiet_remove [quiet]: "quiet_files tab F \<Longrightarrow> tab (snd (fc_Remove F p b w)) = tab w"
  by (simp add: quiet_files_def keeps_def)

lemma quiet_get [quiet]: "quiet_http tab h \<Longrightarrow> tab (snd (h u t w)) = tab w"
  by (simp add: quiet_http_def keeps_def)

subsection \<open>The Docker runtime\<close>

lemma quiet_InspectImageDigest [quiet]: "quiet_runner tab (dr_runner r) \<Longrightarrow> tab (snd (InspectImageDigest r i w)) = tab w"
  by (simp only: InspectImageDigest_def split_beta snd_conv quiet split: sum.split) simp

lemma quiet_pullImage [quiet]: "quiet_runner tab (dr_runner r) \<Longrightarrow> tab (snd (pullImage r i w)) = tab w"
  by (simp only: pullImage_def split_beta snd_conv quiet split: sum.split) simp

lemma quiet_InspectLocalImage [quiet]: "quiet_runner tab (dr_runner r) \<Longrightarrow> tab (snd (InspectLocalImage r i w)) = tab w"
  by (simp only: InspectLocalImage_def split_beta snd_conv quiet split: sum.split) simp

lemma quiet_EnsureImage [quiet]: "quiet_runner tab (dr_runner r) \<Longrightarrow> tab (snd (EnsureImage r i w)) = tab w"
  by (simp only: EnsureImage_def split_beta snd_conv quiet split: option.split) simp

lemma quiet_registryConfigMatches [quiet]: "quiet_runner tab (dr_runner r) \<Longrightarrow> tab (snd (registryConfigMatches r a w)) = tab w"
  by (simp only: registryConfigMatches_def split_beta snd_conv quiet split: sum.split) simp

lemma quiet_Login [quiet]: "quiet_runner tab (dr_runner r) \<Longrightarrow> tab (snd (Login L r w)) = tab w"
  by (simp only: Login_def Let_def split_beta snd_conv quiet split: sum.split if_split) simp

lemma quiet_EnsureRegistryAuth [quiet]: "quiet_runner tab (dr_runner r) \<Longrightarrow> tab (snd (EnsureRegistryAuth L r w)) = tab w"
  by (simp only: EnsureRegistryAuth_def split_beta snd_conv quiet split: bool.split if_split) simp

lemma quiet_EnsureDockerConfigDir [quiet]: "quiet_runner tab (dr_runner r) \<Longrightarrow> tab (snd (EnsureDockerConfigDir r w)) = tab w"
  by (simp only: EnsureDockerConfigDir_def split_beta snd_conv quiet split: sum.split) simp

lemma quiet_NewDockerRuntime [quiet]: "quiet_runner tab R \<Longrightarrow> tab (snd (NewDockerRuntime L R a w)) = tab w"
  by (simp only: NewDockerRuntime_def Let_def split_beta snd_conv docker_runtime.simps quiet split: option.split) simp

lemma NewDockerRuntime_runner: "fst (NewDockerRuntime L R a w) = Inr r \<Longrightarrow> dr_runner r = R"
  by (auto simp: NewDockerRuntime_def Let_def split: prod.splits option.splits)

lemma quiet_ComponentContainerMatches [quiet]:
  "quiet_runner tab (dr_runner r) \<Longrightarrow> tab (snd (ComponentContainerMatches r n h w)) = tab w"
  by (simp only: ComponentContainerMatches_def split_beta snd_conv quiet split: sum.split) simp

lemma quiet_RemoveContainer [quiet]: "quiet_runner tab (dr_runner r) \<Longrightarrow> tab (snd (RemoveContainer r n w)) = tab w"
  by (simp only: RemoveContainer_def split_beta snd_conv quiet split: sum.split) simp

lemma quiet_RestartComponentContainer [quiet]:
  "quiet_runner tab (dr_runner r) \<Longrightarrow> tab (snd (RestartComponentContainer r n c h w)) = tab w"
  by (simp only: RestartComponentContainer_def Let_def split_beta snd_conv quiet split: sum.split option.split) simp

subsection \<open>The reconciler\<close>

lemma quiet_write_files [quiet]: "quiet_files tab F \<Longrightarrow> tab (snd (write_files F b cs w)) = tab w"
  by (induction cs arbitrary: b w) (simp_all add: split_beta quiet split: sum.split)

lemma quiet_remove_files [quiet]: "quiet_files tab F \<Longrightarrow> tab (snd (remove_files F es cs w)) = tab w"
  by (induction cs arbitrary: es w) (simp_all add: split_beta quiet split: option.split)

lemma quiet_writeComponentConfigFiles [quiet]:
  "pred_option (quiet_files tab) F \<Longrightarrow> tab (snd (writeComponentConfigFiles F c w)) = tab w"
  by (cases F) (simp_all add: writeComponentConfigFiles_def fileClient_def quiet)

lemma quiet_removeComponentConfigFiles [quiet]:
  "pred_option (quiet_files tab) F \<Longrightarrow> tab (snd (removeComponentConfigFiles F c w)) = tab w"
  by (cases F) (simp_all add: removeComponentConfigFiles_def fileClient_def split_beta quiet)

lemma quiet_checkHTTPHealth [quiet]: "quiet_http tab h \<Longrightarrow> tab (snd (checkHTTPHealth h u t w)) = tab w"
  by (simp add: checkHTTPHealth_def doHealthHTTPGet_def split_beta quiet split: sum.split)

lemma quiet_checkComponentHealth [quiet]:
  "quiet_http tab h \<Longrightarrow> quiet_runner tab R \<Longrightarrow> tab (snd (checkComponentHealth h n R c w)) = tab w"
  by (simp add: checkComponentHealth_def split_beta quiet split: sum.split option.split)

lemma quiet_finish_component [quiet]:
  "quiet_http tab h \<Longrightarrow> quiet_runner tab R \<Longrightarrow> tab (snd (finish_component L h n R c st w)) = tab w"
  by (simp add: finish_component_def split_beta quiet split: option.split)

lemma quiet_shouldWaitForHead [quiet]:
  "pred_option (quiet_reconciler tab) r \<Longrightarrow> tab (snd (shouldWaitForHead r n w)) = tab w"
  by (auto simp: shouldWaitForHead_def quiet_reconciler_def keeps_def split_beta
      split: option.split sum.split dest!: spec [of _ n] spec [of _ w] Option.bind_eq_Some_conv [THEN iffD1])

lemma result_world: "p = (a, w') \<Longrightarrow> tab (snd p) = tab w \<Longrightarrow> tab w' = tab w"
  by simp

lemma quiet_reconcileComponent [quiet]:
  assumes "quiet_http tab h" "pred_option (quiet_reconciler tab) r" "quiet_runner tab R" "pred_option (quiet_files tab) F"
    "quiet_runner tab (dr_runner d)"
  shows "tab (snd (reconcileComponent L h r n c R F d w)) = tab w"
proof -
  note step = result_world [where tab = tab]
  have 1: "tab w' = tab w" if "shouldWaitForHead r n w = (a, w')" for a w w'
    by (rule step [OF that]) (simp only: quiet assms)
  have 2: "tab w' = tab w" if "writeComponentConfigFiles F c w = (a, w')" for a w w'
    by (rule step [OF that]) (simp only: quiet assms)
  have 3: "tab w' = tab w" if "ComponentContainerMatches d m z w = (a, w')" for m z a w w'
    by (rule step [OF that]) (simp only: quiet assms)
  have 4: "tab w' = tab w" if "RestartComponentContainer d n c z w = (a, w')" for z a w w'
    by (rule step [OF that]) (simp only: quiet assms)
  have 5: "tab (snd (finish_component L h n R c st w)) = tab w" for st w
    by (simp only: quiet assms)
  show ?thesis
    unfolding reconcileComponent_def Let_def
    by (auto split: prod.split option.split simp: 5 dest!: 1 2 3 4)
qed

lemma quiet_stop_loop [quiet]:
  "quiet_runner tab (dr_runner d) \<Longrightarrow> tab (snd (stop_loop L d n D cs w)) = tab w"
  by (induction cs arbitrary: w) (simp_all add: split_beta quiet split: option.split)

lemma quiet_stopStaleComponents [quiet]:
  "quiet_runner tab R \<Longrightarrow> tab (snd (stopStaleComponents L n R w)) = tab w"
  by (auto simp: stopStaleComponents_def split_beta quiet NewDockerRuntime_runner split: option.split sum.split)

lemma quiet_component_loop [quiet]:
  assumes "quiet_http tab h" "pred_option (quiet_reconciler tab) r" "quiet_runner tab R" "pred_option (quiet_files tab) F"
    "quiet_runner tab (dr_runner d)"
  shows "tab (snd (component_loop L h r n R F d cs w)) = tab w"
  using assms by (induction cs arbitrary: w) (simp_all add: split_beta quiet)

lemma quiet_ReconcileComponents [quiet]:
  assumes "quiet_http tab h" "pred_option (quiet_reconciler tab) r" "quiet_runner tab R" "quiet_runner tab (dr_runner d)"
  shows "tab (snd (ReconcileComponents L h r n (Some R) d w)) = tab w"
  using assms by (simp add: ReconcileComponents_def split_beta quiet quiet_Files split: option.split)

lemma quiet_reconcileWarmImage [quiet]:
  assumes "quiet_runner tab (dr_runner d)"
  shows "tab (snd (reconcileWarmImage L i d w)) = tab w"
proof -
  note step = result_world [where tab = tab]
  have 1: "tab w' = tab w" if "InspectImageDigest d m w = (a, w')" for m a w w'
    by (rule step [OF that]) (simp only: quiet assms)
  have 2: "tab w' = tab w" if "pullImage d m w = (a, w')" for m a w w'
    by (rule step [OF that]) (simp only: quiet assms)
  show ?thesis
    unfolding reconcileWarmImage_def PullImage_def Let_def
    by (auto split: prod.split option.split sum.split list.split dest!: 1 2)
qed

lemma quiet_warm_loop [quiet]:
  "quiet_runner tab (dr_runner d) \<Longrightarrow> tab (snd (warm_loop L d st is w)) = tab w"
  by (induction "is" arbitrary: st w) (simp_all add: split_beta Let_def quiet split: option.split)

lemma quiet_ReconcileWarmImages [quiet]:
  "quiet_runner tab (dr_runner d) \<Longrightarrow> tab (snd (ReconcileWarmImages L n d w)) = tab w"
  by (simp add: ReconcileWarmImages_def Let_def quiet split: option.split)

lemma quiet_ReconcileAccelerator [quiet]:
  "pred_option (quiet_reconciler tab) r \<Longrightarrow> tab (snd (ReconcileAccelerator r n w)) = tab w"
  by (auto simp: ReconcileAccelerator_def quiet_reconciler_def keeps_def Let_def
      split: option.split dest!: Option.bind_eq_Some_conv [THEN iffD1])

lemma quiet_DeviceSnapshot [quiet]: "quiet_http tab h \<Longrightarrow> tab (snd (DeviceSnapshot h n w)) = tab w"
  by (simp add: DeviceSnapshot_def Let_def split_beta quiet split: option.split sum.split)

lemma quiet_ReconcileNodeDeviceSnapshot [quiet]:
  assumes "quiet_http tab h" "pred_option (quiet_reconciler tab) r"
  shows "tab (snd (ReconcileNodeDeviceSnapshot r (DeviceSnapshot h) n fb ss w)) = tab w"
proof -
  have "tab (snd (nodeDeviceSnapshotClient r (DeviceSnapshot h) n w)) = tab w"
    using assms
    by (auto simp: nodeDeviceSnapshotClient_def quiet quiet_reconciler_def keeps_def
        split: option.split dest!: Option.bind_eq_Some_conv [THEN iffD1])
  then show ?thesis
    by (simp add: ReconcileNodeDeviceSnapshot_def Let_def split_beta split: option.split sum.split)
qed

lemma quiet_delete_loop [quiet]: "quiet_runner tab R \<Longrightarrow> tab (snd (delete_loop R n cs w)) = tab w"
  by (induction cs arbitrary: w) (simp_all add: split_beta Let_def quiet quiet_Files)

lemma quiet_Delete [quiet]: "quiet_runner tab R \<Longrightarrow> tab (snd (Delete n (Some R) w)) = tab w"
  by (simp only: Delete_def option.case Let_def split_beta snd_conv quiet split: option.split if_split) simp


subsection \<open>The stages of the node controller\<close>

text \<open>Writing the status of a node and looking up the registry of its cluster.\<close>

definition quiet_storage :: "('w \<Rightarrow> 't) \<Rightarrow> 'w store \<Rightarrow> bool" where
  "quiet_storage tab S \<longleftrightarrow> (\<forall>n st. keeps tab (updateStaticNodeStatus (Some S) (Some n) st)) \<and>
     (\<forall>fs. keeps tab (st_ListCluster S fs)) \<and> (\<forall>fs. keeps tab (st_ListImageRegistry S fs))"

definition quiet_host :: "('w \<Rightarrow> 't) \<Rightarrow> 'w environment \<Rightarrow> 'w node_controller \<Rightarrow> bool" where
  "quiet_host tab E c \<longleftrightarrow> quiet_http tab (en_http E) \<and> pred_option (quiet_reconciler tab) (nc_reconciler c) \<and>
     (\<forall>n w R. fst (nc_runnerFactory c n w) = Inr R \<longrightarrow> quiet_runner tab R)"

lemma quiet_publish:
  assumes "quiet_storage tab (nc_storage c)"
  shows "tab (snd (publish E c n r m e w)) = tab w"
  using assms by (simp add: publish_def updateStatus_def quiet_storage_def keeps_def split_beta split: option.split)

lemma quiet_registryAuth:
  assumes "quiet_storage tab (nc_storage c)"
  shows "tab (snd (registryAuth parse c n w)) = tab w"
proof -
  note step = result_world [where tab = tab]
  have 1: "tab w' = tab w" if "st_ListCluster (nc_storage c) fs w = (a, w')" for fs a w w'
    by (rule step [OF that]) (use assms in \<open>simp add: quiet_storage_def keeps_def\<close>)
  have 2: "tab w' = tab w" if "st_ListImageRegistry (nc_storage c) fs w = (a, w')" for fs a w w'
    by (rule step [OF that]) (use assms in \<open>simp add: quiet_storage_def keeps_def\<close>)
  show ?thesis
    unfolding registryAuth_def by (auto split: prod.split option.split sum.split list.split dest!: 1 2)
qed

lemma quiet_snapshot_stage:
  assumes "quiet_storage tab (nc_storage c)" "quiet_host tab E c"
  shows "tab (snd (snapshot_stage E c n r w)) = tab w"
  using assms quiet_publish [OF assms(1)]
  by (simp add: snapshot_stage_def split_beta quiet quiet_host_def)

lemma quiet_component_stage:
  assumes "quiet_storage tab (nc_storage c)" "quiet_host tab E c" "quiet_runner tab R" "quiet_runner tab (dr_runner d)"
  shows "tab (snd (component_stage E c R d n r w)) = tab w"
  using assms quiet_publish [OF assms(1)] quiet_snapshot_stage [OF assms(1,2)]
  by (simp add: component_stage_def Let_def split_beta quiet quiet_host_def split: option.split)

lemma quiet_warm_stage:
  assumes "quiet_storage tab (nc_storage c)" "quiet_host tab E c" "quiet_runner tab R" "quiet_runner tab (dr_runner d)"
  shows "tab (snd (warm_stage E c R d n r w)) = tab w"
  using assms quiet_publish [OF assms(1)] quiet_component_stage [OF assms]
  by (simp add: warm_stage_def Let_def split_beta quiet quiet_host_def split: option.split)

lemma quiet_runtime_stage:
  assumes "quiet_storage tab (nc_storage c)" "quiet_host tab E c" "quiet_runner tab R"
  shows "tab (snd (runtime_stage E c R n r w)) = tab w"
proof -
  let ?a = "registryAuth (en_parse E) c n w"
  show ?thesis
  proof (cases "fst ?a")
    case (Inl e)
    then show ?thesis
      using quiet_publish [OF assms(1)] quiet_registryAuth [OF assms(1)] by (simp add: runtime_stage_def split_beta)
  next
    case (Inr auth)
    let ?d = "NewDockerRuntime (en_errors E) R auth (snd ?a)"
    have w: "tab (snd ?d) = tab w"
      using quiet_NewDockerRuntime [OF assms(3)] quiet_registryAuth [OF assms(1)] by metis
    have s: "tab (snd (warm_stage E c R d n r w')) = tab w'" if "fst ?d = Inr d" for d w'
      using quiet_warm_stage [OF assms] NewDockerRuntime_runner [OF that] assms(3) by simp
    show ?thesis
      using Inr quiet_publish [OF assms(1)] w s by (auto simp: runtime_stage_def split_beta split: sum.split)
  qed
qed

lemma quiet_accelerator_stage:
  assumes "quiet_storage tab (nc_storage c)" "quiet_host tab E c" "quiet_runner tab R"
  shows "tab (snd (accelerator_stage E c R n w)) = tab w"
  using assms quiet_publish [OF assms(1)] quiet_runtime_stage [OF assms]
  by (simp add: accelerator_stage_def Let_def split_beta quiet quiet_host_def split: option.split)

end
