(* ===== verification/Cluster_Controller.thy ===== *)
theory Cluster_Controller
  imports Planner Cluster_Status Store
begin

text \<open>
  The controller of static node clusters, \<open>controllers/static_node_cluster_controller.go\<close>: planning
  the nodes, writing them, marking nodes that left the specification, and publishing the aggregated
  status; on deletion marking the nodes and removing the cluster once they are gone.
\<close>

section \<open>Definitions\<close>

record 'w cluster_controller =
  cc_storage :: "'w store"
  cc_planner :: planner

record 'w cluster_controller_option =
  cco_Storage :: "'w store ptr"
  cco_Planner :: "planner ptr"
  cco_AcceleratorProfileProvider :: "(string \<Rightarrow> go_error + accelerator_profile ptr) ptr"
  cco_MetricsRemoteWriteURL :: string

definition NewStaticNodeClusterController ::
  "'w cluster_controller_option ptr \<Rightarrow> go_error + 'w cluster_controller" where
  "NewStaticNodeClusterController optionPtr =
     (case optionPtr of
        None \<Rightarrow> Inl (ErrNew ''static node cluster controller option is required'')
      | Some option \<Rightarrow>
          (case cco_Storage option of
             None \<Rightarrow> Inl (ErrNew ''storage is required'')
           | Some storage \<Rightarrow>
               Inr \<lparr>cc_storage = storage,
                    cc_planner = (case cco_Planner option of
                       None \<Rightarrow> \<lparr>pl_AcceleratorProfileProvider = cco_AcceleratorProfileProvider option,
                                pl_MetricsRemoteWriteURL = cco_MetricsRemoteWriteURL option\<rparr>
                     | Some p \<Rightarrow> p)\<rparr>))"

text \<open>
  What the controller takes from outside: the rendering of library errors, the URL parser, the nodes
  the Ray dashboard lists, and the clock.
\<close>

record 'w cluster_environment =
  ce_errors :: err_lib
  ce_parse :: url_parser
  ce_listNodes :: "'w \<Rightarrow> string \<Rightarrow> go_error + ray_node list"
  ce_now :: "'w \<Rightarrow> string"

definition cluster_updateStatus ::
  "'w cluster_controller \<Rightarrow> static_node_cluster \<Rightarrow> static_node_cluster_status \<Rightarrow> string \<Rightarrow> go_error option \<Rightarrow> 'w \<Rightarrow>
   go_error option \<times> 'w" where
  "cluster_updateStatus c cluster status message reconcileErr w =
     (case updateStaticNodeClusterStatus (Some (cc_storage c)) (Some cluster) status w of
        (Some e, w1) \<Rightarrow> ((if reconcileErr = None then Some (ErrWrap e message) else reconcileErr), w1)
      | (None, w1) \<Rightarrow> (reconcileErr, w1))"

definition staticNodeClusterFailedStatus ::
  "err_lib \<Rightarrow> static_node_cluster_status \<Rightarrow> go_error option \<Rightarrow> static_node_cluster_status" where
  "staticNodeClusterFailedStatus L status err =
     (let failed = status\<lparr>cst_Phase := StaticNodeClusterPhaseFailed\<rparr>
      in case err of
           None \<Rightarrow> failed
         | Some e \<Rightarrow>
             if cst_ErrorMessage failed = [] then failed\<lparr>cst_ErrorMessage := error_text L e\<rparr>
             else failed\<lparr>cst_ErrorMessage := cst_ErrorMessage failed @ [newline] @ error_text L e\<rparr>)"

definition staticNodeClusterDeletingStatus :: "err_lib \<Rightarrow> nat \<Rightarrow> go_error option \<Rightarrow> static_node_cluster_status" where
  "staticNodeClusterDeletingStatus L desiredNodes err =
     (let status = zero_cluster_status\<lparr>cst_Phase := StaticNodeClusterPhaseProvisioning,
            cst_DesiredNodes := int desiredNodes, cst_ErrorMessage := ''Deleting''\<rparr>
      in case err of None \<Rightarrow> status | Some e \<Rightarrow> staticNodeClusterFailedStatus L status (Some e))"

definition staticNodeName :: "static_node ptr \<Rightarrow> string" where
  "staticNodeName node = (case node of None \<Rightarrow> [] | Some n \<Rightarrow> node_name n)"

fun upsert_loop :: "'w store \<Rightarrow> desired_node_plan list \<Rightarrow> 'w \<Rightarrow> go_error option \<times> 'w" where
  "upsert_loop store [] w = (None, w)"
| "upsert_loop store (nodePlan # plans) w =
     (case dp_Node nodePlan of
        None \<Rightarrow> upsert_loop store plans w
      | Some node \<Rightarrow>
          (case upsertStaticNode (Some store) (Some node) w of
             (Some e, w1) \<Rightarrow> (Some (ErrWrap e (''failed to upsert static node '' @ node_name node)), w1)
           | (None, w1) \<Rightarrow> upsert_loop store plans w1))"

text \<open>The names of the planned nodes, the keys of \<open>desiredByName\<close>.\<close>

definition planned_names :: "desired_node_plan list \<Rightarrow> string set" where
  "planned_names plans = set (map node_name (List.map_filter dp_Node plans))"

fun stale_loop :: "('w \<Rightarrow> string) \<Rightarrow> 'w store \<Rightarrow> string set \<Rightarrow> static_node list \<Rightarrow> 'w \<Rightarrow> go_error option \<times> 'w" where
  "stale_loop now store desired [] w = (None, w)"
| "stale_loop now store desired (node # nodes) w =
     (if node_name node \<in> desired then stale_loop now store desired nodes w
      else case softDeleteStaticNode (now w) (Some store) (Some node) w of
             (Some e, w1) \<Rightarrow> (Some (ErrWrap e (''failed to delete stale static node '' @ node_name node)), w1)
           | (None, w1) \<Rightarrow> stale_loop now store desired nodes w1)"

text \<open>
  \<open>reconcileNormal\<close> without its deferred call: the error and the status it would publish. The status
  is still the zero value when a step fails.
\<close>

definition cluster_apply ::
  "'w cluster_environment \<Rightarrow> 'w cluster_controller \<Rightarrow> static_node_cluster \<Rightarrow> static_node list \<Rightarrow> 'w \<Rightarrow>
   (static_node_cluster_status \<times> go_error option) \<times> 'w" where
  "cluster_apply E c cluster currentNodes w =
     (case Plan (ce_parse E) (cc_planner c) (Some cluster) (map Some currentNodes) of
        Inl e \<Rightarrow> ((zero_cluster_status, Some e), w)
      | Inr plans \<Rightarrow>
          (case upsert_loop (cc_storage c) plans w of
             (Some e, w1) \<Rightarrow> ((zero_cluster_status, Some e), w1)
           | (None, w1) \<Rightarrow>
               (case stale_loop (ce_now E) (cc_storage c) (planned_names plans) currentNodes w1 of
                  (Some e, w2) \<Rightarrow> ((zero_cluster_status, Some e), w2)
                | (None, w2) \<Rightarrow>
                    (case ListByCluster (cc_storage c) (meta_Workspace (snc_Metadata cluster)) (cluster_name cluster) w2 of
                       (Inl e, w3) \<Rightarrow> ((zero_cluster_status, Some (ErrWrap e ''failed to list latest static nodes'')), w3)
                     | (Inr latestNodes, w3) \<Rightarrow>
                         ((RequireRayClusterReady (ce_errors E) (ce_listNodes E w3) (Some cluster)
                             (Aggregate (Some cluster) (map Some latestNodes) plans), None), w3)))))"

definition cluster_reconcileNormal ::
  "'w cluster_environment \<Rightarrow> 'w cluster_controller \<Rightarrow> static_node_cluster \<Rightarrow> static_node list \<Rightarrow> 'w \<Rightarrow> go_error option \<times> 'w" where
  "cluster_reconcileNormal E c cluster currentNodes w =
     (case cluster_apply E c cluster currentNodes w of
        ((status, err), w1) \<Rightarrow>
          cluster_updateStatus c cluster
            (if err \<noteq> None then staticNodeClusterFailedStatus (ce_errors E) status err else status)
            ''failed to update static node cluster status'' err w1)"

text \<open>Marking the nodes of a cluster that is being deleted.\<close>

definition force_marked :: "static_node \<Rightarrow> static_node" where
  "force_marked node = node\<lparr>sn_Metadata := (sn_Metadata node)
     \<lparr>meta_Annotations := WithForceDeleteAnnotation (meta_Annotations (sn_Metadata node))\<rparr>\<rparr>"

fun mark_loop :: "('w \<Rightarrow> string) \<Rightarrow> 'w store \<Rightarrow> bool \<Rightarrow> static_node list \<Rightarrow> 'w \<Rightarrow> go_error option \<times> 'w" where
  "mark_loop now store isForceDelete [] w = (None, w)"
| "mark_loop now store isForceDelete (node # nodes) w =
     (if isForceDelete \<and> \<not> IsForceDelete (meta_Annotations (sn_Metadata node)) then
        (case softDeleteStaticNode (now w) (Some store) (Some (force_marked node)) w of
           (Some e, w1) \<Rightarrow>
             (Some (ErrWrap e (''failed to mark static node '' @ staticNodeName (Some node) @ '' force deleting'')), w1)
         | (None, w1) \<Rightarrow> mark_loop now store isForceDelete nodes w1)
      else if meta_DeletionTimestamp (sn_Metadata node) \<noteq> [] then mark_loop now store isForceDelete nodes w
      else
        (case softDeleteStaticNode (now w) (Some store) (Some node) w of
           (Some e, w1) \<Rightarrow> (Some (ErrWrap e (''failed to delete static node '' @ staticNodeName (Some node))), w1)
         | (None, w1) \<Rightarrow> mark_loop now store isForceDelete nodes w1))"

definition cluster_reconcileDelete ::
  "'w cluster_environment \<Rightarrow> 'w cluster_controller \<Rightarrow> static_node_cluster \<Rightarrow> static_node list \<Rightarrow> 'w \<Rightarrow> go_error option \<times> 'w" where
  "cluster_reconcileDelete E c cluster currentNodes w =
     (let publish = (\<lambda>err w. cluster_updateStatus c cluster
            (staticNodeClusterDeletingStatus (ce_errors E) (length currentNodes) err)
            ''failed to update static node cluster deletion status'' err w)
      in if currentNodes = [] then
           (case hardDeleteStaticNodeCluster (Some (cc_storage c)) (Some cluster) w of
              (Some e, w1) \<Rightarrow> publish (Some e) w1
            | (None, w1) \<Rightarrow> (None, w1))
         else
           (case mark_loop (ce_now E) (cc_storage c) (IsForceDelete (meta_Annotations (snc_Metadata cluster))) currentNodes w of
              (err, w1) \<Rightarrow> publish err w1))"

definition cluster_sync ::
  "'w cluster_environment \<Rightarrow> 'w cluster_controller \<Rightarrow> static_node_cluster ptr \<Rightarrow> 'w \<Rightarrow> go_error option \<times> 'w" where
  "cluster_sync E c clusterPtr w =
     (case clusterPtr of
        None \<Rightarrow> (Some (ErrNew ''static node cluster is required''), w)
      | Some cluster \<Rightarrow>
          (case ListByCluster (cc_storage c) (meta_Workspace (snc_Metadata cluster)) (cluster_name cluster) w of
             (Inl e, w1) \<Rightarrow> (Some (ErrWrap e ''failed to list static nodes''), w1)
           | (Inr currentNodes, w1) \<Rightarrow>
               if meta_DeletionTimestamp (snc_Metadata cluster) \<noteq> [] then cluster_reconcileDelete E c cluster currentNodes w1
               else cluster_reconcileNormal E c cluster currentNodes w1))"

end
