(* ===== verification/Store_Tables.thy ===== *)
theory Store_Tables
  imports Store
begin

text \<open>
  The storage helpers on the tables of the contract: what one upsert, one soft delete and one lookup
  do to the rows, and the relation \<open>advances\<close>, how the work of one cluster may change the table of
  nodes. Rows of other workspaces and of other clusters stay as they are.
\<close>

section \<open>How the table of nodes may change\<close>

definition row_key :: "node_row \<Rightarrow> string \<times> string \<times> string" where
  "row_key r = (nr_id r, nr_workspace r, nr_name r)"

definition table_ok :: "node_row list \<Rightarrow> bool" where
  "table_ok rows \<longleftrightarrow> distinct (map nr_id rows) \<and> distinct (map (\<lambda>r. (nr_workspace r, nr_name r)) rows)"

definition row_evolves :: "string \<Rightarrow> string \<Rightarrow> node_row \<Rightarrow> node_row \<Rightarrow> bool" where
  "row_evolves ws cl r r' \<longleftrightarrow> row_key r' = row_key r \<and>
     (if nr_workspace r \<noteq> ws \<or> nr_owner r \<notin> {cl, []} then r' = r
      else if nr_owner r = cl then nr_owner r' = cl else nr_owner r' \<in> {cl, []})"

definition advances :: "string \<Rightarrow> string \<Rightarrow> node_row list \<Rightarrow> node_row list \<Rightarrow> bool" where
  "advances ws cl rows rows' \<longleftrightarrow>
     (\<exists>old added. rows' = old @ added \<and> list_all2 (row_evolves ws cl) rows old \<and>
        (\<forall>r \<in> set added. nr_workspace r = ws \<and> nr_owner r = cl) \<and> table_ok rows')"

lemma row_evolves_refl [simp]: "row_evolves ws cl r r"
  by (auto simp: row_evolves_def)

lemma row_evolves_key: "row_evolves ws cl r r' \<Longrightarrow> row_key r' = row_key r"
  by (simp add: row_evolves_def)

lemma row_evolves_trans: "row_evolves ws cl r s \<Longrightarrow> row_evolves ws cl s t \<Longrightarrow> row_evolves ws cl r t"
  by (auto simp: row_evolves_def row_key_def split: if_splits)

lemma row_evolves_own: "row_evolves ws cl r r' \<Longrightarrow> nr_workspace r = ws \<Longrightarrow> nr_owner r = cl \<Longrightarrow> nr_workspace r' = ws \<and> nr_owner r' = cl"
  by (auto simp: row_evolves_def row_key_def)

lemma advances_refl: "table_ok rows \<Longrightarrow> advances ws cl rows rows"
  unfolding advances_def by (rule exI [of _ rows], rule exI [of _ "[]"]) (simp add: list_all2_refl)

lemma advances_trans:
  assumes "advances ws cl r s" "advances ws cl s t"
  shows "advances ws cl r t"
proof -
  obtain old1 added1 where 1: "s = old1 @ added1" "list_all2 (row_evolves ws cl) r old1"
    "\<forall>r \<in> set added1. nr_workspace r = ws \<and> nr_owner r = cl"
    using assms(1) by (auto simp: advances_def)
  obtain old2 added2 where 2: "t = old2 @ added2" "list_all2 (row_evolves ws cl) s old2"
    "\<forall>r \<in> set added2. nr_workspace r = ws \<and> nr_owner r = cl" and t: "table_ok t"
    using assms(2) by (auto simp: advances_def)
  obtain o1 a1 where 3: "old2 = o1 @ a1" "list_all2 (row_evolves ws cl) old1 o1" "list_all2 (row_evolves ws cl) added1 a1"
    using 2(2) 1(1) by (auto simp: list_all2_append1)
  have "list_all2 (row_evolves ws cl) r o1"
    by (rule list_all2_trans [OF _ 1(2) 3(2)]) (rule row_evolves_trans)
  moreover have "\<forall>r \<in> set a1. nr_workspace r = ws \<and> nr_owner r = cl"
    using 3(3) 1(3) by (induction rule: list_all2_induct) (auto dest: row_evolves_own)
  ultimately show ?thesis
    unfolding advances_def using 2 3 t by (intro exI [of _ o1] exI [of _ "a1 @ added2"]) auto
qed

lemma advances_ok: "advances ws cl r s \<Longrightarrow> table_ok s"
  by (auto simp: advances_def)

lemma evolves_keys: "list_all2 (row_evolves ws cl) rows old \<Longrightarrow> map row_key old = map row_key rows"
  by (induction rule: list_all2_induct) (auto dest: row_evolves_key)

lemma table_ok_keys: "map row_key rows = map row_key rows' \<Longrightarrow> table_ok rows = table_ok rows'"
proof -
  assume a: "map row_key rows = map row_key rows'"
  have "map nr_id xs = map fst (map row_key xs)" "map (\<lambda>r. (nr_workspace r, nr_name r)) xs = map snd (map row_key xs)" for xs
    by (simp_all add: row_key_def)
  then show ?thesis unfolding table_ok_def using a by metis
qed

lemma advances_map:
  assumes "table_ok rows" "\<And>r. r \<in> set rows \<Longrightarrow> row_evolves ws cl r (f r)"
  shows "advances ws cl rows (map f rows)"
proof -
  have a: "list_all2 (row_evolves ws cl) rows (map f rows)"
    using assms(2) by (induction rows) auto
  then have "table_ok (map f rows)"
    using evolves_keys [OF a] assms(1) table_ok_keys by blast
  with a show ?thesis
    unfolding advances_def by (intro exI [of _ "map f rows"] exI [of _ "[]"]) auto
qed

text \<open>A node of the cluster, known by the key of its row.\<close>

definition member_row :: "string \<Rightarrow> string \<Rightarrow> node_row list \<Rightarrow> static_node \<Rightarrow> bool" where
  "member_row ws cl rows n \<longleftrightarrow> (\<exists>r \<in> set rows. row_key r = row_key (node_row_of n) \<and> nr_workspace r = ws \<and> nr_owner r = cl)"

lemma member_row_advances:
  assumes "advances ws cl rows rows'" "member_row ws cl rows n"
  shows "member_row ws cl rows' n"
proof -
  obtain r where r: "r \<in> set rows" "row_key r = row_key (node_row_of n)" "nr_workspace r = ws" "nr_owner r = cl"
    using assms(2) by (auto simp: member_row_def)
  obtain old added where o: "rows' = old @ added" "list_all2 (row_evolves ws cl) rows old"
    using assms(1) by (auto simp: advances_def)
  obtain r' where "r' \<in> set old" "row_evolves ws cl r r'"
    using list_all2_left [OF o(2) r(1)] by blast
  with r o(1) show ?thesis
    unfolding member_row_def by (intro bexI [of _ r']) (auto dest: row_evolves_own row_evolves_key)
qed

section \<open>Each storage helper on the tables\<close>

lemma tables_list:
  assumes "tables S N C"
  shows "N (snd (st_ListStaticNode S fs w)) = N w" "C (snd (st_ListStaticNode S fs w)) = C w"
    and "row_filters fs \<Longrightarrow> fst (st_ListStaticNode S fs w) = Inr ns \<Longrightarrow> map node_row_of ns = filter (row_matches fs) (N w)"
  using assms by (auto simp: tables_def node_list_law_def)

lemma write_lawD:
  assumes "write_law N C P Q f"
  shows "P (N w) (N (snd (f w))) \<and> Q (C w) (C (snd (f w))) \<or> N (snd (f w)) = N w \<and> C (snd (f w)) = C w"
    and "fst (f w) = None \<Longrightarrow> P (N w) (N (snd (f w))) \<and> Q (C w) (C (snd (f w)))"
  using spec [OF assms [unfolded write_law_def], of w] by (auto split: if_splits)

lemma tables_create:
  assumes "tables S N C"
  shows "C (snd (st_CreateStaticNode S n w)) = C w"
    and "N (snd (st_CreateStaticNode S n w)) = N w \<or>
      (\<exists>i. i \<notin> nr_id ` set (N w) \<and> N (snd (st_CreateStaticNode S n w)) = N w @ [(node_row_of n)\<lparr>nr_id := i\<rparr>])"
proof -
  have l: "write_law N C (\<lambda>rows rows'. \<exists>i. i \<notin> nr_id ` set rows \<and> rows' = rows @ [(node_row_of n)\<lparr>nr_id := i\<rparr>]) (=)
      (st_CreateStaticNode S n)"
    using assms by (simp add: tables_def)
  show "C (snd (st_CreateStaticNode S n w)) = C w"
    and "N (snd (st_CreateStaticNode S n w)) = N w \<or>
      (\<exists>i. i \<notin> nr_id ` set (N w) \<and> N (snd (st_CreateStaticNode S n w)) = N w @ [(node_row_of n)\<lparr>nr_id := i\<rparr>])"
    using write_lawD(1) [OF l, of w] by auto
qed

lemma tables_update:
  assumes "tables S N C"
  shows "C (snd (st_UpdateStaticNode S i p w)) = C w"
    and "N (snd (st_UpdateStaticNode S i p w)) = N w \<or>
      N (snd (st_UpdateStaticNode S i p w)) = map (\<lambda>r. if nr_id r = i then patch_row p r else r) (N w)"
    and "fst (st_UpdateStaticNode S i p w) = None \<Longrightarrow>
      N (snd (st_UpdateStaticNode S i p w)) = map (\<lambda>r. if nr_id r = i then patch_row p r else r) (N w)"
proof -
  have l: "write_law N C (\<lambda>rows rows'. rows' = map (\<lambda>r. if nr_id r = i then patch_row p r else r) rows) (=)
      (st_UpdateStaticNode S i p)"
    using assms by (simp add: tables_def)
  show "C (snd (st_UpdateStaticNode S i p w)) = C w"
    and "N (snd (st_UpdateStaticNode S i p w)) = N w \<or>
      N (snd (st_UpdateStaticNode S i p w)) = map (\<lambda>r. if nr_id r = i then patch_row p r else r) (N w)"
    using write_lawD(1) [OF l, of w] by auto
  show "fst (st_UpdateStaticNode S i p w) = None \<Longrightarrow>
      N (snd (st_UpdateStaticNode S i p w)) = map (\<lambda>r. if nr_id r = i then patch_row p r else r) (N w)"
    using write_lawD(2) [OF l, of w] by simp
qed

lemma tables_delete:
  assumes "tables S N C"
  shows "C (snd (st_DeleteStaticNode S i w)) = C w"
    and "N (snd (st_DeleteStaticNode S i w)) = N w \<or> N (snd (st_DeleteStaticNode S i w)) = filter (\<lambda>r. nr_id r \<noteq> i) (N w)"
    and "fst (st_DeleteStaticNode S i w) = None \<Longrightarrow> N (snd (st_DeleteStaticNode S i w)) = filter (\<lambda>r. nr_id r \<noteq> i) (N w)"
proof -
  have l: "write_law N C (\<lambda>rows rows'. rows' = filter (\<lambda>r. nr_id r \<noteq> i) rows) (=) (st_DeleteStaticNode S i)"
    using assms by (simp add: tables_def)
  show "C (snd (st_DeleteStaticNode S i w)) = C w"
    and "N (snd (st_DeleteStaticNode S i w)) = N w \<or> N (snd (st_DeleteStaticNode S i w)) = filter (\<lambda>r. nr_id r \<noteq> i) (N w)"
    using write_lawD(1) [OF l, of w] by auto
  show "fst (st_DeleteStaticNode S i w) = None \<Longrightarrow> N (snd (st_DeleteStaticNode S i w)) = filter (\<lambda>r. nr_id r \<noteq> i) (N w)"
    using write_lawD(2) [OF l, of w] by simp
qed

lemma tables_cluster_status:
  assumes "tables S N C"
  shows "N (snd (updateStaticNodeClusterStatus (Some S) (Some c) st w)) = N w"
    and "C (snd (updateStaticNodeClusterStatus (Some S) (Some c) st w)) = C w"
proof -
  let ?p = "zero_cluster_patch\<lparr>scp_Status := Some st\<rparr>"
  have l: "write_law N C (=) (\<lambda>cs cs'. map fst cs' = map fst cs \<and> (scp_Metadata ?p = None \<longrightarrow> cs' = cs)) (st_UpdateStaticNodeCluster S i ?p)" for i
    using assms unfolding tables_def by blast
  show "N (snd (updateStaticNodeClusterStatus (Some S) (Some c) st w)) = N w"
    and "C (snd (updateStaticNodeClusterStatus (Some S) (Some c) st w)) = C w"
    using write_lawD(1) [OF l [of "StaticNodeCluster_GetID (prepareStaticNodeCluster c)"], of w]
    by (auto simp: updateStaticNodeClusterStatus_def zero_cluster_patch_def)
qed

lemma tables_cluster_delete:
  assumes "tables S N C"
  shows "N (snd (st_DeleteStaticNodeCluster S i w)) = N w"
    and "C (snd (st_DeleteStaticNodeCluster S i w)) = C w \<or>
      C (snd (st_DeleteStaticNodeCluster S i w)) = filter (\<lambda>c. fst c \<noteq> i) (C w)"
    and "fst (st_DeleteStaticNodeCluster S i w) = None \<Longrightarrow>
      C (snd (st_DeleteStaticNodeCluster S i w)) = filter (\<lambda>c. fst c \<noteq> i) (C w)"
proof -
  have l: "write_law N C (=) (\<lambda>cs cs'. cs' = filter (\<lambda>c. fst c \<noteq> i) cs) (st_DeleteStaticNodeCluster S i)"
    using assms by (simp add: tables_def)
  show "N (snd (st_DeleteStaticNodeCluster S i w)) = N w"
    and "C (snd (st_DeleteStaticNodeCluster S i w)) = C w \<or>
      C (snd (st_DeleteStaticNodeCluster S i w)) = filter (\<lambda>c. fst c \<noteq> i) (C w)"
    using write_lawD(1) [OF l, of w] by auto
  show "fst (st_DeleteStaticNodeCluster S i w) = None \<Longrightarrow>
      C (snd (st_DeleteStaticNodeCluster S i w)) = filter (\<lambda>c. fst c \<noteq> i) (C w)"
    using write_lawD(2) [OF l, of w] by simp
qed

lemma ListByCluster_tables:
  assumes "tables S N C"
  shows "N (snd (ListByCluster S ws cl w)) = N w" "C (snd (ListByCluster S ws cl w)) = C w"
  using tables_list(1,2) [OF assms] by (simp_all add: ListByCluster_def split_beta split: sum.split)

lemma cluster_filters: "row_filters [eq_filter ''metadata->>workspace'' ws, eq_filter ''spec->>cluster'' cl]"
  "row_matches [eq_filter ''metadata->>workspace'' ws, eq_filter ''spec->>cluster'' cl] = (\<lambda>r. nr_workspace r = ws \<and> nr_owner r = cl)"
  by (simp_all add: row_filters_def row_matches_def eq_filter_def row_column_def fun_eq_iff)

lemma name_filters: "row_filters [eq_filter ''metadata->>workspace'' ws, eq_filter ''metadata->>name'' nm]"
  "row_matches [eq_filter ''metadata->>workspace'' ws, eq_filter ''metadata->>name'' nm] = (\<lambda>r. nr_workspace r = ws \<and> nr_name r = nm)"
  by (simp_all add: row_filters_def row_matches_def eq_filter_def row_column_def fun_eq_iff)

lemma in_cluster_row:
  "cl \<noteq> [] \<Longrightarrow> (case sn_Spec n of None \<Rightarrow> False | Some spec \<Rightarrow> meta_Workspace (sn_Metadata n) = ws \<and> sns_Cluster spec = cl) \<longleftrightarrow>
     nr_workspace (node_row_of n) = ws \<and> nr_owner (node_row_of n) = cl"
  by (auto simp: node_row_of_def owner_of_def split: option.split)

lemma ListByCluster_rows:
  assumes "tables S N C" "cl \<noteq> []" "fst (ListByCluster S ws cl w) = Inr ns"
  shows "map node_row_of ns = filter (\<lambda>r. nr_workspace r = ws \<and> nr_owner r = cl) (N w)"
proof -
  obtain ns0 where l: "fst (st_ListStaticNode S [eq_filter ''metadata->>workspace'' ws, eq_filter ''spec->>cluster'' cl] w) = Inr ns0"
    and ns: "ns = filter (\<lambda>n. nr_workspace (node_row_of n) = ws \<and> nr_owner (node_row_of n) = cl) ns0"
    using assms(2,3) by (auto simp: ListByCluster_def in_cluster_row split: prod.splits sum.splits)
  have m: "map node_row_of ns0 = filter (\<lambda>r. nr_workspace r = ws \<and> nr_owner r = cl) (N w)"
    using tables_list(3) [OF assms(1) cluster_filters(1) l] by (simp only: cluster_filters(2))
  have "map node_row_of ns = filter (\<lambda>r. nr_workspace r = ws \<and> nr_owner r = cl) (map node_row_of ns0)"
    by (simp add: ns filter_map comp_def)
  then show ?thesis by (simp add: m)
qed

lemma ListByCluster_members:
  assumes "tables S N C" "cl \<noteq> []" "fst (ListByCluster S ws cl w) = Inr ns" "n \<in> set ns"
  shows "member_row ws cl (N w) n"
proof -
  have "node_row_of n \<in> set (map node_row_of ns)" using assms(4) by simp
  then show ?thesis
    unfolding ListByCluster_rows [OF assms(1-3)] by (auto simp: member_row_def)
qed

text \<open>What a lookup by name finds: a row with that name, or that there is none.\<close>

lemma findStaticNode_tables:
  assumes "tables S N C"
  shows "N (snd (findStaticNode S ws nm w)) = N w" "C (snd (findStaticNode S ws nm w)) = C w"
    and "fst (findStaticNode S ws nm w) = Inr None \<Longrightarrow> (ws, nm) \<notin> (\<lambda>r. (nr_workspace r, nr_name r)) ` set (N w)"
    and "fst (findStaticNode S ws nm w) = Inr (Some n) \<Longrightarrow> node_row_of n \<in> set (N w) \<and>
      meta_Workspace (sn_Metadata n) = ws \<and> node_name n = nm"
proof -
  let ?fs = "[eq_filter ''metadata->>workspace'' ws, eq_filter ''metadata->>name'' nm]"
  show "N (snd (findStaticNode S ws nm w)) = N w" "C (snd (findStaticNode S ws nm w)) = C w"
    using tables_list(1,2) [OF assms] by (simp_all add: findStaticNode_def split_beta split: sum.split)
  have m: "set (map node_row_of ns) = {r \<in> set (N w). nr_workspace r = ws \<and> nr_name r = nm}"
    if "fst (st_ListStaticNode S ?fs w) = Inr ns" for ns
    using tables_list(3) [OF assms name_filters(1) that] by (simp only: name_filters(2) set_filter)
  show "(ws, nm) \<notin> (\<lambda>r. (nr_workspace r, nr_name r)) ` set (N w)" if f: "fst (findStaticNode S ws nm w) = Inr None"
  proof -
    obtain ns where ns: "fst (st_ListStaticNode S ?fs w) = Inr ns"
      and e: "List.find (\<lambda>node. meta_Workspace (sn_Metadata node) = ws \<and> node_name node = nm) ns = None"
      using f by (auto simp: findStaticNode_def split: prod.splits sum.splits)
    have "\<not> (nr_workspace r = ws \<and> nr_name r = nm)" if "r \<in> set (map node_row_of ns)" for r
      using e that by (auto simp: find_None_iff node_row_of_def)
    with m [OF ns] show ?thesis by fastforce
  qed
  show "node_row_of n \<in> set (N w) \<and> meta_Workspace (sn_Metadata n) = ws \<and> node_name n = nm"
    if f: "fst (findStaticNode S ws nm w) = Inr (Some n)"
  proof -
    obtain ns where ns: "fst (st_ListStaticNode S ?fs w) = Inr ns"
      and e: "List.find (\<lambda>node. meta_Workspace (sn_Metadata node) = ws \<and> node_name node = nm) ns = Some n"
      using f by (auto simp: findStaticNode_def split: prod.splits sum.splits)
    have "n \<in> set ns" "meta_Workspace (sn_Metadata n) = ws \<and> node_name n = nm"
      using e by (auto simp: find_Some_iff)
    moreover have "node_row_of n \<in> set (map node_row_of ns)" using \<open>n \<in> set ns\<close> by simp
    ultimately show ?thesis using m [OF ns] by blast
  qed
qed

lemma prepareStaticNode_keeps [simp]:
  "sn_Metadata (prepareStaticNode n) = sn_Metadata n" "sn_Spec (prepareStaticNode n) = sn_Spec n"
  "sn_ID (prepareStaticNode n) = sn_ID n" "StaticNode_GetID (prepareStaticNode n) = StaticNode_GetID n"
  "node_row_of (prepareStaticNode n) = node_row_of n"
  by (simp_all add: prepareStaticNode_def StaticNode_GetID_def node_row_of_def)

lemma patch_row_id [simp]: "nr_id (patch_row p r) = nr_id r"
  by (simp add: patch_row_def Let_def split: option.split)

lemma same_id: "table_ok rows \<Longrightarrow> r \<in> set rows \<Longrightarrow> s \<in> set rows \<Longrightarrow> nr_id r = nr_id s \<Longrightarrow> r = s"
  by (auto simp: table_ok_def distinct_map dest: inj_onD)

lemma table_ok_snoc:
  "table_ok rows \<Longrightarrow> nr_id r \<notin> nr_id ` set rows \<Longrightarrow>
   (nr_workspace r, nr_name r) \<notin> (\<lambda>r. (nr_workspace r, nr_name r)) ` set rows \<Longrightarrow> table_ok (rows @ [r])"
  by (auto simp: table_ok_def)

text \<open>Creating a row under a new name, and rewriting one row of the cluster.\<close>

lemma advances_create:
  assumes "table_ok rows" "i \<notin> nr_id ` set rows" "nr_workspace r = ws" "nr_owner r = cl"
    "(ws, nr_name r) \<notin> (\<lambda>r. (nr_workspace r, nr_name r)) ` set rows"
  shows "advances ws cl rows (rows @ [r\<lparr>nr_id := i\<rparr>])"
  unfolding advances_def
  using assms table_ok_snoc [of rows "r\<lparr>nr_id := i\<rparr>"]
  by (intro exI [of _ rows] exI [of _ "[r\<lparr>nr_id := i\<rparr>]"]) (simp add: list_all2_refl)

lemma advances_patch:
  assumes "table_ok rows" "r \<in> set rows" "row_evolves ws cl r (patch_row p r)" "i = nr_id r"
  shows "advances ws cl rows (map (\<lambda>r. if nr_id r = i then patch_row p r else r) rows)"
  using assms same_id by (intro advances_map) auto

lemma upsertStaticNode_advances:
  assumes t: "tables S N C" and ok: "table_ok (N w)" and cl: "cl \<noteq> []"
    and n: "meta_Workspace (sn_Metadata n) = ws" "owner_of (sn_Spec n) = cl"
  shows "advances ws cl (N w) (N (snd (upsertStaticNode (Some S) (Some n) w)))"
    and "C (snd (upsertStaticNode (Some S) (Some n) w)) = C w"
proof -
  let ?find = "findStaticNode S ws (node_name n) w"
  note find = findStaticNode_tables [OF t, of ws "node_name n" w]
  have m: "meta_Workspace (sn_Metadata (prepareStaticNode n)) = ws" "node_name (prepareStaticNode n) = node_name n"
    using n by simp_all
  obtain s where s: "sn_Spec n = Some s" "sns_Cluster s = cl"
    using n(2) cl by (auto simp: owner_of_def split: option.splits)
  have "advances ws cl (N w) (N (snd (upsertStaticNode (Some S) (Some n) w))) \<and>
     C (snd (upsertStaticNode (Some S) (Some n) w)) = C w"
  proof (cases "fst ?find")
    case (Inl e)
    then show ?thesis
      using find(1,2) ok by (simp add: upsertStaticNode_def Let_def n split_beta advances_refl)
  next
    case (Inr found)
    show ?thesis
    proof (cases found)
      case None
      let ?r = "node_row_of (prepareStaticNode n)"
      have u: "upsertStaticNode (Some S) (Some n) w = st_CreateStaticNode S (prepareStaticNode n) (snd ?find)"
        using Inr None by (simp add: upsertStaticNode_def Let_def n split_beta)
      have r: "nr_workspace ?r = ws" "nr_owner ?r = cl" "nr_name ?r = node_name n"
        using n by (simp_all add: node_row_of_def)
      have "(ws, nr_name ?r) \<notin> (\<lambda>r. (nr_workspace r, nr_name r)) ` set (N w)"
        using find(3) Inr None r by simp
      then show ?thesis
        using tables_create [OF t, of "prepareStaticNode n" "snd ?find"] advances_create [OF ok _ r(1,2)]
          advances_refl [OF ok] find(1,2) by (auto simp: u)
    next
      case (Some existing)
      have e: "node_row_of existing \<in> set (N w)" "meta_Workspace (sn_Metadata existing) = ws" "node_name existing = node_name n"
        using find(4) Inr Some by auto
      show ?thesis
      proof (cases "validateStaticNodeOwner existing (prepareStaticNode n)")
        case (Some err)
        with Inr \<open>found = Some existing\<close> show ?thesis
          using find(1,2) ok by (simp add: upsertStaticNode_def Let_def n split_beta advances_refl)
      next
        case None
        let ?p = "staticNodeDesiredUpdate ((prepareStaticNode n)\<lparr>sn_ID := sn_ID existing\<rparr>)"
        have u: "upsertStaticNode (Some S) (Some n) w = st_UpdateStaticNode S (StaticNode_GetID existing) ?p (snd ?find)"
          using Inr \<open>found = Some existing\<close> None by (simp add: upsertStaticNode_def Let_def n split_beta)
        have "row_evolves ws cl (node_row_of existing) (patch_row ?p (node_row_of existing))"
          using None e n s cl
          by (auto simp: validateStaticNodeOwner_def patch_row_def staticNodeDesiredUpdate_def node_row_of_def owner_of_def
              row_evolves_def row_key_def split: option.splits if_splits)
        then have "advances ws cl (N w) (map (\<lambda>r. if nr_id r = StaticNode_GetID existing then patch_row ?p r else r) (N w))"
          using advances_patch [OF ok e(1)] by simp
        then show ?thesis
          using tables_update(1,2) [OF t, of "StaticNode_GetID existing" ?p "snd ?find"] advances_refl [OF ok] find(1,2)
          by (auto simp: u)
      qed
    qed
  qed
  then show "advances ws cl (N w) (N (snd (upsertStaticNode (Some S) (Some n) w)))"
    and "C (snd (upsertStaticNode (Some S) (Some n) w)) = C w" by auto
qed

text \<open>A soft delete is an update of the metadata column that keeps the name and sets the deletion time.\<close>

lemma softDelete_update:
  obtains n' where "softDeleteStaticNode now (Some S) (Some n) w =
      st_UpdateStaticNode S (StaticNode_GetID n) (staticNodeMetadataUpdate n') w"
    "meta_Workspace (sn_Metadata n') = meta_Workspace (sn_Metadata n)" "node_name n' = node_name n"
    "now \<noteq> [] \<longrightarrow> meta_DeletionTimestamp (sn_Metadata n') \<noteq> []"
  by (rule that [of "if meta_DeletionTimestamp (sn_Metadata n) = []
        then (prepareStaticNode n)\<lparr>sn_Metadata := (sn_Metadata n)\<lparr>meta_DeletionTimestamp := now\<rparr>\<rparr> else prepareStaticNode n"])
     (simp_all add: softDeleteStaticNode_def Let_def StaticNode_GetID_def)

lemma softDeleteStaticNode_advances:
  assumes t: "tables S N C" and ok: "table_ok (N w)" and m: "member_row ws cl (N w) n"
  shows "advances ws cl (N w) (N (snd (softDeleteStaticNode now (Some S) (Some n) w)))"
    and "C (snd (softDeleteStaticNode now (Some S) (Some n) w)) = C w"
proof -
  obtain n' where n': "softDeleteStaticNode now (Some S) (Some n) w =
      st_UpdateStaticNode S (StaticNode_GetID n) (staticNodeMetadataUpdate n') w"
    and k: "meta_Workspace (sn_Metadata n') = meta_Workspace (sn_Metadata n)" "node_name n' = node_name n"
    by (rule softDelete_update)
  obtain r where r: "r \<in> set (N w)" "row_key r = row_key (node_row_of n)" "nr_workspace r = ws" "nr_owner r = cl"
    using m by (auto simp: member_row_def)
  have "row_evolves ws cl r (patch_row (staticNodeMetadataUpdate n') r)"
    using r k by (auto simp: patch_row_def staticNodeMetadataUpdate_def row_evolves_def row_key_def node_row_of_def)
  then have "advances ws cl (N w) (map (\<lambda>r. if nr_id r = StaticNode_GetID n then patch_row (staticNodeMetadataUpdate n') r else r) (N w))"
    using advances_patch [OF ok r(1)] r(2) by (simp add: row_key_def)
  then show "advances ws cl (N w) (N (snd (softDeleteStaticNode now (Some S) (Some n) w)))"
    and "C (snd (softDeleteStaticNode now (Some S) (Some n) w)) = C w"
    using tables_update(1,2) [OF t, of "StaticNode_GetID n" "staticNodeMetadataUpdate n'" w] advances_refl [OF ok]
    by (auto simp: n')
qed


end
