(* ===== verification/Cluster_Tables.thy ===== *)
theory Cluster_Tables
  imports Cluster_Controller Store_Tables Samples
begin

text \<open>
  What one pass of the cluster controller does to the tables of the storage: it touches only its own
  node rows, and the row of the cluster goes last.
\<close>

section \<open>The loops of the controller\<close>

lemma member_force_marked [simp]: "member_row ws cl rows (force_marked n) = member_row ws cl rows n"
  by (simp add: member_row_def row_key_def node_row_of_def force_marked_def StaticNode_GetID_def)

text \<open>A run of steps each of which advances the table of nodes and leaves the clusters alone.\<close>

definition tables_advance ::
  "('w \<Rightarrow> node_row list) \<Rightarrow> ('w \<Rightarrow> (string \<times> string \<times> string) list) \<Rightarrow> string \<Rightarrow> string \<Rightarrow> 'w \<Rightarrow> 'w \<Rightarrow> bool" where
  "tables_advance N C ws cl w w' \<longleftrightarrow> advances ws cl (N w) (N w') \<and> C w' = C w"

lemma tables_advance_trans:
  "tables_advance N C ws cl w w1 \<Longrightarrow> tables_advance N C ws cl w1 w2 \<Longrightarrow> tables_advance N C ws cl w w2"
  by (auto simp: tables_advance_def intro: advances_trans)

lemma tables_advance_same:
  "table_ok (N w) \<Longrightarrow> N w' = N w \<Longrightarrow> C w' = C w \<Longrightarrow> tables_advance N C ws cl w w'"
  by (simp add: tables_advance_def advances_refl)

lemma tables_advance_ok: "tables_advance N C ws cl w w' \<Longrightarrow> table_ok (N w')"
  by (auto simp: tables_advance_def dest: advances_ok)

lemma upsert_step:
  "tables S N C \<Longrightarrow> table_ok (N w) \<Longrightarrow> cl \<noteq> [] \<Longrightarrow> meta_Workspace (sn_Metadata n) = ws \<Longrightarrow> owner_of (sn_Spec n) = cl \<Longrightarrow>
   tables_advance N C ws cl w (snd (upsertStaticNode (Some S) (Some n) w))"
  by (simp add: tables_advance_def upsertStaticNode_advances)

lemma soft_delete_step:
  "tables S N C \<Longrightarrow> table_ok (N w) \<Longrightarrow> member_row ws cl (N w) n \<Longrightarrow>
   tables_advance N C ws cl w (snd (softDeleteStaticNode now (Some S) (Some n) w))"
  by (simp add: tables_advance_def softDeleteStaticNode_advances)

lemma members_step:
  "tables_advance N C ws cl w w' \<Longrightarrow> \<forall>n \<in> set ns. member_row ws cl (N w) n \<Longrightarrow> \<forall>n \<in> set ns. member_row ws cl (N w') n"
  by (auto simp: tables_advance_def intro: member_row_advances)

lemma upsert_loop_advances:
  assumes t: "tables S N C" and cl: "cl \<noteq> []"
  shows "table_ok (N w) \<Longrightarrow> \<forall>p \<in> set ps. \<forall>n. dp_Node p = Some n \<longrightarrow> meta_Workspace (sn_Metadata n) = ws \<and> owner_of (sn_Spec n) = cl \<Longrightarrow>
    tables_advance N C ws cl w (snd (upsert_loop S ps w))"
proof (induction ps arbitrary: w)
  case Nil
  then show ?case by (simp add: tables_advance_same)
next
  case (Cons p ps)
  show ?case
  proof (cases "dp_Node p")
    case None
    with Cons show ?thesis by simp
  next
    case (Some n)
    let ?r = "upsertStaticNode (Some S) (Some n) w"
    have s: "tables_advance N C ws cl w (snd ?r)"
      using upsert_step [OF t Cons.prems(1) cl] Cons.prems(2) Some by auto
    show ?thesis
    proof (cases "fst ?r")
      case None
      then show ?thesis
        using Some Cons.prems(2) tables_advance_trans [OF s Cons.IH [OF tables_advance_ok [OF s]]] by (simp add: split_beta)
    next
      case (Some e)
      with s \<open>dp_Node p = Some n\<close> show ?thesis by (simp add: split_beta)
    qed
  qed
qed

lemma stale_loop_advances:
  assumes t: "tables S N C"
  shows "table_ok (N w) \<Longrightarrow> \<forall>n \<in> set ns. member_row ws cl (N w) n \<Longrightarrow>
    tables_advance N C ws cl w (snd (stale_loop now S desired ns w))"
proof (induction ns arbitrary: w)
  case Nil
  then show ?case by (simp add: tables_advance_same)
next
  case (Cons n ns)
  let ?r = "softDeleteStaticNode (now w) (Some S) (Some n) w"
  have s: "tables_advance N C ws cl w (snd ?r)"
    using soft_delete_step [OF t Cons.prems(1)] Cons.prems(2) by simp
  have "tables_advance N C ws cl w (snd (stale_loop now S desired ns (snd ?r)))"
    using tables_advance_trans [OF s Cons.IH [OF tables_advance_ok [OF s] members_step [OF s]]] Cons.prems(2) by simp
  with s Cons show ?case by (simp add: split_beta split: option.split)
qed

lemma mark_loop_advances:
  assumes t: "tables S N C"
  shows "table_ok (N w) \<Longrightarrow> \<forall>n \<in> set ns. member_row ws cl (N w) n \<Longrightarrow>
    tables_advance N C ws cl w (snd (mark_loop now S force ns w))"
proof (induction ns arbitrary: w)
  case Nil
  then show ?case by (simp add: tables_advance_same)
next
  case (Cons n ns)
  let ?r = "softDeleteStaticNode (now w) (Some S) (Some n) w"
  let ?f = "softDeleteStaticNode (now w) (Some S) (Some (force_marked n)) w"
  have s: "tables_advance N C ws cl w (snd ?r)" "tables_advance N C ws cl w (snd ?f)"
    using soft_delete_step [OF t Cons.prems(1)] Cons.prems(2) by simp_all
  have "tables_advance N C ws cl w (snd (mark_loop now S force ns (snd x)))"
    if "tables_advance N C ws cl w (snd x)" for x :: "go_error option \<times> 'a"
    using tables_advance_trans [OF that Cons.IH [OF tables_advance_ok [OF that] members_step [OF that]]] Cons.prems(2) by simp
  with s Cons show ?case by (auto simp: split_beta split: option.split)
qed

section \<open>The controller\<close>

lemma cluster_updateStatus_tables:
  assumes "tables (cc_storage c) N C"
  shows "N (snd (cluster_updateStatus c cl st m e w)) = N w" "C (snd (cluster_updateStatus c cl st m e w)) = C w"
  using tables_cluster_status [OF assms] by (simp_all add: cluster_updateStatus_def split_beta split: option.split)

lemma Plan_owner:
  assumes "Plan parse r (Some cluster) cur = Inr ps" "p \<in> set ps" "dp_Node p = Some n"
  shows "meta_Workspace (sn_Metadata n) = meta_Workspace (snc_Metadata cluster) \<and> owner_of (sn_Spec n) = cluster_name cluster"
proof -
  obtain spec where "snc_Spec cluster = Some spec" using Plan_Inr_spec [OF assms(1)] by auto
  then obtain e where "plan_for cluster e p" using Plan_entries(3) [OF assms(1)] assms(2) by blast
  with assms(3) show ?thesis by (auto simp: plan_for_def owner_of_def split: option.splits)
qed

lemma cluster_apply_advances:
  assumes t: "tables (cc_storage c) N C" and cl: "cluster_name cluster \<noteq> []" and ok: "table_ok (N w)"
    and m: "\<forall>n \<in> set ns. member_row (meta_Workspace (snc_Metadata cluster)) (cluster_name cluster) (N w) n"
  shows "tables_advance N C (meta_Workspace (snc_Metadata cluster)) (cluster_name cluster) w (snd (cluster_apply E c cluster ns w))"
proof (cases "Plan (ce_parse E) (cc_planner c) (Some cluster) (map Some ns)")
  case (Inl e)
  with ok show ?thesis by (simp add: cluster_apply_def tables_advance_same)
next
  case (Inr ps)
  let ?adv = "tables_advance N C (meta_Workspace (snc_Metadata cluster)) (cluster_name cluster)"
  let ?u = "upsert_loop (cc_storage c) ps w"
  let ?s = "stale_loop (ce_now E) (cc_storage c) (planned_names ps) ns (snd ?u)"
  let ?l = "ListByCluster (cc_storage c) (meta_Workspace (snc_Metadata cluster)) (cluster_name cluster) (snd ?s)"
  have u: "?adv w (snd ?u)"
    using upsert_loop_advances [OF t cl ok] Plan_owner [OF Inr] by blast
  have s: "?adv w (snd ?s)"
    using tables_advance_trans [OF u stale_loop_advances [OF t tables_advance_ok [OF u] members_step [OF u m]]] .
  have l: "?adv w (snd ?l)"
    using s ListByCluster_tables [OF t] by (simp add: tables_advance_def)
  show ?thesis
    using u s l Inr by (simp add: cluster_apply_def split_beta split: option.split sum.split)
qed

lemma advance_then_same:
  "tables_advance N C ws cl w w1 \<Longrightarrow> N w2 = N w1 \<Longrightarrow> C w2 = C w1 \<Longrightarrow> tables_advance N C ws cl w w2"
  by (simp add: tables_advance_def)

lemma cluster_reconcileNormal_advances:
  assumes t: "tables (cc_storage c) N C" and cl: "cluster_name cluster \<noteq> []" and ok: "table_ok (N w)"
    and m: "\<forall>n \<in> set ns. member_row (meta_Workspace (snc_Metadata cluster)) (cluster_name cluster) (N w) n"
  shows "tables_advance N C (meta_Workspace (snc_Metadata cluster)) (cluster_name cluster) w (snd (cluster_reconcileNormal E c cluster ns w))"
  unfolding cluster_reconcileNormal_def split_beta
  by (rule advance_then_same [OF cluster_apply_advances [OF t cl ok m] cluster_updateStatus_tables [OF t]])

lemma cluster_reconcileDelete_marks:
  assumes t: "tables (cc_storage c) N C" and ok: "table_ok (N w)" and ne: "ns \<noteq> []"
    and m: "\<forall>n \<in> set ns. member_row ws cl (N w) n"
  shows "tables_advance N C ws cl w (snd (cluster_reconcileDelete E c cluster ns w))"
  unfolding cluster_reconcileDelete_def split_beta Let_def if_not_P [OF ne]
  by (rule advance_then_same [OF mark_loop_advances [OF t ok m] cluster_updateStatus_tables [OF t]])

lemma cluster_reconcileDelete_last:
  assumes t: "tables (cc_storage c) N C"
  shows "N (snd (cluster_reconcileDelete E c cluster [] w)) = N w"
    and "C (snd (cluster_reconcileDelete E c cluster [] w)) = C w \<or>
      C (snd (cluster_reconcileDelete E c cluster [] w)) = filter (\<lambda>r. fst r \<noteq> StaticNodeCluster_GetID cluster) (C w)"
proof -
  have i: "StaticNodeCluster_GetID (prepareStaticNodeCluster cluster) = StaticNodeCluster_GetID cluster"
    by (simp add: prepareStaticNodeCluster_def StaticNodeCluster_GetID_def)
  note d = tables_cluster_delete [OF t, of "StaticNodeCluster_GetID cluster" w]
  show "N (snd (cluster_reconcileDelete E c cluster [] w)) = N w"
    and "C (snd (cluster_reconcileDelete E c cluster [] w)) = C w \<or>
      C (snd (cluster_reconcileDelete E c cluster [] w)) = filter (\<lambda>r. fst r \<noteq> StaticNodeCluster_GetID cluster) (C w)"
    using d(1,2) cluster_updateStatus_tables [OF t]
    by (simp_all add: cluster_reconcileDelete_def hardDeleteStaticNodeCluster_def i split_beta split: option.split)
qed

lemma cluster_sync_rows:
  assumes t: "tables (cc_storage c) N C" and cl: "cluster_name cluster \<noteq> []" and ok: "table_ok (N w)"
  shows "tables_advance N C (meta_Workspace (snc_Metadata cluster)) (cluster_name cluster) w (snd (cluster_sync E c (Some cluster) w)) \<or>
    meta_DeletionTimestamp (snc_Metadata cluster) \<noteq> [] \<and>
    (\<forall>r \<in> set (N w). \<not> (nr_workspace r = meta_Workspace (snc_Metadata cluster) \<and> nr_owner r = cluster_name cluster)) \<and>
    N (snd (cluster_sync E c (Some cluster) w)) = N w \<and>
    C (snd (cluster_sync E c (Some cluster) w)) = filter (\<lambda>r. fst r \<noteq> StaticNodeCluster_GetID cluster) (C w)"
proof -
  let ?ws = "meta_Workspace (snc_Metadata cluster)" and ?cl = "cluster_name cluster"
  let ?l = "ListByCluster (cc_storage c) ?ws ?cl w"
  let ?adv = "tables_advance N C ?ws ?cl"
  note l = ListByCluster_tables [OF t, of ?ws ?cl w]
  show ?thesis
  proof (cases "fst ?l")
    case (Inl e)
    then show ?thesis using l ok by (simp add: cluster_sync_def split_beta tables_advance_same)
  next
    case (Inr ns)
    have m: "\<forall>n \<in> set ns. member_row ?ws ?cl (N (snd ?l)) n"
      using ListByCluster_members [OF t cl Inr] l(1) by simp
    have ok': "table_ok (N (snd ?l))" using ok l(1) by simp
    have z: "?adv w w'" if "?adv (snd ?l) w'" for w'
      using that l by (simp add: tables_advance_def)
    show ?thesis
    proof (cases "meta_DeletionTimestamp (snc_Metadata cluster) \<noteq> [] \<and> ns = []")
      case False
      then show ?thesis
        using Inr z [OF cluster_reconcileNormal_advances [OF t cl ok' m]] z [OF cluster_reconcileDelete_marks [OF t ok' _ m]]
        by (auto simp: cluster_sync_def split_beta)
    next
      case True
      have "\<forall>r \<in> set (N w). \<not> (nr_workspace r = ?ws \<and> nr_owner r = ?cl)"
        using ListByCluster_rows [OF t cl Inr, symmetric] True by (simp add: filter_empty_conv)
      then show ?thesis
        using Inr True cluster_reconcileDelete_last [OF t, of E cluster "snd ?l"] l ok
        by (auto simp: cluster_sync_def split_beta intro: tables_advance_same)
    qed
  qed
qed

section \<open>Properties\<close>

text \<open>
  C18: one pass of the cluster controller, whatever it is asked to do and whichever storage call fails,
  changes no row of another workspace or of another cluster, keeps the identifier, workspace and name
  of every row, removes none, and takes over a row only if nobody owned it. The rows it adds are its
  own, and identifiers and names stay unique.
\<close>

theorem cluster_sync_isolated:
  assumes "tables (cc_storage c) nodes clusters" and "cluster_name cluster \<noteq> []" and "table_ok (nodes w)"
  shows "advances (meta_Workspace (snc_Metadata cluster)) (cluster_name cluster)
     (nodes w) (nodes (snd (cluster_sync E c (Some cluster) w)))"
  using cluster_sync_rows [OF assms, of E] advances_refl [OF assms(3)] by (auto simp: tables_advance_def)

text \<open>
  C19: the row of a cluster disappears only in a pass over that cluster, which is marked for deletion,
  when no node row belongs to it any more; such a pass changes no node row.
\<close>

theorem cluster_removed_last:
  assumes "tables (cc_storage c) nodes clusters" and "cluster_name cluster \<noteq> []" and "table_ok (nodes w)"
    and "row \<in> set (clusters w)" and "row \<notin> set (clusters (snd (cluster_sync E c (Some cluster) w)))"
  shows "fst row = StaticNodeCluster_GetID cluster \<and> meta_DeletionTimestamp (snc_Metadata cluster) \<noteq> [] \<and>
    (\<nexists>r. r \<in> set (nodes w) \<and> nr_workspace r = meta_Workspace (snc_Metadata cluster) \<and> nr_owner r = cluster_name cluster) \<and>
    nodes (snd (cluster_sync E c (Some cluster) w)) = nodes w"
  using cluster_sync_rows [OF assms(1-3), of E] assms(4,5) by (auto simp: tables_advance_def)

text \<open>A database with the cluster \<open>c\<close> and one node of another cluster, and controllers on it.\<close>

definition sample_db :: db where
  "sample_db = \<lparr>db_nodes = [(sample_node ''x'' ''worker'' None None)\<lparr>sn_ID := 4,
       sn_Spec := Some \<lparr>sns_Cluster = ''other'', sns_IP = ''10.0.0.7'', sns_Role = ''worker'', sns_SSHAuth = None,
         sns_Warm = None, sns_Components = None\<rparr>\<rparr>],
     db_clusters = [sample_cluster None], db_parents = [], db_registries = []\<rparr>"

definition mem_cluster_controller :: "db cluster_controller" where
  "mem_cluster_controller = \<lparr>cc_storage = mem_store, cc_planner = \<lparr>pl_AcceleratorProfileProvider = None, pl_MetricsRemoteWriteURL = []\<rparr>\<rparr>"

definition sample_cluster_env :: "'w cluster_environment" where
  "sample_cluster_env = \<lparr>ce_errors = plain_errors, ce_parse = no_url, ce_listNodes = \<lambda>w u. Inr [],
     ce_now = \<lambda>w. ''2025-01-01T00:00:00Z''\<rparr>"

definition sample_deleted :: static_node_cluster where
  "sample_deleted = (sample_cluster None)
     \<lparr>snc_Metadata := (sample_meta ''c'')\<lparr>meta_DeletionTimestamp := ''2025-01-01T00:00:00Z''\<rparr>\<rparr>"

lemma sample_db_ok:
  "tables (cc_storage mem_cluster_controller) db_node_rows db_cluster_rows" "table_ok (db_node_rows sample_db)"
  using mem_store_tables
  by (simp_all add: mem_cluster_controller_def table_ok_def db_node_rows_def sample_db_def)

theorem cluster_sync_isolated_witness:
  "\<exists>new. db_node_rows (snd (cluster_sync sample_cluster_env mem_cluster_controller (Some (sample_cluster None)) sample_db)) =
     db_node_rows sample_db @ new \<and> (\<forall>r \<in> set new. nr_owner r = ''c'')"
proof -
  have a: "advances ''default'' ''c'' (db_node_rows sample_db)
     (db_node_rows (snd (cluster_sync sample_cluster_env mem_cluster_controller (Some (sample_cluster None)) sample_db)))"
    using cluster_sync_isolated [OF sample_db_ok(1) _ sample_db_ok(2), of "sample_cluster None" sample_cluster_env]
    by (simp add: sample_cluster_def sample_meta_def)
  have "nr_owner r = ''other''" if "r \<in> set (db_node_rows sample_db)" for r
    using that by (auto simp: db_node_rows_def sample_db_def node_row_of_def owner_of_def)
  then have "old = db_node_rows sample_db" if "list_all2 (row_evolves ''default'' ''c'') (db_node_rows sample_db) old" for old
    using that by (auto simp: list_all2_conv_all_nth row_evolves_def intro!: nth_equalityI)
  with a show ?thesis by (auto simp: advances_def)
qed

theorem cluster_removed_last_witness:
  "cluster_row_of (sample_cluster None) \<in> set (db_cluster_rows sample_db) \<and>
   db_cluster_rows (snd (cluster_sync sample_cluster_env mem_cluster_controller (Some sample_deleted) sample_db)) = [] \<and>
   db_node_rows (snd (cluster_sync sample_cluster_env mem_cluster_controller (Some sample_deleted) sample_db)) = db_node_rows sample_db"
proof -
  have r: "cluster_row_of (sample_cluster None) \<in> set (db_cluster_rows sample_db)"
    by (simp add: db_cluster_rows_def sample_db_def)
  have e: "db_cluster_rows (snd (cluster_sync sample_cluster_env mem_cluster_controller (Some sample_deleted) sample_db)) = []"
    by (simp add: cluster_sync_def sample_deleted_def sample_eval mem_cluster_controller_def mem_store_def ListByCluster_def
        sample_db_def cluster_reconcileDelete_def hardDeleteStaticNodeCluster_def prepareStaticNodeCluster_def
        row_matches_def row_column_def eq_filter_def node_row_of_def owner_of_def db_cluster_rows_def StaticNodeCluster_GetID_def)
  show ?thesis
    using cluster_removed_last [OF sample_db_ok(1) _ sample_db_ok(2) r, of sample_deleted sample_cluster_env] r e
    by (simp add: sample_deleted_def sample_cluster_def sample_meta_def)
qed

end
