(* ===== verification/Node_Tables.thy ===== *)
theory Node_Tables
  imports Host_Frame Cluster_Tables
begin

text \<open>
  What one pass of the node controller does to the tables of the storage, given that the hosts it
  talks to have no access to them.
\<close>

section \<open>The stages of the controller\<close>

text \<open>Writing the status of a node leaves the columns of the contract alone.\<close>

lemma status_patch_row [simp]: "patch_row (zero_node_patch\<lparr>snp_Status := st\<rparr>) r = r"
  by (simp add: patch_row_def zero_node_patch_def)

definition both :: "('w \<Rightarrow> 'a) \<Rightarrow> ('w \<Rightarrow> 'b) \<Rightarrow> 'w \<Rightarrow> 'a \<times> 'b" where
  "both f g w = (f w, g w)"

lemma updateStaticNodeStatus_tables:
  assumes "tables S N C"
  shows "both N C (snd (updateStaticNodeStatus (Some S) (Some n) st w)) = both N C w"
  using tables_update(1,2) [OF assms, of "StaticNode_GetID n" "zero_node_patch\<lparr>snp_Status := Some st\<rparr>" w]
  by (auto simp: updateStaticNodeStatus_def both_def cong: if_cong)

lemma quiet_tables:
  assumes "tables S N C"
  shows "quiet_storage (both N C) S"
  using updateStaticNodeStatus_tables [OF assms] assms by (auto simp: quiet_storage_def keeps_def tables_def both_def)

text \<open>Creating and closing a runner does not touch the tables either.\<close>

definition quiet_runners :: "('w \<Rightarrow> 't) \<Rightarrow> 'w node_controller \<Rightarrow> bool" where
  "quiet_runners tab c \<longleftrightarrow> (\<forall>n. keeps tab (nc_runnerFactory c n)) \<and>
     (\<forall>n w R. fst (nc_runnerFactory c n w) = Inr R \<longrightarrow> keeps tab (cr_Close R))"

abbreviation no_table_access :: "('w \<Rightarrow> 't) \<Rightarrow> 'w environment \<Rightarrow> 'w node_controller \<Rightarrow> bool" where
  "no_table_access tab E c \<equiv> quiet_host tab E c \<and> quiet_runners tab c"

lemma node_reconcileNormal_tables:
  assumes "tables (nc_storage c) N C" "no_table_access (both N C) E c"
  shows "both N C (snd (node_reconcileNormal E c n w)) = both N C w"
proof -
  have f: "both N C (snd (nc_runnerFactory c n w)) = both N C w"
    using assms(2) by (simp add: quiet_runners_def keeps_def)
  show ?thesis
  proof (cases "fst (nc_runnerFactory c n w)")
    case (Inl e)
    then show ?thesis using f quiet_publish [OF quiet_tables [OF assms(1)]] by (simp add: node_reconcileNormal_def split_beta)
  next
    case (Inr R)
    then have R: "quiet_runner (both N C) R" "keeps (both N C) (cr_Close R)"
      using assms(2) by (auto simp: quiet_host_def quiet_runners_def)
    then show ?thesis
      using Inr f quiet_accelerator_stage [OF quiet_tables [OF assms(1)] _ R(1)] assms(2)
      by (simp add: node_reconcileNormal_def closeStaticNodeRunner_def split_beta keeps_def)
  qed
qed

text \<open>The cleanup of the host that has to succeed before a node is removed.\<close>

definition cleaned_up :: "'w node_controller \<Rightarrow> static_node \<Rightarrow> 'w \<Rightarrow> bool" where
  "cleaned_up c n w = (case nc_runnerFactory c n w of
       (Inl e, w1) \<Rightarrow> False
     | (Inr R, w1) \<Rightarrow> fst (Delete (Some n) (Some R) w1) = None)"

lemma hardDelete_tables:
  assumes "tables S N C"
  shows "C (snd (hardDeleteStaticNode (Some S) (Some n) w)) = C w"
    and "N (snd (hardDeleteStaticNode (Some S) (Some n) w)) \<in> {N w, filter (\<lambda>r. nr_id r \<noteq> StaticNode_GetID n) (N w)}"
    and "fst (hardDeleteStaticNode (Some S) (Some n) w) = None \<Longrightarrow>
      N (snd (hardDeleteStaticNode (Some S) (Some n) w)) = filter (\<lambda>r. nr_id r \<noteq> StaticNode_GetID n) (N w)"
  using tables_delete [OF assms, of "StaticNode_GetID n" w] by (auto simp: hardDeleteStaticNode_def)

lemma node_reconcileDelete_tables:
  assumes t: "tables (nc_storage c) N C" and q: "no_table_access (both N C) E c"
  shows "C (snd (node_reconcileDelete E c n w)) = C w"
    and "N (snd (node_reconcileDelete E c n w)) = N w \<or>
      N (snd (node_reconcileDelete E c n w)) = filter (\<lambda>r. nr_id r \<noteq> StaticNode_GetID n) (N w) \<and>
      (IsForceDelete (meta_Annotations (sn_Metadata n)) \<or> cleaned_up c n w)"
proof -
  let ?f = "nc_runnerFactory c n w"
  have f: "both N C (snd ?f) = both N C w" using q by (simp add: quiet_runners_def keeps_def)
  note h = hardDelete_tables(1,2) [OF t, of n]
  have p: "N (snd (publish E c n r m e w)) = N w" "C (snd (publish E c n r m e w)) = C w" for r m e w
    using quiet_publish [OF quiet_tables [OF t], of E n r m e w] by (simp_all add: both_def)
  have "C (snd (node_reconcileDelete E c n w)) = C w \<and>
    (N (snd (node_reconcileDelete E c n w)) = N w \<or>
      N (snd (node_reconcileDelete E c n w)) = filter (\<lambda>r. nr_id r \<noteq> StaticNode_GetID n) (N w) \<and>
      (IsForceDelete (meta_Annotations (sn_Metadata n)) \<or> cleaned_up c n w))"
  proof (cases "fst ?f")
    case (Inl e)
    then show ?thesis
      using f h [of "snd ?f"] by (simp add: node_reconcileDelete_def Let_def split_beta both_def p)
  next
    case (Inr R)
    let ?d = "Delete (Some n) (Some R) (snd ?f)"
    have R: "quiet_runner (both N C) R" using q Inr by (simp add: quiet_host_def)
    have d: "N (snd ?d) = N w" "C (snd ?d) = C w"
      using quiet_Delete [OF R, of "Some n" "snd ?f"] f by (simp_all add: both_def)
    have cl: "N (snd (cr_Close R w)) = N w" "C (snd (cr_Close R w)) = C w" for w
      using q Inr by (auto simp: quiet_runners_def keeps_def both_def)
    show ?thesis
      using Inr d h [of "snd ?d"]
      by (auto simp: node_reconcileDelete_def Let_def split_beta p cl closeStaticNodeRunner_def cleaned_up_def split: option.split)
  qed
  then show "C (snd (node_reconcileDelete E c n w)) = C w"
    and "N (snd (node_reconcileDelete E c n w)) = N w \<or>
      N (snd (node_reconcileDelete E c n w)) = filter (\<lambda>r. nr_id r \<noteq> StaticNode_GetID n) (N w) \<and>
      (IsForceDelete (meta_Annotations (sn_Metadata n)) \<or> cleaned_up c n w)"
    by auto
qed

lemma node_sync_rows:
  assumes t: "tables (nc_storage c) N C" and q: "no_table_access (both N C) E c"
  shows "C (snd (node_sync E c (Some n) w)) = C w"
    and "N (snd (node_sync E c (Some n) w)) = N w \<or>
      N (snd (node_sync E c (Some n) w)) = filter (\<lambda>r. nr_id r \<noteq> StaticNode_GetID n) (N w) \<and>
      meta_DeletionTimestamp (sn_Metadata n) \<noteq> [] \<and>
      (IsForceDelete (meta_Annotations (sn_Metadata n)) \<or> cleaned_up c n w)"
  using node_reconcileDelete_tables [OF t q, of n w] node_reconcileNormal_tables [OF t q, of n w]
  by (auto simp: node_sync_def split_beta both_def)

section \<open>Properties\<close>


text \<open>A runner whose commands all succeed, or all fail, and a controller that uses it.\<close>

definition fixed_runner :: "go_error + string \<Rightarrow> 'w command_runner" where
  "fixed_runner a = \<lparr>cr_Run = \<lambda>c w. (a, w),
     cr_Files = Some \<lparr>fc_WriteFileIfChanged = \<lambda>p c m w. (Inr False, w), fc_Remove = \<lambda>p s w. (None, w)\<rparr>,
     cr_Close = \<lambda>w. (None, w)\<rparr>"

definition mem_node_controller :: "go_error + string \<Rightarrow> db node_controller" where
  "mem_node_controller a = \<lparr>nc_storage = mem_store, nc_runnerFactory = \<lambda>n w. (Inr (fixed_runner a), w), nc_reconciler = None\<rparr>"

definition sample_node_env :: "'w environment" where
  "sample_node_env = \<lparr>en_errors = plain_errors, en_parse = no_url, en_http = \<lambda>u t w. (Inl (ErrNew ''no host''), w),
     en_now = \<lambda>w. ''2025-01-01T00:00:00Z''\<rparr>"

lemma fixed_quiet: "no_table_access tab sample_node_env (mem_node_controller a)"
  by (simp add: quiet_host_def quiet_runners_def mem_node_controller_def sample_node_env_def quiet_http_def keeps_def quiet_runner_def
      quiet_files_def fixed_runner_def)

lemma mem_node_tables: "tables (nc_storage (mem_node_controller a)) db_node_rows db_cluster_rows"
  using mem_store_tables by (simp add: mem_node_controller_def)


end
