(* ===== verification/Ssh_Runner.thy ===== *)
theory Ssh_Runner
  imports Docker_Runtime Samples
begin

text \<open>
  The runner of a static node over SSH, \<open>staticnode/runner.go\<close> with \<open>internal/util/ssh_key.go\<close>: the
  private key of the specification is written to a temporary directory that the runner owns until it
  is closed.
\<close>

section \<open>Definitions\<close>

text \<open>\<open>path.Join\<close> of two elements.\<close>

definition path_Join :: "string \<Rightarrow> string \<Rightarrow> string" where
  "path_Join a b =
     (if a = [] \<and> b = [] then [] else if a = [] then path_Clean b else if b = [] then path_Clean a
      else path_Clean (a @ ''/'' @ b))"

definition GenerateTmpSSHKeyFile :: "'w os \<Rightarrow> string \<Rightarrow> 'w \<Rightarrow> (go_error + string) \<times> 'w" where
  "GenerateTmpSSHKeyFile OS sshPrivateKey w =
     (case base64_DecodeString sshPrivateKey of
        None \<Rightarrow> (Inl (ErrWrap (ErrNew ''illegal base64 data'') ''decode ssh key failed''), w)
      | Some decodedKey \<Rightarrow>
          (case os_MkdirTemp OS [] ''ssh-key-'' w of
             (Inl e, w1) \<Rightarrow> (Inl (ErrWrap e ''create tmp dir failed''), w1)
           | (Inr tmpDir, w1) \<Rightarrow>
               (let sshKeyPath = path_Join tmpDir ''ssh_key'' in
                case os_WriteFile OS sshKeyPath decodedKey w1 of
                  (Some e, w2) \<Rightarrow> (Inl (ErrWrap e ''write ssh key failed''), w2)
                | (None, w2) \<Rightarrow> (Inr sshKeyPath, w2))))"

definition staticNodeSSHAuth :: "static_node_spec \<Rightarrow> go_error + auth" where
  "staticNodeSSHAuth spec =
     (case sns_SSHAuth spec of
        None \<Rightarrow> Inl (ErrNew ''static node spec.ssh_auth is required'')
      | Some a \<Rightarrow>
          if TrimSpace (auth_SSHUser a) = [] then Inl (ErrNew ''static node spec.ssh_auth.ssh_user is required'')
          else Inr a)"

definition staticNodeRunnerID :: "metadata \<Rightarrow> string" where
  "staticNodeRunnerID m = (if meta_Workspace m \<noteq> [] then meta_Workspace m @ ''/'' @ meta_Name m else meta_Name m)"

text \<open>\<open>SSHCommandRunner.Files\<close>: the file client of a runner.\<close>

definition Files :: "'w os \<Rightarrow> err_lib \<Rightarrow> ssh_command_runner \<Rightarrow> 'w file_client" where
  "Files OS L s =
     \<lparr>fc_WriteFileIfChanged = WriteFileIfChanged OS L s,
      fc_Remove = Remove OS L s\<rparr>"

text \<open>\<open>staticNodeSSHRunner\<close> as a command runner: its \<open>Run\<close>, \<open>Files\<close> and \<open>Close\<close>.\<close>

definition Close :: "'w os \<Rightarrow> string \<Rightarrow> 'w \<Rightarrow> go_error option \<times> 'w" where
  "Close OS cleanupDir w = (if cleanupDir = [] then (None, w) else os_RemoveAll OS cleanupDir w)"

definition staticNodeSSHRunner :: "'w os \<Rightarrow> err_lib \<Rightarrow> ssh_command_runner \<Rightarrow> string \<Rightarrow> 'w command_runner" where
  "staticNodeSSHRunner OS L runner cleanupDir =
     \<lparr>cr_Run = \<lambda>command. Run OS L runner command False None True None [] False,
      cr_Files = Some (Files OS L runner),
      cr_Close = Close OS cleanupDir\<rparr>"

text \<open>
  \<open>SSHRunnerFactory.NewStaticNodeRunner\<close>; the argument \<open>sshControlPath\<close> is the field of the factory,
  empty for the nil factory, and the process executor is that of the operating system.
\<close>

definition NewStaticNodeRunner ::
  "'w os \<Rightarrow> err_lib \<Rightarrow> string \<Rightarrow> static_node ptr \<Rightarrow> 'w \<Rightarrow> (go_error + 'w command_runner) \<times> 'w" where
  "NewStaticNodeRunner OS L sshControlPath nodePtr w =
     (case nodePtr of
        None \<Rightarrow> (Inl (ErrNew ''static node spec is required''), w)
      | Some node \<Rightarrow>
          (case sn_Spec node of
             None \<Rightarrow> (Inl (ErrNew ''static node spec is required''), w)
           | Some spec \<Rightarrow>
               if sns_IP spec = [] then (Inl (ErrNew ''static node spec.ip is required''), w)
               else case staticNodeSSHAuth spec of
                 Inl e \<Rightarrow> (Inl e, w)
               | Inr a \<Rightarrow>
                   (case (if auth_SSHPrivateKey a \<noteq> [] then
                            (case GenerateTmpSSHKeyFile OS (auth_SSHPrivateKey a) w of
                               (Inl e, w1) \<Rightarrow> (Inl e, w1)
                             | (Inr sshKeyPath, w1) \<Rightarrow> (Inr (a\<lparr>auth_SSHPrivateKey := sshKeyPath\<rparr>, path_Dir sshKeyPath), w1))
                          else (Inr (a, []), w)) of
                      (Inl e, w1) \<Rightarrow> (Inl e, w1)
                    | (Inr (keyed, cleanupDir), w1) \<Rightarrow>
                        (Inr (staticNodeSSHRunner OS L
                           (NewSSHCommandRunner (staticNodeRunnerID (sn_Metadata node)) (sns_IP spec) keyed sshControlPath)
                           cleanupDir), w1))))"

section \<open>Paths of directories\<close>

definition path_name :: "string \<Rightarrow> bool" where
  "path_name e \<longleftrightarrow> e \<noteq> [] \<and> e \<noteq> ''.'' \<and> e \<noteq> ''..'' \<and> CHR 0x2F \<notin> set e"

text \<open>An absolute path in its shortest form, below the root.\<close>

definition dir_path :: "string \<Rightarrow> bool" where
  "dir_path d \<longleftrightarrow> (\<exists>es. es \<noteq> [] \<and> (\<forall>e \<in> set es. path_name e) \<and> d = CHR 0x2F # Join es ''/'')"

lemma split_at_none: "\<forall>x \<in> set s. \<not> P x \<Longrightarrow> split_at P s = [s]"
  by (induction s) auto

lemma split_at_name: "\<forall>x \<in> set e. \<not> P x \<Longrightarrow> P c \<Longrightarrow> split_at P (e @ c # s) = e # split_at P s"
  by (induction e) auto

lemma Split_Join:
  "es \<noteq> [] \<Longrightarrow> \<forall>e \<in> set es. CHR 0x2F \<notin> set e \<Longrightarrow> Split (Join es ''/'') CHR 0x2F = es"
proof (induction es rule: induct_list012)
  case (2 e)
  then show ?case by (auto simp: Split_def intro!: split_at_none)
next
  case (3 e f es)
  have "\<forall>x \<in> set e. x \<noteq> CHR 0x2F" using 3(4) by auto
  then show ?case
    using split_at_name [of e "\<lambda>x. x = CHR 0x2F" "CHR 0x2F"] 3 by (simp add: Split_def)
qed simp

lemma clean_elems_names: "\<forall>e \<in> set es. path_name e \<Longrightarrow> clean_elems True out es = out @ es"
  by (induction es arbitrary: out) (auto simp: path_name_def)

lemma path_Clean_dir:
  assumes "es \<noteq> []" "\<forall>e \<in> set es. path_name e"
  shows "path_Clean (CHR 0x2F # Join es ''/'') = CHR 0x2F # Join es ''/''"
proof -
  have "Split (CHR 0x2F # Join es ''/'') CHR 0x2F = [] # es"
    using Split_Join [of es] assms by (auto simp: Split_def path_name_def)
  then show ?thesis
    using clean_elems_names [OF assms(2), of "[]"] by (simp add: path_Clean_def)
qed

lemma path_Clean_slash:
  assumes "es \<noteq> []" "\<forall>e \<in> set es. path_name e"
  shows "path_Clean (CHR 0x2F # Join es ''/'' @ ''/'') = CHR 0x2F # Join es ''/''"
proof -
  have j: "Join es ''/'' @ ''/'' = Join (es @ [[]]) ''/''"
    using Join_append_ne [OF assms(1), of "[[]]"] by simp
  have "Split (CHR 0x2F # Join es ''/'' @ ''/'') CHR 0x2F = [] # es @ [[]]"
    using Split_Join [of "es @ [[]]"] assms unfolding j by (auto simp: Split_def path_name_def)
  moreover have "clean_elems True out (es @ [[]]) = out @ es" for out
    using assms(2) by (induction es arbitrary: out) (auto simp: path_name_def)
  ultimately show ?thesis by (simp add: path_Clean_def)
qed

lemma path_Join_dir:
  assumes "dir_path d" "path_name n"
  shows "path_Join d n = d @ ''/'' @ n"
proof -
  obtain es where es: "es \<noteq> []" "\<forall>e \<in> set es. path_name e" "d = CHR 0x2F # Join es ''/''"
    using assms(1) by (auto simp: dir_path_def)
  have "d @ ''/'' @ n = CHR 0x2F # Join (es @ [n]) ''/''"
    using Join_append_ne [OF es(1), of "[n]"] es(3) by simp
  moreover have "n \<noteq> []" using assms(2) by (simp add: path_name_def)
  ultimately show ?thesis
    using path_Clean_dir [of "es @ [n]"] es assms(2) by (simp add: path_Join_def)
qed

lemma path_Dir_dir:
  assumes "dir_path d" "path_name n"
  shows "path_Dir (d @ ''/'' @ n) = d"
proof -
  obtain es where es: "es \<noteq> []" "\<forall>e \<in> set es. path_name e" "d = CHR 0x2F # Join es ''/''"
    using assms(1) by (auto simp: dir_path_def)
  have "dropWhile (\<lambda>c. c \<noteq> CHR 0x2F) (rev n @ CHR 0x2F # rev d) = CHR 0x2F # rev d"
    using assms(2) by (subst dropWhile_append2) (auto simp: path_name_def)
  then have "path_Dir (d @ ''/'' @ n) = path_Clean (d @ ''/'')"
    by (simp add: path_Dir_def)
  then show ?thesis using path_Clean_slash [OF es(1,2)] es(3) by simp
qed

text \<open>What the operating system promises about temporary directories.\<close>

definition dir_laws :: "'w os \<Rightarrow> ('w \<Rightarrow> string set) \<Rightarrow> bool" where
  "dir_laws OS dirs \<longleftrightarrow>
     (\<forall>p w. case fst (os_MkdirTemp OS [] p w) of
        Inl _ \<Rightarrow> dirs (snd (os_MkdirTemp OS [] p w)) = dirs w
      | Inr d \<Rightarrow> dir_path d \<and> d \<notin> dirs w \<and> dirs (snd (os_MkdirTemp OS [] p w)) = insert d (dirs w)) \<and>
     (\<forall>n c w. dirs (snd (os_WriteFile OS n c w)) = dirs w) \<and>
     (\<forall>d w. fst (os_RemoveAll OS d w) = None \<longrightarrow> dirs (snd (os_RemoveAll OS d w)) = dirs w - {d})"

lemma key_name: "path_name ''ssh_key''" by (simp add: path_name_def)

lemma GenerateTmpSSHKeyFile_dir:
  assumes l: "dir_laws OS dirs" and g: "fst (GenerateTmpSSHKeyFile OS key w) = Inr p"
  obtains d where "path_Dir p = d" "d \<noteq> []" "d \<notin> dirs w" "dirs (snd (GenerateTmpSSHKeyFile OS key w)) = insert d (dirs w)"
proof -
  obtain decoded d where d: "base64_DecodeString key = Some decoded" "fst (os_MkdirTemp OS [] ''ssh-key-'' w) = Inr d"
    and p: "p = path_Join d ''ssh_key''" "fst (os_WriteFile OS p decoded (snd (os_MkdirTemp OS [] ''ssh-key-'' w))) = None"
    using g by (auto simp: GenerateTmpSSHKeyFile_def Let_def split: option.splits prod.splits sum.splits)
  have m: "dir_path d" "d \<notin> dirs w" "dirs (snd (os_MkdirTemp OS [] ''ssh-key-'' w)) = insert d (dirs w)"
    using conjunct1 [OF l [unfolded dir_laws_def], rule_format, of "''ssh-key-''" w] d(2) by auto
  have "dirs (snd (GenerateTmpSSHKeyFile OS key w)) = insert d (dirs w)"
    using l m(3) d p by (simp add: GenerateTmpSSHKeyFile_def Let_def split_beta dir_laws_def)
  moreover have "path_Dir p = d"
    using path_Join_dir [OF m(1) key_name] path_Dir_dir [OF m(1) key_name] p(1) by simp
  ultimately show thesis
    using that m(1,2) by (auto simp: dir_path_def)
qed

section \<open>Properties\<close>

lemma close_removes_key:
  assumes "dir_laws OS dirs" and "NewStaticNodeRunner OS L controlPath (Some node) w = (Inr runner, w1)"
    and "dirs w2 = dirs w1" and "fst (cr_Close runner w2) = None"
  shows "dirs (snd (cr_Close runner w2)) = dirs w"
proof -
  obtain spec a where s: "sn_Spec node = Some spec" "staticNodeSSHAuth spec = Inr a"
    using assms(2) by (auto simp: NewStaticNodeRunner_def split: option.splits if_splits sum.splits)
  let ?g = "GenerateTmpSSHKeyFile OS (auth_SSHPrivateKey a) w"
  show ?thesis
  proof (cases "auth_SSHPrivateKey a = []")
    case True
    then have "cr_Close runner = Close OS []" "w1 = w"
      using assms(2) s by (auto simp: NewStaticNodeRunner_def staticNodeSSHRunner_def split: if_splits)
    then show ?thesis using assms(3) by (simp add: Close_def)
  next
    case False
    obtain p where p: "fst ?g = Inr p" "cr_Close runner = Close OS (path_Dir p)" "w1 = snd ?g"
      using assms(2) s False
      by (auto simp: NewStaticNodeRunner_def staticNodeSSHRunner_def split: if_splits prod.splits sum.splits)
    obtain d where d: "path_Dir p = d" "d \<noteq> []" "d \<notin> dirs w" "dirs (snd ?g) = insert d (dirs w)"
      by (rule GenerateTmpSSHKeyFile_dir [OF assms(1) p(1)])
    have "dirs (snd (os_RemoveAll OS d w2)) = dirs w2 - {d}"
      using assms(1,4) p(2) d(1,2) by (simp add: dir_laws_def Close_def)
    then show ?thesis using p d assms(3) by (simp add: Close_def)
  qed
qed

text \<open>
  The private key does not outlive the runner. When a runner was created, and whatever was done
  with it in between as long as the temporary directories stayed, closing it successfully leaves
  exactly the temporary directories there were before.
\<close>

theorem key_removed_on_close:
  assumes "dir_laws OS dirs" and "NewStaticNodeRunner OS L controlPath (Some node) w = (Inr runner, w1)"
    and "dirs w2 = dirs w1" and "fst (cr_Close runner w2) = None"
  shows "dirs (snd (cr_Close runner w2)) = dirs w"
  by (rule close_removes_key [OF assms])

text \<open>
  C23: a key that cannot be written stays behind as a directory. When writing the decoded key fails,
  the runner is not created, so nobody closes it, and the fresh temporary directory remains.
\<close>

theorem key_dir_leaked_on_write_failure:
  assumes "dir_laws OS dirs" and "base64_DecodeString key = Some decoded"
    and "os_MkdirTemp OS [] ''ssh-key-'' w = (Inr d, w1)" and "fst (os_WriteFile OS (d @ ''/ssh_key'') decoded w1) = Some e"
  shows "GenerateTmpSSHKeyFile OS key w =
      (Inl (ErrWrap e ''write ssh key failed''), snd (os_WriteFile OS (d @ ''/ssh_key'') decoded w1)) \<and>
    d \<notin> dirs w \<and> d \<in> dirs (snd (GenerateTmpSSHKeyFile OS key w))"
proof -
  have m: "dir_path d" "d \<notin> dirs w" "dirs w1 = insert d (dirs w)"
    using conjunct1 [OF assms(1) [unfolded dir_laws_def], rule_format, of "''ssh-key-''" w] assms(3) by auto
  have "path_Join d ''ssh_key'' = d @ ''/ssh_key''"
    using path_Join_dir [OF m(1) key_name] by simp
  then have "GenerateTmpSSHKeyFile OS key w =
      (Inl (ErrWrap e ''write ssh key failed''), snd (os_WriteFile OS (d @ ''/ssh_key'') decoded w1))"
    using assms(2-4) by (simp add: GenerateTmpSSHKeyFile_def Let_def split_beta)
  moreover have "dirs (snd (os_WriteFile OS (d @ ''/ssh_key'') decoded w1)) = dirs w1"
    using assms(1) by (simp add: dir_laws_def)
  ultimately show ?thesis using m by simp
qed

text \<open>
  An operating system whose world is the list of temporary directories, each new one longer than all
  the others; the argument is what writing a file returns.
\<close>

definition dirs_os :: "go_error option \<Rightarrow> string list os" where
  "dirs_os e = temp_os
     \<lparr>os_MkdirTemp := \<lambda>d p w. (Inr (CHR 0x2F # replicate (Suc (fold max (map length w) 0)) CHR ''d''),
        (CHR 0x2F # replicate (Suc (fold max (map length w) 0)) CHR ''d'') # w),
      os_WriteFile := \<lambda>n c w. (e, w),
      os_RemoveAll := \<lambda>d w. (None, filter (\<lambda>x. x \<noteq> d) w)\<rparr>"

lemma length_le_fold_max: "x \<in> set w \<Longrightarrow> length x \<le> fold max (map length w) (n::nat)"
proof (induction w arbitrary: n)
  case (Cons y w)
  have "k \<le> fold max ns (k::nat)" for k ns
    by (induction ns arbitrary: k) (auto intro: order.trans [OF max.cobounded2])
  then have "length y \<le> fold max (map length w) (max (length y) n)"
    by (meson max.cobounded1 order.trans)
  with Cons show ?case by auto
qed simp

lemma dirs_os_laws: "dir_laws (dirs_os e) set"
proof -
  have "dir_path (CHR 0x2F # replicate (Suc n) CHR ''d'')" for n
    unfolding dir_path_def by (intro exI [of _ "[replicate (Suc n) CHR ''d'']"]) (auto simp: path_name_def)
  moreover have "CHR 0x2F # replicate (Suc (fold max (map length w) 0)) CHR ''d'' \<notin> set w" for w
    using length_le_fold_max [of _ w 0] by fastforce
  ultimately show ?thesis
    by (auto simp: dir_laws_def dirs_os_def)
qed

definition sample_keyed_node :: static_node where
  "sample_keyed_node = (sample_node ''h'' ''head'' None None)
     \<lparr>sn_Spec := Some \<lparr>sns_Cluster = ''c'', sns_IP = ''10.0.0.9'', sns_Role = ''head'',
        sns_SSHAuth = Some \<lparr>auth_SSHUser = ''root'', auth_SSHPrivateKey = ''a2V5''\<rparr>, sns_Warm = None, sns_Components = None\<rparr>\<rparr>"

lemma sample_key: "base64_DecodeString ''a2V5'' = Some ''key''"
  by code_simp

lemma sample_dir: "os_MkdirTemp (dirs_os e) [] ''ssh-key-'' [''/x''] = (Inr ''/ddd'', [''/ddd'', ''/x''])"
  by (simp add: dirs_os_def numeral_eq_Suc)

theorem key_removed_on_close_witness:
  "\<exists>runner w1. NewStaticNodeRunner (dirs_os None) plain_errors [] (Some sample_keyed_node) [''/x''] = (Inr runner, w1) \<and>
     set w1 = {''/ddd'', ''/x''} \<and> set (snd (cr_Close runner w1)) = {''/x''}"
proof -
  let ?r = "NewStaticNodeRunner (dirs_os None) plain_errors [] (Some sample_keyed_node) [''/x'']"
  have j: "path_Join ''/ddd'' ''ssh_key'' = ''/ddd/ssh_key''" by code_simp
  have u: "TrimSpace ''root'' \<noteq> []" by code_simp
  have g: "GenerateTmpSSHKeyFile (dirs_os None) ''a2V5'' [''/x''] = (Inr ''/ddd/ssh_key'', [''/ddd'', ''/x''])"
    by (simp add: GenerateTmpSSHKeyFile_def sample_key sample_dir Let_def j) (simp add: dirs_os_def)
  have c: "fst (Close (dirs_os e) d w) = None" for e d w
    by (simp add: Close_def dirs_os_def)
  obtain runner where r: "?r = (Inr runner, [''/ddd'', ''/x''])" "fst (cr_Close runner [''/ddd'', ''/x'']) = None"
    using u by (simp add: NewStaticNodeRunner_def sample_keyed_node_def sample_node_def staticNodeSSHAuth_def g
        staticNodeSSHRunner_def c)
  then show ?thesis
    using key_removed_on_close [OF dirs_os_laws r(1) refl r(2)] by auto
qed

theorem key_dir_leaked_on_write_failure_witness:
  "fst (GenerateTmpSSHKeyFile (dirs_os (Some (ErrNew ''disk full''))) ''a2V5'' [''/x'']) =
     Inl (ErrWrap (ErrNew ''disk full'') ''write ssh key failed'') \<and>
   ''/ddd'' \<in> set (snd (GenerateTmpSSHKeyFile (dirs_os (Some (ErrNew ''disk full''))) ''a2V5'' [''/x'']))"
  using key_dir_leaked_on_write_failure [OF dirs_os_laws sample_key sample_dir, of "Some (ErrNew ''disk full'')" "ErrNew ''disk full''"]
  by (simp add: dirs_os_def)

end
