(* ===== verification/Node_Props.thy ===== *)
theory Node_Props
  imports Node_Tables Ssh_Runner
begin

text \<open>
  What a pass over a static node reports and does: the statuses of its components, waiting for the
  head, components that left the specification, and the cleanup of a deletion.
\<close>

section \<open>What is reported of a component\<close>

text \<open>The parts of a component's status that do not depend on how its reconcile went.\<close>

definition reports :: "node_component_spec \<Rightarrow> node_component_status \<Rightarrow> bool" where
  "reports c s \<longleftrightarrow> cs_Name s = comp_Name c \<and> cs_ObservedHash s = componentHash c \<and>
     cs_ObservedImage s = comp_Image c \<and> (cs_Ready s \<longleftrightarrow> cs_Phase s = NodeComponentPhaseRunning)"

lemma reports_init: "\<not> cs_Ready (component_status_init c)" 
  "cs_Name (component_status_init c) = comp_Name c" "cs_ObservedHash (component_status_init c) = componentHash c"
  "cs_ObservedImage (component_status_init c) = comp_Image c"
  by (simp_all add: component_status_init_def zero_component_status_def)

lemma component_outcome_fields [simp]:
  "cs_Name (component_outcome p r m s) = cs_Name s" "cs_ObservedHash (component_outcome p r m s) = cs_ObservedHash s"
  "cs_ObservedImage (component_outcome p r m s) = cs_ObservedImage s" "cs_Ready (component_outcome p r m s) = cs_Ready s"
  "cs_Phase (component_outcome p r m s) = p"
  by (simp_all add: component_outcome_def)

lemma finish_component_reports:
  assumes "finish_component L http node runner c s w = ((s', e), w')"
    "cs_Name s = comp_Name c" "cs_ObservedHash s = componentHash c" "cs_ObservedImage s = comp_Image c" "\<not> cs_Ready s"
  shows "reports c s' \<and> e = None \<and> cs_Phase s' \<noteq> NodeComponentPhaseFailed"
  using assms by (auto simp: finish_component_def reports_def split: prod.splits option.splits)

lemma reconcileComponent_reports:
  assumes "reconcileComponent L http r node c runner fa dr w = ((s, e), w')"
  shows "reports c s \<and> (e \<noteq> None \<longleftrightarrow> cs_Phase s = NodeComponentPhaseFailed)"
proof -
  note fin = finish_component_reports
  show ?thesis
    using assms unfolding reconcileComponent_def Let_def
    by (auto split: prod.split_asm option.split_asm sum.split_asm if_split_asm dest!: fin
        simp: reports_init reports_def)
qed

lemma component_loop_reports:
  "component_loop L http r node runner fa dr cs w = ((ss, es), w') \<Longrightarrow>
   list_all2 reports cs ss \<and> (es = [] \<longleftrightarrow> (\<forall>s \<in> set ss. cs_Phase s \<noteq> NodeComponentPhaseFailed))"
proof (induction cs arbitrary: w ss es)
  case (Cons c cs)
  then show ?case
    by (auto split: prod.split_asm option.split_asm dest!: reconcileComponent_reports)
qed simp

text \<open>The statuses of components that are observed but no longer wanted.\<close>

definition stale_of :: "string set \<Rightarrow> node_component_status list \<Rightarrow> node_component_status list" where
  "stale_of desired cur = filter (\<lambda>s. cs_Name s \<noteq> [] \<and> cs_Name s \<notin> desired) cur"

definition stopped_or_failed :: "node_component_status \<Rightarrow> bool" where
  "stopped_or_failed s \<longleftrightarrow> \<not> cs_Ready s \<and> cs_Phase s \<in> {NodeComponentPhaseStopped, NodeComponentPhaseFailed}"

lemma stopped_status_fields [simp]:
  "cs_Name (stopped_status n) = n" "\<not> cs_Ready (stopped_status n)" "cs_Phase (stopped_status n) = NodeComponentPhaseStopped"
  by (simp_all add: stopped_status_def zero_component_status_def)

lemma stop_loop_reports:
  "stop_loop L dr node desired cur w = ((ss, es), w') \<Longrightarrow>
   map cs_Name ss = map cs_Name (stale_of desired cur) \<and> list_all stopped_or_failed ss \<and>
   (es = [] \<longleftrightarrow> (\<forall>s \<in> set ss. cs_Phase s = NodeComponentPhaseStopped))"
proof (induction cur arbitrary: w ss es)
  case (Cons c cur)
  then show ?case
    by (auto simp: stale_of_def stopped_or_failed_def split: prod.split_asm option.split_asm if_split_asm)
qed (simp add: stale_of_def)


lemma stopStaleComponents_reports:
  assumes "stopStaleComponents L (Some node) runner w = ((ss, es), w')" "sn_Spec node = Some spec"
  shows "list_all stopped_or_failed ss"
    and "es = [] \<Longrightarrow> map cs_Name ss = map cs_Name (stale_of (set (map comp_Name (els (sns_Components spec)))) (els (sts_Components (base_status (Some node)))))"
    and "es = [] \<Longrightarrow> \<forall>s \<in> set ss. cs_Phase s \<noteq> NodeComponentPhaseFailed"
  using assms
  by (auto simp: stopStaleComponents_def spec_of_def status_of_def base_status_def stale_of_def zero_node_status_def
      split: option.split_asm if_split_asm prod.split_asm sum.split_asm dest!: stop_loop_reports)

lemma ReconcileComponents_reports:
  assumes r: "ReconcileComponents L http r (Some node) (Some runner) dr w = ((Some ss, err), w')" and spec: "sn_Spec node = Some spec"
  obtains stale rest where "ss = stale @ rest" "list_all stopped_or_failed stale" "list_all2 reports (els (sns_Components spec)) rest"
    "err = None \<Longrightarrow> map cs_Name stale = map cs_Name (stale_of (set (map comp_Name (els (sns_Components spec)))) (els (sts_Components (base_status (Some node)))))"
    "err = None \<Longrightarrow> \<forall>s \<in> set ss. cs_Phase s \<noteq> NodeComponentPhaseFailed"
proof -
  obtain stale es1 w1 where a: "stopStaleComponents L (Some node) runner w = ((stale, es1), w1)" by (metis surj_pair)
  obtain rest es2 w2 where b: "component_loop L http r (Some node) runner (cr_Files runner) dr (els (sns_Components spec)) w1 = ((rest, es2), w2)"
    by (metis surj_pair)
  have e: "ss = stale @ rest" "err = NewAggregate (es1 @ es2)"
    using r a b spec by (auto simp: ReconcileComponents_def spec_of_def split: if_split_asm)
  have c: "list_all2 reports (els (sns_Components spec)) rest" "es2 = [] \<Longrightarrow> \<forall>s \<in> set rest. cs_Phase s \<noteq> NodeComponentPhaseFailed"
    using component_loop_reports [OF b] by auto
  note s = stopStaleComponents_reports [OF a spec]
  show thesis
    by (rule that [OF e(1) s(1) c(1)]) (use e s(2,3) c(2) in \<open>auto simp: NewAggregate_def split: if_splits\<close>)
qed

text \<open>
  C24: what a pass over the components reports. The statuses are first those of components that are
  observed but no longer specified, stopped or failed and never ready, and then one per component of
  the specification, in order, with its name, fingerprint and image, ready exactly when it runs. If
  the pass had no error, then no component failed and every component that is no longer specified is
  among the first group.
\<close>

theorem ReconcileComponents_statuses:
  assumes "ReconcileComponents L http r (Some node) (Some runner) dr w = ((Some ss, err), w')" and "sn_Spec node = Some spec"
  shows "\<exists>stale rest. ss = stale @ rest \<and> list_all stopped_or_failed stale \<and> list_all2 reports (els (sns_Components spec)) rest \<and>
    (err = None \<longrightarrow> list_all (\<lambda>s. cs_Phase s \<noteq> NodeComponentPhaseFailed) ss \<and>
       map cs_Name stale = map cs_Name (stale_of (set (map comp_Name (els (sns_Components spec)))) (els (sts_Components (base_status (Some node))))))"
  by (rule ReconcileComponents_reports [OF assms]) (auto simp: list_all_iff)

section \<open>Workers wait for their head\<close>

lemma shouldWaitForHead_waits:
  assumes "sn_Spec node = Some spec" "sns_Role spec = StaticNodeRoleWorker" "rec_HeadReadyChecker r = Some headReady"
    "fst (headReady (Some node) w) \<noteq> Inr True"
  shows "fst (fst (shouldWaitForHead (Some r) (Some node) w)) \<and> snd (shouldWaitForHead (Some r) (Some node) w) = snd (headReady (Some node) w)"
  using assms by (auto simp: shouldWaitForHead_def spec_of_def split: prod.split sum.split)

lemma reconcileComponent_waits:
  assumes "sn_Spec node = Some spec" "sns_Role spec = StaticNodeRoleWorker" "rec_HeadReadyChecker r = Some headReady"
    "fst (headReady (Some node) w) \<noteq> Inr True"
  shows "reconcileComponent L http (Some r) (Some node) c R F d w = reconcileComponent L http' (Some r) (Some node) c R' F' d' w"
    and "cs_Phase (fst (fst (reconcileComponent L http (Some r) (Some node) c R F d w))) = NodeComponentPhasePending"
    and "snd (fst (reconcileComponent L http (Some r) (Some node) c R F d w)) = None"
  using shouldWaitForHead_waits [OF assms] by (simp_all add: reconcileComponent_def Let_def split_beta)

lemma component_loop_waits:
  assumes "sn_Spec node = Some spec" "sns_Role spec = StaticNodeRoleWorker" "rec_HeadReadyChecker r = Some headReady"
    "\<forall>w. fst (headReady (Some node) w) \<noteq> Inr True"
  shows "component_loop L http (Some r) (Some node) R F d cs w = component_loop L http' (Some r) (Some node) R' F' d' cs w"
    and "\<forall>s \<in> set (fst (fst (component_loop L http (Some r) (Some node) R F d cs w))). cs_Phase s = NodeComponentPhasePending"
    and "snd (fst (component_loop L http (Some r) (Some node) R F d cs w)) = []"
proof -
  have c: "reconcileComponent L http (Some r) (Some node) c R F d w = reconcileComponent L http' (Some r) (Some node) c R' F' d' w" for c w
    by (rule reconcileComponent_waits(1) [OF assms(1-3)]) (use assms(4) in blast)
  note p = reconcileComponent_waits(2,3) [OF assms(1-3), OF assms(4) [rule_format]]
  show "component_loop L http (Some r) (Some node) R F d cs w = component_loop L http' (Some r) (Some node) R' F' d' cs w"
    by (induction cs arbitrary: w) (simp_all add: c)
  show "\<forall>s \<in> set (fst (fst (component_loop L http (Some r) (Some node) R F d cs w))). cs_Phase s = NodeComponentPhasePending"
    "snd (fst (component_loop L http (Some r) (Some node) R F d cs w)) = []"
    by (induction cs arbitrary: w) (simp_all add: split_beta p)
qed

text \<open>Stopping what is no longer wanted runs commands only, and writes no file.\<close>

lemma stop_loop_cong: "cr_Run (dr_runner d) = cr_Run (dr_runner d') \<Longrightarrow> stop_loop L d n D cs w = stop_loop L d' n D cs w"
  by (induction cs arbitrary: w) (simp_all add: RemoveContainer_def split_beta)

lemma stopStaleComponents_cong:
  assumes "cr_Run R = cr_Run R'"
  shows "stopStaleComponents L n R w = stopStaleComponents L n R' w"
proof -
  let ?d = "\<lambda>R. \<lparr>dr_runner = R, dr_registryAuth = None\<rparr>"
  have e: "NewDockerRuntime L R None w = (case EnsureDockerConfigDir (?d R) w of (None, w1) \<Rightarrow> (Inr (?d R), w1) | (Some e, w1) \<Rightarrow> (Inl e, w1))" for R :: "'a command_runner" and w
    by (simp add: NewDockerRuntime_def EnsureRegistryAuth_def configured_def Let_def split: prod.split option.split)
  have "EnsureDockerConfigDir (?d R) w = EnsureDockerConfigDir (?d R') w" for w
    using assms by (simp add: EnsureDockerConfigDir_def)
  moreover have "stop_loop L (?d R) n D cs w = stop_loop L (?d R') n D cs w" for D cs w
    using assms by (intro stop_loop_cong) simp
  ultimately show ?thesis
    by (simp add: stopStaleComponents_def e split: prod.split option.split sum.split)
qed

text \<open>
  C25: while the head of its cluster is not ready, or cannot be looked up, a worker starts nothing. The
  pass over its components gives the same result and the same world whatever the Docker runtime, the
  file client and the HTTP client would do, so none of them is used; every specified component is
  pending, and the wait itself is no error.
\<close>

theorem worker_waits_for_head:
  assumes "sn_Spec node = Some spec" and "sns_Role spec = StaticNodeRoleWorker"
    and "rec_HeadReadyChecker r = Some headReady" and "\<forall>w. fst (headReady (Some node) w) \<noteq> Inr True"
    and "cr_Run runner' = cr_Run runner"
    and "ReconcileComponents L http (Some r) (Some node) (Some runner) docker w = ((Some ss, err), w')"
  shows "ReconcileComponents L http' (Some r) (Some node) (Some runner') docker' w = ((Some ss, err), w') \<and>
    (\<exists>stale rest. ss = stale @ rest \<and> length rest = length (els (sns_Components spec)) \<and>
       list_all (\<lambda>s. cs_Phase s = NodeComponentPhasePending) rest \<and>
       (stale = [] \<and> existingComponentStatusCount (Some node) = 0 \<longrightarrow> err = None))"
proof -
  let ?stop = "stopStaleComponents L (Some node) runner w"
  let ?loop = "component_loop L http (Some r) (Some node) runner (cr_Files runner) docker (els (sns_Components spec)) (snd ?stop)"
  have same: "ReconcileComponents L http' (Some r) (Some node) (Some runner') docker' w =
      ReconcileComponents L http (Some r) (Some node) (Some runner) docker w"
    by (simp only: ReconcileComponents_def option.case stopStaleComponents_cong [OF assms(5)]
        component_loop_waits(1) [OF assms(1-4), of L http' runner' "cr_Files runner'" docker' _ _ http runner "cr_Files runner" docker])
  have e: "ss = fst (fst ?stop) @ fst (fst ?loop)" "err = NewAggregate (snd (fst ?stop) @ snd (fst ?loop))"
    using assms(1,6) by (auto simp: ReconcileComponents_def spec_of_def split_beta split: if_split_asm)
  have len: "length (fst (fst ?loop)) = length (els (sns_Components spec))"
    using component_loop_reports [of L http "Some r" "Some node" runner "cr_Files runner" docker "els (sns_Components spec)" "snd ?stop"]
    by (metis list_all2_lengthD prod.collapse)
  have "snd (fst ?stop) = []" if "existingComponentStatusCount (Some node) = 0"
    using that by (simp add: existingComponentStatusCount_def stopStaleComponents_def spec_of_def assms(1) split: option.split_asm option.split)
  then show ?thesis
    using same assms(6) e len component_loop_waits(2,3) [OF assms(1-4)]
    by (intro conjI exI [of _ "fst (fst ?stop)"] exI [of _ "fst (fst ?loop)"]) (auto simp: list_all_iff NewAggregate_def)
qed

section \<open>Components that left the specification\<close>

definition observed :: "static_node \<Rightarrow> node_component_status list" where
  "observed node = els (sts_Components (base_status (Some node)))"

definition stale_names :: "static_node \<Rightarrow> string set" where
  "stale_names node = (case sn_Spec node of None \<Rightarrow> {} | Some spec \<Rightarrow>
     cs_Name ` set (stale_of (set (map comp_Name (els (sns_Components spec)))) (observed node)))"

lemma publish_done:
  assumes "publish E c node r m err w = ((node', None), w')"
  shows "err = None" "node' = node\<lparr>sn_Status := Some (BuildStatus (en_errors E) (en_now E w) (Some node) r None)\<rparr>"
  using assms by (auto simp: publish_def updateStatus_def split: prod.split_asm option.split_asm if_split_asm)

lemma publish_observed:
  assumes "publish E c node (Some r) m err w = ((node', None), w')"
  shows "sn_Spec node' = sn_Spec node"
    and "observed node' = (case rr_Components r of None \<Rightarrow> observed node | Some cs \<Rightarrow> cs)"
    and "\<not> allNodeComponentsReady (observed node') \<Longrightarrow> sts_Phase (base_status (Some node')) \<noteq> StaticNodePhaseReady"
proof -
  have n: "node' = node\<lparr>sn_Status := Some (BuildStatus (en_errors E) (en_now E w) (Some node) (Some r) None)\<rparr>"
    by (rule publish_done [OF assms])
  have b: "base_status (Some node') = BuildStatus (en_errors E) (en_now E w) (Some node) (Some r) None"
    by (simp add: n base_status_def status_of_def)
  have o: "observed node' = observed_components (Some node) (Some r)"
    by (simp add: observed_def b)
  show "sn_Spec node' = sn_Spec node" by (simp add: n)
  show "observed node' = (case rr_Components r of None \<Rightarrow> observed node | Some cs \<Rightarrow> cs)"
    unfolding o by (simp add: observed_components_def merge_result_def observed_def split: option.split)
  show "\<not> allNodeComponentsReady (observed node') \<Longrightarrow> sts_Phase (base_status (Some node')) \<noteq> StaticNodePhaseReady"
    by (simp add: b o BuildStatus_phase)
qed

lemma component_stage_stale:
  assumes "component_stage E c runner dr node r w = ((node', None), w')" "sn_Spec node = Some spec" "n \<in> stale_names node"
  shows "sn_Spec node' = Some spec \<and> n \<in> stale_names node' \<and> sts_Phase (base_status (Some node')) \<noteq> StaticNodePhaseReady"
proof -
  obtain cs err w1 where rc: "ReconcileComponents (en_errors E) (en_http E) (nc_reconciler c) (Some node) (Some runner) dr w = ((cs, err), w1)"
    by (metis surj_pair)
  obtain node1 w2 where p: "publish E c node (Some (r\<lparr>rr_Components := cs\<rparr>)) ''failed to update static node component status'' err w1 = ((node1, None), w2)"
    and s: "snapshot_stage E c node1 (r\<lparr>rr_Components := cs\<rparr>) w2 = ((node', None), w')"
    using assms(1) rc by (auto simp: component_stage_def Let_def split: prod.split_asm option.split_asm)
  have err: "err = None" by (rule publish_done(1) [OF p])
  have "observed node \<noteq> []" using assms(2,3) by (auto simp: stale_names_def stale_of_def)
  then have "existingComponentStatusCount (Some node) \<noteq> 0"
    by (simp add: existingComponentStatusCount_def observed_def base_status_def zero_node_status_def split: option.split_asm)
  then obtain ss where cs: "cs = Some ss"
    using rc assms(2) by (auto simp: ReconcileComponents_def spec_of_def split: prod.split_asm if_split_asm)
  obtain stale rest where sr: "ss = stale @ rest" "list_all stopped_or_failed stale"
    "map cs_Name stale = map cs_Name (stale_of (set (map comp_Name (els (sns_Components spec)))) (observed node))"
    using ReconcileComponents_reports [OF rc [unfolded cs] assms(2)] err unfolding observed_def by metis
  have "n \<in> set (map cs_Name stale)" using sr(3) assms(2,3) by (simp add: stale_names_def)
  then obtain st where st: "st \<in> set ss" "cs_Name st = n" "\<not> cs_Ready st"
    using sr(1,2) by (auto simp: list_all_iff stopped_or_failed_def)
  obtain pre r' w3 where s': "publish E c node1 (Some r') ''failed to update static node device snapshot status'' None w3 = ((node', None), w')"
    "rr_Components r' = Some ss"
    using s cs by (auto simp: snapshot_stage_def split: prod.split_asm)
  note o = publish_observed [OF s'(1)]
  have "observed node' = ss" using o(2) s'(2) by simp
  moreover have "sn_Spec node' = Some spec" using o(1) publish_observed(1) [OF p] assms(2) by simp
  moreover have "n \<noteq> [] \<and> n \<notin> comp_Name ` set (els (sns_Components spec))"
    using assms(2,3) by (auto simp: stale_names_def stale_of_def)
  ultimately show ?thesis
    using st o(3) by (auto simp: stale_names_def stale_of_def allNodeComponentsReady_def list_all_iff)
qed

lemma warm_stage_stale:
  assumes "warm_stage E c runner dr node r w = ((node', None), w')" "sn_Spec node = Some spec" "n \<in> stale_names node" "rr_Components r = None"
  shows "sn_Spec node' = Some spec \<and> n \<in> stale_names node' \<and> sts_Phase (base_status (Some node')) \<noteq> StaticNodePhaseReady"
proof -
  obtain warm err w1 where rw: "ReconcileWarmImages (en_errors E) (Some node) dr w = ((warm, err), w1)" by (metis surj_pair)
  obtain node1 w2 where p: "publish E c node (Some (r\<lparr>rr_Warm := Some warm\<rparr>)) ''failed to update static node warm status'' err w1 = ((node1, None), w2)"
    and s: "component_stage E c runner dr node1 (r\<lparr>rr_Warm := Some warm\<rparr>) w2 = ((node', None), w')"
    using assms(1) rw by (auto simp: warm_stage_def Let_def split: prod.split_asm option.split_asm)
  have "sn_Spec node1 = Some spec" "n \<in> stale_names node1"
    using publish_observed(1,2) [OF p] assms(2-4) by (auto simp: stale_names_def)
  then show ?thesis by (rule component_stage_stale [OF s])
qed

lemma runtime_stage_stale:
  assumes "runtime_stage E c runner node r w = ((node', None), w')" "sn_Spec node = Some spec" "n \<in> stale_names node" "rr_Components r = None"
  shows "sn_Spec node' = Some spec \<and> n \<in> stale_names node' \<and> sts_Phase (base_status (Some node')) \<noteq> StaticNodePhaseReady"
  using assms(1) unfolding runtime_stage_def
  by (auto split: prod.split_asm sum.split_asm dest: publish_done(1) warm_stage_stale [OF _ assms(2-4)])

lemma accelerator_stage_stale:
  assumes "accelerator_stage E c runner node w = ((node', None), w')" "sn_Spec node = Some spec" "n \<in> stale_names node"
  shows "sn_Spec node' = Some spec \<and> n \<in> stale_names node' \<and> sts_Phase (base_status (Some node')) \<noteq> StaticNodePhaseReady"
proof -
  obtain node1 r w1 w2 m err where p: "publish E c node (Some r) m err w1 = ((node1, None), w2)" "rr_Components r = None"
    and s: "runtime_stage E c runner node1 r w2 = ((node', None), w')"
    using assms(1) by (auto simp: accelerator_stage_def Let_def empty_result_def split: prod.split_asm option.split_asm)
  have "sn_Spec node1 = Some spec" "n \<in> stale_names node1"
    using publish_observed(1,2) [OF p(1)] assms(2,3) p(2) by (auto simp: stale_names_def)
  then show ?thesis by (rule runtime_stage_stale [OF s _ _ p(2)])
qed

lemma node_reconcileNormal_stale:
  assumes "node_reconcileNormal E c node w = ((node', None), w')" "n \<in> stale_names node"
  shows "sn_Spec node' = sn_Spec node \<and> n \<in> stale_names node' \<and> sts_Phase (base_status (Some node')) \<noteq> StaticNodePhaseReady"
proof -
  obtain spec where spec: "sn_Spec node = Some spec"
    using assms(2) by (auto simp: stale_names_def split: option.split_asm)
  show ?thesis
    using assms(1) spec unfolding node_reconcileNormal_def
    by (auto split: prod.split_asm sum.split_asm dest: publish_done(1) accelerator_stage_stale [OF _ spec assms(2)])
qed

text \<open>Passes of the node controller without error, each over the object the one before wrote.\<close>

inductive clean_passes :: "'w environment \<Rightarrow> 'w node_controller \<Rightarrow> static_node \<Rightarrow> static_node \<Rightarrow> bool"
  for E :: "'w environment" and c :: "'w node_controller" and node :: static_node
where
  first_pass: "node_reconcileNormal E c node w = ((node', None), w') \<Longrightarrow> clean_passes E c node node'"
| next_pass: "clean_passes E c node node' \<Longrightarrow> node_reconcileNormal E c node' w = ((node'', None), w') \<Longrightarrow> clean_passes E c node node''"


text \<open>A head whose exporter is still observed but no longer specified.\<close>

definition sample_stale_node :: static_node where
  "sample_stale_node = sample_node ''h'' ''head'' None
     (Some (zero_node_status\<lparr>sts_Phase := ''Ready'', sts_Components := Some [sample_running ''exporter'']\<rparr>))"

lemma mem_publish:
  "fst (publish E (mem_node_controller a) n r m None w) =
     (n\<lparr>sn_Status := Some (BuildStatus (en_errors E) (en_now E w) (Some n) r None)\<rparr>, None)"
proof -
  have "fst (updateStaticNodeStatus (Some mem_store) (Some n) s w) = None" for s
    by (simp add: updateStaticNodeStatus_def mem_store_def)
  then show ?thesis
    by (simp add: publish_def updateStatus_def mem_node_controller_def split_beta)
qed

text \<open>On a host where every command succeeds, a pass over a node without components has no error.\<close>

lemma fixed_stop_loop:
  "snd (fst (stop_loop L \<lparr>dr_runner = fixed_runner (Inr a), dr_registryAuth = auth\<rparr> n D cs w)) = []"
  by (induction cs arbitrary: w) (simp_all add: split_beta RemoveContainer_def fixed_runner_def)

lemma fixed_NewDockerRuntime:
  "NewDockerRuntime L (fixed_runner (Inr a)) None w = (Inr \<lparr>dr_runner = fixed_runner (Inr a), dr_registryAuth = None\<rparr>, w)"
  by (simp add: NewDockerRuntime_def EnsureDockerConfigDir_def EnsureRegistryAuth_def configured_def fixed_runner_def)

lemma fixed_ReconcileComponents:
  assumes "sn_Spec node = Some spec" "els (sns_Components spec) = []"
  shows "snd (fst (ReconcileComponents L h r (Some node) (Some (fixed_runner (Inr a))) d w)) = None"
  using assms
  by (simp add: ReconcileComponents_def spec_of_def stopStaleComponents_def fixed_NewDockerRuntime fixed_stop_loop split_beta
      NewAggregate_def split: option.split)

lemma mem_component_stage:
  assumes "sn_Spec node = Some spec" "els (sns_Components spec) = []"
  shows "snd (fst (component_stage E (mem_node_controller (Inr a)) (fixed_runner (Inr a)) d node r w)) = None"
  by (simp add: fixed_ReconcileComponents [OF assms] component_stage_def snapshot_stage_def Let_def split_beta mem_publish)

lemma mem_warm_stage:
  assumes "sn_Spec node = Some spec" "els (sns_Components spec) = []" "sns_Warm spec = None"
  shows "snd (fst (warm_stage E (mem_node_controller (Inr a)) (fixed_runner (Inr a)) d node r w)) = None"
  using assms mem_component_stage
  by (simp add: warm_stage_def ReconcileWarmImages_def spec_of_def Let_def split_beta mem_publish)

lemma mem_node_reconcileNormal:
  assumes "sn_Spec node = Some spec" "els (sns_Components spec) = []" "sns_Warm spec = None" "db_parents w = []"
  shows "snd (fst (node_reconcileNormal E (mem_node_controller (Inr a)) node w)) = None"
proof -
  have f: "nc_runnerFactory (mem_node_controller (Inr a)) n w = (Inr (fixed_runner (Inr a)), w)"
    "nc_reconciler (mem_node_controller (Inr a)) = None" "nc_storage (mem_node_controller (Inr a)) = mem_store" for n w
    by (simp_all add: mem_node_controller_def)
  have acc: "\<exists>x. ReconcileAccelerator None (Some n) w = (Inr x, w)" for n and w :: db
    by (simp add: ReconcileAccelerator_def Let_def)
  have db: "db_parents (snd (publish E (mem_node_controller (Inr a)) n r m e w)) = db_parents w" for n r m e w
    by (simp add: publish_def updateStatus_def updateStaticNodeStatus_def f mem_store_def split_beta)
  have auth: "registryAuth p (mem_node_controller (Inr a)) n w = (Inr None, w)" if "db_parents w = []" for p n w
    using that by (simp add: registryAuth_def f mem_store_def split: option.split)
  obtain x where x: "ReconcileAccelerator None (Some node) w = (Inr x, w)" using acc by blast
  let ?r = "empty_result\<lparr>rr_Accelerator := x\<rparr>"
  let ?p = "publish E (mem_node_controller (Inr a)) node (Some ?r) ''failed to update static node accelerator status'' None w"
  have p: "snd (fst ?p) = None" "sn_Spec (fst (fst ?p)) = sn_Spec node"
    by (simp_all add: mem_publish)
  have "snd (fst (runtime_stage E (mem_node_controller (Inr a)) (fixed_runner (Inr a)) (fst (fst ?p)) ?r (snd ?p))) = None"
    using mem_warm_stage [of "fst (fst ?p)" spec] assms
    by (simp add: runtime_stage_def auth db fixed_NewDockerRuntime p)
  then show ?thesis
    by (simp add: node_reconcileNormal_def f accelerator_stage_def x Let_def split_beta p)
qed

lemma sample_stale_names: "''exporter'' \<in> stale_names sample_stale_node"
  by (simp add: stale_names_def sample_stale_node_def sample_node_def stale_of_def observed_def base_status_def status_of_def
      sample_running_def zero_component_status_def)


text \<open>
  C27: a component can be forgotten while it runs. When the Docker runtime for stopping stale components
  cannot be set up, the pass fails, but its statuses, which replace those of the node, have no entry
  for a component outside the specification, and no container is removed: the next pass has nothing
  left to stop.
\<close>

theorem stale_component_forgotten:
  assumes "fst (NewDockerRuntime L runner None w) = Inl e" and "sn_Spec node = Some spec" and "observed node \<noteq> []"
    and "ReconcileComponents L http r (Some node) (Some runner) docker w = ((Some ss, err), w')"
    and "node' = node\<lparr>sn_Status := Some (BuildStatus L now (Some node) (Some (result\<lparr>rr_Components := Some ss\<rparr>)) err)\<rparr>"
  shows "err \<noteq> None \<and> list_all2 reports (els (sns_Components spec)) ss \<and> stale_names node' = {}"
proof -
  obtain st where st: "sn_Status node = Some st" "els (sts_Components st) \<noteq> []"
    using assms(3) by (auto simp: observed_def base_status_def status_of_def zero_node_status_def split: option.split_asm)
  have stop: "fst (stopStaleComponents L (Some node) runner w) = ([], [e])"
    using assms(1,2) st by (simp add: stopStaleComponents_def spec_of_def status_of_def split_beta)
  let ?loop = "component_loop L http r (Some node) runner (cr_Files runner) docker (els (sns_Components spec)) (snd (stopStaleComponents L (Some node) runner w))"
  have e: "ss = fst (fst ?loop)" "err = NewAggregate (e # snd (fst ?loop))"
    using assms(2,4) stop by (auto simp: ReconcileComponents_def spec_of_def split_beta split: if_split_asm)
  have r: "list_all2 reports (els (sns_Components spec)) ss"
    using component_loop_reports [of L http r "Some node" runner "cr_Files runner" docker "els (sns_Components spec)"] e(1) by (metis prod.collapse)
  have "cs_Name s \<in> comp_Name ` set (els (sns_Components spec))" if "s \<in> set ss" for s
    using list_all2_in [OF r that] by (auto simp: reports_def)
  moreover have "observed node' = ss"
    by (simp add: assms(5) observed_def base_status_def status_of_def observed_components_def merge_result_def)
  ultimately show ?thesis
    using e(2) r assms(2,5) by (auto simp: stale_names_def stale_of_def NewAggregate_def)
qed

definition sample_http :: "'w http_client" where
  "sample_http u t w = (Inl (ErrNew ''no host''), w)"

definition sample_docker :: "'w docker_runtime" where
  "sample_docker = \<lparr>dr_runner = fixed_runner (Inl (ErrNew ''down'')), dr_registryAuth = None\<rparr>"

theorem stale_component_forgotten_witness:
  "''exporter'' \<in> stale_names sample_stale_node \<and>
   (\<exists>err. ReconcileComponents plain_errors sample_http None (Some sample_stale_node)
       (Some (fixed_runner (Inl (ErrNew ''disk full'')))) sample_docker () = ((Some [], err), ()) \<and>
     stale_names (sample_stale_node\<lparr>sn_Status := Some (BuildStatus plain_errors ''t'' (Some sample_stale_node)
       (Some (empty_result\<lparr>rr_Components := Some []\<rparr>)) err)\<rparr>) = {})"
proof -
  let ?R = "fixed_runner (Inl (ErrNew ''disk full''))"
  have d: "fst (NewDockerRuntime plain_errors ?R None ()) = Inl (dockerError componentReasonDockerConfigFailed
       (''failed to create docker config dir '' @ DockerConfigHostDir) (Some (ErrNew ''disk full'')))"
    by (simp add: NewDockerRuntime_def EnsureDockerConfigDir_def fixed_runner_def split_beta)
  have o: "observed sample_stale_node \<noteq> []"
    by (simp add: observed_def base_status_def status_of_def sample_stale_node_def sample_node_def)
  obtain spec where spec: "sn_Spec sample_stale_node = Some spec" "els (sns_Components spec) = []"
    by (simp add: sample_stale_node_def sample_node_def)
  obtain err where r: "ReconcileComponents plain_errors sample_http None (Some sample_stale_node) (Some ?R) sample_docker () = ((Some [], err), ())"
    using d o spec
    by (simp add: ReconcileComponents_def spec_of_def stopStaleComponents_def status_of_def observed_def base_status_def
        existingComponentStatusCount_def zero_node_status_def split_beta split: option.split_asm option.split)
  show ?thesis
    using stale_component_forgotten [OF d spec(1) o r refl] r sample_stale_names by blast
qed

section \<open>Deletion\<close>

text \<open>What a deletion asks the host to do.\<close>

definition component_cleanup :: "static_node \<Rightarrow> node_component_spec \<Rightarrow> string list" where
  "component_cleanup node c = remove_command (componentContainerName (Some node) c) #
     map (\<lambda>f. ''remove '' @ cf_Path f) (els (comp_ConfigFiles c))"

definition node_cleanup :: "static_node \<Rightarrow> string list" where
  "node_cleanup node = concat (map (component_cleanup node) (staticNodeDeleteComponents (Some node))) @
     (if removeClusterLabeledComponentContainersCommand (Some node) \<noteq> [] then [removeClusterLabeledComponentContainersCommand (Some node)] else []) @
     [''sudo rm -rf /etc/neutree'']"

lemma log_remove_files:
  "remove_files (log_files f) es fs w =
     (es @ concat (map (\<lambda>c. case f (''remove '' @ cf_Path c) of Inl e \<Rightarrow> [ErrWrap e (''failed to remove config file '' @ cf_Path c)] | Inr _ \<Rightarrow> []) fs),
      w @ map (\<lambda>c. ''remove '' @ cf_Path c) fs)"
  by (induction fs arbitrary: es w) (simp_all add: log_files_def split: sum.split)

lemma log_removeComponentConfigFiles:
  "snd (removeComponentConfigFiles (cr_Files (log_runner f)) c w) = w @ map (\<lambda>c. ''remove '' @ cf_Path c) (els (comp_ConfigFiles c))"
  "fst (removeComponentConfigFiles (cr_Files (log_runner f)) c w) = None \<longleftrightarrow>
     list_all (\<lambda>x. \<not> isl (f x)) (map (\<lambda>c. ''remove '' @ cf_Path c) (els (comp_ConfigFiles c)))"
  by (auto simp: list_all_iff removeComponentConfigFiles_def fileClient_def log_runner_def log_remove_files isl_def split: sum.splits)

lemma log_delete_loop:
  "snd (delete_loop (log_runner f) (Some node) cs w) = w @ concat (map (component_cleanup node) cs)"
  "fst (delete_loop (log_runner f) (Some node) cs w) = [] \<longleftrightarrow> list_all (\<lambda>x. \<not> isl (f x)) (concat (map (component_cleanup node) cs))"
proof (induction cs arbitrary: w)
  case (Cons c cs)
  { case 1 show ?case by (simp add: Let_def split_beta Cons.IH log_removeComponentConfigFiles component_cleanup_def) }
  { case 2 show ?case
      using log_removeComponentConfigFiles(2) [of f c "w @ [remove_command (componentContainerName (Some node) c)]"]
      by (cases "f (remove_command (componentContainerName (Some node) c))")
         (auto simp: Let_def split_beta Cons.IH component_cleanup_def split: option.splits) }
qed simp_all

text \<open>
  C28: a deletion attempts the whole cleanup. Whatever fails, the host is asked to remove the container
  and the files of every component the node has or had, then every container of the cluster and the
  data directory, in this order; the deletion succeeds exactly if each of these steps did.
\<close>

theorem Delete_attempts_everything:
  assumes "sn_Spec node = Some spec"
  shows "snd (Delete (Some node) (Some (log_runner f)) done_before) = done_before @ node_cleanup node \<and>
    (fst (Delete (Some node) (Some (log_runner f)) done_before) = None \<longleftrightarrow> list_all (\<lambda>x. \<not> isl (f x)) (node_cleanup node))"
  using assms log_delete_loop [of f node "staticNodeDeleteComponents (Some node)" done_before]
  by (auto simp: Delete_def spec_of_def Let_def split_beta node_cleanup_def isl_def split: sum.splits)


section \<open>Examples\<close>

definition waiting_reconciler :: "'w reconciler" where
  "waiting_reconciler = \<lparr>rec_AcceleratorManager = None, rec_HeadReadyChecker = Some (\<lambda>n w. (Inr False, w)), rec_NodeDeviceSnapshotClient = None\<rparr>"

text \<open>A worker that has a \<open>ray-worker\<close> to run and an exporter to stop.\<close>

definition sample_changed_worker :: static_node where
  "sample_changed_worker = sample_node ''w'' ''worker'' (Some [sample_comp ''ray-worker'']) (Some (sample_status None (sample_running ''exporter'')))"

lemma fixed_RemoveContainer: "RemoveContainer \<lparr>dr_runner = fixed_runner (Inr a), dr_registryAuth = auth\<rparr> n w = (None, w)"
  by (simp add: RemoveContainer_def fixed_runner_def)

lemma sample_changed_pass:
  "\<exists>ss. ReconcileComponents plain_errors sample_http (Some waiting_reconciler) (Some sample_changed_worker) (Some (fixed_runner (Inr []))) sample_docker () =
     ((Some ss, None), ())"
  by (simp add: ReconcileComponents_def spec_of_def status_of_def sample_changed_worker_def sample_node_def sample_status_def stopStaleComponents_def
      fixed_NewDockerRuntime fixed_RemoveContainer waiting_reconciler_def reconcileComponent_def shouldWaitForHead_def Let_def NewAggregate_def
      split_beta)

theorem ReconcileComponents_statuses_witness:
  "\<exists>s t. fst (ReconcileComponents plain_errors sample_http (Some waiting_reconciler) (Some sample_changed_worker) (Some (fixed_runner (Inr []))) sample_docker ()) =
     (Some [s, t], None) \<and> cs_Name s = ''exporter'' \<and> stopped_or_failed s \<and> reports (sample_comp ''ray-worker'') t"
proof -
  obtain ss where r: "ReconcileComponents plain_errors sample_http (Some waiting_reconciler) (Some sample_changed_worker) (Some (fixed_runner (Inr []))) sample_docker () =
      ((Some ss, None), ())"
    using sample_changed_pass by blast
  have spec: "sn_Spec sample_changed_worker = Some (the (sn_Spec sample_changed_worker))"
    "els (sns_Components (the (sn_Spec sample_changed_worker))) = [sample_comp ''ray-worker'']"
    by (simp_all add: sample_changed_worker_def sample_node_def)
  have o: "els (sts_Components (base_status (Some sample_changed_worker))) = [sample_running ''exporter'']"
    by (simp add: base_status_def status_of_def sample_changed_worker_def sample_node_def sample_status_def)
  show ?thesis
    using ReconcileComponents_statuses [OF r spec(1)] spec(2) r
    by (auto simp: o stale_of_def sample_comp_def sample_running_def zero_component_def zero_component_status_def list_all2_Cons1)
qed

theorem worker_waits_for_head_witness:
  "\<exists>s. ReconcileComponents plain_errors sample_http (Some waiting_reconciler) (Some (sample_node ''w'' ''worker'' (Some [sample_comp ''ray-worker'']) None))
       (Some (log_runner (\<lambda>c. Inl (ErrNew ''down'')))) sample_docker [] = ((Some [s], None), []) \<and> cs_Phase s = NodeComponentPhasePending"
proof -
  let ?n = "sample_node ''w'' ''worker'' (Some [sample_comp ''ray-worker'']) None" and ?R = "log_runner (\<lambda>c. Inl (ErrNew ''down''))"
  have r: "ReconcileComponents plain_errors sample_http (Some waiting_reconciler) (Some ?n) (Some ?R) sample_docker [] =
     ((Some [component_outcome NodeComponentPhasePending componentReasonHeadPending ''head static node is not ready''
         (component_status_init (sample_comp ''ray-worker''))], None), [])"
    by (simp add: ReconcileComponents_def spec_of_def status_of_def sample_node_def stopStaleComponents_def waiting_reconciler_def
        reconcileComponent_def shouldWaitForHead_def Let_def NewAggregate_def)
  have "sn_Spec ?n = Some (the (sn_Spec ?n))" "sns_Role (the (sn_Spec ?n)) = StaticNodeRoleWorker"
    "rec_HeadReadyChecker waiting_reconciler = Some (\<lambda>n w. (Inr False, w))"
    by (simp_all add: sample_node_def waiting_reconciler_def)
  note w = worker_waits_for_head [OF this _ refl r]
  show ?thesis using w [of sample_http sample_docker] by auto
qed

theorem Delete_attempts_everything_witness:
  "snd (Delete (Some sample_stale_node) (Some (log_runner (\<lambda>c. Inl (ErrNew ''down'')))) [''before'']) =
     ''before'' # node_cleanup sample_stale_node \<and>
   fst (Delete (Some sample_stale_node) (Some (log_runner (\<lambda>c. Inl (ErrNew ''down'')))) [''before'']) \<noteq> None"
proof -
  have "sn_Spec sample_stale_node = Some (the (sn_Spec sample_stale_node))"
    by (simp add: sample_stale_node_def sample_node_def)
  from Delete_attempts_everything [OF this, of "\<lambda>c. Inl (ErrNew ''down'')" "[''before'']"]
  show ?thesis by (auto simp: node_cleanup_def)
qed

end
