(* ===== verification/Node_Residue.thy ===== *)
theory Node_Residue
  imports Node_Props
begin

text \<open>
  What a pass of the node controller leaves on the machine it runs on: no temporary file of an upload
  and no temporary directory of a private key (\<open>pkg/command_runner/file_client.go\<close>,
  \<open>internal/util/ssh_key.go\<close>, \<open>internal/cluster/staticnode/runner.go\<close>, \<open>controllers/static_node_controller.go\<close>).
\<close>



section \<open>Laws of the operating system\<close>

text \<open>Temporary files and temporary directories, and that each operation touches only its own kind.\<close>

definition os_laws :: "'w os \<Rightarrow> ('w \<Rightarrow> string set) \<Rightarrow> ('w \<Rightarrow> string set) \<Rightarrow> bool" where
  "os_laws OS temps dirs \<longleftrightarrow> temp_laws OS temps \<and> dir_laws OS dirs \<and> quiet_execute dirs OS \<and>
     (\<forall>d p. keeps dirs (os_CreateTemp OS d p)) \<and> (\<forall>n c. keeps dirs (os_Write OS n c)) \<and> (\<forall>n. keeps dirs (os_Close OS n)) \<and>
     (\<forall>n w. dirs (os_Remove OS n w) = dirs w) \<and>
     (\<forall>d p. keeps temps (os_MkdirTemp OS d p)) \<and> (\<forall>n c. keeps temps (os_WriteFile OS n c)) \<and> (\<forall>d. keeps temps (os_RemoveAll OS d))"

lemma writeFile_dirs:
  assumes "os_laws OS temps dirs"
  shows "dirs (snd (writeFile OS L s p c opts w)) = dirs w"
proof -
  have k: "dirs (snd (os_CreateTemp OS d p w)) = dirs w" "dirs (snd (os_Write OS n c w)) = dirs w" "dirs (snd (os_Close OS n w)) = dirs w"
    "dirs (os_Remove OS n w) = dirs w" "quiet_execute dirs OS" for d p n c w
    using assms by (simp_all add: os_laws_def keeps_def)
  have "dirs (snd (writeTempFile OS c w)) = dirs w" for c w
    by (simp add: writeTempFile_def split_beta k split: sum.split option.split)
  then show ?thesis
    by (simp add: writeFile_def split_beta k write_uploaded_quiet split: sum.split)
qed

lemma ssh_runner_quiet:
  assumes l: "os_laws OS temps dirs"
  shows "quiet_runner (both temps dirs) (staticNodeSSHRunner OS L s d)"
proof -
  have t: "temp_laws OS temps" and q: "quiet_execute temps OS" "quiet_execute dirs OS"
    using l temp_quiet by (auto simp: os_laws_def)
  have "temps (snd (WriteFileIfChanged OS L s p c m w)) = temps w" "dirs (snd (WriteFileIfChanged OS L s p c m w)) = dirs w" for p c m w
    using WriteFileIfChanged_quiet [OF q(1) writeFile_temps [OF t]] WriteFileIfChanged_quiet [OF q(2) writeFile_dirs [OF l]] by auto
  then show ?thesis
    by (simp add: quiet_runner_def quiet_files_def keeps_def both_def staticNodeSSHRunner_def Files_def
        Run_quiet [OF q(1)] Run_quiet [OF q(2)] Remove_quiet [OF q(1)] Remove_quiet [OF q(2)])
qed

text \<open>An operating system whose files can be written and directories removed.\<close>

definition os_works :: "'w os \<Rightarrow> bool" where
  "os_works OS \<longleftrightarrow> (\<forall>n c w. fst (os_WriteFile OS n c w) = None) \<and> (\<forall>d w. fst (os_RemoveAll OS d w) = None)"

lemma GenerateTmpSSHKeyFile_fails:
  assumes "os_laws OS temps dirs" "os_works OS" "fst (GenerateTmpSSHKeyFile OS key w) = Inl e"
  shows "dirs (snd (GenerateTmpSSHKeyFile OS key w)) = dirs w"
proof -
  have d: "case fst (os_MkdirTemp OS [] p w) of Inl _ \<Rightarrow> dirs (snd (os_MkdirTemp OS [] p w)) = dirs w | Inr d \<Rightarrow> True" for p
  proof -
    have "case fst (os_MkdirTemp OS [] p w) of Inl _ \<Rightarrow> dirs (snd (os_MkdirTemp OS [] p w)) = dirs w
        | Inr d \<Rightarrow> dir_path d \<and> d \<notin> dirs w \<and> dirs (snd (os_MkdirTemp OS [] p w)) = insert d (dirs w)"
      using assms(1) unfolding os_laws_def dir_laws_def by (elim conjE allE)
    then show ?thesis by (simp split: sum.splits)
  qed
  have wr: "fst (os_WriteFile OS n c w) = None" for n c w using assms(2) by (simp add: os_works_def)
  show ?thesis
    using assms(3) d [of "''ssh-key-''"]
    by (simp add: GenerateTmpSSHKeyFile_def Let_def split_beta wr split: option.split_asm sum.split_asm)
qed

lemma GenerateTmpSSHKeyFile_temps:
  assumes "os_laws OS temps dirs"
  shows "temps (snd (GenerateTmpSSHKeyFile OS key w)) = temps w"
  using assms by (auto simp: GenerateTmpSSHKeyFile_def Let_def split_beta os_laws_def keeps_def split: option.split sum.split)

text \<open>The life of a runner, from its creation to its end.\<close>

lemma runner_scope:
  assumes l: "os_laws OS temps dirs" and ok: "os_works OS" and r: "NewStaticNodeRunner OS L cp (Some node) w = (Inr R, w1)"
  shows "quiet_runner (both temps dirs) R"
    and "both temps dirs w2 = both temps dirs w1 \<Longrightarrow> both temps dirs (snd (cr_Close R w2)) = both temps dirs w"
proof -
  have dl: "dir_laws OS dirs" using l by (simp add: os_laws_def)
  obtain spec a where s: "sn_Spec node = Some spec" "staticNodeSSHAuth spec = Inr a"
    using r by (auto simp: NewStaticNodeRunner_def split: option.splits if_splits sum.splits)
  obtain runner d where R: "R = staticNodeSSHRunner OS L runner d"
    using r s by (auto simp: NewStaticNodeRunner_def split: if_splits prod.splits sum.splits)
  show "quiet_runner (both temps dirs) R" unfolding R by (rule ssh_runner_quiet [OF l])
  have t: "temps w1 = temps w"
    using r s GenerateTmpSSHKeyFile_temps [OF l, of "auth_SSHPrivateKey a" w]
    by (auto simp: NewStaticNodeRunner_def split: if_splits prod.splits sum.splits)
  have c: "fst (cr_Close R w2) = None" "temps (snd (cr_Close R w2)) = temps w2"
    using l ok by (simp_all add: R staticNodeSSHRunner_def Close_def os_works_def os_laws_def keeps_def)
  assume "both temps dirs w2 = both temps dirs w1"
  then have e: "temps w2 = temps w1" "dirs w2 = dirs w1" by (simp_all add: both_def)
  have "dirs (snd (cr_Close R w2)) = dirs w"
    by (rule close_removes_key [OF dl r e(2) c(1)])
  then show "both temps dirs (snd (cr_Close R w2)) = both temps dirs w"
    using c(2) e(1) t by (simp add: both_def)
qed

lemma no_runner:
  assumes "os_laws OS temps dirs" "os_works OS" "fst (NewStaticNodeRunner OS L cp (Some node) w) = Inl e"
  shows "both temps dirs (snd (NewStaticNodeRunner OS L cp (Some node) w)) = both temps dirs w"
proof -
  have "dirs (snd (GenerateTmpSSHKeyFile OS key w)) = dirs w" if "fst (GenerateTmpSSHKeyFile OS key w) = Inl e'" for key e'
    by (rule GenerateTmpSSHKeyFile_fails [OF assms(1,2) that])
  then show ?thesis
    using assms(3) GenerateTmpSSHKeyFile_temps [OF assms(1)]
    by (simp add: NewStaticNodeRunner_def split_beta both_def split: option.split_asm if_split_asm sum.split_asm)
qed

text \<open>
  C29: a pass of the node controller leaves nothing of the private key behind. Over SSH, whatever the
  node is and whatever fails on its host, in the storage or on the network, the temporary files and
  directories of the controller's machine after the pass are those before it, provided that machine
  can write the key file and remove the directory.
\<close>

theorem node_pass_leaves_nothing:
  assumes "os_laws OS temps dirs" and "os_works OS" and "nc_runnerFactory c = (\<lambda>n. NewStaticNodeRunner OS L controlPath (Some n))"
    and "quiet_storage (both temps dirs) (nc_storage c)" and "\<forall>i. keeps (both temps dirs) (st_DeleteStaticNode (nc_storage c) i)"
    and "quiet_http (both temps dirs) (en_http E)" and "pred_option (quiet_reconciler (both temps dirs)) (nc_reconciler c)"
  shows "temps (snd (node_sync E c (Some node) w)) = temps w \<and> dirs (snd (node_sync E c (Some node) w)) = dirs w"
proof -
  let ?tab = "both temps dirs"
  let ?f = "NewStaticNodeRunner OS L controlPath (Some node) w"
  have h: "?tab (snd (hardDeleteStaticNode (Some (nc_storage c)) (Some node) w)) = ?tab w" for w
    using assms(5) by (simp add: hardDeleteStaticNode_def keeps_def)
  have q: "quiet_host ?tab E c"
    using assms(3,6,7) runner_scope(1) [OF assms(1,2)] by (auto simp: quiet_host_def) (metis prod.collapse)
  note p = quiet_publish [OF assms(4), of E]
  have "?tab (snd (node_sync E c (Some node) w)) = ?tab w"
  proof (cases "fst ?f")
    case (Inl e)
    then have f: "?f = (Inl e, snd ?f)" by (metis prod.collapse)
    show ?thesis
      using no_runner [OF assms(1,2) Inl] Inl h p
      by (simp add: node_sync_def node_reconcileDelete_def node_reconcileNormal_def assms(3) split_beta Let_def)
  next
    case (Inr R)
    then have f: "?f = (Inr R, snd ?f)" by (metis prod.collapse)
    note sc = runner_scope [OF assms(1,2) f]
    have close: "?tab (closeStaticNodeRunner R w2) = ?tab w" if "?tab w2 = ?tab (snd ?f)" for w2
      using sc(2) [OF that] by (simp add: closeStaticNodeRunner_def)
    have "?tab (snd (Delete (Some node) (Some R) (snd ?f))) = ?tab (snd ?f)" by (rule quiet_Delete [OF sc(1)])
    moreover have "?tab (snd (accelerator_stage E c R node (snd ?f))) = ?tab (snd ?f)"
      by (rule quiet_accelerator_stage [OF assms(4) q sc(1)])
    ultimately show ?thesis
      using Inr close h p
      by (simp add: node_sync_def node_reconcileDelete_def node_reconcileNormal_def assms(3) split_beta Let_def split: option.split)
  qed
  then show ?thesis by (simp add: both_def)
qed

text \<open>A controller's machine: tables, temporary files and temporary directories.\<close>

record machine = db +
  m_temps :: "string list"
  m_dirs :: "string list"

definition on_temps :: "(string list \<Rightarrow> 'a \<times> string list) \<Rightarrow> machine \<Rightarrow> 'a \<times> machine" where
  "on_temps f w = (fst (f (m_temps w)), w\<lparr>m_temps := snd (f (m_temps w))\<rparr>)"

definition on_dirs :: "(string list \<Rightarrow> 'a \<times> string list) \<Rightarrow> machine \<Rightarrow> 'a \<times> machine" where
  "on_dirs f w = (fst (f (m_dirs w)), w\<lparr>m_dirs := snd (f (m_dirs w))\<rparr>)"

definition machine_os :: "machine os" where
  "machine_os = \<lparr>os_Execute = \<lambda>c as. on_temps (os_Execute temp_os c as),
     os_CreateTemp = \<lambda>d p. on_temps (os_CreateTemp temp_os d p), os_Write = \<lambda>n c. on_temps (os_Write temp_os n c),
     os_Close = \<lambda>n. on_temps (os_Close temp_os n), os_Remove = \<lambda>n w. w\<lparr>m_temps := os_Remove temp_os n (m_temps w)\<rparr>,
     os_MkdirTemp = \<lambda>d p. on_dirs (os_MkdirTemp (dirs_os None) d p),
     os_WriteFile = \<lambda>n c. on_dirs (os_WriteFile (dirs_os None) n c), os_RemoveAll = \<lambda>d. on_dirs (os_RemoveAll (dirs_os None) d)\<rparr>"

lemmas on_machine = on_temps_def on_dirs_def machine_os_def

lemma machine_os_laws: "os_laws machine_os (\<lambda>w. set (m_temps w)) (\<lambda>w. set (m_dirs w))"
proof -
  have "temp_laws machine_os (\<lambda>w. set (m_temps w))"
    using temp_os_fresh by (simp add: temp_laws_def on_machine temp_os_def)
  moreover have "dir_laws machine_os (\<lambda>w. set (m_dirs w))"
    using dirs_os_laws [of None] by (simp add: dir_laws_def on_machine dirs_os_def)
  ultimately show ?thesis by (simp add: os_laws_def keeps_def quiet_execute_def on_machine)
qed

definition machine_controller :: "machine node_controller" where
  "machine_controller = \<lparr>nc_storage = mem_store,
     nc_runnerFactory = \<lambda>n. NewStaticNodeRunner machine_os plain_errors [] (Some n), nc_reconciler = None\<rparr>"

lemma machine_quiet:
  "quiet_storage (both (\<lambda>w. set (m_temps w)) (\<lambda>w. set (m_dirs w))) mem_store"
  "keeps (both (\<lambda>w. set (m_temps w)) (\<lambda>w. set (m_dirs w))) (st_DeleteStaticNode mem_store i)"
  by (simp_all add: quiet_storage_def keeps_def both_def mem_store_def updateStaticNodeStatus_def split_beta split: option.split)

theorem node_pass_leaves_nothing_witness:
  "\<exists>w'. w' = snd (node_sync sample_node_env machine_controller (Some sample_keyed_node)
       \<lparr>db_nodes = [sample_keyed_node], db_clusters = [], db_parents = [], db_registries = [], m_temps = [''t''], m_dirs = [''/x'']\<rparr>) \<and>
     set (m_temps w') = {''t''} \<and> set (m_dirs w') = {''/x''}"
proof -
  have ok: "os_works machine_os" by (simp add: os_works_def on_machine dirs_os_def)
  have f: "nc_runnerFactory machine_controller = (\<lambda>n. NewStaticNodeRunner machine_os plain_errors [] (Some n))"
    "nc_storage machine_controller = mem_store" "nc_reconciler machine_controller = None"
    by (simp_all add: machine_controller_def)
  have h: "quiet_http tab (en_http sample_node_env)" for tab :: "machine \<Rightarrow> string set \<times> string set"
    by (simp add: sample_node_env_def quiet_http_def keeps_def)
  show ?thesis
    using node_pass_leaves_nothing [OF machine_os_laws ok f(1), of sample_node_env sample_keyed_node
      "\<lparr>db_nodes = [sample_keyed_node], db_clusters = [], db_parents = [], db_registries = [], m_temps = [''t''], m_dirs = [''/x'']\<rparr>"]
    by (simp add: f(2,3) h machine_quiet)
qed

end
