(* ===== verification/System.thy ===== *)
theory System
  imports Node_Tables
begin

text \<open>
  The two controllers together: every run keeps the table of nodes well formed, and the deletion of a
  cluster goes through.
\<close>

section \<open>Deletion\<close>

definition reliable :: "'w store \<Rightarrow> bool" where
  "reliable S \<longleftrightarrow> (\<forall>fs w. \<not> isl (fst (st_ListStaticNode S fs w))) \<and>
     (\<forall>i p w. fst (st_UpdateStaticNode S i p w) = None) \<and> (\<forall>i w. fst (st_DeleteStaticNode S i w) = None) \<and>
     (\<forall>i w. fst (st_DeleteStaticNodeCluster S i w) = None)"

definition marked :: "('w \<Rightarrow> node_row list) \<Rightarrow> 'w \<Rightarrow> string \<Rightarrow> bool" where
  "marked N w i \<longleftrightarrow> (\<forall>r \<in> set (N w). nr_id r = i \<longrightarrow> nr_deleting r)"

lemma marked_cong: "N w' = N w \<Longrightarrow> marked N w' = marked N w"
  by (simp add: marked_def fun_eq_iff)

lemma softDeleteStaticNode_marks:
  assumes t: "tables S N C" and r: "reliable S" and now: "now \<noteq> []"
  shows "fst (softDeleteStaticNode now (Some S) (Some n) w) = None"
    and "marked N (snd (softDeleteStaticNode now (Some S) (Some n) w)) (StaticNode_GetID n)"
    and "marked N w i \<Longrightarrow> marked N (snd (softDeleteStaticNode now (Some S) (Some n) w)) i"
proof -
  obtain n' where n': "softDeleteStaticNode now (Some S) (Some n) w =
      st_UpdateStaticNode S (StaticNode_GetID n) (staticNodeMetadataUpdate n') w"
    and d: "meta_DeletionTimestamp (sn_Metadata n') \<noteq> []"
    using now softDelete_update by metis
  show s: "fst (softDeleteStaticNode now (Some S) (Some n) w) = None"
    using r by (simp add: n' reliable_def)
  have rows: "N (snd (softDeleteStaticNode now (Some S) (Some n) w)) =
      map (\<lambda>r. if nr_id r = StaticNode_GetID n then patch_row (staticNodeMetadataUpdate n') r else r) (N w)"
    using tables_update(3) [OF t] s by (simp add: n')
  have p: "nr_deleting (patch_row (staticNodeMetadataUpdate n') r)" for r
    using d by (simp add: patch_row_def staticNodeMetadataUpdate_def)
  show "marked N (snd (softDeleteStaticNode now (Some S) (Some n) w)) (StaticNode_GetID n)"
    and "marked N w i \<Longrightarrow> marked N (snd (softDeleteStaticNode now (Some S) (Some n) w)) i"
    using p by (auto simp: marked_def rows)
qed

lemma force_marked_id [simp]: "StaticNode_GetID (force_marked n) = StaticNode_GetID n"
  by (simp add: force_marked_def StaticNode_GetID_def)

lemma mark_loop_marks:
  assumes t: "tables S N C" and r: "reliable S" and now: "\<forall>w. now w \<noteq> []"
  shows "\<forall>n \<in> set ns. meta_DeletionTimestamp (sn_Metadata n) \<noteq> [] \<longrightarrow> marked N w (StaticNode_GetID n) \<Longrightarrow>
    fst (mark_loop now S force ns w) = None \<and>
    (\<forall>n \<in> set ns. marked N (snd (mark_loop now S force ns w)) (StaticNode_GetID n)) \<and>
    (\<forall>i. marked N w i \<longrightarrow> marked N (snd (mark_loop now S force ns w)) i)"
proof (induction ns arbitrary: w)
  case (Cons n ns)
  note m = softDeleteStaticNode_marks [OF t r now [rule_format, of w], where w = w]
  let ?w = "\<lambda>m. snd (softDeleteStaticNode (now w) (Some S) (Some m) w)"
  have go: "\<forall>m \<in> set ns. meta_DeletionTimestamp (sn_Metadata m) \<noteq> [] \<longrightarrow> marked N (?w n') (StaticNode_GetID m)" for n'
    using Cons.prems m(3) by auto
  have k: "fst (mark_loop now S force ns (?w n')) = None \<and>
     (\<forall>m \<in> set ns. marked N (snd (mark_loop now S force ns (?w n'))) (StaticNode_GetID m)) \<and>
     marked N (snd (mark_loop now S force ns (?w n'))) (StaticNode_GetID n') \<and>
     (\<forall>i. marked N w i \<longrightarrow> marked N (snd (mark_loop now S force ns (?w n'))) i)" for n'
    using Cons.IH [OF go [of n']] m(2,3) by auto
  show ?case
    using k [of n] k [of "force_marked n"] m(1) [of n] m(1) [of "force_marked n"] Cons.IH [of w] Cons.prems
    by (auto simp: split_beta)
qed simp

lemma reliable_ListByCluster: "reliable S \<Longrightarrow> \<exists>ns. fst (ListByCluster S ws cl w) = Inr ns"
  by (auto simp: reliable_def ListByCluster_def split_beta isl_def split: sum.split)

text \<open>Marking changes neither the identity nor the owner of a row.\<close>

definition ownership :: "node_row list \<Rightarrow> ((string \<times> string \<times> string) \<times> string) list" where
  "ownership rows = map (\<lambda>r. (row_key r, nr_owner r)) rows"

lemma ownership_ok: "ownership rows = ownership rows' \<Longrightarrow> table_ok rows = table_ok rows'"
proof -
  assume "ownership rows = ownership rows'"
  then have "map fst (ownership rows) = map fst (ownership rows')" by simp
  then show ?thesis by (intro table_ok_keys) (simp add: ownership_def comp_def)
qed

lemma member_row_ownership:
  "member_row ws cl rows n \<longleftrightarrow> (row_key (node_row_of n), cl) \<in> set (ownership rows) \<and> meta_Workspace (sn_Metadata n) = ws"
proof
  assume "member_row ws cl rows n"
  then obtain r where "r \<in> set rows" "row_key r = row_key (node_row_of n)" "nr_workspace r = ws" "nr_owner r = cl"
    by (auto simp: member_row_def)
  then show "(row_key (node_row_of n), cl) \<in> set (ownership rows) \<and> meta_Workspace (sn_Metadata n) = ws"
    unfolding ownership_def set_map
    by (intro conjI image_eqI [of _ _ r]) (auto simp: row_key_def node_row_of_def)
next
  assume "(row_key (node_row_of n), cl) \<in> set (ownership rows) \<and> meta_Workspace (sn_Metadata n) = ws"
  then show "member_row ws cl rows n"
    by (auto simp: member_row_def ownership_def row_key_def node_row_of_def)
qed

lemma softDeleteStaticNode_ownership:
  assumes t: "tables S N C" and ok: "table_ok (N w)" and m: "member_row ws cl (N w) n"
  shows "ownership (N (snd (softDeleteStaticNode now (Some S) (Some n) w))) = ownership (N w)"
proof -
  obtain n' where n': "softDeleteStaticNode now (Some S) (Some n) w =
      st_UpdateStaticNode S (StaticNode_GetID n) (staticNodeMetadataUpdate n') w"
    and k: "meta_Workspace (sn_Metadata n') = meta_Workspace (sn_Metadata n)" "node_name n' = node_name n"
    by (rule softDelete_update)
  obtain r where r: "r \<in> set (N w)" "row_key r = row_key (node_row_of n)"
    using m by (auto simp: member_row_def)
  have "s = r" if "s \<in> set (N w)" "nr_id s = StaticNode_GetID n" for s
    using same_id [OF ok that(1) r(1)] that(2) r(2) by (simp add: row_key_def)
  moreover have "row_key (patch_row (staticNodeMetadataUpdate n') r) = row_key r"
    "nr_owner (patch_row (staticNodeMetadataUpdate n') r) = nr_owner r"
    using r(2) k by (auto simp: patch_row_def staticNodeMetadataUpdate_def row_key_def node_row_of_def)
  ultimately show ?thesis
    using tables_update(2) [OF t, of "StaticNode_GetID n" "staticNodeMetadataUpdate n'" w] by (auto simp: n' ownership_def)
qed

lemma mark_loop_ownership:
  assumes t: "tables S N C"
  shows "table_ok (N w) \<Longrightarrow> \<forall>n \<in> set ns. member_row ws cl (N w) n \<Longrightarrow>
    ownership (N (snd (mark_loop now S force ns w))) = ownership (N w)"
proof (induction ns arbitrary: w)
  case (Cons n ns)
  let ?w = "\<lambda>m. snd (softDeleteStaticNode (now w) (Some S) (Some m) w)"
  have o: "ownership (N (?w m)) = ownership (N w)" if "m = n \<or> m = force_marked n" for m
    using softDeleteStaticNode_ownership [OF t Cons.prems(1), of ws cl] Cons.prems(2) that by auto
  have "ownership (N (snd (mark_loop now S force ns (?w m)))) = ownership (N w)" if "m = n \<or> m = force_marked n" for m
    using Cons.IH [of "?w m"] ownership_ok [OF o [OF that]] o [OF that] Cons.prems by (simp add: member_row_ownership)
  then show ?case
    using o Cons by (auto simp: split_beta split: option.split)
qed simp

text \<open>One pass over a cluster that is being deleted marks all its nodes.\<close>

lemma cluster_sync_marks:
  assumes t: "tables (cc_storage c) N C" and r: "reliable (cc_storage c)" and now: "\<forall>w. ce_now E w \<noteq> []"
    and cl: "cluster_name cluster \<noteq> []" and ok: "table_ok (N w)" and d: "meta_DeletionTimestamp (snc_Metadata cluster) \<noteq> []"
    and row: "x \<in> set (N (snd (cluster_sync E c (Some cluster) w)))"
    and x: "nr_workspace x = meta_Workspace (snc_Metadata cluster)" "nr_owner x = cluster_name cluster"
  shows "nr_deleting x"
proof -
  let ?ws = "meta_Workspace (snc_Metadata cluster)" and ?cl = "cluster_name cluster"
  let ?l = "ListByCluster (cc_storage c) ?ws ?cl w"
  let ?own = "\<lambda>r. nr_workspace r = ?ws \<and> nr_owner r = ?cl"
  obtain ns where ns: "fst ?l = Inr ns" using reliable_ListByCluster [OF r] by blast
  have rows: "map node_row_of ns = filter ?own (N w)"
    by (rule ListByCluster_rows [OF t cl ns])
  let ?m = "mark_loop (ce_now E) (cc_storage c) (IsForceDelete (meta_Annotations (snc_Metadata cluster))) ns (snd ?l)"
  have lw: "N (snd ?l) = N w" by (rule ListByCluster_tables [OF t])
  have listed: "node_row_of n \<in> set (N w)" if "n \<in> set ns" for n
    using that arg_cong [OF rows, of set] by auto
  have "marked N (snd ?l) (StaticNode_GetID n)" if "n \<in> set ns" "meta_DeletionTimestamp (sn_Metadata n) \<noteq> []" for n
    unfolding marked_def lw
  proof (intro ballI impI)
    fix r assume "r \<in> set (N w)" "nr_id r = StaticNode_GetID n"
    then have "r = node_row_of n" using same_id [OF ok _ listed [OF that(1)]] by simp
    with that(2) show "nr_deleting r" by (simp add: node_row_of_def)
  qed
  then have mk: "\<forall>n \<in> set ns. marked N (snd ?m) (StaticNode_GetID n)"
    using mark_loop_marks [OF t r now] by blast
  have own: "ownership (N (snd ?m)) = ownership (N w)"
    using mark_loop_ownership [OF t, of "snd ?l" ns ?ws ?cl] ok lw ListByCluster_members [OF t cl ns] by simp
  have "N (snd (cluster_reconcileDelete E c cluster ns (snd ?l))) = N (snd ?m)" if "ns \<noteq> []"
    using that cluster_updateStatus_tables [OF t] by (simp add: cluster_reconcileDelete_def split_beta Let_def)
  then have e: "N (snd (cluster_sync E c (Some cluster) w)) = (if ns = [] then N w else N (snd ?m))"
    using ns d lw cluster_reconcileDelete_last(1) [OF t] by (auto simp: cluster_sync_def split_beta)
  have "x \<in> set xs \<Longrightarrow> (row_key x, nr_owner x) \<in> set (ownership xs)" for xs
    by (simp add: ownership_def)
  then have "(row_key x, nr_owner x) \<in> set (ownership (N w))"
    using row e own by (metis (no_types, lifting))
  then obtain y where y: "y \<in> set (N w)" "row_key y = row_key x" "nr_owner y = nr_owner x"
    by (auto simp: ownership_def)
  then have "y \<in> set (map node_row_of ns)" using x by (simp add: rows row_key_def)
  then obtain n where "n \<in> set ns" "StaticNode_GetID n = nr_id x" using y(2) by (auto simp: row_key_def)
  then show ?thesis using mk row e by (auto simp: marked_def split: if_splits)
qed

text \<open>A node that is marked is removed once its host is cleaned up.\<close>

definition sync_nodes :: "'w environment \<Rightarrow> 'w node_controller \<Rightarrow> static_node list \<Rightarrow> 'w \<Rightarrow> 'w" where
  "sync_nodes E c ns w = fold (\<lambda>n w. snd (node_sync E c (Some n) w)) ns w"

lemma node_sync_removes:
  assumes t: "tables (nc_storage c) N C" and q: "no_table_access (both N C) E c" and r: "reliable (nc_storage c)"
    and cu: "IsForceDelete (meta_Annotations (sn_Metadata n)) \<or> cleaned_up c n w"
    and d: "meta_DeletionTimestamp (sn_Metadata n) \<noteq> []"
  shows "N (snd (node_sync E c (Some n) w)) = filter (\<lambda>r. nr_id r \<noteq> StaticNode_GetID n) (N w)"
proof -
  let ?f = "nc_runnerFactory c n w"
  have f: "N (snd ?f) = N w" using q by (simp add: quiet_runners_def keeps_def both_def)
  have h: "N (snd (hardDeleteStaticNode (Some (nc_storage c)) (Some n) w)) = filter (\<lambda>r. nr_id r \<noteq> StaticNode_GetID n) (N w)" for w
    using r by (intro hardDelete_tables(3) [OF t]) (simp add: reliable_def hardDeleteStaticNode_def)
  show ?thesis
  proof (cases "fst ?f")
    case (Inl e)
    then have "IsForceDelete (meta_Annotations (sn_Metadata n))" using cu by (simp add: cleaned_up_def split_beta)
    with Inl show ?thesis using d f by (simp add: node_sync_def node_reconcileDelete_def Let_def split_beta h)
  next
    case (Inr R)
    have R: "quiet_runner (both N C) R" using q Inr by (simp add: quiet_host_def)
    have "N (snd (Delete (Some n) (Some R) (snd ?f))) = N w"
      using quiet_Delete [OF R, of "Some n" "snd ?f"] f by (simp add: both_def)
    moreover have "N (snd (cr_Close R w)) = N w" for w
      using q Inr by (auto simp: quiet_runners_def keeps_def both_def)
    ultimately show ?thesis
      using Inr d cu
      by (auto simp: node_sync_def node_reconcileDelete_def Let_def split_beta h closeStaticNodeRunner_def cleaned_up_def
          split: option.split)
  qed
qed

lemma sync_nodes_removes:
  assumes t: "tables (nc_storage c) N C" and q: "no_table_access (both N C) E c" and r: "reliable (nc_storage c)"
    and cu: "\<forall>n w. cleaned_up c n w"
  shows "\<forall>n \<in> set ns. meta_DeletionTimestamp (sn_Metadata n) \<noteq> [] \<Longrightarrow>
    N (sync_nodes E c ns w) = filter (\<lambda>r. nr_id r \<notin> StaticNode_GetID ` set ns) (N w) \<and> C (sync_nodes E c ns w) = C w"
proof (induction ns arbitrary: w)
  case Nil
  then show ?case by (simp add: sync_nodes_def)
next
  case (Cons n ns)
  have "N (snd (node_sync E c (Some n) w)) = filter (\<lambda>r. nr_id r \<noteq> StaticNode_GetID n) (N w)"
    using node_sync_removes [OF t q r, of n w] cu Cons.prems by simp
  then show ?case
    using Cons.IH [of "snd (node_sync E c (Some n) w)"] Cons.prems node_sync_rows(1) [OF t q]
    by (auto simp: sync_nodes_def intro: filter_cong)
qed

lemma cluster_sync_last:
  assumes t: "tables (cc_storage c) N C" and r: "reliable (cc_storage c)"
    and cl: "cluster_name cluster \<noteq> []" and d: "meta_DeletionTimestamp (snc_Metadata cluster) \<noteq> []"
    and none: "\<forall>x \<in> set (N w). \<not> (nr_workspace x = meta_Workspace (snc_Metadata cluster) \<and> nr_owner x = cluster_name cluster)"
  shows "fst (cluster_sync E c (Some cluster) w) = None"
    and "N (snd (cluster_sync E c (Some cluster) w)) = N w"
    and "C (snd (cluster_sync E c (Some cluster) w)) = filter (\<lambda>x. fst x \<noteq> StaticNodeCluster_GetID cluster) (C w)"
proof -
  let ?l = "ListByCluster (cc_storage c) (meta_Workspace (snc_Metadata cluster)) (cluster_name cluster) w"
  obtain ns where ns: "fst ?l = Inr ns" using reliable_ListByCluster [OF r] by blast
  have i: "StaticNodeCluster_GetID (prepareStaticNodeCluster cluster) = StaticNodeCluster_GetID cluster"
    by (simp add: prepareStaticNodeCluster_def StaticNodeCluster_GetID_def)
  have "ns = []" using ListByCluster_rows [OF t cl ns] none by (simp add: filter_False)
  then have e: "cluster_sync E c (Some cluster) w = (None, snd (st_DeleteStaticNodeCluster (cc_storage c) (StaticNodeCluster_GetID cluster) (snd ?l)))"
    using ns d r by (simp add: cluster_sync_def cluster_reconcileDelete_def hardDeleteStaticNodeCluster_def i split_beta reliable_def)
  show "fst (cluster_sync E c (Some cluster) w) = None"
    and "N (snd (cluster_sync E c (Some cluster) w)) = N w"
    and "C (snd (cluster_sync E c (Some cluster) w)) = filter (\<lambda>x. fst x \<noteq> StaticNodeCluster_GetID cluster) (C w)"
    using tables_cluster_delete(1,3) [OF t] ListByCluster_tables [OF t] r by (simp_all add: e reliable_def)
qed

text \<open>
  One round of the deletion of a cluster: the cluster controller marks the nodes, the node controller
  takes each node it then finds, and the cluster controller looks again.
\<close>

definition deletion_round ::
  "'w cluster_environment \<Rightarrow> 'w cluster_controller \<Rightarrow> 'w environment \<Rightarrow> 'w node_controller \<Rightarrow> static_node_cluster \<Rightarrow> 'w \<Rightarrow> 'w" where
  "deletion_round Ec cc En nc cluster w =
     (let w1 = snd (cluster_sync Ec cc (Some cluster) w) in
      case ListByCluster (cc_storage cc) (meta_Workspace (snc_Metadata cluster)) (cluster_name cluster) w1 of
        (Inl e, w2) \<Rightarrow> w2
      | (Inr nodes, w2) \<Rightarrow> snd (cluster_sync Ec cc (Some cluster) (sync_nodes En nc nodes w2)))"

lemma deletion_round_completes:
  assumes t: "tables (cc_storage cc) N C" and st: "nc_storage nc = cc_storage cc" and r: "reliable (cc_storage cc)"
    and q: "no_table_access (both N C) En nc" and cu: "\<forall>n w. cleaned_up nc n w" and now: "\<forall>w. ce_now Ec w \<noteq> []"
    and cl: "cluster_name cluster \<noteq> []" and d: "meta_DeletionTimestamp (snc_Metadata cluster) \<noteq> []" and ok: "table_ok (N w)"
  shows "\<forall>x \<in> set (N (deletion_round Ec cc En nc cluster w)).
       \<not> (nr_workspace x = meta_Workspace (snc_Metadata cluster) \<and> nr_owner x = cluster_name cluster)"
    and "StaticNodeCluster_GetID cluster \<notin> fst ` set (C (deletion_round Ec cc En nc cluster w))"
proof -
  let ?ws = "meta_Workspace (snc_Metadata cluster)" and ?cl = "cluster_name cluster"
  let ?own = "\<lambda>r. nr_workspace r = ?ws \<and> nr_owner r = ?cl"
  define w1 where "w1 = snd (cluster_sync Ec cc (Some cluster) w)"
  let ?l = "ListByCluster (cc_storage cc) ?ws ?cl w1"
  obtain ns where ns: "fst ?l = Inr ns" using reliable_ListByCluster [OF r] by blast
  have rows: "map node_row_of ns = filter ?own (N w1)" by (rule ListByCluster_rows [OF t cl ns])
  have "meta_DeletionTimestamp (sn_Metadata n) \<noteq> []" if "n \<in> set ns" for n
  proof -
    have "node_row_of n \<in> set (filter ?own (N w1))" using that by (simp flip: rows)
    then have "nr_deleting (node_row_of n)"
      using cluster_sync_marks [OF t r now cl ok d] by (simp add: w1_def)
    then show ?thesis by (simp add: node_row_of_def)
  qed
  then have s: "N (sync_nodes En nc ns (snd ?l)) = filter (\<lambda>r. nr_id r \<notin> StaticNode_GetID ` set ns) (N (snd ?l))"
    using sync_nodes_removes [OF t [folded st] q r [folded st] cu] by blast
  have "StaticNode_GetID ` set ns = nr_id ` set (filter ?own (N w1))"
    by (simp flip: rows add: image_image)
  then have none: "\<forall>x \<in> set (N (sync_nodes En nc ns (snd ?l))). \<not> ?own x"
    unfolding s ListByCluster_tables [OF t] by auto
  have e: "deletion_round Ec cc En nc cluster w = snd (cluster_sync Ec cc (Some cluster) (sync_nodes En nc ns (snd ?l)))"
    using ns by (simp add: deletion_round_def w1_def Let_def split_beta)
  show "\<forall>x \<in> set (N (deletion_round Ec cc En nc cluster w)). \<not> ?own x"
    and "StaticNodeCluster_GetID cluster \<notin> fst ` set (C (deletion_round Ec cc En nc cluster w))"
    using cluster_sync_last(2,3) [OF t r cl d none] none by (auto simp: e)
qed

section \<open>Interleavings of the controllers\<close>

text \<open>
  The controllers work off their queues in any order: a run is a sequence of passes, each over some
  cluster with a name or some node, with the objects as the queue delivers them, also stale ones.
\<close>

inductive run_of ::
  "'w cluster_environment \<Rightarrow> 'w cluster_controller \<Rightarrow> 'w environment \<Rightarrow> 'w node_controller \<Rightarrow> 'w \<Rightarrow> 'w \<Rightarrow> bool"
  for Ec :: "'w cluster_environment" and cc :: "'w cluster_controller" and En :: "'w environment" and nc :: "'w node_controller" and w :: 'w
where
  start: "run_of Ec cc En nc w w"
| cluster_pass: "run_of Ec cc En nc w w' \<Longrightarrow> cluster_name cluster \<noteq> [] \<Longrightarrow>
    run_of Ec cc En nc w (snd (cluster_sync Ec cc (Some cluster) w'))"
| node_pass: "run_of Ec cc En nc w w' \<Longrightarrow> run_of Ec cc En nc w (snd (node_sync En nc (Some n) w'))"

definition owned_rows :: "node_row list \<Rightarrow> bool" where
  "owned_rows rows \<longleftrightarrow> list_all (\<lambda>r. nr_owner r \<noteq> []) rows"

lemma advances_owned:
  assumes "advances ws cl rows rows'" "cl \<noteq> []" "owned_rows rows"
  shows "owned_rows rows'"
proof -
  obtain old added where o: "rows' = old @ added" "list_all2 (row_evolves ws cl) rows old"
    "\<forall>r \<in> set added. nr_owner r = cl"
    using assms(1) by (auto simp: advances_def)
  have "nr_owner r' \<noteq> []" if old: "r' \<in> set old" for r'
  proof -
    obtain r where "r \<in> set rows" "row_evolves ws cl r r'" using list_all2_in [OF o(2) old] by blast
    then show ?thesis using assms(2,3) by (auto simp: row_evolves_def owned_rows_def list_all_iff split: if_splits)
  qed
  then show ?thesis using o(1,3) assms(2) by (auto simp: owned_rows_def list_all_iff)
qed

lemma table_ok_filter: "table_ok rows \<Longrightarrow> table_ok (filter P rows)"
  by (simp add: table_ok_def distinct_map_filter)

lemma cluster_pass_ok:
  assumes "tables (cc_storage c) N C" "cluster_name cluster \<noteq> []" "table_ok (N w)"
  shows "advances (meta_Workspace (snc_Metadata cluster)) (cluster_name cluster) (N w) (N (snd (cluster_sync E c (Some cluster) w)))"
  using cluster_sync_rows [OF assms, of E] advances_refl [OF assms(3)] by (auto simp: tables_advance_def)


section \<open>Properties\<close>

text \<open>
  C21: in every run of the two controllers, in any order and over any objects, the identifiers and the
  names of the node rows stay unique and every row keeps having an owner.
\<close>

theorem runs_keep_tables:
  assumes "run_of Ec cc En nc w w'" and "tables (cc_storage cc) nodes clusters" and "nc_storage nc = cc_storage cc"
    and "no_table_access (both nodes clusters) En nc" and "table_ok (nodes w)" and "owned_rows (nodes w)"
  shows "table_ok (nodes w') \<and> owned_rows (nodes w')"
  using assms(1)
proof (induction rule: run_of.induct)
  case start
  show ?case using assms(5,6) by simp
next
  case (cluster_pass w' cluster)
  then show ?case
    using cluster_pass_ok [OF assms(2), of cluster w' Ec] advances_owned advances_ok by blast
next
  case (node_pass w' n)
  then show ?case
    using node_sync_rows(2) [OF assms(2) [folded assms(3)] assms(4), of n w'] table_ok_filter
    by (auto simp: owned_rows_def list_all_iff)
qed

text \<open>
  C22: deletion completes. If the storage answers and every host can be cleaned up, then one round of
  the deletion of a cluster leaves no node row of the cluster and no row of the cluster itself.
\<close>

theorem deletion_completes:
  assumes "tables (cc_storage cc) nodes clusters" and "nc_storage nc = cc_storage cc" and "reliable (cc_storage cc)"
    and "no_table_access (both nodes clusters) En nc" and "\<forall>n w. cleaned_up nc n w" and "\<forall>w. ce_now Ec w \<noteq> []"
    and "cluster_name cluster \<noteq> []" and "meta_DeletionTimestamp (snc_Metadata cluster) \<noteq> []" and "table_ok (nodes w)"
  shows "(\<nexists>r. r \<in> set (nodes (deletion_round Ec cc En nc cluster w)) \<and>
       nr_workspace r = meta_Workspace (snc_Metadata cluster) \<and> nr_owner r = cluster_name cluster) \<and>
    StaticNodeCluster_GetID cluster \<notin> fst ` set (clusters (deletion_round Ec cc En nc cluster w))"
  using deletion_round_completes [OF assms] by blast

text \<open>The database of a cluster with two nodes, one of them already marked.\<close>

definition sample_full_db :: db where
  "sample_full_db = sample_db\<lparr>db_nodes := [(sample_node ''h'' ''head'' None None)\<lparr>sn_ID := 2\<rparr>,
     (sample_node ''w'' ''worker'' None None)\<lparr>sn_ID := 3,
        sn_Metadata := (sample_meta ''w'')\<lparr>meta_DeletionTimestamp := ''t''\<rparr>\<rparr>]\<rparr>"

lemma mem_store_reliable: "reliable mem_store"
  by (simp add: reliable_def mem_store_def)

lemma fixed_remove_files: "fst (remove_files \<lparr>fc_WriteFileIfChanged = f, fc_Remove = \<lambda>p s w. (None, w)\<rparr> es cs w) = es"
  by (induction cs arbitrary: es w) simp_all

lemma fixed_delete_loop: "fst (delete_loop (fixed_runner (Inr a)) n cs w) = []"
  by (induction cs arbitrary: w)
     (simp_all add: split_beta Let_def fixed_runner_def removeComponentConfigFiles_def fileClient_def fixed_remove_files NewAggregate_def)

lemma fixed_cleaned_up: "cleaned_up (mem_node_controller (Inr a)) n w"
  unfolding cleaned_up_def mem_node_controller_def Delete_def
  by (simp add: split_beta Let_def fixed_delete_loop split: option.split) (simp add: fixed_runner_def)

lemma sample_full_ok: "table_ok (db_node_rows sample_full_db)" "owned_rows (db_node_rows sample_full_db)"
  by (simp_all add: table_ok_def owned_rows_def db_node_rows_def sample_full_db_def sample_db_def node_row_of_def
      StaticNode_GetID_def sample_node_def sample_meta_def owner_of_def)

theorem runs_keep_tables_witness:
  "table_ok (db_node_rows (snd (node_sync sample_node_env (mem_node_controller (Inr [])) (Some (sample_node ''x'' ''worker'' None None))
     (snd (cluster_sync sample_cluster_env mem_cluster_controller (Some (sample_cluster None)) sample_full_db)))))"
proof -
  have "run_of sample_cluster_env mem_cluster_controller sample_node_env (mem_node_controller (Inr [])) sample_full_db
     (snd (cluster_sync sample_cluster_env mem_cluster_controller (Some (sample_cluster None)) sample_full_db))"
    by (rule run_of.cluster_pass [OF run_of.start]) (simp add: sample_cluster_def sample_meta_def)
  note r = run_of.node_pass [OF this, of "sample_node ''x'' ''worker'' None None"]
  show ?thesis
    using runs_keep_tables [OF r sample_db_ok(1) _ fixed_quiet sample_full_ok]
    by (simp add: mem_node_controller_def mem_cluster_controller_def)
qed

theorem deletion_completes_witness:
  "(\<nexists>r. r \<in> set (db_node_rows (deletion_round sample_cluster_env mem_cluster_controller sample_node_env
        (mem_node_controller (Inr [])) sample_deleted sample_full_db)) \<and> nr_workspace r = ''default'' \<and> nr_owner r = ''c'') \<and>
   ''1'' \<notin> fst ` set (db_cluster_rows (deletion_round sample_cluster_env mem_cluster_controller sample_node_env
        (mem_node_controller (Inr [])) sample_deleted sample_full_db))"
proof -
  have s: "meta_Workspace (snc_Metadata sample_deleted) = ''default''" "cluster_name sample_deleted = ''c''"
    "meta_DeletionTimestamp (snc_Metadata sample_deleted) \<noteq> []" "StaticNodeCluster_GetID sample_deleted = ''1''"
    by (simp_all add: sample_deleted_def sample_cluster_def sample_meta_def StaticNodeCluster_GetID_def Itoa_def itoa_nat.simps char_of_def bit_0)
  have c: "nc_storage (mem_node_controller (Inr [])) = cc_storage mem_cluster_controller" "reliable (cc_storage mem_cluster_controller)"
    "\<forall>w :: db. ce_now sample_cluster_env w \<noteq> []"
    by (simp_all add: mem_node_controller_def mem_cluster_controller_def mem_store_reliable sample_cluster_env_def)
  show ?thesis
    using deletion_completes [OF sample_db_ok(1) c(1,2) fixed_quiet _ c(3), of sample_deleted sample_full_db] fixed_cleaned_up s sample_full_ok(1)
    by simp
qed

end
