(* ===== verification/Lifecycle.thy ===== *)
theory Lifecycle
  imports Api_Types
begin

text \<open>
  What the controllers of the control plane share. Every resource has the same outer shape, every
  controller gets an object that was read from the storage, and a resource is removed in two passes:
  the first cleans up and records the phase \<open>Deleted\<close>, the second removes the row
  (\<open>controllers/base_controller.go\<close>, \<open>api/v1\<close>).

  The theory has the objects, the part of the storage a controller uses for its own kind with its
  contract, the transitions the protocol allows for a row, and the runs in which passes of a controller
  interleave with edits by users. The locales state what a controller promises about one pass and prove
  what follows for runs.
\<close>

section \<open>Objects\<close>

text \<open>
  The fields every resource of \<open>api/v1\<close> has; the identifier is a number or a string, the specification
  and the status differ from kind to kind.
\<close>

record ('i, 's, 't) object =
  ob_ID :: 'i
  ob_APIVersion :: string
  ob_Kind :: string
  ob_Metadata :: "metadata ptr"
  ob_Spec :: "'s ptr"
  ob_Status :: "'t ptr"

text \<open>The status of the kinds that report a phase and nothing else.\<close>

record phase_status =
  ps_ErrorMessage :: string
  ps_LastTransitionTime :: string
  ps_Phase :: string

definition GetDeletionTimestamp :: "('i, 's, 't) object \<Rightarrow> string" where
  "GetDeletionTimestamp obj = (case ob_Metadata obj of None \<Rightarrow> [] | Some m \<Rightarrow> meta_DeletionTimestamp m)"

definition GetAnnotations :: "('i, 's, 't) object \<Rightarrow> strmap" where
  "GetAnnotations obj = (case ob_Metadata obj of None \<Rightarrow> None | Some m \<Rightarrow> meta_Annotations m)"

abbreviation marked :: "('i, 's, 't) object \<Rightarrow> bool" where
  "marked obj \<equiv> GetDeletionTimestamp obj \<noteq> []"

abbreviation forced :: "('i, 's, 't) object \<Rightarrow> bool" where
  "forced obj \<equiv> IsForceDelete (GetAnnotations obj)"

text \<open>\<open>obj.Status != nil && obj.Status.Phase == phase\<close>, and the test for a new object.\<close>

definition in_phase :: "('t \<Rightarrow> string) \<Rightarrow> string \<Rightarrow> ('i, 's, 't) object \<Rightarrow> bool" where
  "in_phase phase p obj \<longleftrightarrow> (case ob_Status obj of None \<Rightarrow> False | Some st \<Rightarrow> phase st = p)"

definition is_new :: "('t \<Rightarrow> string) \<Rightarrow> ('i, 's, 't) object \<Rightarrow> bool" where
  "is_new phase obj \<longleftrightarrow> (case ob_Status obj of None \<Rightarrow> True | Some st \<Rightarrow> phase st = [] \<or> phase st = ''Pending'')"

text \<open>An update of the status alone: \<open>&v1.Role{Status: newStatus}\<close> and its like.\<close>

definition status_update :: "'i \<Rightarrow> 't \<Rightarrow> ('i, 's, 't) object" where
  "status_update zero st = \<lparr>ob_ID = zero, ob_APIVersion = [], ob_Kind = [], ob_Metadata = None, ob_Spec = None, ob_Status = Some st\<rparr>"

section \<open>Results\<close>

text \<open>A handler returns an error or none, or it dereferences a nil pointer.\<close>

datatype ret = Returned "go_error option" | Panicked

text \<open>The clock in its two formats, and the texts of wrapped errors.\<close>

record 'w runtime =
  rt_now :: "'w \<Rightarrow> string"
  rt_now_utc :: "'w \<Rightarrow> string"
  rt_errors :: err_lib

definition FormatErrorForStatus :: "err_lib \<Rightarrow> go_error option \<Rightarrow> string" where
  "FormatErrorForStatus L err = (case err of None \<Rightarrow> [] | Some e \<Rightarrow> error_text L e)"

definition FormatStatusTime :: "'w runtime \<Rightarrow> 'w \<Rightarrow> string" where
  "FormatStatusTime R w = rt_now R w"

definition phase_status_of :: "'w runtime \<Rightarrow> string \<Rightarrow> go_error option \<Rightarrow> 'w \<Rightarrow> phase_status" where
  "phase_status_of R phase err w =
     \<lparr>ps_ErrorMessage = FormatErrorForStatus (rt_errors R) err, ps_LastTransitionTime = FormatStatusTime R w, ps_Phase = phase\<rparr>"

text \<open>\<open>strings.Contains\<close>.\<close>

fun Contains :: "string \<Rightarrow> string \<Rightarrow> bool" where
  "Contains [] t = (t = [])"
| "Contains (c # s) t = (HasPrefix (c # s) t \<or> Contains s t)"

text \<open>\<open>errors.Is (err, storage.ErrResourceNotFound)\<close>.\<close>

fun is_not_found :: "go_error \<Rightarrow> bool" where
  "is_not_found ErrResourceNotFound = True"
| "is_not_found (ErrWrap e m) = is_not_found e"
| "is_not_found (DockerError r m (Some e)) = is_not_found e"
| "is_not_found (Aggregate es) = list_ex is_not_found es"
| "is_not_found e = False"

section \<open>The storage of one kind\<close>

record ('i, 's, 't, 'w) kind_store =
  ks_Update :: "string \<Rightarrow> ('i, 's, 't) object \<Rightarrow> 'w \<Rightarrow> go_error option \<times> 'w"
  ks_Delete :: "string \<Rightarrow> 'w \<Rightarrow> go_error option \<times> 'w"

type_synonym ('i, 's, 't) rows = "string \<rightharpoonup> ('i, 's, 't) object"

text \<open>A column is written when the field is present in the update, since empty fields are left out of its JSON.\<close>

definition patched :: "('i, 's, 't) object \<Rightarrow> ('i, 's, 't) object \<Rightarrow> ('i, 's, 't) object" where
  "patched p x = x
     \<lparr>ob_APIVersion := (if ob_APIVersion p = [] then ob_APIVersion x else ob_APIVersion p),
      ob_Kind := (if ob_Kind p = [] then ob_Kind x else ob_Kind p),
      ob_Metadata := (case ob_Metadata p of None \<Rightarrow> ob_Metadata x | Some m \<Rightarrow> Some m),
      ob_Spec := (case ob_Spec p of None \<Rightarrow> ob_Spec x | Some s \<Rightarrow> Some s),
      ob_Status := (case ob_Status p of None \<Rightarrow> ob_Status x | Some s \<Rightarrow> Some s)\<rparr>"

text \<open>The contract: an update or a deletion concerns one row; one that fails leaves the table as it was.\<close>

definition kind_laws :: "('i, 's, 't, 'w) kind_store \<Rightarrow> ('w \<Rightarrow> ('i, 's, 't) rows) \<Rightarrow> bool" where
  "kind_laws S rows \<longleftrightarrow>
     (\<forall>i p w. rows (snd (ks_Update S i p w)) =
        (if fst (ks_Update S i p w) = None then (rows w)(i := map_option (patched p) (rows w i)) else rows w)) \<and>
     (\<forall>i w. rows (snd (ks_Delete S i w)) =
        (if fst (ks_Delete S i w) = None then (rows w)(i := None) else rows w))"

definition answers :: "('i, 's, 't, 'w) kind_store \<Rightarrow> bool" where
  "answers S \<longleftrightarrow> (\<forall>i p w. fst (ks_Update S i p w) = None) \<and> (\<forall>i w. fst (ks_Delete S i w) = None)"

text \<open>Operations of other components that leave a table alone.\<close>

definition untouched :: "('w \<Rightarrow> 't) \<Rightarrow> ('w \<Rightarrow> 'a \<times> 'w) \<Rightarrow> bool" where
  "untouched tab f \<longleftrightarrow> (\<forall>w. tab (snd (f w)) = tab w)"

lemma untouchedD: "untouched tab f \<Longrightarrow> tab (snd (f w)) = tab w"
  by (simp add: untouched_def)

lemma untouched_result: "untouched tab f \<Longrightarrow> f w = (a, w') \<Longrightarrow> tab w' = tab w"
  using untouchedD [of tab f w] by simp

lemma update_rows:
  assumes "kind_laws S rows" "ks_Update S i p w = (e, w')"
  shows "rows w' = (if e = None then (rows w)(i := map_option (patched p) (rows w i)) else rows w)"
  using assms by (metis kind_laws_def fst_conv snd_conv)

lemma delete_rows:
  assumes "kind_laws S rows" "ks_Delete S i w = (e, w')"
  shows "rows w' = (if e = None then (rows w)(i := None) else rows w)"
  using assms by (metis kind_laws_def fst_conv snd_conv)

section \<open>The protocol\<close>

text \<open>
  What a pass over the object \<open>ob\<close> may do to its row: nothing; remove it, if \<open>ob\<close> is marked for deletion
  and its phase is final; or write a status and keep the deletion mark, where the phase \<open>Deleted\<close> is only
  written for an object that is marked.
\<close>

definition row_step :: "('t \<Rightarrow> string) \<Rightarrow> string list \<Rightarrow> ('i, 's, 't) object \<Rightarrow>
    ('i, 's, 't) object option \<Rightarrow> ('i, 's, 't) object option \<Rightarrow> bool" where
  "row_step phase final ob r r' \<longleftrightarrow>
     r' = r \<or>
     (r' = None \<and> marked ob \<and> (\<exists>p\<in>set final. in_phase phase p ob)) \<or>
     (\<exists>x y st. r = Some x \<and> r' = Some y \<and> ob_ID y = ob_ID x \<and> (marked y \<longleftrightarrow> marked x) \<and> ob_Status y = Some st \<and>
        (phase st = ''Deleted'' \<longrightarrow> marked ob))"

definition table_step :: "('i \<Rightarrow> string) \<Rightarrow> ('t \<Rightarrow> string) \<Rightarrow> string list \<Rightarrow> ('i, 's, 't) object \<Rightarrow>
    ('i, 's, 't) rows \<Rightarrow> ('i, 's, 't) rows \<Rightarrow> bool" where
  "table_step key phase final ob T T' \<longleftrightarrow>
     (\<forall>i. i \<noteq> key (ob_ID ob) \<longrightarrow> T' i = T i) \<and> row_step phase final ob (T (key (ob_ID ob))) (T' (key (ob_ID ob)))"

text \<open>
  How the object a controller works on relates to its row: it was read before, and since then a user may
  have marked the row or changed anything but its status; or it is the row.
\<close>

definition read_before :: "('i, 's, 't) object \<Rightarrow> ('i, 's, 't) object \<Rightarrow> bool" where
  "read_before ob x \<longleftrightarrow> ob_ID ob = ob_ID x \<and> ob_Status ob = ob_Status x \<and> (marked ob \<longrightarrow> marked x)"

lemma read_now: "read_before x x"
  by (simp add: read_before_def)

text \<open>
  Edits by users: rows appear without a final phase; existing rows keep their status and their
  identifier, and a deletion mark is never taken back.
\<close>

definition user_edit :: "('i \<Rightarrow> string) \<Rightarrow> ('t \<Rightarrow> string) \<Rightarrow> ('i, 's, 't) rows \<Rightarrow> ('i, 's, 't) rows \<Rightarrow> bool" where
  "user_edit key phase T T' \<longleftrightarrow>
     (\<forall>i. case T i of
        None \<Rightarrow> (\<forall>y. T' i = Some y \<longrightarrow> key (ob_ID y) = i \<and> \<not> in_phase phase ''Deleted'' y)
      | Some x \<Rightarrow> (\<exists>y. T' i = Some y \<and> ob_ID y = ob_ID x \<and> ob_Status y = ob_Status x \<and> (marked x \<longrightarrow> marked y)))"

text \<open>In a table in order, rows are filed under their identifier, and \<open>Deleted\<close> is only said of marked rows.\<close>

definition rows_ok :: "('i \<Rightarrow> string) \<Rightarrow> ('t \<Rightarrow> string) \<Rightarrow> ('i, 's, 't) rows \<Rightarrow> bool" where
  "rows_ok key phase T \<longleftrightarrow> (\<forall>i x. T i = Some x \<longrightarrow> key (ob_ID x) = i \<and> (in_phase phase ''Deleted'' x \<longrightarrow> marked x))"

definition none_deleted :: "('t \<Rightarrow> string) \<Rightarrow> ('i, 's, 't) rows \<Rightarrow> bool" where
  "none_deleted phase T \<longleftrightarrow> (\<forall>i x. T i = Some x \<longrightarrow> \<not> in_phase phase ''Deleted'' x)"

lemma edit_ok:
  assumes "user_edit key phase T T'" "rows_ok key phase T"
  shows "rows_ok key phase T'"
  unfolding rows_ok_def
proof (intro allI impI)
  fix i y
  assume y: "T' i = Some y"
  show "key (ob_ID y) = i \<and> (in_phase phase ''Deleted'' y \<longrightarrow> marked y)"
  proof (cases "T i")
    case None
    then show ?thesis using spec [OF assms(1) [unfolded user_edit_def], of i] y by simp
  next
    case (Some x)
    then have "ob_ID y = ob_ID x \<and> ob_Status y = ob_Status x \<and> (marked x \<longrightarrow> marked y)"
      using spec [OF assms(1) [unfolded user_edit_def], of i] y by simp
    then show ?thesis using assms(2) Some by (auto simp: rows_ok_def in_phase_def)
  qed
qed

lemma step_ok:
  assumes "table_step key phase final ob T T'" "rows_ok key phase T" "T (key (ob_ID ob)) = Some x" "read_before ob x"
  shows "rows_ok key phase T'"
  unfolding rows_ok_def
proof (intro allI impI)
  fix i y
  assume y: "T' i = Some y"
  show "key (ob_ID y) = i \<and> (in_phase phase ''Deleted'' y \<longrightarrow> marked y)"
  proof (cases "i = key (ob_ID ob)")
    case True
    then have "row_step phase final ob (Some x) (Some y)" using assms(1,3) y by (simp add: table_step_def)
    moreover have "in_phase phase ''Deleted'' x \<longrightarrow> marked x" using assms(2,3) by (simp add: rows_ok_def)
    moreover have "ob_ID ob = ob_ID x" "marked ob \<longrightarrow> marked x" using assms(4) by (simp_all add: read_before_def)
    ultimately show ?thesis
      using True by (auto simp: row_step_def in_phase_def)
  next
    case False
    then show ?thesis using assms(1,2) y by (simp add: table_step_def rows_ok_def)
  qed
qed

text \<open>A status update, or none, is a step of the protocol.\<close>

lemma status_update_step:
  assumes "phase st = ''Deleted'' \<longrightarrow> marked ob"
  shows "table_step key phase final ob T (T(key (ob_ID ob) := map_option (patched (status_update zero st)) (T (key (ob_ID ob)))))"
  using assms
  by (cases "T (key (ob_ID ob))")
    (auto simp: table_step_def row_step_def patched_def status_update_def GetDeletionTimestamp_def)

lemma same_step: "table_step key phase final ob T T"
  by (simp add: table_step_def row_step_def)

lemma remove_step:
  assumes "marked ob" "p \<in> set final" "in_phase phase p ob"
  shows "table_step key phase final ob T (T(key (ob_ID ob) := None))"
  using assms by (auto simp: table_step_def row_step_def)

lemma phase_status_of_Phase [simp]: "ps_Phase (phase_status_of R p e w) = p"
  by (simp add: phase_status_of_def)

lemma marked_cases: "ob_Metadata obj = Some m \<Longrightarrow> GetDeletionTimestamp obj = meta_DeletionTimestamp m"
  by (simp add: GetDeletionTimestamp_def)

lemma forced_cases: "ob_Metadata obj = Some m \<Longrightarrow> GetAnnotations obj = meta_Annotations m"
  by (simp add: GetAnnotations_def)

lemma marked_metadata: "marked obj \<Longrightarrow> \<exists>m. ob_Metadata obj = Some m \<and> meta_DeletionTimestamp m \<noteq> []"
  by (auto simp: GetDeletionTimestamp_def split: option.splits)

text \<open>The facts the passes are made of: an update of the status and a removal, whether they succeed or not.\<close>

lemma update_step:
  assumes "kind_laws S rows" "rows w = T" "phase st = ''Deleted'' \<longrightarrow> marked ob"
  shows "table_step key phase final ob T (rows (snd (ks_Update S (key (ob_ID ob)) (status_update z st) w)))"
  using assms(1,2) status_update_step [where phase = phase and st = st, OF assms(3)] by (simp add: kind_laws_def same_step)

lemma delete_step:
  assumes "kind_laws S rows" "marked ob" "list_ex (\<lambda>p. in_phase phase p ob) final"
  shows "table_step key phase final ob (rows w) (rows (snd (ks_Delete S (key (ob_ID ob)) w)))"
proof -
  obtain p where "p \<in> set final" "in_phase phase p ob" using assms(3) by (auto simp: list_ex_iff)
  then show ?thesis using assms(1) remove_step [where phase = phase and p = p, OF assms(2)] by (simp add: kind_laws_def same_step)
qed

text \<open>A storage that answers does what it was asked.\<close>

lemma answer:
  assumes "kind_laws S rows" "answers S"
  shows "fst (ks_Update S i p w) = None" "rows (snd (ks_Update S i p w)) = (rows w)(i := map_option (patched p) (rows w i))"
    and "fst (ks_Delete S i w) = None" "rows (snd (ks_Delete S i w)) = (rows w)(i := None)"
  using assms by (simp_all add: answers_def kind_laws_def)

lemma patched_status [simp]: "in_phase phase p (patched (status_update z st) x) \<longleftrightarrow> phase st = p"
  by (simp add: in_phase_def patched_def status_update_def)

text \<open>A step that makes a row say \<open>Deleted\<close> that did not say it before.\<close>

definition writes_deleted :: "('t \<Rightarrow> string) \<Rightarrow> string \<Rightarrow> ('i, 's, 't) rows \<Rightarrow> ('i, 's, 't) rows \<Rightarrow> bool" where
  "writes_deleted phase i T T' \<longleftrightarrow>
     (\<exists>x y. T i = Some x \<and> T' i = Some y \<and> \<not> in_phase phase ''Deleted'' x \<and> in_phase phase ''Deleted'' y)"

lemma not_written:
  "\<not> writes_deleted phase i T T"
  "kind_laws S rows \<Longrightarrow> rows w = T \<Longrightarrow> phase st \<noteq> ''Deleted'' \<Longrightarrow>
     \<not> writes_deleted phase i T (rows (snd (ks_Update S i (status_update z st) w)))"
  "kind_laws S rows \<Longrightarrow> rows w = T \<Longrightarrow> \<not> writes_deleted phase i T (rows (snd (ks_Delete S j w)))"
  by (auto simp: writes_deleted_def kind_laws_def)

text \<open>A pass over such an object is one that deletes: it is marked and not yet recorded as deleted.\<close>

definition deleting :: "('t \<Rightarrow> string) \<Rightarrow> ('i, 's, 't) object \<Rightarrow> bool" where
  "deleting phase ob \<longleftrightarrow> marked ob \<and> \<not> in_phase phase ''Deleted'' ob"

lemma writing_deletes:
  assumes "table_step key phase final ob T T'" "T (key (ob_ID ob)) = Some x" "read_before ob x"
    and "T' (key (ob_ID ob)) = Some y" "\<not> in_phase phase ''Deleted'' x" "in_phase phase ''Deleted'' y"
  shows "deleting phase ob"
proof -
  have "row_step phase final ob (Some x) (Some y)" using assms(1,2,4) by (simp add: table_step_def)
  then have "marked ob" using assms(5,6) by (auto simp: row_step_def in_phase_def)
  then show ?thesis using assms(3,5) by (simp add: deleting_def read_before_def in_phase_def)
qed

section \<open>Runs\<close>

text \<open>
  Runs of one controller: passes over objects read from the table, in any order, interleaved with edits
  by users. The run keeps the passes it made, the latest first, each with the world it started in.
\<close>

inductive lifecycle_run :: "(('i, 's, 't) object \<Rightarrow> 'w \<Rightarrow> ret \<times> 'w) \<Rightarrow> ('w \<Rightarrow> ('i, 's, 't) rows) \<Rightarrow>
    ('i \<Rightarrow> string) \<Rightarrow> ('t \<Rightarrow> string) \<Rightarrow> (('i, 's, 't) object \<Rightarrow> ('i, 's, 't) object \<Rightarrow> bool) \<Rightarrow>
    'w \<Rightarrow> (('i, 's, 't) object \<times> 'w) list \<Rightarrow> 'w \<Rightarrow> bool"
  for sync rows key phase sees w0 where
  start: "lifecycle_run sync rows key phase sees w0 [] w0"
| pass: "lifecycle_run sync rows key phase sees w0 tr w \<Longrightarrow> rows w (key (ob_ID ob)) = Some x \<Longrightarrow> sees ob x \<Longrightarrow>
    lifecycle_run sync rows key phase sees w0 ((ob, w) # tr) (snd (sync ob w))"
| edit: "lifecycle_run sync rows key phase sees w0 tr w \<Longrightarrow> user_edit key phase (rows w) (rows w') \<Longrightarrow>
    lifecycle_run sync rows key phase sees w0 tr w'"

text \<open>A pass over the row with the given identifier, if there is one.\<close>

definition pass_over :: "(('i, 's, 't) object \<Rightarrow> 'w \<Rightarrow> ret \<times> 'w) \<Rightarrow> ('w \<Rightarrow> ('i, 's, 't) rows) \<Rightarrow> string \<Rightarrow> 'w \<Rightarrow> 'w" where
  "pass_over sync rows i w = (case rows w i of None \<Rightarrow> w | Some x \<Rightarrow> snd (sync x w))"

section \<open>What a controller promises\<close>

text \<open>
  A controller's pass is a step of the protocol whenever its storage keeps its contract and the other
  components it calls leave the table alone, which is what \<open>lawful\<close> says.
\<close>

locale lifecycle =
  fixes sync :: "'c \<Rightarrow> ('i, 's, 't) object \<Rightarrow> 'w \<Rightarrow> ret \<times> 'w"
    and lawful :: "'c \<Rightarrow> ('w \<Rightarrow> ('i, 's, 't) rows) \<Rightarrow> bool"
    and key :: "'i \<Rightarrow> string" and phase :: "'t \<Rightarrow> string" and final :: "string list"
    and sees :: "('i, 's, 't) object \<Rightarrow> ('i, 's, 't) object \<Rightarrow> bool"
  assumes sees_read: "sees ob x \<Longrightarrow> read_before ob x"
    and pass_step: "lawful c rows \<Longrightarrow> rows w (key (ob_ID ob)) = Some x \<Longrightarrow> sees ob x \<Longrightarrow>
      table_step key phase final ob (rows w) (rows (snd (sync c ob w)))"
begin

lemma run_ok:
  assumes "lifecycle_run (sync c) rows key phase sees w0 tr w" "lawful c rows" "rows_ok key phase (rows w0)"
  shows "rows_ok key phase (rows w)"
  using assms
proof (induction rule: lifecycle_run.induct)
  case (pass tr w ob x)
  then show ?case using step_ok [OF pass_step] sees_read by blast
next
  case (edit tr w w')
  then show ?case using edit_ok by blast
qed

lemma removed_final:
  assumes "lawful c rows" "rows w (key (ob_ID ob)) = Some x" "sees ob x"
    and "rows w i = Some y" "rows (snd (sync c ob w)) i = None"
  shows "i = key (ob_ID ob) \<and> marked y \<and> (\<exists>p\<in>set final. in_phase phase p y)"
proof -
  note st = pass_step [OF assms(1-3)]
  then have i: "i = key (ob_ID ob)" using assms(4,5) by (metis table_step_def option.distinct(1))
  then have "row_step phase final ob (Some x) None" "y = x" using st assms(2,4,5) by (simp_all add: table_step_def)
  then show ?thesis
    using i sees_read [OF assms(3)] by (auto simp: row_step_def read_before_def in_phase_def)
qed

end

text \<open>Where the phase \<open>Deleted\<close> is evidence: it is only written after a cleanup without error, or by force.\<close>

locale guarded_lifecycle = lifecycle sync lawful key phase "[''Deleted'']" sees
  for sync :: "'c \<Rightarrow> ('i, 's, 't) object \<Rightarrow> 'w \<Rightarrow> ret \<times> 'w"
    and lawful :: "'c \<Rightarrow> ('w \<Rightarrow> ('i, 's, 't) rows) \<Rightarrow> bool"
    and key :: "'i \<Rightarrow> string" and phase :: "'t \<Rightarrow> string"
    and sees :: "('i, 's, 't) object \<Rightarrow> ('i, 's, 't) object \<Rightarrow> bool" +
  fixes cleanup :: "'c \<Rightarrow> ('i, 's, 't) object \<Rightarrow> 'w \<Rightarrow> bool"
  assumes guard: "lawful c rows \<Longrightarrow> \<not> forced ob \<Longrightarrow> \<not> cleanup c ob w \<Longrightarrow>
      \<not> writes_deleted phase (key (ob_ID ob)) (rows w) (rows (snd (sync c ob w)))"
begin

lemma deleted_cleaned:
  assumes "lifecycle_run (sync c) rows key phase sees w0 tr w" "lawful c rows"
    and "none_deleted phase (rows w0)"
    and "rows w i = Some y" "in_phase phase ''Deleted'' y"
  shows "\<exists>(ob, v) \<in> set tr. key (ob_ID ob) = i \<and> deleting phase ob \<and> (forced ob \<or> cleanup c ob v)"
  using assms
proof (induction arbitrary: i y rule: lifecycle_run.induct)
  case start
  then show ?case by (simp add: none_deleted_def)
next
  case (pass tr w ob x)
  show ?case
  proof (cases "i = key (ob_ID ob) \<and> \<not> in_phase phase ''Deleted'' x")
    case True
    then have "writes_deleted phase (key (ob_ID ob)) (rows w) (rows (snd (sync c ob w)))"
      using pass.hyps(2) pass.prems(3,4) by (simp add: writes_deleted_def)
    then have "forced ob \<or> cleanup c ob w" using guard [OF \<open>lawful c rows\<close>] by blast
    moreover have "rows (snd (sync c ob w)) (key (ob_ID ob)) = Some y" using True pass.prems(3) by simp
    note writing_deletes [OF pass_step [OF \<open>lawful c rows\<close> pass.hyps(2,3)] pass.hyps(2) sees_read [OF pass.hyps(3)] this]
    then have "deleting phase ob" using True pass.prems(4) by simp
    ultimately show ?thesis using True by auto
  next
    case False
    have "\<exists>z. rows w i = Some z \<and> in_phase phase ''Deleted'' z"
    proof (cases "i = key (ob_ID ob)")
      case True
      then show ?thesis using False pass.hyps(2) by blast
    next
      case False
      then have "rows w i = Some y"
        using pass_step [OF \<open>lawful c rows\<close> pass.hyps(2,3)] pass.prems(3) by (metis table_step_def)
      then show ?thesis using pass.prems(4) by blast
    qed
    then show ?thesis using pass.IH pass.prems(1,2) by fastforce
  qed
next
  case (edit tr w w')
  have u: "case rows w i of
        None \<Rightarrow> \<forall>y. rows w' i = Some y \<longrightarrow> key (ob_ID y) = i \<and> \<not> in_phase phase ''Deleted'' y
      | Some x \<Rightarrow> \<exists>y. rows w' i = Some y \<and> ob_ID y = ob_ID x \<and> ob_Status y = ob_Status x \<and> (marked x \<longrightarrow> marked y)"
    using edit.hyps(2) unfolding user_edit_def by (rule spec)
  then have "\<exists>z. rows w i = Some z \<and> in_phase phase ''Deleted'' z"
    using edit.prems(3,4) by (auto simp: in_phase_def split: option.splits)
  then show ?case using edit.IH edit.prems(1,2) by blast
qed

lemma removed_cleaned:
  assumes "lifecycle_run (sync c) rows key phase sees w0 tr w" "lawful c rows"
    and "none_deleted phase (rows w0)"
    and "rows w (key (ob_ID ob)) = Some x" "sees ob x" "rows w i = Some y" "rows (snd (sync c ob w)) i = None"
  shows "marked y \<and> (\<exists>(ob, v) \<in> set tr. key (ob_ID ob) = i \<and> deleting phase ob \<and> (forced ob \<or> cleanup c ob v))"
proof -
  have "marked y" "in_phase phase ''Deleted'' y"
    using removed_final [OF assms(2,4-7)] by auto
  then show ?thesis using deleted_cleaned [OF assms(1-3,6)] by blast
qed

end

text \<open>Where deletion makes progress: with a storage that answers and a cleanup that works, two passes are enough.\<close>

locale removal = lifecycle +
  fixes works :: "'c \<Rightarrow> ('w \<Rightarrow> ('i, 's, 't) rows) \<Rightarrow> ('i, 's, 't) object \<Rightarrow> bool"
  assumes sees_now: "sees x x"
    and records: "lawful c rows \<Longrightarrow> works c rows ob \<Longrightarrow> rows w (key (ob_ID ob)) = Some ob \<Longrightarrow> marked ob \<Longrightarrow>
      \<not> in_phase phase ''Deleted'' ob \<Longrightarrow> \<forall>y. rows (snd (sync c ob w)) (key (ob_ID ob)) = Some y \<longrightarrow> in_phase phase ''Deleted'' y"
    and removes: "lawful c rows \<Longrightarrow> works c rows ob \<Longrightarrow> rows w (key (ob_ID x)) = Some x \<Longrightarrow> marked x \<Longrightarrow>
      in_phase phase ''Deleted'' x \<Longrightarrow> rows (snd (sync c x w)) (key (ob_ID x)) = None"
begin

lemma removed_after_two:
  assumes "lawful c rows" "works c rows x" "rows w i = Some x" "key (ob_ID x) = i" "marked x"
  shows "rows (pass_over (sync c) rows i (pass_over (sync c) rows i w)) i = None"
proof -
  let ?w = "snd (sync c x w)"
  have w: "pass_over (sync c) rows i w = ?w" using assms(3) by (simp add: pass_over_def)
  have st: "row_step phase final x (Some x) (rows ?w i)"
    using pass_step [OF assms(1) _ sees_now, of w x] assms(3,4) by (simp add: table_step_def)
  show ?thesis
  proof (cases "rows ?w i")
    case None
    then show ?thesis by (simp add: w) (simp add: pass_over_def)
  next
    case (Some y)
    have "\<not> in_phase phase ''Deleted'' x" using removes [OF assms(1,2), of w x] assms(3-5) Some by auto
    then have "in_phase phase ''Deleted'' y" using records [OF assms(1,2), of w] assms(3-5) Some by auto
    moreover have "marked y" "ob_ID y = ob_ID x" using st Some assms(5) by (auto simp: row_step_def)
    ultimately have "rows (snd (sync c y ?w)) i = None"
      using removes [OF assms(1,2), of ?w y] Some assms(4) by simp
    then show ?thesis by (simp add: w) (simp add: pass_over_def Some)
  qed
qed

lemma two_passes:
  assumes "lawful c rows" "works c rows x" "rows w (key (ob_ID x)) = Some x" "marked x" "\<not> list_ex (\<lambda>p. in_phase phase p x) final"
    and "list_ex ((=) ''Deleted'') final"
  obtains y where "rows (snd (sync c x w)) (key (ob_ID x)) = Some y" "ob_ID y = ob_ID x" "marked y"
    and "rows (snd (sync c y (snd (sync c x w)))) (key (ob_ID x)) = None"
proof -
  have "row_step phase final x (Some x) (rows (snd (sync c x w)) (key (ob_ID x)))"
    using pass_step [OF assms(1,3) sees_now] assms(3) by (simp add: table_step_def)
  then obtain y where y: "rows (snd (sync c x w)) (key (ob_ID x)) = Some y" "ob_ID y = ob_ID x" "marked y"
    using assms(4,5) by (auto simp: row_step_def list_ex_iff)
  have "\<not> in_phase phase ''Deleted'' x" using assms(5,6) by (auto simp: list_ex_iff)
  then have "in_phase phase ''Deleted'' y" using records [OF assms(1-4)] y(1) by simp
  then have "rows (snd (sync c y (snd (sync c x w)))) (key (ob_ID x)) = None"
    using removes [OF assms(1,2), of "snd (sync c x w)" y] y by simp
  then show ?thesis using that y by blast
qed

end

end
