(* ===== verification/Engine_Merge.thy ===== *)
theory Engine_Merge
  imports Lifecycle Go_Json
begin

text \<open>
  Engines, how a newer definition of an engine is merged into an older one
  (\<open>internal/util/engine.go\<close>), and the registry of engines (\<open>internal/engine/registry.go\<close>).
\<close>

section \<open>Engines\<close>

record engine_image =
  ei_ImageName :: string
  ei_Tag :: string

text \<open>
  Maps are association lists sorted by key, \<open>None\<close> when nil; the versions and images the pointers of the
  source refer to are values here, since nil pointers among them have no meaning.
\<close>

record engine_version =
  ev_Version :: string
  ev_ValuesSchema :: "(string \<times> jval) list option"
  ev_DeployTemplate :: "(string \<times> (string \<times> string) list) list option"
  ev_Images :: "(string \<times> engine_image) list option"
  ev_SupportedTasks :: "string slice"

record engine_spec =
  es_Versions :: "engine_version slice"
  es_SupportedTasks :: "string slice"

type_synonym engine = "(int, engine_spec, phase_status) object"

section \<open>Merging\<close>

text \<open>Every entry of one map written into another.\<close>

definition put_all :: "(string \<times> 'v) list \<Rightarrow> (string \<times> 'v) list \<Rightarrow> (string \<times> 'v) list" where
  "put_all src dst = fold (\<lambda>(k, v) m. map_put k v m) src dst"

text \<open>The loops over tasks, with their flag \<open>found\<close>.\<close>

definition append_missing :: "string slice \<Rightarrow> string slice \<Rightarrow> string slice" where
  "append_missing old new = fold (\<lambda>t acc. if t \<in> set (els acc) then acc else Some (els acc @ [t])) (els new) old"

definition merge_template ::
  "(string \<times> (string \<times> string) list) list \<Rightarrow> (string \<times> (string \<times> string) list) list \<Rightarrow> (string \<times> (string \<times> string) list) list" where
  "merge_template new old =
     fold (\<lambda>(clusterType, modes) m. map_put clusterType
       (put_all modes (case map_of m clusterType of None \<Rightarrow> [] | Some d \<Rightarrow> d)) m) new old"

definition MergeEngineVersion :: "engine_version \<Rightarrow> engine_version \<Rightarrow> engine_version" where
  "MergeEngineVersion existing new = existing
     \<lparr>ev_Images := Some (put_all (els (ev_Images new)) (els (ev_Images existing))),
      ev_DeployTemplate := Some (merge_template (els (ev_DeployTemplate new)) (els (ev_DeployTemplate existing))),
      ev_ValuesSchema := (case ev_ValuesSchema new of None \<Rightarrow> ev_ValuesSchema existing | Some s \<Rightarrow> Some s),
      ev_SupportedTasks := append_missing (ev_SupportedTasks existing) (ev_SupportedTasks new)\<rparr>"

fun merge_version :: "engine_version list \<Rightarrow> engine_version \<Rightarrow> engine_version list" where
  "merge_version [] newVersion = [newVersion]"
| "merge_version (oldVersion # rest) newVersion =
     (if ev_Version oldVersion = ev_Version newVersion then MergeEngineVersion oldVersion newVersion # rest
      else oldVersion # merge_version rest newVersion)"

definition MergeEngine :: "engine_spec \<Rightarrow> engine_spec \<Rightarrow> engine_spec" where
  "MergeEngine existing new =
     \<lparr>es_Versions = (if els (es_Versions new) = [] then es_Versions existing
        else Some (fold (\<lambda>n vs. merge_version vs n) (els (es_Versions new)) (els (es_Versions existing)))),
      es_SupportedTasks = append_missing (es_SupportedTasks existing) (es_SupportedTasks new)\<rparr>"

section \<open>The registry\<close>

type_synonym engine_registry = "(string \<times> engine) list"

definition Register :: "engine ptr \<Rightarrow> engine_registry \<Rightarrow> go_error option \<times> engine_registry" where
  "Register engine engines =
     (case engine of
        None \<Rightarrow> (Some (ErrNew ''engine must not be nil''), engines)
      | Some e \<Rightarrow>
          (case ob_Metadata e of
             None \<Rightarrow> (Some (ErrNew ''engine name is required''), engines)
           | Some m \<Rightarrow>
               if meta_Name m = [] then (Some (ErrNew ''engine name is required''), engines)
               else
                 (case ob_Spec e of
                    None \<Rightarrow> (Some (ErrNew ''engine spec is required''), engines)
                  | Some spec \<Rightarrow>
                      (case map_of engines (meta_Name m) of
                         None \<Rightarrow> (None, map_put (meta_Name m) e engines)
                       | Some old \<Rightarrow>
                           (None, map_put (meta_Name m) (old\<lparr>ob_Spec := map_option (\<lambda>s. MergeEngine s spec) (ob_Spec old)\<rparr>) engines)))))"

text \<open>Go lists the values of a map in no particular order; here it is the order of the names.\<close>

definition ListAll :: "engine_registry \<Rightarrow> engine list" where
  "ListAll engines = map snd engines"

definition Cleanup :: "engine_registry \<Rightarrow> engine_registry" where
  "Cleanup engines = []"

section \<open>JSON\<close>

text \<open>
  The JSON of a specification, in which empty fields are left out: \<open>util.JsonEqual\<close> compares these, and
  the keys of a map are always written in order.
\<close>

definition json_field :: "string \<Rightarrow> bool \<Rightarrow> jval \<Rightarrow> (string \<times> jval) list" where
  "json_field name present v = (if present then [(name, v)] else [])"

definition image_json :: "engine_image \<Rightarrow> jval" where
  "image_json i = VObj (json_field ''image_name'' (ei_ImageName i \<noteq> []) (VStr (ei_ImageName i)) @
     json_field ''tag'' (ei_Tag i \<noteq> []) (VStr (ei_Tag i)))"

definition version_json :: "engine_version \<Rightarrow> jval" where
  "version_json v = VObj
     (json_field ''version'' (ev_Version v \<noteq> []) (VStr (ev_Version v)) @
      json_field ''values_schema'' (els (ev_ValuesSchema v) \<noteq> []) (VObj (els (ev_ValuesSchema v))) @
      json_field ''deploy_template'' (els (ev_DeployTemplate v) \<noteq> [])
        (VObj (map (\<lambda>(ct, ms). (ct, VObj (map (\<lambda>(k, t). (k, VStr t)) ms))) (els (ev_DeployTemplate v)))) @
      json_field ''images'' (els (ev_Images v) \<noteq> []) (VObj (map (\<lambda>(a, i). (a, image_json i)) (els (ev_Images v)))) @
      json_field ''supported_tasks'' (els (ev_SupportedTasks v) \<noteq> []) (VArr (map VStr (els (ev_SupportedTasks v)))))"

definition engine_spec_json :: "engine_spec \<Rightarrow> jval" where
  "engine_spec_json s = VObj
     (json_field ''versions'' (els (es_Versions s) \<noteq> []) (VArr (map version_json (els (es_Versions s)))) @
      json_field ''supported_tasks'' (els (es_SupportedTasks s) \<noteq> []) (VArr (map VStr (els (es_SupportedTasks s)))))"

section \<open>Merging twice changes nothing\<close>

text \<open>Maps that are sorted by key are equal when they hold the same entries.\<close>

lemma put_all_Cons: "put_all ((k, v) # src) dst = put_all src (map_put k v dst)"
  by (simp add: put_all_def)

lemma map_of_put_all: "map_of (put_all src dst) = map_of dst ++ map_of (rev src)"
proof (induction src arbitrary: dst)
  case (Cons kv src)
  obtain k v where kv: "kv = (k, v)" by (cases kv)
  show ?case by (simp add: kv put_all_Cons Cons.IH map_add_def fun_eq_iff split: option.split)
qed (simp add: put_all_def)

lemma map_ok_put_all: "map_ok dst \<Longrightarrow> map_ok (put_all src dst)"
  by (induction src arbitrary: dst) (auto simp: put_all_def map_ok_put split: prod.split)

lemma map_ok_Cons: "map_ok ((k, v) # m) \<longleftrightarrow> map_ok m \<and> (\<forall>x \<in> fst ` set m. k < x)"
  by (auto simp: map_ok_def)

lemma map_ok_ext:
  assumes "map_ok a" "map_ok b" "map_of a = map_of b"
  shows "a = b"
  using assms
proof (induction a arbitrary: b)
  case Nil
  then show ?case by simp
next
  case (Cons kv a)
  obtain k v where kv: "kv = (k, v)" by (cases kv)
  have fa: "\<forall>x \<in> fst ` set a. k < x" "map_ok a" using Cons.prems(1) by (auto simp: kv map_ok_Cons)
  obtain k' v' c where b: "b = (k', v') # c"
    using fun_cong [OF Cons.prems(3), of k] kv by (cases b) auto
  have fc: "\<forall>x \<in> fst ` set c. k' < x" "map_ok c" using Cons.prems(2) by (auto simp: b map_ok_Cons)
  have eq: "map_of (kv # a) x = map_of b x" for x by (rule fun_cong [OF Cons.prems(3)])
  have "k = k'"
  proof (rule ccontr)
    assume ne: "k \<noteq> k'"
    have "map_of c k = Some v" using eq [of k] ne by (simp add: kv b)
    then have "k' < k" using fc(1) by (metis map_of_eq_None_iff option.distinct(1))
    moreover have "map_of a k' = Some v'" using eq [of k'] ne by (simp add: kv b)
    then have "k < k'" using fa(1) by (metis map_of_eq_None_iff option.distinct(1))
    ultimately show False by simp
  qed
  moreover have "v = v'" using eq [of k] \<open>k = k'\<close> by (simp add: kv b)
  moreover have "map_of a = map_of c"
  proof
    fix x
    show "map_of a x = map_of c x"
    proof (cases "x = k")
      case True
      have "k \<notin> fst ` set a" "k' \<notin> fst ` set c" using fa(1) fc(1) by auto
      then show ?thesis using True \<open>k = k'\<close> by (metis map_of_eq_None_iff)
    next
      case False
      then show ?thesis using eq [of x] \<open>k = k'\<close> by (simp add: kv b)
    qed
  qed
  ultimately show ?case using Cons.IH [OF fa(2) fc(2)] by (simp add: kv b)
qed

lemma map_add_again: "(m ++ r) ++ r = m ++ r"
  by (simp add: fun_eq_iff map_add_def split: option.split)

lemma put_all_again: "map_ok dst \<Longrightarrow> put_all src (put_all src dst) = put_all src dst"
  by (rule map_ok_ext) (simp_all add: map_ok_put_all map_of_put_all map_add_again)

lemma put_all_self: "map_ok m \<Longrightarrow> put_all m m = m"
proof (rule map_ok_ext)
  assume m: "map_ok m"
  then have "distinct (map fst m)" by (simp add: map_ok_def strict_sorted_iff)
  then have "map_of (rev m) = map_of m" by (simp add: map_of_inject_set rev_map [symmetric])
  then show "map_of (put_all m m) = map_of m" using map_add_again [of Map.empty "map_of m"] by (simp add: map_of_put_all)
qed (simp_all add: map_ok_put_all)

text \<open>Templates: the same, one level deeper.\<close>

definition template_ok :: "(string \<times> (string \<times> string) list) list \<Rightarrow> bool" where
  "template_ok d \<longleftrightarrow> map_ok d \<and> (\<forall>(ct, ms) \<in> set d. map_ok ms)"

abbreviation modes_of :: "(string \<times> (string \<times> string) list) list \<Rightarrow> string \<Rightarrow> (string \<times> string) list" where
  "modes_of d ct \<equiv> (case map_of d ct of None \<Rightarrow> [] | Some ms \<Rightarrow> ms)"

lemma merge_template_Cons:
  "merge_template ((ct, ms) # new) old = merge_template new (map_put ct (put_all ms (modes_of old ct)) old)"
  by (simp add: merge_template_def)

lemma merge_template_ok: "map_ok old \<Longrightarrow> map_ok (merge_template new old)"
  by (induction new arbitrary: old) (auto simp: merge_template_Cons map_ok_put, simp add: merge_template_def)

lemma map_of_merge_template:
  "distinct (map fst new) \<Longrightarrow> map_of (merge_template new old) ct =
    (case map_of new ct of None \<Rightarrow> map_of old ct | Some ms \<Rightarrow> Some (put_all ms (modes_of old ct)))"
proof (induction new arbitrary: old)
  case (Cons kv new)
  obtain k ms where kv: "kv = (k, ms)" by (cases kv)
  have "k \<notin> fst ` set new" using Cons.prems kv by simp
  then have "map_of new k = None" by (simp add: map_of_eq_None_iff)
  then show ?case using Cons by (auto simp: kv merge_template_Cons split: option.split)
qed (simp add: merge_template_def)

lemma map_ok_distinct: "map_ok m \<Longrightarrow> distinct (map fst m)"
  by (simp add: map_ok_def strict_sorted_iff)

lemma modes_ok: "template_ok d \<Longrightarrow> map_ok (modes_of d ct)"
  by (auto simp: template_ok_def map_ok_def dest!: map_of_SomeD split: option.split)

lemma merge_template_again:
  assumes "map_ok new" "template_ok old"
  shows "merge_template new (merge_template new old) = merge_template new old"
proof (rule map_ok_ext)
  have ok: "map_ok old" using assms(2) by (simp add: template_ok_def)
  then show "map_ok (merge_template new (merge_template new old))" "map_ok (merge_template new old)" by (simp_all add: merge_template_ok)
  note d = map_of_merge_template [OF map_ok_distinct [OF assms(1)]]
  show "map_of (merge_template new (merge_template new old)) = map_of (merge_template new old)"
    using modes_ok [OF assms(2)] by (simp add: fun_eq_iff d put_all_again split: option.split)
qed

lemma merge_template_self:
  assumes "template_ok d"
  shows "merge_template d d = d"
proof (rule map_ok_ext)
  have ok: "map_ok d" using assms by (simp add: template_ok_def)
  then show "map_ok (merge_template d d)" "map_ok d" by (simp_all add: merge_template_ok)
  have "put_all ms ms = ms" if "map_of d ct = Some ms" for ct ms
    using modes_ok [OF assms, of ct] that by (simp add: put_all_self)
  then show "map_of (merge_template d d) = map_of d"
    by (auto simp: fun_eq_iff map_of_merge_template [OF map_ok_distinct [OF ok]] split: option.split)
qed

lemma append_missing_set: "set (els (append_missing old new)) = set (els old) \<union> set (els new)"
proof -
  have "set (els (fold (\<lambda>t acc. if t \<in> set (els acc) then acc else Some (els acc @ [t])) ts s)) = set (els s) \<union> set ts" for ts s
    by (induction ts arbitrary: s) auto
  then show ?thesis by (simp add: append_missing_def)
qed

lemma append_missing_id: "set (els new) \<subseteq> set (els old) \<Longrightarrow> append_missing old new = old"
proof -
  have "set ts \<subseteq> set (els s) \<Longrightarrow> fold (\<lambda>t acc. if t \<in> set (els acc) then acc else Some (els acc @ [t])) ts s = s" for ts s
    by (induction ts arbitrary: s) auto
  then show "set (els new) \<subseteq> set (els old) \<Longrightarrow> append_missing old new = old" by (simp add: append_missing_def)
qed

text \<open>Versions whose maps are maps.\<close>

definition version_ok :: "engine_version \<Rightarrow> bool" where
  "version_ok v \<longleftrightarrow> map_ok (els (ev_Images v)) \<and> template_ok (els (ev_DeployTemplate v))"

lemma MergeEngineVersion_Version [simp]: "ev_Version (MergeEngineVersion a b) = ev_Version a"
  by (simp add: MergeEngineVersion_def)

text \<open>A version that has taken in another is not changed by it again, as far as JSON can tell.\<close>

definition absorbs :: "engine_version \<Rightarrow> engine_version \<Rightarrow> bool" where
  "absorbs v n \<longleftrightarrow> ev_Version v = ev_Version n \<and> version_json (MergeEngineVersion v n) = version_json v"

lemma absorbs_merged:
  assumes "version_ok v" "version_ok n" "ev_Version v = ev_Version n"
  shows "absorbs (MergeEngineVersion v n) n"
proof -
  have "MergeEngineVersion (MergeEngineVersion v n) n = MergeEngineVersion v n"
    using assms(1,2)
    by (auto simp: MergeEngineVersion_def version_ok_def template_ok_def put_all_again merge_template_again append_missing_id append_missing_set
        split: option.split)
  then show ?thesis using assms(3) by (simp add: absorbs_def)
qed

lemma absorbs_self:
  assumes "version_ok n"
  shows "absorbs n n"
  using assms
  by (simp add: absorbs_def MergeEngineVersion_def version_json_def version_ok_def put_all_self merge_template_self append_missing_id
      split: option.split)

text \<open>The version a merge goes into: the first with the name, and it has taken the newer one in.\<close>

fun holds :: "engine_version \<Rightarrow> engine_version list \<Rightarrow> bool" where
  "holds n [] = False"
| "holds n (v # vs) = (if ev_Version v = ev_Version n then absorbs v n else holds n vs)"

lemma holds_merged:
  assumes "list_all version_ok vs" "version_ok n"
  shows "holds n (merge_version vs n)"
  using assms by (induction vs) (auto simp: absorbs_merged absorbs_self)

lemma holds_other: "ev_Version m \<noteq> ev_Version n \<Longrightarrow> holds n vs \<Longrightarrow> holds n (merge_version vs m)"
  by (induction vs) auto

lemma merge_held: "holds n vs \<Longrightarrow> map version_json (merge_version vs n) = map version_json vs"
  by (induction vs) (auto simp: absorbs_def split: if_splits)

lemma map_put_values: "(k', v') \<in> set (map_put k v m) \<Longrightarrow> v' = v \<or> (k', v') \<in> set m"
  by (induction k v m rule: map_put.induct) (auto split: if_splits)

lemma merge_template_modes:
  assumes "template_ok old" "list_all (\<lambda>(ct, ms). map_ok ms) new"
  shows "template_ok (merge_template new old)"
  using assms
proof (induction new arbitrary: old)
  case (Cons kv new)
  obtain ct ms where kv: "kv = (ct, ms)" by (cases kv)
  have "map_ok (put_all ms (modes_of old ct))" using modes_ok [OF Cons.prems(1)] by (rule map_ok_put_all)
  then have "template_ok (map_put ct (put_all ms (modes_of old ct)) old)"
    using Cons.prems(1) by (auto simp: template_ok_def map_ok_put dest!: map_put_values)
  then show ?case using Cons by (simp add: kv merge_template_Cons)
qed (simp add: merge_template_def)

lemma version_ok_merged: "version_ok v \<Longrightarrow> version_ok n \<Longrightarrow> version_ok (MergeEngineVersion v n)"
  by (auto simp: version_ok_def MergeEngineVersion_def map_ok_put_all list_all_iff template_ok_def [of "els (ev_DeployTemplate n)"]
      intro!: merge_template_modes)

lemma version_ok_merge: "list_all version_ok vs \<Longrightarrow> version_ok n \<Longrightarrow> list_all version_ok (merge_version vs n)"
  by (induction vs) (auto simp: version_ok_merged)

lemma merges_hold:
  assumes "list_all version_ok vs" "list_all version_ok ns" "distinct (map ev_Version ns)" "n \<in> set ns"
  shows "holds n (fold (\<lambda>n vs. merge_version vs n) ns vs)"
  using assms
proof (induction ns arbitrary: vs)
  case (Cons m ns)
  have keep: "holds n (fold (\<lambda>n vs. merge_version vs n) ms us)"
    if "holds n us" "ev_Version n \<notin> ev_Version ` set ms" for ms us
    using that by (induction ms arbitrary: us) (auto simp: holds_other)
  show ?case
  proof (cases "n = m")
    case True
    then show ?thesis using Cons.prems keep holds_merged by auto
  next
    case False
    then show ?thesis using Cons version_ok_merge by auto
  qed
qed simp

lemma merges_held:
  assumes "\<forall>n \<in> set ns. holds n vs" "distinct (map ev_Version ns)"
  shows "map version_json (fold (\<lambda>n vs. merge_version vs n) ns vs) = map version_json vs"
  using assms
proof (induction ns arbitrary: vs)
  case (Cons m ns)
  have "\<forall>n \<in> set ns. holds n (merge_version vs m)"
    using Cons.prems by (auto intro!: holds_other)
  then show ?case using Cons by (simp add: merge_held)
qed simp

definition engine_spec_ok :: "engine_spec \<Rightarrow> bool" where
  "engine_spec_ok s \<longleftrightarrow> list_all version_ok (els (es_Versions s)) \<and> distinct (map ev_Version (els (es_Versions s)))"

text \<open>Merging an engine in a second time does not change the JSON of the result.\<close>

lemma MergeEngine_again:
  assumes "list_all version_ok (els (es_Versions old))" "engine_spec_ok new"
  shows "engine_spec_json (MergeEngine (MergeEngine old new) new) = engine_spec_json (MergeEngine old new)"
proof -
  let ?vs = "fold (\<lambda>n vs. merge_version vs n) (els (es_Versions new)) (els (es_Versions old))"
  have "\<forall>n \<in> set (els (es_Versions new)). holds n ?vs"
    using merges_hold [OF assms(1)] assms(2) by (auto simp: engine_spec_ok_def)
  then have v: "map version_json (fold (\<lambda>n vs. merge_version vs n) (els (es_Versions new)) ?vs) = map version_json ?vs"
    using merges_held assms(2) by (auto simp: engine_spec_ok_def)
  then have "fold (\<lambda>n vs. merge_version vs n) (els (es_Versions new)) ?vs = [] \<longleftrightarrow> ?vs = []"
    by (metis map_is_Nil_conv)
  then show ?thesis
    using v by (simp add: engine_spec_json_def MergeEngine_def append_missing_id append_missing_set)
qed

end
