(* ===== verification/Plain_Controllers.thy ===== *)
theory Plain_Controllers
  imports Lifecycle Engine_Merge
begin

text \<open>
  The controllers whose resources live in the storage alone: roles, role assignments and engines
  (\<open>controllers/role_controller.go\<close>, \<open>role_assignment_controller.go\<close>, \<open>engine_controller.go\<close>).
\<close>

section \<open>Roles\<close>

record role_spec =
  rls_PresetKey :: "string ptr"
  rls_Permissions :: "string slice"

type_synonym role = "(int, role_spec, phase_status) object"

definition role_updateStatus ::
  "'w runtime \<Rightarrow> (int, role_spec, phase_status, 'w) kind_store \<Rightarrow> role \<Rightarrow> string \<Rightarrow> go_error option \<Rightarrow> 'w \<Rightarrow> go_error option \<times> 'w" where
  "role_updateStatus R storage obj phase err w =
     ks_Update storage (Itoa (ob_ID obj)) (status_update 0 (phase_status_of R phase err w)) w"

definition role_sync ::
  "'w runtime \<Rightarrow> (int, role_spec, phase_status, 'w) kind_store \<Rightarrow> role \<Rightarrow> 'w \<Rightarrow> ret \<times> 'w" where
  "role_sync R storage obj w =
     (case ob_Metadata obj of
        None \<Rightarrow> (if is_new ps_Phase obj then Panicked else Returned None, w)
      | Some m \<Rightarrow>
          if meta_DeletionTimestamp m \<noteq> [] then
            (if in_phase ps_Phase ''Deleted'' obj then
               (case ks_Delete storage (Itoa (ob_ID obj)) w of
                  (Some e, w1) \<Rightarrow> (Returned (Some (ErrWrap e (''failed to delete role '' @ WorkspaceName m @ '' from DB''))), w1)
                | (None, w1) \<Rightarrow> (Returned None, w1))
             else
               (case role_updateStatus R storage obj ''Deleted'' None w of
                  (Some e, w1) \<Rightarrow> (Returned (Some (ErrWrap e (''failed to update role '' @ WorkspaceName m @ '' status''))), w1)
                | (None, w1) \<Rightarrow> (Returned None, w1)))
          else if is_new ps_Phase obj then
            (case role_updateStatus R storage obj ''Created'' None w of
               (Some e, w1) \<Rightarrow> (Returned (Some (ErrWrap e (''failed to update role '' @ WorkspaceName m @ '' status to CREATED''))), w1)
             | (None, w1) \<Rightarrow> (Returned None, w1))
          else (Returned None, w))"

text \<open>An argument of another type is \<open>None\<close>; the log line dereferences the metadata.\<close>

definition role_Reconcile ::
  "'w runtime \<Rightarrow> (int, role_spec, phase_status, 'w) kind_store \<Rightarrow> role option \<Rightarrow> 'w \<Rightarrow> ret \<times> 'w" where
  "role_Reconcile R storage obj w =
     (case obj of
        None \<Rightarrow> (Returned (Some (ErrNew ''failed to assert obj to *v1.Role'')), w)
      | Some role \<Rightarrow> (if ob_Metadata role = None then (Panicked, w) else role_sync R storage role w))"

section \<open>Role assignments\<close>

record role_assignment_spec =
  ras_UserID :: string
  ras_Workspace :: string
  ras_Global :: bool
  ras_Role :: string

type_synonym role_assignment = "(int, role_assignment_spec, phase_status) object"

definition role_assignment_updateStatus ::
  "'w runtime \<Rightarrow> (int, role_assignment_spec, phase_status, 'w) kind_store \<Rightarrow> role_assignment \<Rightarrow> string \<Rightarrow> go_error option \<Rightarrow>
    'w \<Rightarrow> go_error option \<times> 'w" where
  "role_assignment_updateStatus R storage obj phase err w =
     ks_Update storage (Itoa (ob_ID obj)) (status_update 0 (phase_status_of R phase err w)) w"

definition role_assignment_sync ::
  "'w runtime \<Rightarrow> (int, role_assignment_spec, phase_status, 'w) kind_store \<Rightarrow> role_assignment \<Rightarrow> 'w \<Rightarrow> ret \<times> 'w" where
  "role_assignment_sync R storage obj w =
     (let objName = (case ob_Metadata obj of None \<Rightarrow> Itoa (ob_ID obj)
                     | Some m \<Rightarrow> if meta_Name m \<noteq> [] then meta_Name m else Itoa (ob_ID obj));
          suffix = objName @ '' (ID: '' @ Itoa (ob_ID obj) @ '')'' in
      if GetDeletionTimestamp obj \<noteq> [] then
        (if in_phase ps_Phase ''Deleted'' obj then
           (case ks_Delete storage (Itoa (ob_ID obj)) w of
              (Some e, w1) \<Rightarrow>
                (if is_not_found e then (Returned None, w1)
                 else (Returned (Some (ErrWrap e (''failed to delete role assignment in DB '' @ suffix))), w1))
            | (None, w1) \<Rightarrow> (Returned None, w1))
         else
           (case role_assignment_updateStatus R storage obj ''Deleted'' None w of
              (Some e, w1) \<Rightarrow> (Returned (Some (ErrWrap e (''failed to update role assignment '' @ suffix @ '' status''))), w1)
            | (None, w1) \<Rightarrow> (Returned None, w1)))
      else if is_new ps_Phase obj then
        (case role_assignment_updateStatus R storage obj ''Created'' None w of
           (Some e, w1) \<Rightarrow> (Returned (Some (ErrWrap e (''failed to update role assignment '' @ suffix @ '' status to CREATED''))), w1)
         | (None, w1) \<Rightarrow> (Returned None, w1))
      else (Returned None, w))"

definition role_assignment_Reconcile ::
  "'w runtime \<Rightarrow> (int, role_assignment_spec, phase_status, 'w) kind_store \<Rightarrow> role_assignment option \<Rightarrow> 'w \<Rightarrow> ret \<times> 'w" where
  "role_assignment_Reconcile R storage obj w =
     (case obj of
        None \<Rightarrow> (Returned (Some (ErrNew ''failed to assert obj to *v1.RoleAssignment'')), w)
      | Some roleAssignment \<Rightarrow> role_assignment_sync R storage roleAssignment w)"

section \<open>Engines\<close>

definition engine_updateStatus ::
  "'w runtime \<Rightarrow> (int, engine_spec, phase_status, 'w) kind_store \<Rightarrow> engine \<Rightarrow> string \<Rightarrow> go_error option \<Rightarrow> 'w \<Rightarrow> go_error option \<times> 'w" where
  "engine_updateStatus R storage obj phase err w =
     ks_Update storage (Itoa (ob_ID obj)) (status_update 0 (phase_status_of R phase err w)) w"

definition engine_sync ::
  "'w runtime \<Rightarrow> (int, engine_spec, phase_status, 'w) kind_store \<Rightarrow> engine \<Rightarrow> 'w \<Rightarrow> ret \<times> 'w" where
  "engine_sync R storage obj w =
     (case ob_Metadata obj of
        None \<Rightarrow> (if is_new ps_Phase obj then Panicked else Returned None, w)
      | Some m \<Rightarrow>
          if meta_DeletionTimestamp m \<noteq> [] then
            (if in_phase ps_Phase ''Deleted'' obj \<or> in_phase ps_Phase ''Failed'' obj then
               (case ks_Delete storage (Itoa (ob_ID obj)) w of
                  (Some e, w1) \<Rightarrow> (Returned (Some (ErrWrap e (''failed to delete engine '' @ WorkspaceName m @ '' from DB''))), w1)
                | (None, w1) \<Rightarrow> (Returned None, w1))
             else
               (case engine_updateStatus R storage obj ''Deleted'' None w of
                  (Some e, w1) \<Rightarrow> (Returned (Some (ErrWrap e (''failed to update engine '' @ WorkspaceName m @ '' status''))), w1)
                | (None, w1) \<Rightarrow> (Returned None, w1)))
          else if is_new ps_Phase obj then
            (case engine_updateStatus R storage obj ''Created'' None w of
               (Some e, w1) \<Rightarrow> (Returned (Some (ErrWrap e (''failed to update engine '' @ WorkspaceName m @ '' status to CREATED''))), w1)
             | (None, w1) \<Rightarrow> (Returned None, w1))
          else (Returned None, w))"

definition engine_Reconcile ::
  "'w runtime \<Rightarrow> (int, engine_spec, phase_status, 'w) kind_store \<Rightarrow> engine option \<Rightarrow> 'w \<Rightarrow> ret \<times> 'w" where
  "engine_Reconcile R storage obj w =
     (case obj of
        None \<Rightarrow> (Returned (Some (ErrNew ''failed to assert obj to *v1.Engine'')), w)
      | Some engine \<Rightarrow> (if ob_Metadata engine = None then (Panicked, w) else engine_sync R storage engine w))"

section \<open>The protocol\<close>

text \<open>Storage-only controllers: a controller is its clock and its storage.\<close>

definition stored_lawful :: "'w runtime \<times> ('i, 's, 't, 'w) kind_store \<Rightarrow> ('w \<Rightarrow> ('i, 's, 't) rows) \<Rightarrow> bool" where
  "stored_lawful c rows \<longleftrightarrow> kind_laws (snd c) rows"

definition stored_works :: "'w runtime \<times> ('i, 's, 't, 'w) kind_store \<Rightarrow> ('w \<Rightarrow> ('i, 's, 't) rows) \<Rightarrow> ('i, 's, 't) object \<Rightarrow> bool" where
  "stored_works c rows ob \<longleftrightarrow> answers (snd c)"

lemmas stored = stored_lawful_def stored_works_def

lemma role_step:
  assumes k: "kind_laws S rows"
  shows "table_step Itoa ps_Phase [''Deleted''] ob (rows w) (rows (snd (role_sync R S ob w)))"
  by (simp add: role_sync_def role_updateStatus_def split_beta marked_cases same_step update_step [OF k] delete_step [OF k] split: option.split)

lemma role_deletes:
  assumes "kind_laws S rows" "answers S" "marked ob"
  shows "rows (snd (role_sync R S ob w)) =
    (rows w)(Itoa (ob_ID ob) := (if in_phase ps_Phase ''Deleted'' ob then None
       else map_option (patched (status_update 0 (phase_status_of R ''Deleted'' None w))) (rows w (Itoa (ob_ID ob)))))"
proof -
  obtain m where "ob_Metadata ob = Some m" "meta_DeletionTimestamp m \<noteq> []" using marked_metadata [OF assms(3)] by blast
  then show ?thesis by (simp add: role_sync_def role_updateStatus_def split_beta answer [OF assms(1,2)])
qed

interpretation role: removal "\<lambda>c. role_sync (fst c) (snd c)" stored_lawful Itoa ps_Phase "[''Deleted'']" read_before stored_works
  by unfold_locales (simp_all add: stored role_step role_deletes read_now)

lemma role_assignment_step:
  assumes k: "kind_laws S rows"
  shows "table_step Itoa ps_Phase [''Deleted''] ob (rows w) (rows (snd (role_assignment_sync R S ob w)))"
  by (simp add: role_assignment_sync_def role_assignment_updateStatus_def Let_def split_beta same_step update_step [OF k] delete_step [OF k]
      split: option.split)

lemma role_assignment_deletes:
  assumes "kind_laws S rows" "answers S" "marked ob"
  shows "rows (snd (role_assignment_sync R S ob w)) =
    (rows w)(Itoa (ob_ID ob) := (if in_phase ps_Phase ''Deleted'' ob then None
       else map_option (patched (status_update 0 (phase_status_of R ''Deleted'' None w))) (rows w (Itoa (ob_ID ob)))))"
  using assms(3)
  by (simp add: role_assignment_sync_def role_assignment_updateStatus_def Let_def split_beta answer [OF assms(1,2)])

interpretation role_assignment: removal "\<lambda>c. role_assignment_sync (fst c) (snd c)" stored_lawful Itoa ps_Phase "[''Deleted'']"
  read_before stored_works
  by unfold_locales (simp_all add: stored role_assignment_step role_assignment_deletes read_now)

lemma engine_step:
  assumes k: "kind_laws S rows"
  shows "table_step Itoa ps_Phase [''Deleted'', ''Failed''] ob (rows w) (rows (snd (engine_sync R S ob w)))"
  by (simp add: engine_sync_def engine_updateStatus_def split_beta marked_cases same_step update_step [OF k] delete_step [OF k]
      split: option.split)

lemma engine_deletes:
  assumes "kind_laws S rows" "answers S" "marked ob"
  shows "rows (snd (engine_sync R S ob w)) =
    (rows w)(Itoa (ob_ID ob) := (if in_phase ps_Phase ''Deleted'' ob \<or> in_phase ps_Phase ''Failed'' ob then None
       else map_option (patched (status_update 0 (phase_status_of R ''Deleted'' None w))) (rows w (Itoa (ob_ID ob)))))"
proof -
  obtain m where "ob_Metadata ob = Some m" "meta_DeletionTimestamp m \<noteq> []" using marked_metadata [OF assms(3)] by blast
  then show ?thesis by (simp add: engine_sync_def engine_updateStatus_def split_beta answer [OF assms(1,2)])
qed

interpretation engine: removal "\<lambda>c. engine_sync (fst c) (snd c)" stored_lawful Itoa ps_Phase "[''Deleted'', ''Failed'']"
  read_before stored_works
  by unfold_locales (simp_all add: stored engine_step engine_deletes read_now)

end
