(* ===== verification/Registry_Controllers.thy ===== *)
theory Registry_Controllers
  imports Lifecycle Image_Ref
begin

text \<open>
  The controllers of image registries and model registries, which keep a connection to an outside
  service (\<open>controllers/image_registry_controller.go\<close>, \<open>controllers/model_registry_controller.go\<close>).
  The image service and the model registry are the Go interfaces the controllers call.
\<close>

section \<open>Image registries\<close>

type_synonym image_registry_object = "(int, image_registry_spec, phase_status) object"

datatype authenticator = Anonymous | FromConfig string string string

record 'w image_registry_controller =
  irc_storage :: "(int, image_registry_spec, phase_status, 'w) kind_store"
  irc_CheckPullPermission :: "string \<Rightarrow> authenticator \<Rightarrow> 'w \<Rightarrow> (go_error + bool) \<times> 'w"

text \<open>The outer option is \<open>None\<close> when the missing specification, or missing metadata for a message, is dereferenced.\<close>

definition connectImageRegistry ::
  "url_parser \<Rightarrow> 'w image_registry_controller \<Rightarrow> image_registry_object \<Rightarrow> 'w \<Rightarrow> go_error option option \<times> 'w" where
  "connectImageRegistry parse c imageRegistry w =
     (let failed = (\<lambda>f. map_option (\<lambda>m. Some (f (WorkspaceName m))) (ob_Metadata imageRegistry)) in
      case ob_Spec imageRegistry of
        None \<Rightarrow> (None, w)
      | Some spec \<Rightarrow>
          (let a = irs_AuthConfig spec in
           case GetImagePrefix parse spec of
             Inl e \<Rightarrow> (failed (\<lambda>name. ErrWrap e (''failed to get image prefix for image registry '' @ name)), w)
           | Inr imagePrefix \<Rightarrow>
               (let testImage = imagePrefix @ ''/neutree/neutree-serve'';
                    authenticator = (if irac_Username a = [] \<and> irac_Password a = [] \<and> irac_Auth a = [] then Anonymous
                      else FromConfig (irac_Username a) (irac_Password a) (irac_Auth a)) in
                case irc_CheckPullPermission c testImage authenticator w of
                  (Inl e, w1) \<Rightarrow> (failed (\<lambda>name. ErrWrap e (''failed to connect '' @ name @ '' at URL '' @ irs_URL spec)), w1)
                | (Inr hasPermission, w1) \<Rightarrow>
                    (if hasPermission then Some None
                     else failed (\<lambda>name. ErrNew (''no pull permission for image registry '' @ name @ '' at URL '' @ irs_URL spec)), w1))))"

definition image_registry_updateStatus ::
  "'w runtime \<Rightarrow> 'w image_registry_controller \<Rightarrow> image_registry_object \<Rightarrow> string \<Rightarrow> go_error option \<Rightarrow> 'w \<Rightarrow> go_error option \<times> 'w" where
  "image_registry_updateStatus R c obj phase err w =
     ks_Update (irc_storage c) (Itoa (ob_ID obj)) (status_update 0 (phase_status_of R phase err w)) w"

text \<open>The deferred status update, skipped when the phase and the presence of an error are already recorded.\<close>

definition connection_phase :: "go_error option \<Rightarrow> string" where
  "connection_phase err = (if err \<noteq> None then ''Failed'' else ''Connected'')"

definition connection_recorded :: "(int, 's, phase_status) object \<Rightarrow> go_error option \<Rightarrow> bool" where
  "connection_recorded obj err \<longleftrightarrow>
     (case ob_Status obj of
        None \<Rightarrow> False
      | Some st \<Rightarrow> ps_Phase st = connection_phase err \<and> (err \<noteq> None) = (ps_ErrorMessage st \<noteq> []))"

definition image_registry_deferred ::
  "'w runtime \<Rightarrow> 'w image_registry_controller \<Rightarrow> image_registry_object \<Rightarrow> go_error option \<Rightarrow> 'w \<Rightarrow> go_error option \<times> 'w" where
  "image_registry_deferred R c obj err w =
     (if connection_recorded obj err then (None, w)
      else image_registry_updateStatus R c obj (connection_phase err) err w)"

text \<open>A failure of the deferred update is only logged, but the log line reads the metadata.\<close>

definition after_deferred :: "('i, 's, 't) object \<Rightarrow> ret \<Rightarrow> go_error option \<times> 'w \<Rightarrow> ret \<times> 'w" where
  "after_deferred obj r u = (if fst u \<noteq> None \<and> ob_Metadata obj = None then Panicked else r, snd u)"

text \<open>
  The deferred update also runs while \<open>connectImageRegistry\<close> panics, and then sees no error. An error
  of \<open>connectImageRegistry\<close> exists only when the metadata does.
\<close>

definition image_registry_sync ::
  "url_parser \<Rightarrow> 'w runtime \<Rightarrow> 'w image_registry_controller \<Rightarrow> image_registry_object \<Rightarrow> 'w \<Rightarrow> ret \<times> 'w" where
  "image_registry_sync parse R c obj w =
     (let connect = (\<lambda>wrap. case connectImageRegistry parse c obj w of
            (None, w1) \<Rightarrow> (Panicked, snd (image_registry_deferred R c obj None w1))
          | (Some err, w1) \<Rightarrow> after_deferred obj (Returned (map_option wrap err)) (image_registry_deferred R c obj err w1)) in
      case ob_Metadata obj of
        None \<Rightarrow> connect (\<lambda>e. e)
      | Some m \<Rightarrow>
          if meta_DeletionTimestamp m \<noteq> [] then
            (if in_phase ps_Phase ''Deleted'' obj then
               (case ks_Delete (irc_storage c) (Itoa (ob_ID obj)) w of
                  (Some e, w1) \<Rightarrow> (Returned (Some (ErrWrap e (''failed to delete image registry '' @ WorkspaceName m @ '' from DB''))), w1)
                | (None, w1) \<Rightarrow> (Returned None, w1))
             else
               (case image_registry_updateStatus R c obj ''Deleted'' None w of
                  (Some e, w1) \<Rightarrow> (Returned (Some (ErrWrap e (''failed to update image registry '' @ WorkspaceName m @ '' status''))), w1)
                | (None, w1) \<Rightarrow> (Returned None, w1)))
          else connect (\<lambda>e. ErrWrap e (''failed to connect image registry '' @ WorkspaceName m)))"

definition image_registry_Reconcile ::
  "url_parser \<Rightarrow> 'w runtime \<Rightarrow> 'w image_registry_controller \<Rightarrow> image_registry_object option \<Rightarrow> 'w \<Rightarrow> ret \<times> 'w" where
  "image_registry_Reconcile parse R c obj w =
     (case obj of
        None \<Rightarrow> (Returned (Some (ErrNew ''failed to assert obj to *v1.ImageRegistry'')), w)
      | Some imageRegistry \<Rightarrow>
          (if ob_Metadata imageRegistry = None then (Panicked, w) else image_registry_sync parse R c imageRegistry w))"

section \<open>Model registries\<close>

record model_registry_spec =
  mrs_Type :: string
  mrs_Url :: string
  mrs_Credentials :: string

type_synonym model_registry_object = "(int, model_registry_spec, phase_status) object"

record 'w model_registry =
  mr_Connect :: "'w \<Rightarrow> go_error option \<times> 'w"
  mr_Disconnect :: "'w \<Rightarrow> go_error option \<times> 'w"
  mr_HealthyCheck :: "'w \<Rightarrow> go_error option \<times> 'w"

record 'w model_registry_controller =
  mrc_storage :: "(int, model_registry_spec, phase_status, 'w) kind_store"
  mrc_NewModelRegistry :: "model_registry_object \<Rightarrow> 'w \<Rightarrow> (go_error + 'w model_registry) \<times> 'w"

definition model_registry_updateStatus ::
  "'w runtime \<Rightarrow> 'w model_registry_controller \<Rightarrow> model_registry_object \<Rightarrow> string \<Rightarrow> go_error option \<Rightarrow> 'w \<Rightarrow> go_error option \<times> 'w" where
  "model_registry_updateStatus R c obj phase err w =
     ks_Update (mrc_storage c) (Itoa (ob_ID obj)) (status_update 0 (phase_status_of R phase err w)) w"

text \<open>The cleanup: a registry that cannot be created from its configuration has nothing to disconnect.\<close>

definition model_registry_cleanup ::
  "'w model_registry_controller \<Rightarrow> metadata \<Rightarrow> model_registry_object \<Rightarrow> 'w \<Rightarrow> go_error option \<times> 'w" where
  "model_registry_cleanup c m obj w =
     (case mrc_NewModelRegistry c obj w of
        (Inl e, w1) \<Rightarrow> (None, w1)
      | (Inr modelRegistry, w1) \<Rightarrow>
          (case mr_Disconnect modelRegistry w1 of
             (Some e, w2) \<Rightarrow> (Some (ErrWrap e (''failed to disconnect model registry '' @ WorkspaceName m)), w2)
           | (None, w2) \<Rightarrow> (None, w2)))"

text \<open>The connection: an error comes with the message it is to be wrapped in, up to the name of the registry.\<close>

definition model_registry_connection ::
  "'w model_registry_controller \<Rightarrow> model_registry_object \<Rightarrow> 'w \<Rightarrow> (go_error \<times> string) option \<times> 'w" where
  "model_registry_connection c obj w =
     (case mrc_NewModelRegistry c obj w of
        (Inl e, w1) \<Rightarrow> (Some (e, ''failed to create model registry ''), w1)
      | (Inr modelRegistry, w1) \<Rightarrow>
          if is_new ps_Phase obj then
            (case mr_Connect modelRegistry w1 of
               (Some e, w2) \<Rightarrow> (Some (e, ''failed to connect model registry ''), w2)
             | (None, w2) \<Rightarrow> (None, w2))
          else if in_phase ps_Phase ''Failed'' obj then
            (case mr_Disconnect modelRegistry w1 of
               (Some e, w2) \<Rightarrow> (Some (e, ''failed to disconnect model registry ''), w2)
             | (None, w2) \<Rightarrow>
                 (case mr_Connect modelRegistry w2 of
                    (Some e, w3) \<Rightarrow> (Some (e, ''failed to connect model registry ''), w3)
                  | (None, w3) \<Rightarrow> (None, w3)))
          else if in_phase ps_Phase ''Connected'' obj then
            (case mr_HealthyCheck modelRegistry w1 of
               (Some e, w2) \<Rightarrow> (Some (e, ''health check failed for model registry ''), w2)
             | (None, w2) \<Rightarrow> (None, w2))
          else (None, w1))"

definition model_registry_deferred ::
  "'w runtime \<Rightarrow> 'w model_registry_controller \<Rightarrow> model_registry_object \<Rightarrow> go_error option \<Rightarrow> 'w \<Rightarrow> go_error option \<times> 'w" where
  "model_registry_deferred R c obj err w =
     (if connection_recorded obj err then (None, w)
      else model_registry_updateStatus R c obj (connection_phase err) err w)"

text \<open>
  Creating the registry dereferences the specification. The error is the named result of the handler: the
  deferred update sees it wrapped, or as it was when the wrapping panics for lack of metadata.
\<close>

definition model_registry_sync ::
  "'w runtime \<Rightarrow> 'w model_registry_controller \<Rightarrow> model_registry_object \<Rightarrow> 'w \<Rightarrow> ret \<times> 'w" where
  "model_registry_sync R c obj w =
     (if \<not> marked obj \<and> ob_Spec obj = None then (Panicked, snd (model_registry_deferred R c obj None w))
      else case ob_Metadata obj of
        None \<Rightarrow>
          (case model_registry_connection c obj w of
             (Some (e, msg), w1) \<Rightarrow> (Panicked, snd (model_registry_deferred R c obj (Some e) w1))
           | (None, w1) \<Rightarrow> after_deferred obj (Returned None) (model_registry_deferred R c obj None w1))
      | Some m \<Rightarrow>
          if meta_DeletionTimestamp m \<noteq> [] then
            (if in_phase ps_Phase ''Deleted'' obj then
               (case ks_Delete (mrc_storage c) (Itoa (ob_ID obj)) w of
                  (Some e, w1) \<Rightarrow> (Returned (Some (ErrWrap e (''failed to delete model registry '' @ WorkspaceName m @ '' from DB''))), w1)
                | (None, w1) \<Rightarrow> (Returned None, w1))
             else if ob_Spec obj = None then (Panicked, w)
             else
               (let isForceDelete = IsForceDelete (meta_Annotations m) in
                case model_registry_cleanup c m obj w of
                  (deleteErr, w1) \<Rightarrow>
                    (let failed = deleteErr \<noteq> None \<and> \<not> isForceDelete;
                         w2 = snd (model_registry_updateStatus R c obj (if failed then ''Failed'' else ''Deleted'') deleteErr w1) in
                     (Returned (if failed then deleteErr else None), w2))))
          else
            (case model_registry_connection c obj w of
               (err, w1) \<Rightarrow>
                 (let err' = map_option (\<lambda>(e, msg). ErrWrap e (msg @ WorkspaceName m)) err in
                  after_deferred obj (Returned err') (model_registry_deferred R c obj err' w1))))"

definition model_registry_Reconcile ::
  "'w runtime \<Rightarrow> 'w model_registry_controller \<Rightarrow> model_registry_object option \<Rightarrow> 'w \<Rightarrow> ret \<times> 'w" where
  "model_registry_Reconcile R c obj w =
     (case obj of
        None \<Rightarrow> (Returned (Some (ErrNew ''failed to assert obj to *v1.ModelRegistry'')), w)
      | Some modelRegistry \<Rightarrow>
          (if ob_Metadata modelRegistry = None then (Panicked, w) else model_registry_sync R c modelRegistry w))"

section \<open>The protocol\<close>

text \<open>Image registries: the image service leaves the table alone.\<close>

definition image_registry_lawful :: "'w image_registry_controller \<Rightarrow> ('w \<Rightarrow> (int, image_registry_spec, phase_status) rows) \<Rightarrow> bool" where
  "image_registry_lawful c rows \<longleftrightarrow> kind_laws (irc_storage c) rows \<and> (\<forall>i a. untouched rows (irc_CheckPullPermission c i a))"

lemma image_registry_laws: "image_registry_lawful c rows \<Longrightarrow> kind_laws (irc_storage c) rows"
  by (simp add: image_registry_lawful_def)

lemma connectImageRegistry_rows:
  assumes "image_registry_lawful c rows"
  shows "rows (snd (connectImageRegistry parse c ob w)) = rows w"
  using assms by (simp add: connectImageRegistry_def image_registry_lawful_def untouched_def split_beta Let_def split: option.split sum.split)

lemma image_registry_step:
  assumes l: "image_registry_lawful c rows"
  shows "table_step Itoa ps_Phase [''Deleted''] ob (rows w) (rows (snd (image_registry_sync parse R c ob w)))"
proof -
  note k = image_registry_laws [OF l]
  note step = update_step [OF k] delete_step [OF k] same_step
  show ?thesis
    by (simp add: image_registry_sync_def image_registry_deferred_def after_deferred_def image_registry_updateStatus_def connection_phase_def split_beta Let_def
        marked_cases connectImageRegistry_rows [OF l] step split: option.split)
qed

lemma image_registry_deletes:
  assumes "image_registry_lawful c rows" "answers (irc_storage c)" "marked ob"
  shows "rows (snd (image_registry_sync parse R c ob w)) =
    (rows w)(Itoa (ob_ID ob) := (if in_phase ps_Phase ''Deleted'' ob then None
       else map_option (patched (status_update 0 (phase_status_of R ''Deleted'' None w))) (rows w (Itoa (ob_ID ob)))))"
proof -
  obtain m where "ob_Metadata ob = Some m" "meta_DeletionTimestamp m \<noteq> []" using marked_metadata [OF assms(3)] by blast
  then show ?thesis
    by (simp add: image_registry_sync_def image_registry_updateStatus_def split_beta answer [OF image_registry_laws [OF assms(1)] assms(2)])
qed

interpretation image_registry: removal "\<lambda>(p, c). image_registry_sync (fst p) (snd p) c" "\<lambda>(p, c). image_registry_lawful c"
  Itoa ps_Phase "[''Deleted'']" read_before "\<lambda>(p, c) rows ob. answers (irc_storage c)"
  by unfold_locales (simp_all add: split_beta image_registry_step image_registry_deletes read_now)

text \<open>Model registries: connecting and disconnecting leave the table alone.\<close>

definition model_registry_lawful :: "'w model_registry_controller \<Rightarrow> ('w \<Rightarrow> (int, model_registry_spec, phase_status) rows) \<Rightarrow> bool" where
  "model_registry_lawful c rows \<longleftrightarrow> kind_laws (mrc_storage c) rows \<and>
     (\<forall>ob. untouched rows (mrc_NewModelRegistry c ob)) \<and>
     (\<forall>ob w r. fst (mrc_NewModelRegistry c ob w) = Inr r \<longrightarrow>
        untouched rows (mr_Connect r) \<and> untouched rows (mr_Disconnect r) \<and> untouched rows (mr_HealthyCheck r))"

definition model_registry_cleaned :: "'w model_registry_controller \<Rightarrow> model_registry_object \<Rightarrow> 'w \<Rightarrow> bool" where
  "model_registry_cleaned c ob w \<longleftrightarrow>
     (case fst (mrc_NewModelRegistry c ob w) of
        Inl e \<Rightarrow> True
      | Inr r \<Rightarrow> fst (mr_Disconnect r (snd (mrc_NewModelRegistry c ob w))) = None)"

definition model_registry_works ::
  "'w model_registry_controller \<Rightarrow> model_registry_object \<Rightarrow> bool" where
  "model_registry_works c ob \<longleftrightarrow> answers (mrc_storage c) \<and> ob_Spec ob \<noteq> None \<and> (forced ob \<or> (\<forall>w. model_registry_cleaned c ob w))"

lemma model_registry_laws: "model_registry_lawful c rows \<Longrightarrow> kind_laws (mrc_storage c) rows"
  by (simp add: model_registry_lawful_def)

lemma model_registry_cleanup_cleaned: "fst (model_registry_cleanup c m ob w) = None \<longleftrightarrow> model_registry_cleaned c ob w"
  by (simp add: model_registry_cleanup_def model_registry_cleaned_def split_beta split: sum.split option.split)

lemma model_registry_rows:
  assumes "model_registry_lawful c rows"
  shows "rows (snd (model_registry_cleanup c m ob w)) = rows w" "rows (snd (model_registry_connection c ob w)) = rows w"
proof -
  have n: "rows (snd (mrc_NewModelRegistry c ob w)) = rows w" for w
    using assms by (simp add: model_registry_lawful_def untouched_def)
  have r: "rows (snd (mr_Connect r v)) = rows v" "rows (snd (mr_Disconnect r v)) = rows v" "rows (snd (mr_HealthyCheck r v)) = rows v"
    if "fst (mrc_NewModelRegistry c ob w) = Inr r" for r v
    using assms that unfolding model_registry_lawful_def untouched_def by blast+
  show "rows (snd (model_registry_cleanup c m ob w)) = rows w" "rows (snd (model_registry_connection c ob w)) = rows w"
    by (simp_all add: model_registry_cleanup_def model_registry_connection_def split_beta n r split: sum.split option.split)
qed

lemma model_registry_step:
  assumes l: "model_registry_lawful c rows"
  shows "table_step Itoa ps_Phase [''Deleted''] ob (rows w) (rows (snd (model_registry_sync R c ob w)))"
proof -
  note k = model_registry_laws [OF l]
  note step = update_step [OF k] delete_step [OF k] same_step
  show ?thesis
    by (simp add: model_registry_sync_def model_registry_deferred_def after_deferred_def model_registry_updateStatus_def connection_phase_def split_beta Let_def
        marked_cases model_registry_rows [OF l] step split: option.split)
qed

lemma model_registry_guard:
  assumes l: "model_registry_lawful c rows" and "\<not> forced ob" "\<not> model_registry_cleaned c ob w"
  shows "\<not> writes_deleted ps_Phase (Itoa (ob_ID ob)) (rows w) (rows (snd (model_registry_sync R c ob w)))"
proof -
  note k = model_registry_laws [OF l]
  have "fst (model_registry_cleanup c m ob w) \<noteq> None" for m using assms(3) by (simp add: model_registry_cleanup_cleaned)
  then show ?thesis
    using assms(2)
    by (cases "ob_Metadata ob") (simp_all add: model_registry_sync_def model_registry_deferred_def after_deferred_def model_registry_updateStatus_def connection_phase_def split_beta Let_def
        forced_cases model_registry_rows [OF l] not_written(1) not_written(2,3) [OF k] split: option.split)
qed

lemma model_registry_answers: "model_registry_works c ob \<Longrightarrow> answers (mrc_storage c)"
  by (simp add: model_registry_works_def)

lemma model_registry_removes:
  assumes "model_registry_lawful c rows" "answers (mrc_storage c)" "marked ob" "in_phase ps_Phase ''Deleted'' ob"
  shows "rows (snd (model_registry_sync R c ob w)) = (rows w)(Itoa (ob_ID ob) := None)"
proof -
  obtain m where "ob_Metadata ob = Some m" "meta_DeletionTimestamp m \<noteq> []" using marked_metadata [OF assms(3)] by blast
  then show ?thesis
    using assms(3,4) by (simp add: model_registry_sync_def split_beta answer [OF model_registry_laws [OF assms(1)] assms(2)])
qed

lemma model_registry_records:
  assumes "model_registry_lawful c rows" "model_registry_works c ob" "marked ob" "rows w (Itoa (ob_ID ob)) = Some ob"
  shows "\<forall>y. rows (snd (model_registry_sync R c ob w)) (Itoa (ob_ID ob)) = Some y \<longrightarrow> in_phase ps_Phase ''Deleted'' y"
proof -
  obtain m where m: "ob_Metadata ob = Some m" "meta_DeletionTimestamp m \<noteq> []" using marked_metadata [OF assms(3)] by blast
  have "IsForceDelete (meta_Annotations m) \<or> fst (model_registry_cleanup c m ob w) = None"
    using assms(2) m(1) by (auto simp: model_registry_works_def forced_cases model_registry_cleanup_cleaned)
  moreover have "ob_Spec ob \<noteq> None" "answers (mrc_storage c)" using assms(2) by (simp_all add: model_registry_works_def)
  note answer [OF model_registry_laws [OF assms(1)] this(2)] this(1)
  ultimately show ?thesis
    using m assms(3,4)
    by (auto simp: model_registry_sync_def model_registry_updateStatus_def split_beta Let_def model_registry_rows [OF assms(1)])
qed

interpretation model_registry: guarded_lifecycle "\<lambda>(R, c). model_registry_sync R c" "\<lambda>(R, c). model_registry_lawful c"
  Itoa ps_Phase read_before "\<lambda>(R, c). model_registry_cleaned c"
  by unfold_locales (auto simp: model_registry_step model_registry_guard)

interpretation model_registry: removal "\<lambda>(R, c). model_registry_sync R c" "\<lambda>(R, c). model_registry_lawful c"
  Itoa ps_Phase "[''Deleted'']" read_before "\<lambda>(R, c) rows ob. model_registry_works c ob"
  by unfold_locales (auto simp: read_now model_registry_removes model_registry_answers dest: model_registry_records)

end
