(* ===== verification/Access_Controllers.thy ===== *)
theory Access_Controllers
  imports Lifecycle
begin

text \<open>
  The controllers of API keys, external endpoints and user profiles
  (\<open>controllers/api_key_controller.go\<close>, \<open>external_endpoint_controller.go\<close>, \<open>user_profile_controller.go\<close>).
  The gateway, the authentication backend and the UUID parser are the interfaces the controllers call.
  A message or a log line that names the object reads its metadata, which panics when there is none.
\<close>

section \<open>API keys\<close>

record allowed_model =
  am_Model :: string
  am_Type :: string
  am_EndpointName :: string

record api_key_token_quota =
  atq_Limit :: int
  atq_Period :: string

record api_key_limits =
  akl_TokenQuota :: "api_key_token_quota ptr"
  akl_RPS :: int
  akl_RPM :: int
  akl_Concurrency :: int
  akl_AllowedModels :: "allowed_model slice"
  akl_Disabled :: bool

record api_key_spec =
  aks_Quota :: int
  aks_Limits :: "api_key_limits ptr"

record api_key_status =
  akst_ErrorMessage :: string
  akst_LastTransitionTime :: string
  akst_Phase :: string
  akst_SkValue :: string
  akst_Usage :: int
  akst_LastUsedAt :: string
  akst_LastSyncAt :: string

text \<open>The user identifier of a key, which the controller never looks at, is left out.\<close>

type_synonym api_key = "(string, api_key_spec, api_key_status) object"

record 'w api_key_controller =
  akc_storage :: "(string, api_key_spec, api_key_status, 'w) kind_store"
  akc_SyncAPIKey :: "api_key \<Rightarrow> 'w \<Rightarrow> go_error option \<times> 'w"
  akc_DeleteAPIKey :: "api_key \<Rightarrow> 'w \<Rightarrow> go_error option \<times> 'w"

text \<open>The secret is carried over from the present status; without one its dereference panics, which is \<open>None\<close>.\<close>

definition api_key_updateStatus ::
  "'w runtime \<Rightarrow> 'w api_key_controller \<Rightarrow> api_key \<Rightarrow> string \<Rightarrow> go_error option \<Rightarrow> 'w \<Rightarrow> go_error option option \<times> 'w" where
  "api_key_updateStatus R c obj phase err w =
     (case ob_Status obj of
        None \<Rightarrow> (None, w)
      | Some st \<Rightarrow>
          (case ks_Update (akc_storage c) (ob_ID obj)
                  (status_update [] \<lparr>akst_ErrorMessage = FormatErrorForStatus (rt_errors R) err,
                     akst_LastTransitionTime = FormatStatusTime R w, akst_Phase = phase, akst_SkValue = akst_SkValue st,
                     akst_Usage = 0, akst_LastUsedAt = [], akst_LastSyncAt = []\<rparr>) w of
             (e, w1) \<Rightarrow> (Some e, w1)))"

definition api_key_sync :: "'w runtime \<Rightarrow> 'w api_key_controller \<Rightarrow> api_key \<Rightarrow> 'w \<Rightarrow> ret \<times> 'w" where
  "api_key_sync R c obj w =
     (case ob_Metadata obj of
        None \<Rightarrow>
          (case akc_SyncAPIKey c obj w of
             (Some e, w1) \<Rightarrow> (Panicked, w1)
           | (None, w1) \<Rightarrow> (if is_new akst_Phase obj then Panicked else Returned None, w1))
      | Some m \<Rightarrow>
          if meta_DeletionTimestamp m \<noteq> [] then
            (let isForceDelete = IsForceDelete (meta_Annotations m) in
             if in_phase akst_Phase ''Deleted'' obj then
               (case ks_Delete (akc_storage c) (ob_ID obj) w of
                  (Some e, w1) \<Rightarrow> (Returned (Some (ErrWrap e (''failed to delete api_key '' @ WorkspaceName m @ '' from DB''))), w1)
                | (None, w1) \<Rightarrow> (Returned None, w1))
             else
               (case akc_DeleteAPIKey c obj w of
                  (deleteErr, w1) \<Rightarrow>
                    (case api_key_updateStatus R c obj ''Deleted'' deleteErr w1 of
                       (None, w2) \<Rightarrow> (Panicked, w2)
                     | (Some (Some e), w2) \<Rightarrow>
                         (Returned (Some (ErrWrap e (''failed to update api_key '' @ WorkspaceName m @ '' status''))), w2)
                     | (Some None, w2) \<Rightarrow> (Returned (if deleteErr \<noteq> None \<and> \<not> isForceDelete then deleteErr else None), w2))))
          else
            (case akc_SyncAPIKey c obj w of
               (Some e, w1) \<Rightarrow> (Returned (Some (ErrWrap e (''failed to sync api_key '' @ WorkspaceName m @ '' to gateway''))), w1)
             | (None, w1) \<Rightarrow>
                 if is_new akst_Phase obj then
                   (case api_key_updateStatus R c obj ''Created'' None w1 of
                      (None, w2) \<Rightarrow> (Panicked, w2)
                    | (Some (Some e), w2) \<Rightarrow>
                        (Returned (Some (ErrWrap e (''failed to update api_key '' @ WorkspaceName m @ '' status to CREATED''))), w2)
                    | (Some None, w2) \<Rightarrow> (Returned None, w2))
                 else (Returned None, w1)))"

definition api_key_Reconcile :: "'w runtime \<Rightarrow> 'w api_key_controller \<Rightarrow> api_key option \<Rightarrow> 'w \<Rightarrow> ret \<times> 'w" where
  "api_key_Reconcile R c obj w =
     (case obj of
        None \<Rightarrow> (Returned (Some (ErrNew ''failed to assert obj to *v1.ApiKey'')), w)
      | Some apiKey \<Rightarrow> (if ob_Metadata apiKey = None then (Panicked, w) else api_key_sync R c apiKey w))"

section \<open>External endpoints\<close>

record external_endpoint_auth_spec =
  eea_Type :: string
  eea_Credential :: string

record external_endpoint_upstream_entry =
  eeu_Upstream :: "string ptr"
  eeu_EndpointRef :: "string ptr"
  eeu_Auth :: "external_endpoint_auth_spec ptr"
  eeu_ModelMapping :: strmap

record external_endpoint_spec =
  ees_Upstreams :: "external_endpoint_upstream_entry slice"
  ees_Timeout :: "int ptr"

record external_endpoint_status =
  eest_Phase :: string
  eest_ServiceURL :: string
  eest_LastTransitionTime :: string
  eest_ErrorMessage :: string

type_synonym external_endpoint = "(int, external_endpoint_spec, external_endpoint_status) object"

record 'w external_endpoint_controller =
  eec_storage :: "(int, external_endpoint_spec, external_endpoint_status, 'w) kind_store"
  eec_SyncExternalEndpoint :: "external_endpoint \<Rightarrow> 'w \<Rightarrow> go_error option \<times> 'w"
  eec_DeleteExternalEndpoint :: "external_endpoint \<Rightarrow> 'w \<Rightarrow> go_error option \<times> 'w"
  eec_GetServeUrl :: "external_endpoint \<Rightarrow> 'w \<Rightarrow> (go_error + string) \<times> 'w"

definition externalEndpointStatusChanged :: "external_endpoint_status ptr \<Rightarrow> external_endpoint_status ptr \<Rightarrow> bool" where
  "externalEndpointStatusChanged old newSt =
     (case old of
        None \<Rightarrow> newSt \<noteq> None
      | Some a \<Rightarrow>
          (case newSt of
             None \<Rightarrow> True
           | Some b \<Rightarrow> eest_Phase a \<noteq> eest_Phase b \<or> eest_ServiceURL a \<noteq> eest_ServiceURL b \<or> eest_ErrorMessage a \<noteq> eest_ErrorMessage b))"

text \<open>The address of the route; when the gateway has none, the warning reads the metadata, and \<open>None\<close> is its panic.\<close>

definition service_url ::
  "'w external_endpoint_controller \<Rightarrow> external_endpoint \<Rightarrow> string \<Rightarrow> 'w \<Rightarrow> string option \<times> 'w" where
  "service_url c obj phase w =
     (let old = (case ob_Status obj of None \<Rightarrow> [] | Some st \<Rightarrow> eest_ServiceURL st) in
      if phase = ''Running'' then
        (case eec_GetServeUrl c obj w of
           (Inl e, w1) \<Rightarrow> (map_option (\<lambda>m. old) (ob_Metadata obj), w1)
         | (Inr url, w1) \<Rightarrow> (Some (if url \<noteq> [] then url else old), w1))
      else (Some old, w))"

definition external_endpoint_updateStatus ::
  "'w runtime \<Rightarrow> 'w external_endpoint_controller \<Rightarrow> external_endpoint \<Rightarrow> string \<Rightarrow> go_error option \<Rightarrow>
    'w \<Rightarrow> go_error option option \<times> 'w" where
  "external_endpoint_updateStatus R c obj phase err w =
     (case service_url c obj phase w of
        (None, w1) \<Rightarrow> (None, w1)
      | (Some serviceURL, w1) \<Rightarrow>
          (let newStatus = \<lparr>eest_Phase = phase, eest_ServiceURL = serviceURL, eest_LastTransitionTime = FormatStatusTime R w1,
                 eest_ErrorMessage = FormatErrorForStatus (rt_errors R) err\<rparr> in
           if \<not> externalEndpointStatusChanged (ob_Status obj) (Some newStatus) then (Some None, w1)
           else (case ks_Update (eec_storage c) (Itoa (ob_ID obj)) (status_update 0 newStatus) w1 of (e, w2) \<Rightarrow> (Some e, w2))))"

definition external_endpoint_sync ::
  "'w runtime \<Rightarrow> 'w external_endpoint_controller \<Rightarrow> external_endpoint \<Rightarrow> 'w \<Rightarrow> ret \<times> 'w" where
  "external_endpoint_sync R c obj w =
     (case ob_Metadata obj of
        None \<Rightarrow>
          (case eec_SyncExternalEndpoint c obj w of
             (Some e, w1) \<Rightarrow> (Panicked, snd (external_endpoint_updateStatus R c obj ''Failed'' (Some e) w1))
           | (None, w1) \<Rightarrow>
               (case external_endpoint_updateStatus R c obj ''Running'' None w1 of
                  (Some None, w2) \<Rightarrow> (Returned None, w2)
                | (_, w2) \<Rightarrow> (Panicked, w2)))
      | Some m \<Rightarrow>
          if meta_DeletionTimestamp m \<noteq> [] then
            (let isForceDelete = IsForceDelete (meta_Annotations m) in
             if in_phase eest_Phase ''Deleted'' obj then
               (case ks_Delete (eec_storage c) (Itoa (ob_ID obj)) w of
                  (Some e, w1) \<Rightarrow> (Returned (Some (ErrWrap e (''failed to delete external_endpoint '' @ WorkspaceName m @ '' from DB''))), w1)
                | (None, w1) \<Rightarrow> (Returned None, w1))
             else
               (case eec_DeleteExternalEndpoint c obj w of
                  (deleteErr, w1) \<Rightarrow>
                    (case external_endpoint_updateStatus R c obj ''Deleted'' deleteErr w1 of
                       (None, w2) \<Rightarrow> (Panicked, w2)
                     | (Some (Some e), w2) \<Rightarrow>
                         (Returned (Some (ErrWrap e (''failed to update external_endpoint '' @ WorkspaceName m @ '' status''))), w2)
                     | (Some None, w2) \<Rightarrow> (Returned (if deleteErr \<noteq> None \<and> \<not> isForceDelete then deleteErr else None), w2))))
          else
            (case eec_SyncExternalEndpoint c obj w of
               (Some e, w1) \<Rightarrow>
                 (Returned (Some (ErrWrap e (''failed to sync external_endpoint '' @ WorkspaceName m @ '' to gateway''))),
                  snd (external_endpoint_updateStatus R c obj ''Failed'' (Some e) w1))
             | (None, w1) \<Rightarrow>
                 (case external_endpoint_updateStatus R c obj ''Running'' None w1 of
                    (None, w2) \<Rightarrow> (Panicked, w2)
                  | (Some (Some e), w2) \<Rightarrow>
                      (Returned (Some (ErrWrap e (''failed to update external_endpoint '' @ WorkspaceName m @ '' status to RUNNING''))), w2)
                  | (Some None, w2) \<Rightarrow> (Returned None, w2))))"

definition external_endpoint_Reconcile ::
  "'w runtime \<Rightarrow> 'w external_endpoint_controller \<Rightarrow> external_endpoint option \<Rightarrow> 'w \<Rightarrow> ret \<times> 'w" where
  "external_endpoint_Reconcile R c obj w =
     (case obj of
        None \<Rightarrow> (Returned (Some (ErrNew ''failed to assert obj to *v1.ExternalEndpoint'')), w)
      | Some ee \<Rightarrow> (if ob_Metadata ee = None then (Panicked, w) else external_endpoint_sync R c ee w))"

section \<open>User profiles\<close>

record user_profile_spec =
  ups_Email :: string

record user_profile_status =
  upst_Phase :: string
  upst_ErrorMessage :: string
  upst_LastTransitionTime :: string
  upst_SyncedSpec :: "user_profile_spec ptr"

type_synonym user_profile = "(string, user_profile_spec, user_profile_status) object"

record 'w user_profile_controller =
  upc_storage :: "(string, user_profile_spec, user_profile_status, 'w) kind_store"
  upc_AdminDeleteUser :: "string \<Rightarrow> 'w \<Rightarrow> go_error option \<times> 'w"
  upc_AdminUpdateUser :: "string \<Rightarrow> string \<Rightarrow> bool \<Rightarrow> 'w \<Rightarrow> go_error option \<times> 'w"
  upc_ParseUUID :: "string \<Rightarrow> go_error + string"

text \<open>A user the backend does not know is gone already.\<close>

definition says_not_found :: "err_lib \<Rightarrow> go_error \<Rightarrow> bool" where
  "says_not_found L e \<longleftrightarrow> (let errMsg = ToLower (error_text L e) in Contains errMsg ''not found'' \<or> Contains errMsg ''404'')"

definition deleteGoTrueUser ::
  "'w runtime \<Rightarrow> 'w user_profile_controller \<Rightarrow> user_profile \<Rightarrow> 'w \<Rightarrow> go_error option \<times> 'w" where
  "deleteGoTrueUser R c obj w =
     (case upc_ParseUUID c (ob_ID obj) of
        Inl e \<Rightarrow> (Some (ErrWrap e (''failed to parse user ID '' @ ob_ID obj @ '' as UUID'')), w)
      | Inr userUUID \<Rightarrow>
          (case upc_AdminDeleteUser c userUUID w of
             (Some e, w1) \<Rightarrow>
               (if says_not_found (rt_errors R) e then (None, w1)
                else (Some (ErrWrap e (''failed to delete user '' @ ob_ID obj @ '' from auth backend'')), w1))
           | (None, w1) \<Rightarrow> (None, w1)))"

definition syncSpecToGoTrue :: "'w user_profile_controller \<Rightarrow> user_profile \<Rightarrow> 'w \<Rightarrow> go_error option \<times> 'w" where
  "syncSpecToGoTrue c obj w =
     (case ob_Spec obj of
        None \<Rightarrow> (Some (ErrNew ''spec is nil, cannot sync to auth backend''), w)
      | Some spec \<Rightarrow>
          (case upc_ParseUUID c (ob_ID obj) of
             Inl e \<Rightarrow> (Some (ErrWrap e (''failed to parse user ID '' @ ob_ID obj @ '' as UUID'')), w)
           | Inr userUUID \<Rightarrow>
               (case upc_AdminUpdateUser c userUUID (ups_Email spec) True w of
                  (Some e, w1) \<Rightarrow> (Some (ErrWrap e (''failed to update user in auth backend for user '' @ ob_ID obj)), w1)
                | (None, w1) \<Rightarrow> (None, w1))))"

definition updateStatusWithSyncedSpec ::
  "'w runtime \<Rightarrow> 'w user_profile_controller \<Rightarrow> user_profile \<Rightarrow> string \<Rightarrow> go_error option \<Rightarrow> user_profile_spec ptr \<Rightarrow>
    'w \<Rightarrow> go_error option \<times> 'w" where
  "updateStatusWithSyncedSpec R c obj phase err syncedSpec w =
     ks_Update (upc_storage c) (ob_ID obj)
       (status_update [] \<lparr>upst_Phase = phase, upst_ErrorMessage = FormatErrorForStatus (rt_errors R) err,
          upst_LastTransitionTime = FormatStatusTime R w, upst_SyncedSpec = syncedSpec\<rparr>) w"

definition user_profile_updateStatus ::
  "'w runtime \<Rightarrow> 'w user_profile_controller \<Rightarrow> user_profile \<Rightarrow> string \<Rightarrow> go_error option \<Rightarrow> 'w \<Rightarrow> go_error option \<times> 'w" where
  "user_profile_updateStatus R c obj phase err w =
     ks_Update (upc_storage c) (ob_ID obj)
       (status_update [] \<lparr>upst_Phase = phase, upst_ErrorMessage = FormatErrorForStatus (rt_errors R) err,
          upst_LastTransitionTime = FormatStatusTime R w, upst_SyncedSpec = None\<rparr>) w"

definition needs_sync :: "user_profile \<Rightarrow> bool" where
  "needs_sync obj \<longleftrightarrow>
     (case (ob_Spec obj, ob_Status obj) of
        (Some spec, Some st) \<Rightarrow>
          (case upst_SyncedSpec st of None \<Rightarrow> True | Some synced \<Rightarrow> ups_Email spec \<noteq> ups_Email synced)
      | _ \<Rightarrow> False)"

definition user_profile_sync ::
  "'w runtime \<Rightarrow> 'w user_profile_controller \<Rightarrow> user_profile \<Rightarrow> 'w \<Rightarrow> ret \<times> 'w" where
  "user_profile_sync R c obj w =
     (case ob_Metadata obj of
        None \<Rightarrow> (if is_new upst_Phase obj \<or> needs_sync obj then Panicked else Returned None, w)
      | Some m \<Rightarrow>
          if meta_DeletionTimestamp m \<noteq> [] then
            (let isForceDelete = IsForceDelete (meta_Annotations m) in
             if in_phase upst_Phase ''Deleted'' obj then
               (case ks_Delete (upc_storage c) (ob_ID obj) w of
                  (Some e, w1) \<Rightarrow> (Returned (Some (ErrWrap e (''failed to delete user profile '' @ WorkspaceName m @ '' from DB''))), w1)
                | (None, w1) \<Rightarrow> (Returned None, w1))
             else
               (case deleteGoTrueUser R c obj w of
                  (deleteErr, w1) \<Rightarrow>
                    (let failed = deleteErr \<noteq> None \<and> \<not> isForceDelete in
                     case user_profile_updateStatus R c obj (if failed then ''Failed'' else ''Deleted'') deleteErr w1 of
                       (Some e, w2) \<Rightarrow>
                         (Returned (Some (ErrWrap e (''failed to update user profile '' @ WorkspaceName m @ '' status''))), w2)
                     | (None, w2) \<Rightarrow> (Returned (if failed then deleteErr else None), w2))))
          else if is_new upst_Phase obj then
            (case syncSpecToGoTrue c obj w of
               (Some e, w1) \<Rightarrow> (Returned (Some e), snd (updateStatusWithSyncedSpec R c obj ''Failed'' (Some e) None w1))
             | (None, w1) \<Rightarrow>
                 (case updateStatusWithSyncedSpec R c obj ''Created'' None (ob_Spec obj) w1 of
                    (Some e, w2) \<Rightarrow>
                      (Returned (Some (ErrWrap e (''failed to update user profile '' @ WorkspaceName m @ '' status to CREATED''))), w2)
                  | (None, w2) \<Rightarrow> (Returned None, w2)))
          else if needs_sync obj then
            (case syncSpecToGoTrue c obj w of
               (Some e, w1) \<Rightarrow>
                 (Returned (Some e),
                  snd (updateStatusWithSyncedSpec R c obj ''Failed'' (Some e) (Option.bind (ob_Status obj) upst_SyncedSpec) w1))
             | (None, w1) \<Rightarrow>
                 (case updateStatusWithSyncedSpec R c obj ''Created'' None (ob_Spec obj) w1 of
                    (Some e, w2) \<Rightarrow>
                      (Returned (Some (ErrWrap e (''failed to update synced spec status for user profile '' @ WorkspaceName m))), w2)
                  | (None, w2) \<Rightarrow> (Returned None, w2)))
          else (Returned None, w))"

definition user_profile_Reconcile ::
  "'w runtime \<Rightarrow> 'w user_profile_controller \<Rightarrow> user_profile option \<Rightarrow> 'w \<Rightarrow> ret \<times> 'w" where
  "user_profile_Reconcile R c obj w =
     (case obj of
        None \<Rightarrow> (Returned (Some (ErrNew ''failed to assert obj to *v1.UserProfile'')), w)
      | Some userProfile \<Rightarrow> (if ob_Metadata userProfile = None then (Panicked, w) else user_profile_sync R c userProfile w))"

section \<open>The protocol\<close>

text \<open>The gateway and the authentication backend leave the tables alone.\<close>

definition api_key_lawful :: "'w api_key_controller \<Rightarrow> ('w \<Rightarrow> (string, api_key_spec, api_key_status) rows) \<Rightarrow> bool" where
  "api_key_lawful c rows \<longleftrightarrow> kind_laws (akc_storage c) rows \<and>
     (\<forall>k. untouched rows (akc_SyncAPIKey c k) \<and> untouched rows (akc_DeleteAPIKey c k))"

definition external_endpoint_lawful ::
  "'w external_endpoint_controller \<Rightarrow> ('w \<Rightarrow> (int, external_endpoint_spec, external_endpoint_status) rows) \<Rightarrow> bool" where
  "external_endpoint_lawful c rows \<longleftrightarrow> kind_laws (eec_storage c) rows \<and>
     (\<forall>e. untouched rows (eec_SyncExternalEndpoint c e) \<and> untouched rows (eec_DeleteExternalEndpoint c e) \<and>
        untouched rows (eec_GetServeUrl c e))"

definition user_profile_lawful ::
  "'w user_profile_controller \<Rightarrow> ('w \<Rightarrow> (string, user_profile_spec, user_profile_status) rows) \<Rightarrow> bool" where
  "user_profile_lawful c rows \<longleftrightarrow> kind_laws (upc_storage c) rows \<and>
     (\<forall>u. untouched rows (upc_AdminDeleteUser c u)) \<and> (\<forall>u e b. untouched rows (upc_AdminUpdateUser c u e b))"

text \<open>Identifiers that are strings already.\<close>

lemmas string_step = update_step [where key = "\<lambda>i. i"] delete_step [where key = "\<lambda>i. i"]

lemma api_key_step:
  assumes l: "api_key_lawful c rows"
  shows "table_step (\<lambda>i. i) akst_Phase [''Deleted''] ob (rows w) (rows (snd (api_key_sync R c ob w)))"
proof -
  have k: "kind_laws (akc_storage c) rows" and g: "rows (snd (akc_SyncAPIKey c ob w)) = rows w" "rows (snd (akc_DeleteAPIKey c ob w)) = rows w"
    using l by (simp_all add: api_key_lawful_def untouched_def)
  show ?thesis
    by (simp add: api_key_sync_def api_key_updateStatus_def Let_def split_beta marked_cases same_step g string_step [OF k] split: option.split)
qed

lemma external_endpoint_update_step:
  assumes l: "external_endpoint_lawful c rows" "rows w = T" "phase = ''Deleted'' \<longrightarrow> marked ob"
  shows "table_step Itoa eest_Phase [''Deleted''] ob T (rows (snd (external_endpoint_updateStatus R c ob phase e w)))"
proof -
  have k: "kind_laws (eec_storage c) rows" and g: "rows (snd (eec_GetServeUrl c ob w)) = rows w"
    using l by (simp_all add: external_endpoint_lawful_def untouched_def)
  show ?thesis
    using assms(2,3)
    by (simp add: external_endpoint_updateStatus_def service_url_def Let_def split_beta same_step g update_step [OF k] split: sum.split option.split)
qed

lemma external_endpoint_step:
  assumes l: "external_endpoint_lawful c rows"
  shows "table_step Itoa eest_Phase [''Deleted''] ob (rows w) (rows (snd (external_endpoint_sync R c ob w)))"
proof -
  have k: "kind_laws (eec_storage c) rows"
    and g: "rows (snd (eec_SyncExternalEndpoint c ob w)) = rows w" "rows (snd (eec_DeleteExternalEndpoint c ob w)) = rows w"
    using l by (simp_all add: external_endpoint_lawful_def untouched_def)
  show ?thesis
    by (simp add: external_endpoint_sync_def Let_def split_beta marked_cases same_step g external_endpoint_update_step [OF l]
        delete_step [OF k] split: option.split)
qed

lemma user_profile_rows:
  assumes "user_profile_lawful c rows"
  shows "rows (snd (deleteGoTrueUser R c ob w)) = rows w" "rows (snd (syncSpecToGoTrue c ob w)) = rows w"
  using assms
  by (simp_all add: deleteGoTrueUser_def syncSpecToGoTrue_def user_profile_lawful_def untouched_def split_beta split: sum.split option.split)

lemma user_profile_laws: "user_profile_lawful c rows \<Longrightarrow> kind_laws (upc_storage c) rows"
  by (simp add: user_profile_lawful_def)

lemma user_profile_step:
  assumes l: "user_profile_lawful c rows"
  shows "table_step (\<lambda>i. i) upst_Phase [''Deleted''] ob (rows w) (rows (snd (user_profile_sync R c ob w)))"
proof -
  note k = user_profile_laws [OF l]
  show ?thesis
    by (simp add: user_profile_sync_def user_profile_updateStatus_def updateStatusWithSyncedSpec_def Let_def split_beta marked_cases same_step
        user_profile_rows [OF l] string_step [OF k] split: option.split)
qed

lemma user_profile_guard:
  assumes l: "user_profile_lawful c rows" and "\<not> forced ob" "fst (deleteGoTrueUser R c ob w) \<noteq> None"
  shows "\<not> writes_deleted upst_Phase (ob_ID ob) (rows w) (rows (snd (user_profile_sync R c ob w)))"
proof -
  note k = user_profile_laws [OF l]
  show ?thesis
    using assms(2,3)
    by (cases "ob_Metadata ob") (simp_all add: user_profile_sync_def user_profile_updateStatus_def updateStatusWithSyncedSpec_def split_beta Let_def
        forced_cases user_profile_rows [OF l] not_written(1) not_written(2,3) [OF k] split: option.split)
qed

interpretation user_profile: guarded_lifecycle "\<lambda>(R, c). user_profile_sync R c" "\<lambda>(R, c). user_profile_lawful c"
  "\<lambda>i. i" upst_Phase read_before "\<lambda>(R, c) ob w. fst (deleteGoTrueUser R c ob w) = None"
  by unfold_locales (auto simp: user_profile_step user_profile_guard)

text \<open>Deletion makes progress: for a key, once it has a status; for a profile, when the backend lets the user go.\<close>

lemma api_key_laws: "api_key_lawful c rows \<Longrightarrow> kind_laws (akc_storage c) rows"
  by (simp add: api_key_lawful_def)

lemma api_key_deletes:
  assumes "api_key_lawful c rows" "answers (akc_storage c)" "marked ob"
  shows "in_phase akst_Phase ''Deleted'' ob \<Longrightarrow> rows (snd (api_key_sync R c ob w)) = (rows w)(ob_ID ob := None)"
    and "ob_Status ob \<noteq> None \<Longrightarrow> \<not> in_phase akst_Phase ''Deleted'' ob \<Longrightarrow>
      \<forall>y. rows (snd (api_key_sync R c ob w)) (ob_ID ob) = Some y \<longrightarrow> in_phase akst_Phase ''Deleted'' y"
proof -
  obtain m where m: "ob_Metadata ob = Some m" "meta_DeletionTimestamp m \<noteq> []" using marked_metadata [OF assms(3)] by blast
  note a = answer [OF api_key_laws [OF assms(1)] assms(2)]
  show "in_phase akst_Phase ''Deleted'' ob \<Longrightarrow> rows (snd (api_key_sync R c ob w)) = (rows w)(ob_ID ob := None)"
    using m by (simp add: api_key_sync_def split_beta Let_def a)
  show "\<forall>y. rows (snd (api_key_sync R c ob w)) (ob_ID ob) = Some y \<longrightarrow> in_phase akst_Phase ''Deleted'' y"
    if "ob_Status ob \<noteq> None" "\<not> in_phase akst_Phase ''Deleted'' ob"
    using m that by (auto simp: api_key_sync_def api_key_updateStatus_def split_beta Let_def a)
qed

interpretation api_key: removal "\<lambda>(R, c). api_key_sync R c" "\<lambda>(R, c). api_key_lawful c" "\<lambda>i. i" akst_Phase "[''Deleted'']"
  read_before "\<lambda>(R, c) rows ob. answers (akc_storage c) \<and> ob_Status ob \<noteq> None"
  by unfold_locales (auto simp: api_key_step read_now api_key_deletes(1) dest: api_key_deletes(2))

lemma external_endpoint_deletes:
  assumes "external_endpoint_lawful c rows" "answers (eec_storage c)" "marked ob"
  shows "in_phase eest_Phase ''Deleted'' ob \<Longrightarrow> rows (snd (external_endpoint_sync R c ob w)) = (rows w)(Itoa (ob_ID ob) := None)"
    and "\<not> in_phase eest_Phase ''Deleted'' ob \<Longrightarrow>
      \<forall>y. rows (snd (external_endpoint_sync R c ob w)) (Itoa (ob_ID ob)) = Some y \<longrightarrow> in_phase eest_Phase ''Deleted'' y"
proof -
  obtain m where m: "ob_Metadata ob = Some m" "meta_DeletionTimestamp m \<noteq> []" using marked_metadata [OF assms(3)] by blast
  have "kind_laws (eec_storage c) rows" using assms(1) by (simp add: external_endpoint_lawful_def)
  note a = answer [OF this assms(2)]
  show "in_phase eest_Phase ''Deleted'' ob \<Longrightarrow> rows (snd (external_endpoint_sync R c ob w)) = (rows w)(Itoa (ob_ID ob) := None)"
    using m by (simp add: external_endpoint_sync_def split_beta Let_def a)
  show "\<forall>y. rows (snd (external_endpoint_sync R c ob w)) (Itoa (ob_ID ob)) = Some y \<longrightarrow> in_phase eest_Phase ''Deleted'' y"
    if "\<not> in_phase eest_Phase ''Deleted'' ob"
    using m that
    by (auto simp: external_endpoint_sync_def external_endpoint_updateStatus_def service_url_def externalEndpointStatusChanged_def in_phase_def
        split_beta Let_def a patched_def status_update_def split: option.splits)
qed

interpretation external_endpoint: removal "\<lambda>(R, c). external_endpoint_sync R c" "\<lambda>(R, c). external_endpoint_lawful c" Itoa eest_Phase
  "[''Deleted'']" read_before "\<lambda>(R, c) rows ob. answers (eec_storage c)"
  by unfold_locales (auto simp: external_endpoint_step read_now external_endpoint_deletes(1) dest: external_endpoint_deletes(2))

lemma user_profile_deletes:
  assumes "user_profile_lawful c rows" "answers (upc_storage c)" "marked ob"
  shows "in_phase upst_Phase ''Deleted'' ob \<Longrightarrow> rows (snd (user_profile_sync R c ob w)) = (rows w)(ob_ID ob := None)"
    and "forced ob \<or> fst (deleteGoTrueUser R c ob w) = None \<Longrightarrow> \<not> in_phase upst_Phase ''Deleted'' ob \<Longrightarrow>
      \<forall>y. rows (snd (user_profile_sync R c ob w)) (ob_ID ob) = Some y \<longrightarrow> in_phase upst_Phase ''Deleted'' y"
proof -
  obtain m where m: "ob_Metadata ob = Some m" "meta_DeletionTimestamp m \<noteq> []" using marked_metadata [OF assms(3)] by blast
  note a = answer [OF user_profile_laws [OF assms(1)] assms(2)]
  show "in_phase upst_Phase ''Deleted'' ob \<Longrightarrow> rows (snd (user_profile_sync R c ob w)) = (rows w)(ob_ID ob := None)"
    using m by (simp add: user_profile_sync_def split_beta Let_def a)
  show "\<forall>y. rows (snd (user_profile_sync R c ob w)) (ob_ID ob) = Some y \<longrightarrow> in_phase upst_Phase ''Deleted'' y"
    if "forced ob \<or> fst (deleteGoTrueUser R c ob w) = None" "\<not> in_phase upst_Phase ''Deleted'' ob"
    using m that by (auto simp: user_profile_sync_def user_profile_updateStatus_def forced_cases split_beta Let_def a)
qed

interpretation user_profile: removal "\<lambda>(R, c). user_profile_sync R c" "\<lambda>(R, c). user_profile_lawful c" "\<lambda>i. i" upst_Phase "[''Deleted'']"
  read_before "\<lambda>(R, c) rows ob. answers (upc_storage c) \<and> (forced ob \<or> (\<forall>w. fst (deleteGoTrueUser R c ob w) = None))"
  by unfold_locales (auto simp: read_now user_profile_deletes(1) dest: user_profile_deletes(2))

end
