(* ===== verification/Endpoint_Types.thy ===== *)
theory Endpoint_Types
  imports Lifecycle Go_Json
begin

text \<open>What endpoints and model catalogs are made of (\<open>api/v1/endpoint_types.go\<close>).\<close>

record model_info =
  mi_ParameterCount :: string
  mi_Quantization :: string
  mi_ContextLength :: string
  mi_Architecture :: string

record model_spec =
  ms_Registry :: string
  ms_Name :: string
  ms_File :: string
  ms_Version :: string
  ms_Task :: string
  ms_Info :: "model_info ptr"

record endpoint_engine_spec =
  ees_Engine :: string
  ees_Version :: string

record resource_spec =
  res_CPU :: "string ptr"
  res_GPU :: "string ptr"
  res_Accelerator :: strmap
  res_Memory :: "string ptr"

record replica_spec =
  rep_Num :: "int ptr"

record endpoint_spec =
  eps_Cluster :: string
  eps_Model :: "model_spec ptr"
  eps_Engine :: "endpoint_engine_spec ptr"
  eps_Resources :: "resource_spec ptr"
  eps_Replicas :: replica_spec
  eps_DeploymentOptions :: "(string \<times> jval) list option"
  eps_Variables :: "(string \<times> jval) list option"
  eps_Env :: strmap

record replica_device_allocation =
  rda_InstanceID :: string
  rda_ReplicaID :: string
  rda_NodeID :: string
  rda_Devices :: "device_allocation slice"

record product_usage =
  pu_MemoryMiB :: int
  pu_CoreUnits :: int

record endpoint_resource_summary =
  ers_Products :: "(string \<times> product_usage ptr) list option"

record endpoint_resource_status =
  err_Replicas :: "replica_device_allocation slice"
  err_Summary :: "endpoint_resource_summary ptr"

record endpoint_status =
  epst_Phase :: string
  epst_ServiceURL :: string
  epst_LastTransitionTime :: string
  epst_ErrorMessage :: string
  epst_ModelDownloadCompletedHash :: "string ptr"
  epst_Resources :: "endpoint_resource_status ptr"

type_synonym endpoint = "(int, endpoint_spec, endpoint_status) object"

end
