(* ===== verification/Catalog_Controller.thy ===== *)
theory Catalog_Controller
  imports Endpoint_Types
begin

text \<open>
  The controller of model catalogs (\<open>controllers/model_catalog_controller.go\<close>), which completes a new
  catalog with default values and writes the whole object back.
\<close>

section \<open>Catalogs\<close>

text \<open>The controller only asks whether there are variants; the recipe parts are left to the type parameters.\<close>

record ('b, 'v, 'f) model_catalog_spec =
  mcs_Model :: "model_spec ptr"
  mcs_Engine :: "endpoint_engine_spec ptr"
  mcs_Resources :: "resource_spec ptr"
  mcs_Replicas :: "replica_spec ptr"
  mcs_DeploymentOptions :: "(string \<times> jval) list option"
  mcs_Variables :: "(string \<times> jval) list option"
  mcs_Env :: strmap
  mcs_Base :: "'b ptr"
  mcs_Variants :: "(string \<times> 'v) list option"
  mcs_Features :: "'f slice"

type_synonym ('b, 'v, 'f) model_catalog = "(int, ('b, 'v, 'f) model_catalog_spec, phase_status) object"
type_synonym ('b, 'v, 'f, 'w) catalog_store = "(int, ('b, 'v, 'f) model_catalog_spec, phase_status, 'w) kind_store"

definition empty_catalog_spec :: "('b, 'v, 'f) model_catalog_spec" where
  "empty_catalog_spec = \<lparr>mcs_Model = None, mcs_Engine = None, mcs_Resources = None, mcs_Replicas = None, mcs_DeploymentOptions = None,
     mcs_Variables = None, mcs_Env = None, mcs_Base = None, mcs_Variants = None, mcs_Features = None\<rparr>"

section \<open>The handlers\<close>

definition catalog_defaults :: "('b, 'v, 'f) model_catalog_spec \<Rightarrow> ('b, 'v, 'f) model_catalog_spec" where
  "catalog_defaults spec =
     (if els (mcs_Variants spec) = [] then spec
        \<lparr>mcs_Resources := (case mcs_Resources spec of
             None \<Rightarrow> Some \<lparr>res_CPU = None, res_GPU = None, res_Accelerator = None, res_Memory = None\<rparr> | Some r \<Rightarrow> Some r),
         mcs_Replicas := (case mcs_Replicas spec of None \<Rightarrow> Some \<lparr>rep_Num = Some 1\<rparr> | Some r \<Rightarrow> Some r),
         mcs_DeploymentOptions := (case mcs_DeploymentOptions spec of None \<Rightarrow> Some [] | Some d \<Rightarrow> Some d),
         mcs_Variables := (case mcs_Variables spec of None \<Rightarrow> Some [] | Some v \<Rightarrow> Some v)\<rparr>
      else spec)"

definition processPendingModelCatalog ::
  "'w runtime \<Rightarrow> ('b, 'v, 'f, 'w) catalog_store \<Rightarrow> metadata \<Rightarrow> ('b, 'v, 'f) model_catalog \<Rightarrow> ('b, 'v, 'f) model_catalog_spec \<Rightarrow>
    'w \<Rightarrow> ret \<times> 'w" where
  "processPendingModelCatalog R storage m modelCatalog spec w =
     (case ks_Update storage (Itoa (ob_ID modelCatalog))
             (modelCatalog\<lparr>ob_Spec := Some (catalog_defaults spec),
                ob_Status := Some \<lparr>ps_ErrorMessage = [], ps_LastTransitionTime = rt_now_utc R w, ps_Phase = ''Ready''\<rparr>\<rparr>) w of
        (Some e, w1) \<Rightarrow> (Returned (Some (ErrWrap e (''failed to update model catalog '' @ WorkspaceName m @ '' status to ready''))), w1)
      | (None, w1) \<Rightarrow> (Returned None, w1))"

definition processFailedModelCatalog ::
  "'w runtime \<Rightarrow> ('b, 'v, 'f, 'w) catalog_store \<Rightarrow> metadata \<Rightarrow> ('b, 'v, 'f) model_catalog \<Rightarrow> 'w \<Rightarrow> ret \<times> 'w" where
  "processFailedModelCatalog R storage m modelCatalog w =
     (case ks_Update storage (Itoa (ob_ID modelCatalog))
             (modelCatalog\<lparr>ob_Status := Some \<lparr>ps_ErrorMessage = [], ps_LastTransitionTime = rt_now_utc R w, ps_Phase = ''Pending''\<rparr>\<rparr>) w of
        (Some e, w1) \<Rightarrow> (Returned (Some (ErrWrap e (''failed to update model catalog '' @ WorkspaceName m @ '' status to pending''))), w1)
      | (None, w1) \<Rightarrow> (Returned None, w1))"

definition catalog_updateStatus ::
  "'w runtime \<Rightarrow> ('b, 'v, 'f, 'w) catalog_store \<Rightarrow> ('b, 'v, 'f) model_catalog \<Rightarrow> string \<Rightarrow> go_error option \<Rightarrow> 'w \<Rightarrow> go_error option \<times> 'w" where
  "catalog_updateStatus R storage obj phase err w =
     ks_Update storage (Itoa (ob_ID obj)) (status_update 0 (phase_status_of R phase err w)) w"

definition catalog_sync ::
  "'w runtime \<Rightarrow> ('b, 'v, 'f, 'w) catalog_store \<Rightarrow> ('b, 'v, 'f) model_catalog \<Rightarrow> 'w \<Rightarrow> ret \<times> 'w" where
  "catalog_sync R storage modelCatalog w =
     (case ob_Metadata modelCatalog of
        None \<Rightarrow> (Panicked, w)
      | Some m \<Rightarrow>
          if meta_DeletionTimestamp m \<noteq> [] then
            (if in_phase ps_Phase ''Deleted'' modelCatalog \<or> in_phase ps_Phase ''Failed'' modelCatalog then
               (case ks_Delete storage (Itoa (ob_ID modelCatalog)) w of
                  (Some e, w1) \<Rightarrow> (Returned (Some (ErrWrap e (''failed to delete model catalog '' @ WorkspaceName m @ '' from DB''))), w1)
                | (None, w1) \<Rightarrow> (Returned None, w1))
             else
               (case catalog_updateStatus R storage modelCatalog ''Deleted'' None w of
                  (Some e, w1) \<Rightarrow> (Returned (Some (ErrWrap e (''failed to update model catalog '' @ WorkspaceName m @ '' status''))), w1)
                | (None, w1) \<Rightarrow> (Returned None, w1)))
          else
            (let spec = (case ob_Spec modelCatalog of None \<Rightarrow> empty_catalog_spec | Some s \<Rightarrow> s);
                 status = (case ob_Status modelCatalog of
                   None \<Rightarrow> \<lparr>ps_ErrorMessage = [], ps_LastTransitionTime = [], ps_Phase = ''Pending''\<rparr> | Some st \<Rightarrow> st);
                 catalog = modelCatalog
                   \<lparr>ob_APIVersion := (if ob_APIVersion modelCatalog = [] then ''v1'' else ob_APIVersion modelCatalog),
                    ob_Kind := (if ob_Kind modelCatalog = [] then ''ModelCatalog'' else ob_Kind modelCatalog),
                    ob_Spec := Some spec, ob_Status := Some status\<rparr> in
             if ps_Phase status = ''Pending'' then processPendingModelCatalog R storage m catalog spec w
             else if ps_Phase status = ''Failed'' then processFailedModelCatalog R storage m catalog w
             else (Returned None, w)))"

definition catalog_Reconcile ::
  "'w runtime \<Rightarrow> ('b, 'v, 'f, 'w) catalog_store \<Rightarrow> ('b, 'v, 'f) model_catalog option \<Rightarrow> 'w \<Rightarrow> ret \<times> 'w" where
  "catalog_Reconcile R storage obj w =
     (case obj of
        None \<Rightarrow> (Returned (Some (ErrNew ''failed to assert obj to *v1.ModelCatalog'')), w)
      | Some modelCatalog \<Rightarrow> (if ob_Metadata modelCatalog = None then (Panicked, w) else catalog_sync R storage modelCatalog w))"

section \<open>The protocol\<close>

text \<open>
  A catalog is written back whole, with the metadata that were read. The pass keeps to the protocol when
  the object is the row as it is now.
\<close>

lemma whole_update_step:
  assumes "kind_laws S rows" "rows w (key (ob_ID ob)) = Some ob" "ob_Metadata p = ob_Metadata ob" "ob_Status p \<noteq> None" "\<not> in_phase phase ''Deleted'' p"
  shows "table_step key phase final ob (rows w) (rows (snd (ks_Update S (key (ob_ID ob)) p w)))"
proof -
  have "marked (patched p ob) \<longleftrightarrow> marked ob" using assms(3) by (simp add: patched_def GetDeletionTimestamp_def split: option.split)
  then have "row_step phase final ob (Some ob) (Some (patched p ob))"
    using assms(4,5) by (auto simp: row_step_def patched_def in_phase_def)
  then show ?thesis using assms(1,2) same_step [of key phase final ob "rows w"] by (simp add: kind_laws_def table_step_def)
qed

lemma process_step:
  assumes k: "kind_laws S rows" and "rows w (Itoa (ob_ID ob)) = Some ob" "ob_Metadata cat = ob_Metadata ob" "ob_ID cat = ob_ID ob"
  shows "table_step Itoa ps_Phase final ob (rows w) (rows (snd (processPendingModelCatalog R S m cat spec w)))"
    and "table_step Itoa ps_Phase final ob (rows w) (rows (snd (processFailedModelCatalog R S m cat w)))"
proof -
  note step = whole_update_step [where key = Itoa, OF k assms(2)]
  show "table_step Itoa ps_Phase final ob (rows w) (rows (snd (processPendingModelCatalog R S m cat spec w)))"
    "table_step Itoa ps_Phase final ob (rows w) (rows (snd (processFailedModelCatalog R S m cat w)))"
    using assms(3)
    by (simp_all add: processPendingModelCatalog_def processFailedModelCatalog_def split_beta assms(4) step in_phase_def split: option.split)
qed

lemma catalog_step:
  assumes k: "kind_laws S rows" and r: "rows w (Itoa (ob_ID ob)) = Some ob"
  shows "table_step Itoa ps_Phase [''Deleted'', ''Failed''] ob (rows w) (rows (snd (catalog_sync R S ob w)))"
proof (cases "ob_Metadata ob")
  case None
  then show ?thesis by (simp add: catalog_sync_def same_step)
next
  case (Some m)
  then show ?thesis
    by (simp add: catalog_sync_def catalog_updateStatus_def Let_def split_beta marked_cases same_step process_step [OF k r]
        update_step [OF k] delete_step [OF k] split: option.split)
qed

lemma catalog_deletes:
  assumes "kind_laws S rows" "answers S" "marked ob"
  shows "rows (snd (catalog_sync R S ob w)) =
    (rows w)(Itoa (ob_ID ob) := (if in_phase ps_Phase ''Deleted'' ob \<or> in_phase ps_Phase ''Failed'' ob then None
       else map_option (patched (status_update 0 (phase_status_of R ''Deleted'' None w))) (rows w (Itoa (ob_ID ob)))))"
proof -
  obtain m where "ob_Metadata ob = Some m" "meta_DeletionTimestamp m \<noteq> []" using marked_metadata [OF assms(3)] by blast
  then show ?thesis by (simp add: catalog_sync_def catalog_updateStatus_def split_beta answer [OF assms(1,2)])
qed

interpretation catalog: removal "\<lambda>(R, S). catalog_sync R S" "\<lambda>(R, S). kind_laws S" Itoa ps_Phase "[''Deleted'', ''Failed'']" "(=)"
  "\<lambda>(R, S) rows ob. answers S"
  by unfold_locales (auto simp: read_now catalog_step catalog_deletes split: if_splits)

end
