(* ===== verification/Workspace_Controller.thy ===== *)
theory Workspace_Controller
  imports Engine_Merge Store
begin

text \<open>
  The controller of workspaces (\<open>controllers/workspace_controller.go\<close>). It copies the engines of the
  registry into every workspace and removes a workspace's engines before the workspace.

  The registry hands out pointers to its own engines, and the controller writes the name of the workspace
  into them before it stores them. The registry is therefore a part of the world: an engine is read when
  it is used, not when it is listed.
\<close>

section \<open>State\<close>

record workspace_status =
  wst_ErrorMessage :: string
  wst_LastTransitionTime :: string
  wst_Phase :: string
  wst_ServiceURL :: string

type_synonym workspace = "(int, unit, workspace_status) object"

record 'w workspace_controller =
  wsc_storage :: "(int, unit, workspace_status, 'w) kind_store"
  wsc_engines :: "(int, engine_spec, phase_status, 'w) kind_store"
  wsc_ListEngine :: "list_filter list \<Rightarrow> 'w \<Rightarrow> (go_error + engine list) \<times> 'w"
  wsc_CreateEngine :: "engine \<Rightarrow> 'w \<Rightarrow> go_error option \<times> 'w"
  wsc_registry :: "'w \<Rightarrow> engine_registry"
  wsc_set_registry :: "engine_registry \<Rightarrow> 'w \<Rightarrow> 'w"

section \<open>Engines of a workspace\<close>

text \<open>The first loop of \<open>syncWorkspaceEngine\<close>: the name of the workspace goes into the shared engines.\<close>

definition in_workspace :: "string \<Rightarrow> engine \<Rightarrow> engine" where
  "in_workspace ws e = e\<lparr>ob_Metadata := map_option (\<lambda>m. m\<lparr>meta_Workspace := ws\<rparr>) (ob_Metadata e)\<rparr>"

definition claim_engines :: "'w workspace_controller \<Rightarrow> string \<Rightarrow> 'w \<Rightarrow> string list \<times> 'w" where
  "claim_engines c ws w =
     (map fst (wsc_registry c w),
      wsc_set_registry c (map (\<lambda>(n, e). (n, in_workspace ws e)) (wsc_registry c w)) w)"

definition by_name_and_workspace :: "metadata \<Rightarrow> list_filter list" where
  "by_name_and_workspace m =
     [eq_filter ''metadata->name'' (strconv_Quote (meta_Name m)), eq_filter ''metadata->workspace'' (strconv_Quote (meta_Workspace m))]"

text \<open>Merging into an engine without a specification dereferences nil as soon as there is something to merge.\<close>

definition createOrUpdateEngine :: "'w workspace_controller \<Rightarrow> metadata \<Rightarrow> engine \<Rightarrow> 'w \<Rightarrow> ret \<times> 'w" where
  "createOrUpdateEngine c m engine w =
     (case wsc_ListEngine c (by_name_and_workspace m) w of
        (Inl e, w1) \<Rightarrow> (Returned (Some (ErrWrap e (''failed to list engines for workspace '' @ meta_Workspace m))), w1)
      | (Inr [], w1) \<Rightarrow>
          (case wsc_CreateEngine c engine w1 of
             (Some e, w2) \<Rightarrow> (Returned (Some (ErrWrap e (''failed to create engine '' @ WorkspaceName m))), w2)
           | (None, w2) \<Rightarrow> (Returned None, w2))
      | (Inr (originalEngine # _), w1) \<Rightarrow>
          (case ob_Spec engine of
             None \<Rightarrow> (Panicked, w1)
           | Some new \<Rightarrow>
               (case ob_Spec originalEngine of
                  None \<Rightarrow> (if els (es_Versions new) = [] \<and> els (es_SupportedTasks new) = [] then Returned None else Panicked, w1)
                | Some old \<Rightarrow>
                    (let merged = MergeEngine old new in
                     if engine_spec_json merged = engine_spec_json old then (Returned None, w1)
                     else
                       (case ks_Update (wsc_engines c) (Itoa (ob_ID originalEngine)) (originalEngine\<lparr>ob_Spec := Some merged\<rparr>) w1 of
                          (e, w2) \<Rightarrow> (Returned e, w2))))))"

text \<open>The second loop, over the pointers; an engine registered under the name is what the pointer refers to.\<close>

fun push_engines :: "'w workspace_controller \<Rightarrow> string \<Rightarrow> string list \<Rightarrow> 'w \<Rightarrow> ret \<times> 'w" where
  "push_engines c ws [] w = (Returned None, w)"
| "push_engines c ws (n # ns) w =
     (case map_of (wsc_registry c w) n of
        None \<Rightarrow> push_engines c ws ns w
      | Some engine \<Rightarrow>
          (case ob_Metadata engine of
             None \<Rightarrow> (Panicked, w)
           | Some m \<Rightarrow>
               (case createOrUpdateEngine c m engine w of
                  (Returned None, w1) \<Rightarrow> push_engines c ws ns w1
                | (Returned (Some e), w1) \<Rightarrow>
                    (Returned (Some (ErrWrap e (''failed to create or update engine '' @ meta_Name m @ '' for workspace '' @ ws))), w1)
                | (Panicked, w1) \<Rightarrow> (Panicked, w1))))"

definition syncWorkspaceEngine :: "'w workspace_controller \<Rightarrow> string \<Rightarrow> 'w \<Rightarrow> ret \<times> 'w" where
  "syncWorkspaceEngine c ws w = (case claim_engines c ws w of (names, w1) \<Rightarrow> push_engines c ws names w1)"

text \<open>An engine that was found by its workspace has metadata.\<close>

fun delete_engines :: "'w workspace_controller \<Rightarrow> string \<Rightarrow> engine list \<Rightarrow> 'w \<Rightarrow> go_error option \<times> 'w" where
  "delete_engines c ws [] w = (None, w)"
| "delete_engines c ws (engine # engines) w =
     (case ks_Delete (wsc_engines c) (Itoa (ob_ID engine)) w of
        (Some e, w1) \<Rightarrow>
          (Some (ErrWrap e (''failed to delete engine '' @ ws @ ''/'' @ (case ob_Metadata engine of None \<Rightarrow> [] | Some m \<Rightarrow> meta_Name m))), w1)
      | (None, w1) \<Rightarrow> delete_engines c ws engines w1)"

definition DeleteWorkspaceEngine :: "'w workspace_controller \<Rightarrow> string \<Rightarrow> 'w \<Rightarrow> go_error option \<times> 'w" where
  "DeleteWorkspaceEngine c ws w =
     (case wsc_ListEngine c [eq_filter ''metadata->workspace'' (strconv_Quote ws)] w of
        (Inl e, w1) \<Rightarrow> (Some (ErrWrap e (''failed to list engines for workspace '' @ ws)), w1)
      | (Inr engines, w1) \<Rightarrow> delete_engines c ws engines w1)"

section \<open>The handler\<close>

definition workspace_updateStatus ::
  "'w runtime \<Rightarrow> 'w workspace_controller \<Rightarrow> workspace \<Rightarrow> string \<Rightarrow> go_error option \<Rightarrow> 'w \<Rightarrow> go_error option \<times> 'w" where
  "workspace_updateStatus R c obj phase err w =
     (let newStatus = \<lparr>wst_ErrorMessage = FormatErrorForStatus (rt_errors R) err, wst_LastTransitionTime = FormatStatusTime R w,
            wst_Phase = phase, wst_ServiceURL = (case ob_Status obj of None \<Rightarrow> [] | Some st \<Rightarrow> wst_ServiceURL st)\<rparr>;
          unchanged = (case ob_Status obj of None \<Rightarrow> False
            | Some st \<Rightarrow> wst_Phase st = phase \<and> (wst_ErrorMessage st \<noteq> []) = (wst_ErrorMessage newStatus \<noteq> [])) in
      if unchanged then (None, w)
      else ks_Update (wsc_storage c) (Itoa (ob_ID obj)) (status_update 0 newStatus) w)"

definition workspace_sync :: "'w runtime \<Rightarrow> 'w workspace_controller \<Rightarrow> workspace \<Rightarrow> 'w \<Rightarrow> ret \<times> 'w" where
  "workspace_sync R c obj w =
     (case ob_Metadata obj of
        None \<Rightarrow> (Panicked, w)
      | Some m \<Rightarrow>
          if meta_DeletionTimestamp m \<noteq> [] then
            (if in_phase wst_Phase ''Deleted'' obj then
               (case ks_Delete (wsc_storage c) (Itoa (ob_ID obj)) w of
                  (Some e, w1) \<Rightarrow>
                    (if is_not_found e then (Returned None, w1)
                     else (Returned (Some (ErrWrap e (''failed to delete workspace in DB '' @ meta_Name m))), w1))
                | (None, w1) \<Rightarrow> (Returned None, w1))
             else
               (case DeleteWorkspaceEngine c (meta_Name m) w of
                  (deleteErr, w1) \<Rightarrow>
                    if deleteErr \<noteq> None \<and> \<not> IsForceDelete (meta_Annotations m) then (Returned deleteErr, w1)
                    else
                      (case workspace_updateStatus R c obj ''Deleted'' deleteErr w1 of
                         (Some e, w2) \<Rightarrow> (Returned (Some (ErrWrap e (''failed to update workspace '' @ meta_Name m @ '' status''))), w2)
                       | (None, w2) \<Rightarrow> (Returned None, w2))))
          else if is_new wst_Phase obj then
            (case workspace_updateStatus R c obj ''Created'' None w of
               (Some e, w1) \<Rightarrow> (Returned (Some (ErrWrap e (''failed to update workspace '' @ meta_Name m @ '' status to CREATED''))), w1)
             | (None, w1) \<Rightarrow> (Returned None, w1))
          else if in_phase wst_Phase ''Created'' obj then
            (case syncWorkspaceEngine c (meta_Name m) w of
               (Returned (Some e), w1) \<Rightarrow> (Returned (Some (ErrWrap e (''failed to sync workspace '' @ meta_Name m @ '' engine''))), w1)
             | (Returned None, w1) \<Rightarrow> (Returned None, w1)
             | (Panicked, w1) \<Rightarrow> (Panicked, w1))
          else (Returned None, w))"

definition workspace_Reconcile :: "'w runtime \<Rightarrow> 'w workspace_controller \<Rightarrow> workspace option \<Rightarrow> 'w \<Rightarrow> ret \<times> 'w" where
  "workspace_Reconcile R c obj w =
     (case obj of
        None \<Rightarrow> (Returned (Some (ErrNew ''failed to assert obj to *v1.Workspace'')), w)
      | Some workspace \<Rightarrow> (if ob_Metadata workspace = None then (Panicked, w) else workspace_sync R c workspace w))"

section \<open>The protocol\<close>

text \<open>Work on engines leaves the table of workspaces alone.\<close>

definition workspace_lawful :: "'w workspace_controller \<Rightarrow> ('w \<Rightarrow> (int, unit, workspace_status) rows) \<Rightarrow> bool" where
  "workspace_lawful c rows \<longleftrightarrow> kind_laws (wsc_storage c) rows \<and>
     (\<forall>i p. untouched rows (ks_Update (wsc_engines c) i p)) \<and> (\<forall>i. untouched rows (ks_Delete (wsc_engines c) i)) \<and>
     (\<forall>fs. untouched rows (wsc_ListEngine c fs)) \<and> (\<forall>e. untouched rows (wsc_CreateEngine c e)) \<and>
     (\<forall>r w. rows (wsc_set_registry c r w) = rows w)"

lemma workspace_laws: "workspace_lawful c rows \<Longrightarrow> kind_laws (wsc_storage c) rows"
  by (simp add: workspace_lawful_def)

lemma createOrUpdateEngine_rows:
  assumes "workspace_lawful c rows"
  shows "rows (snd (createOrUpdateEngine c m e w)) = rows w"
  using assms
  by (simp add: createOrUpdateEngine_def workspace_lawful_def untouched_def split_beta Let_def split: sum.split list.split option.split)

lemma push_engines_rows:
  assumes "workspace_lawful c rows"
  shows "rows (snd (push_engines c ws ns w)) = rows w"
  using createOrUpdateEngine_rows [OF assms]
  by (induction ns arbitrary: w) (auto simp: split_beta split: option.split ret.split)

lemma syncWorkspaceEngine_rows:
  assumes "workspace_lawful c rows"
  shows "rows (snd (syncWorkspaceEngine c ws w)) = rows w"
proof -
  have "rows (wsc_set_registry c r w) = rows w" for r using assms by (simp add: workspace_lawful_def)
  then show ?thesis by (simp add: syncWorkspaceEngine_def claim_engines_def push_engines_rows [OF assms])
qed

lemma DeleteWorkspaceEngine_rows:
  assumes "workspace_lawful c rows"
  shows "rows (snd (DeleteWorkspaceEngine c ws w)) = rows w"
proof -
  have d: "rows (snd (ks_Delete (wsc_engines c) i w)) = rows w" and l: "rows (snd (wsc_ListEngine c fs w)) = rows w" for i fs w
    using assms by (simp_all add: workspace_lawful_def untouched_def)
  have "rows (snd (delete_engines c ws es w)) = rows w" for es w
    by (induction es arbitrary: w) (simp_all add: split_beta d split: option.split)
  then show ?thesis by (simp add: DeleteWorkspaceEngine_def split_beta l split: sum.split)
qed

lemma workspace_update_step:
  assumes "workspace_lawful c rows" "rows w = T" "phase = ''Deleted'' \<longrightarrow> marked ob"
  shows "table_step Itoa wst_Phase [''Deleted''] ob T (rows (snd (workspace_updateStatus R c ob phase e w)))"
  using assms(2,3)
  by (simp add: workspace_updateStatus_def Let_def same_step update_step [OF workspace_laws [OF assms(1)]])

lemma workspace_step:
  assumes l: "workspace_lawful c rows"
  shows "table_step Itoa wst_Phase [''Deleted''] ob (rows w) (rows (snd (workspace_sync R c ob w)))"
  by (simp add: workspace_sync_def split_beta marked_cases same_step workspace_update_step [OF l] delete_step [OF workspace_laws [OF l]]
      DeleteWorkspaceEngine_rows [OF l] syncWorkspaceEngine_rows [OF l] split: option.split ret.split)

definition workspace_cleaned :: "'w workspace_controller \<Rightarrow> workspace \<Rightarrow> 'w \<Rightarrow> bool" where
  "workspace_cleaned c ob w \<longleftrightarrow>
     (case ob_Metadata ob of None \<Rightarrow> False | Some m \<Rightarrow> fst (DeleteWorkspaceEngine c (meta_Name m) w) = None)"

lemma workspace_update_not_written:
  assumes "workspace_lawful c rows" "rows w = T" "phase \<noteq> ''Deleted''"
  shows "\<not> writes_deleted wst_Phase (Itoa (ob_ID ob)) T (rows (snd (workspace_updateStatus R c ob phase e w)))"
  using assms(2,3)
  by (simp add: workspace_updateStatus_def Let_def not_written(1) not_written(2) [OF workspace_laws [OF assms(1)]])

lemma workspace_guard:
  assumes l: "workspace_lawful c rows" and "\<not> forced ob" "\<not> workspace_cleaned c ob w"
  shows "\<not> writes_deleted wst_Phase (Itoa (ob_ID ob)) (rows w) (rows (snd (workspace_sync R c ob w)))"
  using assms(2,3)
  by (cases "ob_Metadata ob")
    (simp_all add: workspace_sync_def workspace_cleaned_def split_beta forced_cases not_written(1) not_written(3) [OF workspace_laws [OF l]]
      workspace_update_not_written [OF l] DeleteWorkspaceEngine_rows [OF l] syncWorkspaceEngine_rows [OF l] split: option.split ret.split)

interpretation workspace: guarded_lifecycle "\<lambda>(R, c). workspace_sync R c" "\<lambda>(R, c). workspace_lawful c"
  Itoa wst_Phase read_before "\<lambda>(R, c). workspace_cleaned c"
  by unfold_locales (auto simp: workspace_step workspace_guard)

lemma workspace_deletes:
  assumes l: "workspace_lawful c rows" and "answers (wsc_storage c)" "marked ob"
  shows "in_phase wst_Phase ''Deleted'' ob \<Longrightarrow> rows (snd (workspace_sync R c ob w)) = (rows w)(Itoa (ob_ID ob) := None)"
    and "forced ob \<or> workspace_cleaned c ob w \<Longrightarrow> \<not> in_phase wst_Phase ''Deleted'' ob \<Longrightarrow>
      \<forall>y. rows (snd (workspace_sync R c ob w)) (Itoa (ob_ID ob)) = Some y \<longrightarrow> in_phase wst_Phase ''Deleted'' y"
proof -
  obtain m where m: "ob_Metadata ob = Some m" "meta_DeletionTimestamp m \<noteq> []" using marked_metadata [OF assms(3)] by blast
  note a = answer [OF workspace_laws [OF l] assms(2)]
  show "in_phase wst_Phase ''Deleted'' ob \<Longrightarrow> rows (snd (workspace_sync R c ob w)) = (rows w)(Itoa (ob_ID ob) := None)"
    using m by (simp add: workspace_sync_def split_beta a)
  show "\<forall>y. rows (snd (workspace_sync R c ob w)) (Itoa (ob_ID ob)) = Some y \<longrightarrow> in_phase wst_Phase ''Deleted'' y"
    if "forced ob \<or> workspace_cleaned c ob w" "\<not> in_phase wst_Phase ''Deleted'' ob"
    using m that
    by (auto simp: workspace_sync_def workspace_updateStatus_def workspace_cleaned_def in_phase_def forced_cases split_beta Let_def a
        patched_def status_update_def split: option.splits)
qed

interpretation workspace: removal "\<lambda>(R, c). workspace_sync R c" "\<lambda>(R, c). workspace_lawful c" Itoa wst_Phase "[''Deleted'']" read_before
  "\<lambda>(R, c) rows ob. answers (wsc_storage c) \<and> (forced ob \<or> (\<forall>w. workspace_cleaned c ob w))"
  by unfold_locales (auto simp: read_now workspace_deletes(1) dest: workspace_deletes(2))

end
