(* ===== verification/Endpoint_Controller.thy ===== *)
theory Endpoint_Controller
  imports Endpoint_Types Store
begin

text \<open>
  The controller of endpoints (\<open>controllers/endpoint_controller.go\<close>). The orchestrator of the endpoint's
  cluster and the gateway are the interfaces the controller calls; they are given the endpoint and do
  not change it.
\<close>

section \<open>State\<close>

record 'w orchestrator =
  or_CreateEndpoint :: "endpoint \<Rightarrow> 'w \<Rightarrow> go_error option \<times> 'w"
  or_DeleteEndpoint :: "endpoint \<Rightarrow> 'w \<Rightarrow> go_error option \<times> 'w"
  or_PauseEndpoint :: "endpoint \<Rightarrow> 'w \<Rightarrow> go_error option \<times> 'w"
  or_GetEndpointStatus :: "endpoint \<Rightarrow> 'w \<Rightarrow> (go_error + endpoint_status) \<times> 'w"

record 'w endpoint_controller =
  epc_storage :: "(int, endpoint_spec, endpoint_status, 'w) kind_store"
  epc_ListCluster :: "list_filter list \<Rightarrow> 'w \<Rightarrow> (go_error + cluster list) \<times> 'w"
  epc_NewOrchestrator :: "cluster \<Rightarrow> 'w \<Rightarrow> (go_error + 'w orchestrator) \<times> 'w"
  epc_SyncEndpoint :: "endpoint \<Rightarrow> 'w \<Rightarrow> go_error option \<times> 'w"
  epc_DeleteEndpoint :: "endpoint \<Rightarrow> 'w \<Rightarrow> go_error option \<times> 'w"
  epc_GetEndpointServeUrl :: "endpoint \<Rightarrow> 'w \<Rightarrow> (go_error + string) \<times> 'w"

section \<open>Helpers\<close>

definition IsEndpointPaused :: "endpoint \<Rightarrow> bool" where
  "IsEndpointPaused endpoint \<longleftrightarrow> (case ob_Spec endpoint of None \<Rightarrow> False | Some spec \<Rightarrow> rep_Num (eps_Replicas spec) = Some 0)"

text \<open>The result is \<open>None\<close> when the missing specification is dereferenced.\<close>

definition getOrchestrator ::
  "'w endpoint_controller \<Rightarrow> metadata \<Rightarrow> endpoint \<Rightarrow> 'w \<Rightarrow> (go_error + 'w orchestrator) option \<times> 'w" where
  "getOrchestrator c m obj w =
     (case ob_Spec obj of
        None \<Rightarrow> (None, w)
      | Some spec \<Rightarrow>
          (case epc_ListCluster c [eq_filter ''metadata->name'' (strconv_Quote (eps_Cluster spec)),
                 eq_filter ''metadata->workspace'' (strconv_Quote (meta_Workspace m))] w of
             (Inl e, w1) \<Rightarrow> (Some (Inl (ErrWrap e (''failed to get cluster '' @ eps_Cluster spec))), w1)
           | (Inr [], w1) \<Rightarrow> (Some (Inl ErrResourceNotFound), w1)
           | (Inr (cluster # _), w1) \<Rightarrow>
               (case epc_NewOrchestrator c cluster w1 of
                  (Inl e, w2) \<Rightarrow>
                    (Some (Inl (ErrWrap e (''failed to create orchestrator for cluster '' @ WorkspaceName (cl_Metadata cluster)))), w2)
                | (Inr orch, w2) \<Rightarrow> (Some (Inr orch), w2))))"

definition formatStatus :: "'w runtime \<Rightarrow> string \<Rightarrow> go_error option \<Rightarrow> 'w \<Rightarrow> endpoint_status" where
  "formatStatus R phase err w =
     \<lparr>epst_Phase = phase, epst_ServiceURL = [], epst_LastTransitionTime = FormatStatusTime R w,
      epst_ErrorMessage = FormatErrorForStatus (rt_errors R) err, epst_ModelDownloadCompletedHash = None, epst_Resources = None\<rparr>"

definition preserveResources :: "endpoint \<Rightarrow> endpoint_status \<Rightarrow> endpoint_status" where
  "preserveResources obj status =
     (case ob_Status obj of
        None \<Rightarrow> status
      | Some old \<Rightarrow> (if epst_Resources old = None \<or> epst_Resources status \<noteq> None then status
                     else status\<lparr>epst_Resources := epst_Resources old\<rparr>))"

definition preserveModelDownloadStatus :: "endpoint \<Rightarrow> endpoint_status \<Rightarrow> endpoint_status" where
  "preserveModelDownloadStatus obj status =
     (case ob_Status obj of
        None \<Rightarrow> status
      | Some old \<Rightarrow> (if epst_ModelDownloadCompletedHash old = None \<or> epst_ModelDownloadCompletedHash status \<noteq> None then status
                     else status\<lparr>epst_ModelDownloadCompletedHash := epst_ModelDownloadCompletedHash old\<rparr>))"

definition prepareStatusForUpdate :: "endpoint \<Rightarrow> endpoint_status \<Rightarrow> endpoint_status" where
  "prepareStatusForUpdate obj status =
     (let s = (case ob_Status obj of
                 None \<Rightarrow> status
               | Some old \<Rightarrow> (if epst_ServiceURL status = [] \<and> epst_ServiceURL old \<noteq> []
                              then status\<lparr>epst_ServiceURL := epst_ServiceURL old\<rparr> else status)) in
      preserveModelDownloadStatus obj (preserveResources obj s))"

definition sameOptionalString :: "string ptr \<Rightarrow> string ptr \<Rightarrow> bool" where
  "sameOptionalString left right = (case (left, right) of (Some l, Some r) \<Rightarrow> l = r | (None, None) \<Rightarrow> True | _ \<Rightarrow> False)"

text \<open>Called with a new status, so the branch for a missing one is not reached.\<close>

definition shouldUpdateStatus :: "endpoint \<Rightarrow> endpoint_status \<Rightarrow> bool" where
  "shouldUpdateStatus obj newStatus =
     (case ob_Status obj of
        None \<Rightarrow> True
      | Some old \<Rightarrow>
          (let n = prepareStatusForUpdate obj newStatus in
           epst_Phase old \<noteq> epst_Phase n \<or> epst_ServiceURL old \<noteq> epst_ServiceURL n \<or> epst_ErrorMessage old \<noteq> epst_ErrorMessage n \<or>
           \<not> sameOptionalString (epst_ModelDownloadCompletedHash old) (epst_ModelDownloadCompletedHash n) \<or>
           epst_Resources old \<noteq> epst_Resources n))"

definition endpoint_updateStatus ::
  "'w runtime \<Rightarrow> 'w endpoint_controller \<Rightarrow> endpoint \<Rightarrow> endpoint_status \<Rightarrow> 'w \<Rightarrow> go_error option \<times> 'w" where
  "endpoint_updateStatus R c obj status w =
     ks_Update (epc_storage c) (Itoa (ob_ID obj))
       (status_update 0 (prepareStatusForUpdate obj (status\<lparr>epst_LastTransitionTime := FormatStatusTime R w\<rparr>))) w"

definition getActualStatus ::
  "'w endpoint_controller \<Rightarrow> metadata \<Rightarrow> endpoint \<Rightarrow> 'w \<Rightarrow> (go_error + endpoint_status) option \<times> 'w" where
  "getActualStatus c m obj w =
     (case getOrchestrator c m obj w of
        (None, w1) \<Rightarrow> (None, w1)
      | (Some (Inl e), w1) \<Rightarrow> (Some (Inl (ErrWrap e (''failed to get orchestrator for endpoint '' @ WorkspaceName m))), w1)
      | (Some (Inr orch), w1) \<Rightarrow>
          (case or_GetEndpointStatus orch obj w1 of
             (Inl e, w2) \<Rightarrow> (Some (Inl (ErrWrap e (''failed to get endpoint status from orchestrator for endpoint '' @ WorkspaceName m))), w2)
           | (Inr status, w2) \<Rightarrow>
               if epst_Phase status = ''Running'' then
                 (case epc_GetEndpointServeUrl c obj w2 of
                    (Inl e, w3) \<Rightarrow> (Some (Inr status), w3)
                  | (Inr serviceURL, w3) \<Rightarrow> (Some (Inr (status\<lparr>epst_ServiceURL := serviceURL\<rparr>)), w3))
               else (Some (Inr status), w2)))"

section \<open>Handlers\<close>

definition updateStatusOnError ::
  "'w runtime \<Rightarrow> 'w endpoint_controller \<Rightarrow> metadata \<Rightarrow> endpoint \<Rightarrow> go_error option \<Rightarrow> 'w \<Rightarrow> 'w" where
  "updateStatusOnError R c m obj err w =
     (let isForceDelete = IsForceDelete (meta_Annotations m);
          isDelete = meta_DeletionTimestamp m \<noteq> [] in
      if isDelete \<and> isForceDelete then snd (endpoint_updateStatus R c obj (formatStatus R ''Deleted'' None w) w)
      else if err \<noteq> None then
        snd (endpoint_updateStatus R c obj (formatStatus R (if isDelete then ''Deleting'' else ''Failed'') err w) w)
      else
        (case getActualStatus c m obj w of
           (Some (Inr status), w1) \<Rightarrow>
             (if shouldUpdateStatus obj status then snd (endpoint_updateStatus R c obj status w1) else w1)
         | (_, w1) \<Rightarrow> w1))"

definition cleanupEndpoint :: "'w endpoint_controller \<Rightarrow> metadata \<Rightarrow> endpoint \<Rightarrow> 'w \<Rightarrow> go_error option option \<times> 'w" where
  "cleanupEndpoint c m obj w =
     (case getOrchestrator c m obj w of
        (None, w1) \<Rightarrow> (None, w1)
      | (Some (Inl e), w1) \<Rightarrow>
          (Some (if e = ErrResourceNotFound then None
             else Some (ErrWrap e (''failed to get orchestrator for endpoint '' @ WorkspaceName m))), w1)
      | (Some (Inr orch), w1) \<Rightarrow>
          (case or_DeleteEndpoint orch obj w1 of
             (Some e, w2) \<Rightarrow> (Some (Some (ErrWrap e (''failed to delete endpoint '' @ WorkspaceName m))), w2)
           | (None, w2) \<Rightarrow> (Some None, w2)))"

definition performDeletion :: "'w endpoint_controller \<Rightarrow> metadata \<Rightarrow> endpoint \<Rightarrow> 'w \<Rightarrow> go_error option option \<times> 'w" where
  "performDeletion c m obj w =
     (case epc_DeleteEndpoint c obj w of
        (Some e, w1) \<Rightarrow> (Some (Some (ErrWrap e (''failed to delete route for endpoint '' @ WorkspaceName m))), w1)
      | (None, w1) \<Rightarrow>
          (case cleanupEndpoint c m obj w1 of
             (None, w2) \<Rightarrow> (None, w2)
           | (Some (Some e), w2) \<Rightarrow> (Some (Some (ErrWrap e (''failed to cleanup endpoint '' @ WorkspaceName m))), w2)
           | (Some None, w2) \<Rightarrow> (Some None, w2)))"

definition handleDeletion :: "'w runtime \<Rightarrow> 'w endpoint_controller \<Rightarrow> metadata \<Rightarrow> endpoint \<Rightarrow> 'w \<Rightarrow> ret \<times> 'w" where
  "handleDeletion R c m obj w =
     (if in_phase epst_Phase ''Deleted'' obj then
        (case ks_Delete (epc_storage c) (Itoa (ob_ID obj)) w of
           (Some e, w1) \<Rightarrow> (Returned (Some (ErrWrap e (''failed to delete endpoint '' @ WorkspaceName m @ '' from DB''))), w1)
         | (None, w1) \<Rightarrow> (Returned None, w1))
      else
        (case performDeletion c m obj w of
           (None, w1) \<Rightarrow> (Panicked, updateStatusOnError R c m obj None w1)
         | (Some err, w1) \<Rightarrow>
             (Returned (map_option (\<lambda>e. ErrWrap e (''failed to delete endpoint '' @ WorkspaceName m)) err),
              updateStatusOnError R c m obj err w1)))"

definition deploy_endpoint :: "'w endpoint_controller \<Rightarrow> metadata \<Rightarrow> endpoint \<Rightarrow> 'w \<Rightarrow> (go_error \<times> string) option option \<times> 'w" where
  "deploy_endpoint c m obj w =
     (case getOrchestrator c m obj w of
        (None, w1) \<Rightarrow> (None, w1)
      | (Some (Inl e), w1) \<Rightarrow> (Some (Some (e, ''failed to get orchestrator for endpoint '')), w1)
      | (Some (Inr orch), w1) \<Rightarrow>
          if IsEndpointPaused obj then
            (case or_PauseEndpoint orch obj w1 of
               (Some e, w2) \<Rightarrow> (Some (Some (e, ''failed to pause endpoint '')), w2)
             | (None, w2) \<Rightarrow> (Some None, w2))
          else
            (case or_CreateEndpoint orch obj w1 of
               (Some e, w2) \<Rightarrow> (Some (Some (e, ''failed to create or update endpoint '')), w2)
             | (None, w2) \<Rightarrow>
                 (case epc_SyncEndpoint c obj w2 of
                    (Some e, w3) \<Rightarrow> (Some (Some (e, ''failed to sync gateway configuration for endpoint '')), w3)
                  | (None, w3) \<Rightarrow> (Some None, w3))))"

text \<open>Reached with metadata only. The deferred update sees the error as it was before the last wrap.\<close>

definition endpoint_sync :: "'w runtime \<Rightarrow> 'w endpoint_controller \<Rightarrow> endpoint \<Rightarrow> 'w \<Rightarrow> ret \<times> 'w" where
  "endpoint_sync R c obj w =
     (case ob_Metadata obj of
        None \<Rightarrow> (Panicked, w)
      | Some m \<Rightarrow>
          if meta_DeletionTimestamp m \<noteq> [] then handleDeletion R c m obj w
          else
            (case deploy_endpoint c m obj w of
               (None, w1) \<Rightarrow> (Panicked, updateStatusOnError R c m obj None w1)
             | (Some err, w1) \<Rightarrow>
                 (Returned (map_option (\<lambda>(e, t). ErrWrap e (t @ WorkspaceName m)) err),
                  updateStatusOnError R c m obj (map_option fst err) w1)))"

definition endpoint_Reconcile :: "'w runtime \<Rightarrow> 'w endpoint_controller \<Rightarrow> endpoint option \<Rightarrow> 'w \<Rightarrow> ret \<times> 'w" where
  "endpoint_Reconcile R c obj w =
     (case obj of
        None \<Rightarrow> (Returned (Some (ErrNew ''failed to assert obj to *v1.Endpoint'')), w)
      | Some endpoint \<Rightarrow> (if ob_Metadata endpoint = None then (Panicked, w) else endpoint_sync R c endpoint w))"

section \<open>The protocol\<close>

text \<open>
  The orchestrator and the gateway leave the table of endpoints alone, and an orchestrator calls an
  endpoint deleted only when it is marked for deletion.
\<close>

definition orchestrator_lawful :: "'w orchestrator \<Rightarrow> ('w \<Rightarrow> (int, endpoint_spec, endpoint_status) rows) \<Rightarrow> bool" where
  "orchestrator_lawful r rows \<longleftrightarrow>
     (\<forall>e. untouched rows (or_CreateEndpoint r e) \<and> untouched rows (or_DeleteEndpoint r e) \<and> untouched rows (or_PauseEndpoint r e) \<and>
        untouched rows (or_GetEndpointStatus r e)) \<and>
     (\<forall>e w st. fst (or_GetEndpointStatus r e w) = Inr st \<longrightarrow> epst_Phase st = ''Deleted'' \<longrightarrow> marked e)"

definition endpoint_lawful :: "'w endpoint_controller \<Rightarrow> ('w \<Rightarrow> (int, endpoint_spec, endpoint_status) rows) \<Rightarrow> bool" where
  "endpoint_lawful c rows \<longleftrightarrow> kind_laws (epc_storage c) rows \<and>
     (\<forall>fs. untouched rows (epc_ListCluster c fs)) \<and> (\<forall>cl. untouched rows (epc_NewOrchestrator c cl)) \<and>
     (\<forall>e. untouched rows (epc_SyncEndpoint c e) \<and> untouched rows (epc_DeleteEndpoint c e) \<and> untouched rows (epc_GetEndpointServeUrl c e)) \<and>
     (\<forall>cl w r. fst (epc_NewOrchestrator c cl w) = Inr r \<longrightarrow> orchestrator_lawful r rows)"

lemma prepareStatus_Phase [simp]: "epst_Phase (prepareStatusForUpdate obj st) = epst_Phase st"
  by (simp add: prepareStatusForUpdate_def preserveModelDownloadStatus_def preserveResources_def Let_def split: option.split)

lemma formatStatus_Phase [simp]: "epst_Phase (formatStatus R p e w) = p"
  by (simp add: formatStatus_def)

lemma endpoint_laws: "endpoint_lawful c rows \<Longrightarrow> kind_laws (epc_storage c) rows"
  by (simp add: endpoint_lawful_def)

lemma endpoint_calls:
  assumes "endpoint_lawful c rows"
  shows "rows (snd (epc_SyncEndpoint c e w)) = rows w" "rows (snd (epc_DeleteEndpoint c e w)) = rows w"
    and "rows (snd (epc_GetEndpointServeUrl c e w)) = rows w" "rows (snd (getOrchestrator c m e w)) = rows w"
  using assms
  by (simp_all add: endpoint_lawful_def untouched_def getOrchestrator_def split_beta split: option.split sum.split list.split)

lemma getOrchestrator_lawful:
  assumes l: "endpoint_lawful c rows" and "fst (getOrchestrator c m obj w) = Some (Inr r)"
  shows "orchestrator_lawful r rows"
proof -
  have "fst (epc_NewOrchestrator c cl v) = Inr r \<Longrightarrow> orchestrator_lawful r rows" for cl v
    using l unfolding endpoint_lawful_def by blast
  then show ?thesis
    using assms(2) by (auto simp: getOrchestrator_def split_beta split: option.split_asm sum.split_asm list.split_asm)
qed

lemma orchestrator_calls:
  assumes "orchestrator_lawful r rows"
  shows "rows (snd (or_CreateEndpoint r e w)) = rows w" "rows (snd (or_DeleteEndpoint r e w)) = rows w"
    and "rows (snd (or_PauseEndpoint r e w)) = rows w" "rows (snd (or_GetEndpointStatus r e w)) = rows w"
    and "fst (or_GetEndpointStatus r e w) = Inr st \<Longrightarrow> epst_Phase st = ''Deleted'' \<Longrightarrow> marked e"
  using assms by (auto simp: orchestrator_lawful_def untouched_def)

lemma performDeletion_rows:
  assumes l: "endpoint_lawful c rows"
  shows "rows (snd (performDeletion c m obj w)) = rows w"
  by (auto simp: performDeletion_def cleanupEndpoint_def split_beta endpoint_calls [OF l] orchestrator_calls [OF getOrchestrator_lawful [OF l]]
      split: option.split sum.split)

lemma deploy_endpoint_rows:
  assumes l: "endpoint_lawful c rows"
  shows "rows (snd (deploy_endpoint c m obj w)) = rows w"
  by (auto simp: deploy_endpoint_def split_beta endpoint_calls [OF l] orchestrator_calls [OF getOrchestrator_lawful [OF l]]
      split: option.split sum.split)

lemma getActualStatus_rows:
  assumes l: "endpoint_lawful c rows"
  shows "rows (snd (getActualStatus c m obj w)) = rows w"
    and "fst (getActualStatus c m obj w) = Some (Inr st) \<Longrightarrow> epst_Phase st = ''Deleted'' \<Longrightarrow> marked obj"
  using orchestrator_calls [OF getOrchestrator_lawful [OF l]]
  by (auto simp: getActualStatus_def split_beta endpoint_calls [OF l] split: option.splits sum.splits if_splits)

lemma endpoint_update_step:
  assumes "endpoint_lawful c rows" "rows w = T" "epst_Phase st = ''Deleted'' \<longrightarrow> marked ob"
  shows "table_step Itoa epst_Phase [''Deleted''] ob T (rows (snd (endpoint_updateStatus R c ob st w)))"
  using assms(2,3) by (simp add: endpoint_updateStatus_def update_step [OF endpoint_laws [OF assms(1)]])

lemma updateStatusOnError_step:
  assumes l: "endpoint_lawful c rows" and "rows w = T" "ob_Metadata ob = Some m"
  shows "table_step Itoa epst_Phase [''Deleted''] ob T (rows (updateStatusOnError R c m ob e w))"
  using assms(2,3) getActualStatus_rows(2) [OF l, of m ob w]
  by (auto simp: updateStatusOnError_def Let_def split_beta marked_cases same_step getActualStatus_rows(1) [OF l]
      intro!: endpoint_update_step [OF l] split: option.split sum.split)

lemma endpoint_step:
  assumes l: "endpoint_lawful c rows"
  shows "table_step Itoa epst_Phase [''Deleted''] ob (rows w) (rows (snd (endpoint_sync R c ob w)))"
  by (simp add: endpoint_sync_def handleDeletion_def split_beta marked_cases same_step updateStatusOnError_step [OF l]
      delete_step [OF endpoint_laws [OF l]] performDeletion_rows [OF l] deploy_endpoint_rows [OF l] split: option.split)

text \<open>
  What a deletion has to achieve: the gateway deleted the route, and the orchestrator the deployment. As in
  \<open>cleanupEndpoint\<close>, an endpoint whose cluster is not found has no deployment to delete.
\<close>

definition endpoint_cleaned :: "'w endpoint_controller \<Rightarrow> endpoint \<Rightarrow> 'w \<Rightarrow> bool" where
  "endpoint_cleaned c ob w \<longleftrightarrow>
     (case ob_Metadata ob of None \<Rightarrow> False | Some m \<Rightarrow> fst (performDeletion c m ob w) = Some None)"

definition endpoint_gone :: "'w endpoint_controller \<Rightarrow> endpoint \<Rightarrow> 'w \<Rightarrow> bool" where
  "endpoint_gone c ob w \<longleftrightarrow>
     (case ob_Metadata ob of
        None \<Rightarrow> False
      | Some m \<Rightarrow> (\<exists>st. fst (getActualStatus c m ob (snd (performDeletion c m ob w))) = Some (Inr st) \<and> epst_Phase st = ''Deleted''))"

lemma performDeletion_panics: "fst (performDeletion c m ob w) = None \<Longrightarrow> ob_Spec ob = None"
  by (auto simp: performDeletion_def cleanupEndpoint_def getOrchestrator_def split_beta split: option.splits sum.splits list.splits)

lemma getActualStatus_panics: "ob_Spec ob = None \<Longrightarrow> fst (getActualStatus c m ob w) = None"
  by (simp add: getActualStatus_def getOrchestrator_def)

lemma endpoint_update_not_written:
  assumes "endpoint_lawful c rows" "rows w = T" "epst_Phase st \<noteq> ''Deleted''"
  shows "\<not> writes_deleted epst_Phase (Itoa (ob_ID ob)) T (rows (snd (endpoint_updateStatus R c ob st w)))"
  using assms(2,3) by (simp add: endpoint_updateStatus_def not_written(2) [OF endpoint_laws [OF assms(1)]])

lemma updateStatusOnError_not_written:
  assumes l: "endpoint_lawful c rows" and "rows w = T" "ob_Metadata ob = Some m" "\<not> forced ob"
    and "marked ob \<Longrightarrow> e = None \<Longrightarrow> fst (getActualStatus c m ob w) = None"
  shows "\<not> writes_deleted epst_Phase (Itoa (ob_ID ob)) T (rows (updateStatusOnError R c m ob e w))"
  using assms(2-5) getActualStatus_rows(2) [OF l, of m ob w]
  by (auto simp: updateStatusOnError_def Let_def split_beta marked_cases forced_cases not_written(1) getActualStatus_rows(1) [OF l]
      dest!: endpoint_update_not_written [OF l, THEN notE, rotated 2] split: option.splits sum.splits)

lemma endpoint_guard:
  assumes l: "endpoint_lawful c rows" and "\<not> forced ob" "\<not> endpoint_cleaned c ob w"
  shows "\<not> writes_deleted epst_Phase (Itoa (ob_ID ob)) (rows w) (rows (snd (endpoint_sync R c ob w)))"
proof (cases "ob_Metadata ob")
  case None
  then show ?thesis by (simp add: endpoint_sync_def not_written(1))
next
  case (Some m)
  note nw = updateStatusOnError_not_written [OF l _ Some assms(2)]
  have 1: "\<not> writes_deleted epst_Phase (Itoa (ob_ID ob)) (rows w) (rows (updateStatusOnError R c m ob e (snd (deploy_endpoint c m ob w))))"
    if "\<not> marked ob" for e
    by (rule nw) (use that in \<open>simp_all add: deploy_endpoint_rows [OF l]\<close>)
  have 2: "\<not> writes_deleted epst_Phase (Itoa (ob_ID ob)) (rows w) (rows (updateStatusOnError R c m ob e (snd (performDeletion c m ob w))))"
    if "e = None \<longrightarrow> fst (performDeletion c m ob w) = None" for e
    by (rule nw) (use that in \<open>auto simp: performDeletion_rows [OF l] intro!: getActualStatus_panics dest: performDeletion_panics\<close>)
  have "fst (performDeletion c m ob w) \<noteq> Some None" using assms(3) Some by (simp add: endpoint_cleaned_def)
  then show ?thesis
    using Some 1 2
    by (auto simp: endpoint_sync_def handleDeletion_def split_beta marked_cases not_written(3) [OF endpoint_laws [OF l]] split: option.split)
qed

interpretation endpoint: guarded_lifecycle "\<lambda>(R, c). endpoint_sync R c" "\<lambda>(R, c). endpoint_lawful c"
  Itoa epst_Phase read_before "\<lambda>(R, c). endpoint_cleaned c"
  by unfold_locales (auto simp: endpoint_step endpoint_guard)

lemma endpoint_deletes:
  assumes l: "endpoint_lawful c rows" and "answers (epc_storage c)" "marked ob"
  shows "in_phase epst_Phase ''Deleted'' ob \<Longrightarrow> rows (snd (endpoint_sync R c ob w)) = (rows w)(Itoa (ob_ID ob) := None)"
    and "ob_Spec ob \<noteq> None \<Longrightarrow> forced ob \<or> endpoint_cleaned c ob w \<and> endpoint_gone c ob w \<Longrightarrow> \<not> in_phase epst_Phase ''Deleted'' ob \<Longrightarrow>
      \<forall>y. rows (snd (endpoint_sync R c ob w)) (Itoa (ob_ID ob)) = Some y \<longrightarrow> in_phase epst_Phase ''Deleted'' y"
proof -
  obtain m where m: "ob_Metadata ob = Some m" "meta_DeletionTimestamp m \<noteq> []" using marked_metadata [OF assms(3)] by blast
  note a = answer [OF endpoint_laws [OF l] assms(2)]
  show "in_phase epst_Phase ''Deleted'' ob \<Longrightarrow> rows (snd (endpoint_sync R c ob w)) = (rows w)(Itoa (ob_ID ob) := None)"
    using m by (simp add: endpoint_sync_def handleDeletion_def split_beta a)
  have n: "fst (performDeletion c m ob w) \<noteq> None" if "ob_Spec ob \<noteq> None" proof
    assume "fst (performDeletion c m ob w) = None"
    then show False using that performDeletion_panics [of c m ob w] by simp
  qed
  show "\<forall>y. rows (snd (endpoint_sync R c ob w)) (Itoa (ob_ID ob)) = Some y \<longrightarrow> in_phase epst_Phase ''Deleted'' y"
    if "ob_Spec ob \<noteq> None" "forced ob \<or> endpoint_cleaned c ob w \<and> endpoint_gone c ob w" "\<not> in_phase epst_Phase ''Deleted'' ob"
    using m that n
    by (auto simp: endpoint_sync_def handleDeletion_def updateStatusOnError_def endpoint_updateStatus_def endpoint_cleaned_def endpoint_gone_def
        shouldUpdateStatus_def forced_cases split_beta Let_def a performDeletion_rows [OF l] getActualStatus_rows(1) [OF l] in_phase_def
        patched_def status_update_def split: option.splits if_splits)
qed

interpretation endpoint: removal "\<lambda>(R, c). endpoint_sync R c" "\<lambda>(R, c). endpoint_lawful c" Itoa epst_Phase "[''Deleted'']" read_before
  "\<lambda>(R, c) rows ob. answers (epc_storage c) \<and> ob_Spec ob \<noteq> None \<and> (forced ob \<or> (\<forall>w. endpoint_cleaned c ob w \<and> endpoint_gone c ob w))"
  by unfold_locales (auto simp: read_now endpoint_deletes(1) dest: endpoint_deletes(2))

end
