(* ===== verification/Control_Plane.thy ===== *)
theory Control_Plane
  imports Plain_Controllers Registry_Controllers Access_Controllers Catalog_Controller
    Workspace_Controller Endpoint_Controller Samples
begin

text \<open>
  Properties of the controllers of the control plane: what has happened before a row disappears, that
  deletion completes, and where it does not.
\<close>

section \<open>Samples\<close>

text \<open>A table as a part of the world, read and written by \<open>get\<close> and \<open>put\<close>; the storage always answers.\<close>

definition row_store :: "('w \<Rightarrow> ('i, 's, 't) rows) \<Rightarrow> (('i, 's, 't) rows \<Rightarrow> 'w \<Rightarrow> 'w) \<Rightarrow> ('i, 's, 't, 'w) kind_store" where
  "row_store get put =
     \<lparr>ks_Update = \<lambda>i p w. (None, put ((get w)(i := map_option (patched p) (get w i))) w),
      ks_Delete = \<lambda>i w. (None, put ((get w)(i := None)) w)\<rparr>"

lemma row_store_laws:
  assumes "\<And>T w. get (put T w) = T"
  shows "kind_laws (row_store get put) get" "answers (row_store get put)"
  using assms by (simp_all add: kind_laws_def answers_def row_store_def)

abbreviation plain_store :: "('i, 's, 't, ('i, 's, 't) rows) kind_store" where
  "plain_store \<equiv> row_store (\<lambda>T. T) (\<lambda>T _. T)"

definition sample_runtime :: "'w runtime" where
  "sample_runtime = \<lparr>rt_now = \<lambda>w. ''2025-01-01T00:00:00Z'', rt_now_utc = \<lambda>w. ''2025-01-01T00:00:00Z'', rt_errors = plain_errors\<rparr>"

abbreviation deleted_meta :: metadata where
  "deleted_meta \<equiv> (sample_meta ''x'')\<lparr>meta_DeletionTimestamp := ''2025-01-01T00:00:00Z''\<rparr>"

definition sample_object :: "'i \<Rightarrow> metadata \<Rightarrow> 's ptr \<Rightarrow> 't ptr \<Rightarrow> ('i, 's, 't) object" where
  "sample_object i m spec st =
     \<lparr>ob_ID = i, ob_APIVersion = ''v1'', ob_Kind = [], ob_Metadata = Some m, ob_Spec = spec, ob_Status = st\<rparr>"

lemma sample_object_fields [simp]:
  "ob_ID (sample_object i m spec st) = i" "ob_Metadata (sample_object i m spec st) = Some m"
  "ob_Spec (sample_object i m spec st) = spec" "ob_Status (sample_object i m spec st) = st"
  "GetDeletionTimestamp (sample_object i m spec st) = meta_DeletionTimestamp m"
  "GetAnnotations (sample_object i m spec st) = meta_Annotations m"
  "in_phase phase p (sample_object i m spec st) \<longleftrightarrow> (case st of None \<Rightarrow> False | Some s \<Rightarrow> phase s = p)"
  by (simp_all add: sample_object_def GetDeletionTimestamp_def GetAnnotations_def in_phase_def)

lemma not_forced [simp]: "IsForceDelete None = False"
  by (simp add: IsForceDelete_def)

lemma one_pass:
  assumes "rows w (key (ob_ID ob)) = Some ob" "sees ob ob"
  shows "lifecycle_run sync rows key phase sees w [(ob, w)] (snd (sync ob w))"
  by (rule lifecycle_run.pass, rule lifecycle_run.start, fact assms(1), fact assms(2))

section \<open>Endpoints\<close>

definition sample_endpoint_status :: "string \<Rightarrow> endpoint_status" where
  "sample_endpoint_status phase = \<lparr>epst_Phase = phase, epst_ServiceURL = [], epst_LastTransitionTime = [], epst_ErrorMessage = [],
     epst_ModelDownloadCompletedHash = None, epst_Resources = None\<rparr>"

definition sample_endpoint_spec :: endpoint_spec where
  "sample_endpoint_spec = \<lparr>eps_Cluster = ''c'', eps_Model = None, eps_Engine = None, eps_Resources = None, eps_Replicas = \<lparr>rep_Num = None\<rparr>,
     eps_DeploymentOptions = None, eps_Variables = None, eps_Env = None\<rparr>"

definition sample_endpoint :: endpoint where
  "sample_endpoint = sample_object 1 deleted_meta (Some sample_endpoint_spec) (Some (sample_endpoint_status ''Running''))"

definition sample_orchestrator :: "'w orchestrator" where
  "sample_orchestrator = \<lparr>or_CreateEndpoint = \<lambda>e w. (None, w), or_DeleteEndpoint = \<lambda>e w. (None, w), or_PauseEndpoint = \<lambda>e w. (None, w),
     or_GetEndpointStatus = \<lambda>e w. (Inr (sample_endpoint_status (if marked e then ''Deleted'' else ''Running'')), w)\<rparr>"

definition sample_endpoint_controller ::
  "cluster list \<Rightarrow> (int, endpoint_spec, endpoint_status) rows endpoint_controller" where
  "sample_endpoint_controller cls = \<lparr>epc_storage = plain_store, epc_ListCluster = \<lambda>fs w. (Inr cls, w),
     epc_NewOrchestrator = \<lambda>cl w. (Inr sample_orchestrator, w), epc_SyncEndpoint = \<lambda>e w. (None, w), epc_DeleteEndpoint = \<lambda>e w. (None, w),
     epc_GetEndpointServeUrl = \<lambda>e w. (Inr [], w)\<rparr>"

definition sample_parent :: cluster where
  "sample_parent = \<lparr>cl_ID = 1, cl_Metadata = sample_meta ''c'', cl_Spec = None, cl_Status = None\<rparr>"

lemma sample_endpoint_lawful: "endpoint_lawful (sample_endpoint_controller cls) (\<lambda>T. T)"
  by (auto simp: endpoint_lawful_def sample_endpoint_controller_def row_store_laws(1) untouched_def orchestrator_lawful_def
      sample_orchestrator_def sample_endpoint_status_def)

lemmas endpoint_samples = sample_endpoint_controller_def sample_orchestrator_def sample_endpoint_status_def sample_endpoint_spec_def
  sample_parent_def sample_runtime_def sample_meta_def

lemma sample_endpoint_deletion:
  "performDeletion (sample_endpoint_controller [sample_parent]) deleted_meta sample_endpoint w = (Some None, w)"
  by (simp add: performDeletion_def cleanupEndpoint_def getOrchestrator_def sample_endpoint_def endpoint_samples)

lemma sample_endpoint_actual:
  "getActualStatus (sample_endpoint_controller [sample_parent]) deleted_meta sample_endpoint w = (Some (Inr (sample_endpoint_status ''Deleted'')), w)"
  by (simp add: getActualStatus_def getOrchestrator_def sample_endpoint_def endpoint_samples)

lemma sample_endpoint_works:
  "answers (epc_storage (sample_endpoint_controller cls))"
  "endpoint_cleaned (sample_endpoint_controller [sample_parent]) sample_endpoint v"
  "endpoint_gone (sample_endpoint_controller [sample_parent]) sample_endpoint v"
  using sample_endpoint_deletion [of v] sample_endpoint_actual [of v]
  by (simp_all add: sample_endpoint_controller_def row_store_laws(2) endpoint_cleaned_def endpoint_gone_def sample_endpoint_def sample_endpoint_status_def)

text \<open>
  C30: in every run of the endpoint controller, in which passes over objects read earlier interleave with
  edits by users, a row that a pass removes was marked for deletion, and some earlier pass that
  deleted that endpoint either was forced or cleaned it up without an error: the gateway deleted the route,
  and the orchestrator the deployment, or the cluster of the endpoint does not exist any more.
\<close>

theorem endpoint_removed_after_cleanup:
  assumes "endpoint_lawful c rows" "none_deleted epst_Phase (rows w0)"
    and "lifecycle_run (endpoint_sync R c) rows Itoa epst_Phase read_before w0 tr w"
    and "rows w (Itoa (ob_ID ob)) = Some x" "read_before ob x"
    and "rows w i = Some y" "rows (snd (endpoint_sync R c ob w)) i = None"
  shows "marked y \<and> (\<exists>(e, v) \<in> set tr. Itoa (ob_ID e) = i \<and> deleting epst_Phase e \<and> (forced e \<or> endpoint_cleaned c e v))"
  using endpoint.removed_cleaned [of "(R, c)" rows w0 tr w ob x i y] assms by simp

theorem endpoint_removed_after_cleanup_witness:
  "\<exists>y :: endpoint. marked y \<and> (\<exists>(e, v) \<in> set [(sample_endpoint, [Itoa 1 \<mapsto> sample_endpoint])].
     Itoa (ob_ID e) = Itoa 1 \<and> deleting epst_Phase e \<and> (forced e \<or> endpoint_cleaned (sample_endpoint_controller [sample_parent]) e v))"
proof -
  let ?c = "sample_endpoint_controller [sample_parent]" and ?start = "[Itoa 1 \<mapsto> sample_endpoint]"
  let ?after = "snd (endpoint_sync sample_runtime ?c sample_endpoint ?start)"
  note e = sample_endpoint_def sample_endpoint_status_def
  obtain y where y: "?after (Itoa 1) = Some y" "ob_ID y = 1" "marked y" "snd (endpoint_sync sample_runtime ?c y ?after) (Itoa 1) = None"
    using endpoint.two_passes [where c = "(sample_runtime, ?c)" and rows = "\<lambda>T. T" and x = sample_endpoint and w = ?start]
      sample_endpoint_lawful sample_endpoint_works by (auto simp: e)
  have run: "lifecycle_run (endpoint_sync sample_runtime ?c) (\<lambda>T. T) Itoa epst_Phase read_before ?start [(sample_endpoint, ?start)] ?after"
    by (rule one_pass) (simp_all add: e read_now)
  have n: "none_deleted epst_Phase ?start" by (simp add: none_deleted_def e)
  show ?thesis
    by (rule exI, rule endpoint_removed_after_cleanup [where rows = "\<lambda>T. T", OF sample_endpoint_lawful n run _ read_now y(1,4)]) (simp add: y)
qed

text \<open>
  C33: deleting an endpoint takes two passes. When the storage answers, and either the deletion is forced
  or route and deployment can be removed and the orchestrator then reports the endpoint as deleted, two
  passes over a marked endpoint remove its row, whatever its phase.
\<close>

theorem endpoint_deleted_in_two_passes:
  assumes "endpoint_lawful c rows" "answers (epc_storage c)"
    and "rows w (Itoa (ob_ID x)) = Some x" "marked x" "ob_Spec x \<noteq> None"
    and "forced x \<or> (\<forall>v. endpoint_cleaned c x v \<and> endpoint_gone c x v)"
  shows "rows (pass_over (endpoint_sync R c) rows (Itoa (ob_ID x)) (pass_over (endpoint_sync R c) rows (Itoa (ob_ID x)) w)) (Itoa (ob_ID x)) = None"
  using endpoint.removed_after_two [of "(R, c)" rows x w] assms by simp

theorem endpoint_deleted_in_two_passes_witness:
  "pass_over (endpoint_sync sample_runtime (sample_endpoint_controller [sample_parent])) (\<lambda>T. T) (Itoa 1)
     (pass_over (endpoint_sync sample_runtime (sample_endpoint_controller [sample_parent])) (\<lambda>T. T) (Itoa 1) [Itoa 1 \<mapsto> sample_endpoint])
     (Itoa 1) = None"
  using endpoint_deleted_in_two_passes [OF sample_endpoint_lawful, where w = "[Itoa 1 \<mapsto> sample_endpoint]" and x = sample_endpoint]
    sample_endpoint_works by (simp add: sample_endpoint_def)

text \<open>The cleanup takes a missing cluster for a cleaned-up endpoint, the status update that follows does not.\<close>

lemma lost_cluster_pass:
  assumes l: "endpoint_lawful c rows" and m: "ob_Metadata x = Some m" "marked x" "\<not> forced x" "\<not> in_phase epst_Phase ''Deleted'' x"
    and "ob_Spec x = Some spec"
    and "\<And>v. fst (epc_ListCluster c [eq_filter ''metadata->name'' (strconv_Quote (eps_Cluster spec)),
          eq_filter ''metadata->workspace'' (strconv_Quote (meta_Workspace m))] v) = Inr []"
    and "\<And>v. fst (epc_DeleteEndpoint c x v) = None"
  shows "fst (endpoint_sync R c x w) = Returned None" "rows (snd (endpoint_sync R c x w)) = rows w"
proof -
  have o: "fst (getOrchestrator c m x v) = Some (Inl ErrResourceNotFound)" for v
    using assms(6-7) by (simp add: getOrchestrator_def split_beta)
  have p: "fst (performDeletion c m x v) = Some None" for v
    using assms(8) o by (simp add: performDeletion_def cleanupEndpoint_def split_beta)
  have a: "\<exists>e. fst (getActualStatus c m x v) = Some (Inl e)" for v
    using o by (simp add: getActualStatus_def split_beta)
  show "fst (endpoint_sync R c x w) = Returned None"
    using m p by (simp add: endpoint_sync_def handleDeletion_def split_beta marked_cases)
  obtain e where "fst (getActualStatus c m x (snd (performDeletion c m x w))) = Some (Inl e)" using a by blast
  then show "rows (snd (endpoint_sync R c x w)) = rows w"
    using m p
    by (simp add: endpoint_sync_def handleDeletion_def updateStatusOnError_def split_beta Let_def marked_cases forced_cases
        performDeletion_rows [OF l] getActualStatus_rows(1) [OF l])
qed



section \<open>Workspaces\<close>

text \<open>What the storage promises about engines: a list by workspace has all of them.\<close>

definition workspace_of :: "engine \<Rightarrow> string" where
  "workspace_of e = (case ob_Metadata e of None \<Rightarrow> [] | Some m \<Rightarrow> meta_Workspace m)"

definition no_engines :: "(int, engine_spec, phase_status) rows \<Rightarrow> string \<Rightarrow> bool" where
  "no_engines T ws \<longleftrightarrow> (\<forall>i e. T i = Some e \<longrightarrow> workspace_of e \<noteq> ws)"

definition engine_laws :: "'w workspace_controller \<Rightarrow> ('w \<Rightarrow> (int, engine_spec, phase_status) rows) \<Rightarrow> bool" where
  "engine_laws c engines \<longleftrightarrow> kind_laws (wsc_engines c) engines \<and>
     (\<forall>fs. untouched engines (wsc_ListEngine c fs)) \<and> (\<forall>i p. untouched engines (ks_Update (wsc_storage c) i p)) \<and>
     (\<forall>ws w es i e. fst (wsc_ListEngine c [eq_filter ''metadata->workspace'' (strconv_Quote ws)] w) = Inr es \<longrightarrow>
        engines w i = Some e \<longrightarrow> workspace_of e = ws \<longrightarrow> i \<in> (\<lambda>e. Itoa (ob_ID e)) ` set es)"

lemma delete_engines_gone:
  assumes "kind_laws (wsc_engines c) engines" "fst (delete_engines c ws es w) = None"
  shows "engines (snd (delete_engines c ws es w)) = (\<lambda>i. if i \<in> (\<lambda>e. Itoa (ob_ID e)) ` set es then None else engines w i)"
  using assms(2)
proof (induction es arbitrary: w)
  case (Cons e es)
  have "fst (ks_Delete (wsc_engines c) (Itoa (ob_ID e)) w) = None" using Cons.prems by (auto simp: split_beta split: option.splits)
  moreover from this have "engines (snd (ks_Delete (wsc_engines c) (Itoa (ob_ID e)) w)) = (engines w)(Itoa (ob_ID e) := None)"
    using assms(1) by (simp add: kind_laws_def)
  ultimately show ?case using Cons by (auto simp: split_beta)
qed simp

lemma DeleteWorkspaceEngine_gone:
  assumes e: "engine_laws c engines" and d: "fst (DeleteWorkspaceEngine c ws w) = None"
  shows "no_engines (engines (snd (DeleteWorkspaceEngine c ws w))) ws"
proof -
  let ?list = "wsc_ListEngine c [eq_filter ''metadata->workspace'' (strconv_Quote ws)] w"
  obtain es where l: "fst ?list = Inr es" using d by (auto simp: DeleteWorkspaceEngine_def split_beta split: sum.splits)
  have k: "kind_laws (wsc_engines c) engines" and u: "engines (snd ?list) = engines w"
    and all: "\<And>i e. engines w i = Some e \<Longrightarrow> workspace_of e = ws \<Longrightarrow> i \<in> (\<lambda>e. Itoa (ob_ID e)) ` set es"
    using e l unfolding engine_laws_def untouched_def by blast+
  have f: "fst (delete_engines c ws es (snd ?list)) = None" using d l by (simp add: DeleteWorkspaceEngine_def split_beta)
  show ?thesis
    using delete_engines_gone [OF k f] all l u by (auto simp: DeleteWorkspaceEngine_def split_beta no_engines_def split: if_splits)
qed

lemma workspace_pass_gone:
  assumes e: "engine_laws c engines" and "deleting wst_Phase ob" "workspace_cleaned c ob w" "ob_Metadata ob = Some m"
  shows "no_engines (engines (snd (workspace_sync R c ob w))) (meta_Name m)"
proof -
  have u: "engines (snd (ks_Update (wsc_storage c) i p v)) = engines v" for i p v using e by (simp add: engine_laws_def untouched_def)
  have "fst (DeleteWorkspaceEngine c (meta_Name m) w) = None" using assms(3,4) by (simp add: workspace_cleaned_def)
  with DeleteWorkspaceEngine_gone [OF e this] show ?thesis
    using assms(2,4) by (simp add: workspace_sync_def workspace_updateStatus_def deleting_def marked_cases split_beta Let_def u split: option.split)
qed

text \<open>
  C31: a workspace outlives its engines. In every run of the workspace controller a row that a pass removes
  was marked for deletion, and an earlier pass that deleted the workspace either was forced or left no
  engine of that workspace in the storage.
\<close>

theorem workspace_removed_after_engines:
  assumes "workspace_lawful c rows" "engine_laws c engines" "none_deleted wst_Phase (rows w0)"
    and "lifecycle_run (workspace_sync R c) rows Itoa wst_Phase read_before w0 tr w"
    and "rows w (Itoa (ob_ID ob)) = Some x" "read_before ob x"
    and "rows w i = Some y" "rows (snd (workspace_sync R c ob w)) i = None"
  shows "marked y \<and> (\<exists>(ws, v) \<in> set tr. Itoa (ob_ID ws) = i \<and> marked ws \<and>
    (forced ws \<or> (\<exists>m. ob_Metadata ws = Some m \<and> no_engines (engines (snd (workspace_sync R c ws v))) (meta_Name m))))"
proof -
  obtain ws v where v: "(ws, v) \<in> set tr" "Itoa (ob_ID ws) = i" "deleting wst_Phase ws" "forced ws \<or> workspace_cleaned c ws v" and y: "marked y"
    using workspace.removed_cleaned [of "(R, c)" rows w0 tr w ob x i y] assms(1,3-8) by auto
  obtain m where "ob_Metadata ws = Some m" "marked ws" using v(3) marked_metadata [of ws] by (auto simp: deleting_def)
  then show ?thesis
    using v y workspace_pass_gone [OF assms(2) v(3), of v m R] by blast
qed

text \<open>A storage with one table of workspaces and engines known by their numbers.\<close>

type_synonym sample_tables = "(int, unit, workspace_status) rows \<times> int list"

definition sample_engine :: "int \<Rightarrow> engine" where
  "sample_engine k = sample_object k ((sample_meta ''e'')\<lparr>meta_Workspace := ''x''\<rparr>) None None"

definition sample_engines :: "sample_tables \<Rightarrow> (int, engine_spec, phase_status) rows" where
  "sample_engines w = map_of (map (\<lambda>k. (Itoa k, sample_engine k)) (snd w))"

definition sample_workspace_controller :: "sample_tables workspace_controller" where
  "sample_workspace_controller =
     \<lparr>wsc_storage = row_store fst (\<lambda>T w. (T, snd w)),
      wsc_engines = \<lparr>ks_Update = \<lambda>i p w. (Some (ErrNew ''read only''), w), ks_Delete = \<lambda>i w. (None, (fst w, filter (\<lambda>k. Itoa k \<noteq> i) (snd w)))\<rparr>,
      wsc_ListEngine = \<lambda>fs w. (Inr (map sample_engine (snd w)), w), wsc_CreateEngine = \<lambda>e w. (Some (ErrNew ''read only''), w),
      wsc_registry = \<lambda>w. [], wsc_set_registry = \<lambda>r w. w\<rparr>"

definition sample_workspace :: workspace where
  "sample_workspace = sample_object 1 deleted_meta None
     (Some \<lparr>wst_ErrorMessage = [], wst_LastTransitionTime = [], wst_Phase = ''Created'', wst_ServiceURL = []\<rparr>)"

lemma sample_workspace_lawful: "workspace_lawful sample_workspace_controller fst"
  by (simp add: workspace_lawful_def sample_workspace_controller_def row_store_laws(1) untouched_def)

lemma sample_workspace_works:
  "answers (wsc_storage sample_workspace_controller)" "workspace_cleaned sample_workspace_controller sample_workspace w"
proof -
  have "fst (delete_engines sample_workspace_controller ws es v) = None" for ws es v
    by (induction es arbitrary: v) (simp_all add: sample_workspace_controller_def)
  then show "workspace_cleaned sample_workspace_controller sample_workspace w"
    by (simp add: workspace_cleaned_def DeleteWorkspaceEngine_def sample_workspace_def) (simp add: sample_workspace_controller_def)
qed (simp add: sample_workspace_controller_def row_store_laws(2))

lemma sample_engine_laws: "engine_laws sample_workspace_controller sample_engines"
proof -
  have "map_of (map (\<lambda>k. (Itoa k, sample_engine k)) (filter (\<lambda>k. Itoa k \<noteq> i) ks)) =
    (map_of (map (\<lambda>k. (Itoa k, sample_engine k)) ks))(i := None)" for i ks
    by (induction ks) (auto simp: fun_eq_iff)
  moreover have "i \<in> (\<lambda>k. Itoa (ob_ID (sample_engine k))) ` set ks" if "map_of (map (\<lambda>k. (Itoa k, sample_engine k)) ks) i = Some e" for i e ks
    using map_of_SomeD [OF that] by (auto simp: sample_engine_def)
  ultimately show ?thesis
    by (auto simp: engine_laws_def kind_laws_def untouched_def sample_workspace_controller_def sample_engines_def row_store_def image_image)
qed

theorem workspace_removed_after_engines_witness:
  "\<exists>y :: workspace. marked y \<and> (\<exists>(ws, v) \<in> set [(sample_workspace, ([Itoa 1 \<mapsto> sample_workspace], [7, 8]))]. Itoa (ob_ID ws) = Itoa 1 \<and> marked ws \<and>
    (forced ws \<or> (\<exists>m. ob_Metadata ws = Some m \<and>
       no_engines (sample_engines (snd (workspace_sync sample_runtime sample_workspace_controller ws v))) (meta_Name m))))"
proof -
  let ?c = sample_workspace_controller and ?start = "([Itoa 1 \<mapsto> sample_workspace], [7, 8]) :: sample_tables"
  let ?after = "snd (workspace_sync sample_runtime ?c sample_workspace ?start)"
  note e = sample_workspace_def
  obtain y where y: "fst ?after (Itoa 1) = Some y" "ob_ID y = 1" "marked y" "fst (snd (workspace_sync sample_runtime ?c y ?after)) (Itoa 1) = None"
    using workspace.two_passes [where c = "(sample_runtime, ?c)" and rows = fst and x = sample_workspace and w = ?start]
      sample_workspace_lawful sample_workspace_works by (auto simp: e)
  have run: "lifecycle_run (workspace_sync sample_runtime ?c) fst Itoa wst_Phase read_before ?start [(sample_workspace, ?start)] ?after"
    by (rule one_pass) (simp_all add: e read_now)
  have n: "none_deleted wst_Phase (fst ?start)" by (simp add: none_deleted_def e)
  show ?thesis
    by (rule exI, rule workspace_removed_after_engines [OF sample_workspace_lawful sample_engine_laws n run _ read_now y(1,4)]) (simp add: y)
qed

section \<open>User profiles\<close>

text \<open>
  What the code accepts as the end of an account: the backend answers the deletion without an error, or
  with an error whose text, in lower case, contains one of the two phrases for an unknown user.
\<close>

definition deletion_answered :: "'w runtime \<Rightarrow> 'w user_profile_controller \<Rightarrow> string \<Rightarrow> 'w \<Rightarrow> bool" where
  "deletion_answered R c user w \<longleftrightarrow>
     (case upc_ParseUUID c user of
        Inl e \<Rightarrow> False
      | Inr uuid \<Rightarrow> (case fst (upc_AdminDeleteUser c uuid w) of None \<Rightarrow> True | Some e \<Rightarrow> says_not_found (rt_errors R) e))"

lemma account_deletion: "fst (deleteGoTrueUser R c u w) = None \<Longrightarrow> deletion_answered R c (ob_ID u) w"
  by (simp add: deleteGoTrueUser_def deletion_answered_def split_beta split: sum.splits option.splits if_splits)

text \<open>
  C32: a user profile is removed only after the deletion of its account was asked for and answered. In every
  run of the controller of user profiles a row that a pass removes was marked for deletion, and an earlier
  pass that deleted the profile either was forced or had such an answer: the identifier of the profile was
  a UUID, and the authentication backend answered the deletion of that user without an error, or with an
  error whose text has \<open>not found\<close> or \<open>404\<close> in it, which the code takes for an account that is gone.
\<close>

theorem profile_removed_after_deletion:
  assumes "user_profile_lawful c rows" "none_deleted upst_Phase (rows w0)"
    and "lifecycle_run (user_profile_sync R c) rows (\<lambda>i. i) upst_Phase read_before w0 tr w"
    and "rows w (ob_ID ob) = Some x" "read_before ob x"
    and "rows w i = Some y" "rows (snd (user_profile_sync R c ob w)) i = None"
  shows "marked y \<and> (\<exists>(u, v) \<in> set tr. ob_ID u = i \<and> deleting upst_Phase u \<and> (forced u \<or> deletion_answered R c i v))"
proof -
  obtain u v where v: "(u, v) \<in> set tr" "ob_ID u = i" "deleting upst_Phase u" "forced u \<or> fst (deleteGoTrueUser R c u v) = None" and y: "marked y"
    using user_profile.removed_cleaned [of "(R, c)" rows w0 tr w ob x i y] assms by auto
  then have "forced u \<or> deletion_answered R c i v" using account_deletion [of R c u v] by auto
  then show ?thesis using v(2,3) y by (intro conjI bexI [OF _ v(1)]) simp_all
qed

definition sample_profile_controller :: "(string, user_profile_spec, user_profile_status) rows user_profile_controller" where
  "sample_profile_controller = \<lparr>upc_storage = plain_store, upc_AdminDeleteUser = \<lambda>u w. (None, w),
     upc_AdminUpdateUser = \<lambda>u e b w. (None, w), upc_ParseUUID = Inr\<rparr>"

definition sample_profile :: user_profile where
  "sample_profile = sample_object ''u'' deleted_meta None
     (Some \<lparr>upst_Phase = ''Created'', upst_ErrorMessage = [], upst_LastTransitionTime = [], upst_SyncedSpec = None\<rparr>)"

lemma sample_profile_lawful: "user_profile_lawful sample_profile_controller (\<lambda>T. T)"
  by (simp add: user_profile_lawful_def sample_profile_controller_def row_store_laws(1) untouched_def)

theorem profile_removed_after_deletion_witness:
  "\<exists>y :: user_profile. marked y \<and> (\<exists>(u, v) \<in> set [(sample_profile, [''u'' \<mapsto> sample_profile])].
     ob_ID u = ''u'' \<and> deleting upst_Phase u \<and> (forced u \<or> deletion_answered sample_runtime sample_profile_controller ''u'' v))"
proof -
  let ?c = sample_profile_controller and ?start = "[''u'' \<mapsto> sample_profile]"
  let ?after = "snd (user_profile_sync sample_runtime ?c sample_profile ?start)"
  note e = sample_profile_def
  have "answers (upc_storage ?c)" "fst (deleteGoTrueUser sample_runtime ?c sample_profile v) = None" for v
    by (simp_all add: sample_profile_controller_def row_store_laws(2) deleteGoTrueUser_def)
  then obtain y where y: "?after ''u'' = Some y" "ob_ID y = ''u''" "marked y" "snd (user_profile_sync sample_runtime ?c y ?after) ''u'' = None"
    using user_profile.two_passes [where c = "(sample_runtime, ?c)" and rows = "\<lambda>T. T" and x = sample_profile and w = ?start]
      sample_profile_lawful by (auto simp: e)
  have run: "lifecycle_run (user_profile_sync sample_runtime ?c) (\<lambda>T. T) (\<lambda>i. i) upst_Phase read_before ?start [(sample_profile, ?start)] ?after"
    by (rule one_pass) (simp_all add: e read_now)
  have n: "none_deleted upst_Phase ?start" by (simp add: none_deleted_def e)
  show ?thesis
    by (rule exI, rule profile_removed_after_deletion [where rows = "\<lambda>T. T", OF sample_profile_lawful n run _ read_now y(1,4)]) (simp add: y)
qed

end
