(* ===== verification/Handler_Props.thy ===== *)
theory Handler_Props
  imports Control_Plane
begin

text \<open>
  Further properties of the handlers of the control plane: a key that outlives its row, the cases in which
  a handler dereferences nil, engines that are merged once, and what makes the rows of the remaining kinds
  disappear.
\<close>

section \<open>API keys\<close>

lemma key_deletion_fails:
  assumes m: "ob_Metadata x = Some m" "meta_DeletionTimestamp m \<noteq> []" "ob_Status x = Some st" "\<not> in_phase akst_Phase ''Deleted'' x"
    and f: "\<not> IsForceDelete (meta_Annotations m)"
    and e: "fst (akc_DeleteAPIKey c x w) = Some e" and a: "\<And>i p v. fst (ks_Update (akc_storage c) i p v) = None"
  shows "fst (api_key_sync R c x w) = Returned (Some e)"
  using m f by (simp add: api_key_sync_def Let_def api_key_updateStatus_def split_beta e a)

lemma key_deletion_serves:
  assumes m: "ob_Metadata x = Some m" "meta_DeletionTimestamp m \<noteq> []"
    and e: "served (snd (akc_DeleteAPIKey c x w)) = served w"
    and u: "\<And>i p v. served (snd (ks_Update (akc_storage c) i p v)) = served v" "\<And>i v. served (snd (ks_Delete (akc_storage c) i v)) = served v"
  shows "served (snd (api_key_sync R c x w)) = served w"
  using m by (simp add: api_key_sync_def Let_def api_key_updateStatus_def split_beta e u split: option.split)

lemma removed_key_serves:
  assumes "marked x" "in_phase akst_Phase ''Deleted'' x" and u: "\<And>i v. served (snd (ks_Delete (akc_storage c) i v)) = served v"
  shows "served (snd (api_key_sync R c x w)) = served w"
  using marked_metadata [OF assms(1)] assms(2) by (auto simp: api_key_sync_def split_beta u split: option.split)

text \<open>
  C35: an API key can outlive its row. When the gateway fails to delete a key, the first pass over the
  marked key reports that error and yet records the key as deleted; the second pass removes the row
  without asking the gateway again. So two passes remove the row while what the gateway serves is what it
  served before, although the deletion was not forced.
\<close>

theorem api_key_outlives_its_row:
  assumes "api_key_lawful c rows" "answers (akc_storage c)"
    and "rows w (ob_ID x) = Some x" "marked x" "\<not> forced x" "ob_Status x \<noteq> None" "\<not> in_phase akst_Phase ''Deleted'' x"
    and "\<And>v. fst (akc_DeleteAPIKey c x v) = Some e"
    and "\<And>v. served (snd (akc_DeleteAPIKey c x v)) = served v"
    and "\<And>i p v. served (snd (ks_Update (akc_storage c) i p v)) = served v" "\<And>i v. served (snd (ks_Delete (akc_storage c) i v)) = served v"
  shows "fst (api_key_sync R c x w) = Returned (Some e) \<and>
    rows (pass_over (api_key_sync R c) rows (ob_ID x) (pass_over (api_key_sync R c) rows (ob_ID x) w)) (ob_ID x) = None \<and>
    served (pass_over (api_key_sync R c) rows (ob_ID x) (pass_over (api_key_sync R c) rows (ob_ID x) w)) = served w"
proof -
  let ?v = "snd (api_key_sync R c x w)"
  obtain m where m: "ob_Metadata x = Some m" "meta_DeletionTimestamp m \<noteq> []" using marked_metadata [OF assms(4)] by blast
  note a = answer [OF api_key_laws [OF assms(1)] assms(2)]
  obtain y where y: "rows ?v (ob_ID x) = Some y" "ob_ID y = ob_ID x" "marked y" "rows (snd (api_key_sync R c y ?v)) (ob_ID x) = None"
    by (rule api_key.two_passes [where c = "(R, c)" and rows = rows and x = x and w = w]) (use assms(1-4,6,7) in simp_all)
  have d: "in_phase akst_Phase ''Deleted'' y" using api_key_deletes(2) [OF assms(1,2,4,6,7)] y(1) by blast
  obtain st where st: "ob_Status x = Some st" using assms(6) by blast
  have f: "\<not> IsForceDelete (meta_Annotations m)" using assms(5) m(1) by (simp add: forced_cases)
  have "fst (api_key_sync R c x w) = Returned (Some e)" by (rule key_deletion_fails [OF m st assms(7) f assms(8) a(1)])
  moreover have "served ?v = served w" by (rule key_deletion_serves [OF m]) (rule assms)+
  moreover have "served (snd (api_key_sync R c y ?v)) = served ?v" by (rule removed_key_serves [OF y(3) d]) (rule assms)
  ultimately show ?thesis using y assms(3) by (simp add: pass_over_def)
qed

text \<open>A gateway that serves one key and cannot delete it; the world is the table and the keys served.\<close>

type_synonym sample_gateway = "(string, api_key_spec, api_key_status) rows \<times> string list"

definition sample_key_controller :: "sample_gateway api_key_controller" where
  "sample_key_controller = \<lparr>akc_storage = row_store fst (\<lambda>T w. (T, snd w)), akc_SyncAPIKey = \<lambda>k w. (None, w),
     akc_DeleteAPIKey = \<lambda>k w. (Some (ErrNew ''gateway unavailable''), w)\<rparr>"

definition sample_key :: api_key where
  "sample_key = sample_object ''k'' deleted_meta None
     (Some \<lparr>akst_ErrorMessage = [], akst_LastTransitionTime = [], akst_Phase = ''Created'', akst_SkValue = ''sk'', akst_Usage = 0,
        akst_LastUsedAt = [], akst_LastSyncAt = []\<rparr>)"

lemma sample_key_lawful: "api_key_lawful sample_key_controller fst"
  by (simp add: api_key_lawful_def sample_key_controller_def row_store_laws(1) untouched_def)

theorem api_key_outlives_its_row_witness:
  "\<exists>w. w = pass_over (api_key_sync sample_runtime sample_key_controller) fst ''k''
      (pass_over (api_key_sync sample_runtime sample_key_controller) fst ''k'' ([''k'' \<mapsto> sample_key], [''k''])) \<and>
    fst w ''k'' = None \<and> snd w = [''k'']"
proof -
  have "answers (akc_storage sample_key_controller)" by (simp add: sample_key_controller_def row_store_laws(2))
  then show ?thesis
    using api_key_outlives_its_row [OF sample_key_lawful, where w = "([''k'' \<mapsto> sample_key], [''k''])" and x = sample_key
        and e = "ErrNew ''gateway unavailable''" and served = snd and R = sample_runtime]
    by (simp add: sample_key_def sample_meta_def) (simp add: sample_key_controller_def row_store_def)
qed

section \<open>Handlers and nil\<close>

lemma no_panic: "fst (case x of None \<Rightarrow> (Returned a, u) | Some e \<Rightarrow> (Returned (b e), v)) \<noteq> Panicked"
  by (simp split: option.split)

lemma process_returns:
  "fst (processPendingModelCatalog R S m cat spec w) \<noteq> Panicked" "fst (processFailedModelCatalog R S m cat w) \<noteq> Panicked"
  by (simp_all add: processPendingModelCatalog_def processFailedModelCatalog_def split_beta no_panic)

lemma catalog_panics: "(fst (catalog_sync R S cat w) = Panicked) = (ob_Metadata cat = None)"
  by (cases "ob_Metadata cat") (simp_all add: catalog_sync_def split_beta Let_def no_panic process_returns)

lemma deploy_panics: "(fst (deploy_endpoint c m ep w) = None) = (ob_Spec ep = None)"
  by (cases "ob_Spec ep") (simp_all add: deploy_endpoint_def getOrchestrator_def split_beta split: option.split sum.split list.split)

lemma deletion_panics: "(fst (performDeletion c m ep w) = None) = (ob_Spec ep = None \<and> fst (epc_DeleteEndpoint c ep w) = None)"
  by (cases "ob_Spec ep") (simp_all add: performDeletion_def cleanupEndpoint_def getOrchestrator_def split_beta split: option.split sum.split list.split)

lemma endpoint_panics:
  "(fst (endpoint_sync R c ep w) = Panicked) =
     (ob_Metadata ep = None \<or> (ob_Spec ep = None \<and> (GetDeletionTimestamp ep = [] \<or>
        (in_phase epst_Phase ''Deleted'' ep = False \<and> fst (epc_DeleteEndpoint c ep w) = None))))"
proof (cases "ob_Metadata ep")
  case (Some m)
  show ?thesis
    using Some deploy_panics [of c m ep w] deletion_panics [of c m ep w]
    by (auto simp: endpoint_sync_def handleDeletion_def split_beta marked_cases split: option.splits)
qed (simp add: endpoint_sync_def)

lemma api_key_panics:
  assumes "ob_Metadata key = Some m"
  shows "(fst (api_key_sync R c key w) = Panicked) =
    (ob_Status key = None \<and> (if GetDeletionTimestamp key = [] then fst (akc_SyncAPIKey c key w) = None else True))"
  using assms
  by (cases "ob_Status key") (auto simp: api_key_sync_def api_key_updateStatus_def marked_cases in_phase_def is_new_def split_beta Let_def
      split: option.splits)

lemma external_endpoint_written:
  assumes "ob_Metadata ee = Some m"
  obtains e v where "external_endpoint_updateStatus R c ee phase err w = (Some e, v)"
  using assms by (cases "external_endpoint_updateStatus R c ee phase err w")
    (auto simp: external_endpoint_updateStatus_def service_url_def Let_def split: prod.splits sum.splits if_splits)

lemma external_endpoint_returns:
  assumes m: "ob_Metadata ee = Some m"
  shows "fst (external_endpoint_sync R c ee w) \<noteq> Panicked"
proof -
  obtain e1 v1 where d: "external_endpoint_updateStatus R c ee ''Deleted'' (fst (eec_DeleteExternalEndpoint c ee w)) (snd (eec_DeleteExternalEndpoint c ee w)) = (Some e1, v1)"
    by (rule external_endpoint_written [OF m])
  obtain e2 v2 where r: "external_endpoint_updateStatus R c ee ''Running'' None (snd (eec_SyncExternalEndpoint c ee w)) = (Some e2, v2)"
    by (rule external_endpoint_written [OF m])
  show ?thesis
    by (simp add: external_endpoint_sync_def m split_beta Let_def d r split: option.split)
qed

lemma image_registry_panics:
  "ob_Metadata ir = Some m \<Longrightarrow>
     (fst (image_registry_sync parse R c ir w) = Panicked) = (GetDeletionTimestamp ir = [] \<and> ob_Spec ir = None)"
  by (auto simp: image_registry_sync_def connectImageRegistry_def after_deferred_def marked_cases split_beta Let_def split: option.split sum.split)

lemma model_registry_panics:
  "ob_Metadata mr = Some m \<Longrightarrow>
     (fst (model_registry_sync R c mr w) = Panicked) =
     (ob_Spec mr = None \<and> (GetDeletionTimestamp mr = [] \<or> in_phase ps_Phase ''Deleted'' mr = False))"
  by (auto simp: model_registry_sync_def after_deferred_def marked_cases split_beta Let_def split: option.split)

text \<open>
  C36: where the controllers of ten kinds dereference nil. Reconciling an object panics exactly when it
  has no metadata (a role assignment not even then) or: an image registry has no specification and is not
  being deleted; a model registry has no specification, unless the pass only removes its row; an endpoint
  has no specification, unless the pass only removes its row or the gateway refuses to delete its route; an
  API key has no status and the pass gets to writing one. The calls behind the interfaces of the
  controllers (storage, gateway, registries, orchestrators, authentication) are taken to return.
\<close>

theorem handlers_panic_iff:
  "(fst (role_Reconcile R S1 (Some role) w1) = Panicked) = (ob_Metadata role = None) \<and>
   fst (role_assignment_Reconcile R S2 (Some ra) w1) \<noteq> Panicked \<and>
   (fst (engine_Reconcile R S3 (Some engine) w1) = Panicked) = (ob_Metadata engine = None) \<and>
   (fst (catalog_Reconcile R S4 (Some cat) w1) = Panicked) = (ob_Metadata cat = None) \<and>
   (fst (external_endpoint_Reconcile R c5 (Some ee) w1) = Panicked) = (ob_Metadata ee = None) \<and>
   (fst (user_profile_Reconcile R c6 (Some up) w1) = Panicked) = (ob_Metadata up = None) \<and>
   (fst (image_registry_Reconcile parse R c7 (Some ir) w1) = Panicked) =
     (ob_Metadata ir = None \<or> (GetDeletionTimestamp ir = [] \<and> ob_Spec ir = None)) \<and>
   (fst (model_registry_Reconcile R c8 (Some mr) w1) = Panicked) =
     (ob_Metadata mr = None \<or> (ob_Spec mr = None \<and> (GetDeletionTimestamp mr = [] \<or> in_phase ps_Phase ''Deleted'' mr = False))) \<and>
   (fst (endpoint_Reconcile R c9 (Some ep) w1) = Panicked) =
     (ob_Metadata ep = None \<or> (ob_Spec ep = None \<and> (GetDeletionTimestamp ep = [] \<or>
        (in_phase epst_Phase ''Deleted'' ep = False \<and> fst (epc_DeleteEndpoint c9 ep w1) = None)))) \<and>
   (fst (api_key_Reconcile R c10 (Some key) w1) = Panicked) =
     (ob_Metadata key = None \<or> (ob_Status key = None \<and> (if GetDeletionTimestamp key = [] then fst (akc_SyncAPIKey c10 key w1) = None else True)))"
proof (intro conjI)
  show "(fst (role_Reconcile R S1 (Some role) w1) = Panicked) = (ob_Metadata role = None)"
    by (simp add: role_Reconcile_def role_sync_def split_beta split: option.split)
  show "fst (role_assignment_Reconcile R S2 (Some ra) w1) \<noteq> Panicked"
    by (simp add: role_assignment_Reconcile_def role_assignment_sync_def split_beta Let_def split: option.split)
  show "(fst (engine_Reconcile R S3 (Some engine) w1) = Panicked) = (ob_Metadata engine = None)"
    by (simp add: engine_Reconcile_def engine_sync_def split_beta split: option.split)
  show "(fst (catalog_Reconcile R S4 (Some cat) w1) = Panicked) = (ob_Metadata cat = None)"
    by (simp add: catalog_Reconcile_def catalog_panics)
  show "(fst (external_endpoint_Reconcile R c5 (Some ee) w1) = Panicked) = (ob_Metadata ee = None)"
    using external_endpoint_returns [of ee _ R c5 w1] by (auto simp: external_endpoint_Reconcile_def)
  show "(fst (user_profile_Reconcile R c6 (Some up) w1) = Panicked) = (ob_Metadata up = None)"
    by (simp add: user_profile_Reconcile_def user_profile_sync_def split_beta Let_def split: option.split)
  show "(fst (image_registry_Reconcile parse R c7 (Some ir) w1) = Panicked) =
     (ob_Metadata ir = None \<or> (GetDeletionTimestamp ir = [] \<and> ob_Spec ir = None))"
    by (cases "ob_Metadata ir") (simp_all add: image_registry_Reconcile_def image_registry_panics)
  show "(fst (model_registry_Reconcile R c8 (Some mr) w1) = Panicked) =
     (ob_Metadata mr = None \<or> (ob_Spec mr = None \<and> (GetDeletionTimestamp mr = [] \<or> in_phase ps_Phase ''Deleted'' mr = False)))"
    by (cases "ob_Metadata mr") (simp_all add: model_registry_Reconcile_def model_registry_panics)
  show "(fst (endpoint_Reconcile R c9 (Some ep) w1) = Panicked) =
     (ob_Metadata ep = None \<or> (ob_Spec ep = None \<and> (GetDeletionTimestamp ep = [] \<or>
        (in_phase epst_Phase ''Deleted'' ep = False \<and> fst (epc_DeleteEndpoint c9 ep w1) = None))))"
    by (simp add: endpoint_Reconcile_def endpoint_panics)
  show "(fst (api_key_Reconcile R c10 (Some key) w1) = Panicked) =
     (ob_Metadata key = None \<or> (ob_Status key = None \<and> (if GetDeletionTimestamp key = [] then fst (akc_SyncAPIKey c10 key w1) = None else True)))"
    by (cases "ob_Metadata key") (simp_all add: api_key_Reconcile_def api_key_panics)
qed

section \<open>Engines of a workspace\<close>

text \<open>
  The engines of a workspace settle. Once the merge of a registered engine into an engine of the
  workspace is stored, every further synchronisation of that engine finds nothing to do: it reports
  success and the world is the one in which the engine was looked up.
\<close>

theorem merged_engine_is_not_written:
  assumes "list_all version_ok (els (es_Versions old))" "engine_spec_ok new" "ob_Spec engine = Some new"
    and "wsc_ListEngine c (by_name_and_workspace m) w = (Inr (stored # rest), v)" "ob_Spec stored = Some (MergeEngine old new)"
  shows "createOrUpdateEngine c m engine w = (Returned None, v)"
  using assms MergeEngine_again [OF assms(1,2)] by (simp add: createOrUpdateEngine_def Let_def)

definition sample_engine_spec :: engine_spec where
  "sample_engine_spec = \<lparr>es_Versions = None, es_SupportedTasks = Some [''text-generation'']\<rparr>"

definition sample_listing :: "unit workspace_controller" where
  "sample_listing = \<lparr>wsc_storage = \<lparr>ks_Update = \<lambda>i p w. (None, w), ks_Delete = \<lambda>i w. (None, w)\<rparr>,
     wsc_engines = \<lparr>ks_Update = \<lambda>i p w. (Some (ErrNew ''written''), w), ks_Delete = \<lambda>i w. (None, w)\<rparr>,
     wsc_ListEngine = \<lambda>fs w. (Inr [sample_object 7 (sample_meta ''e'')
       (Some (MergeEngine \<lparr>es_Versions = None, es_SupportedTasks = None\<rparr> sample_engine_spec)) None], w),
     wsc_CreateEngine = \<lambda>e w. (Some (ErrNew ''created''), w), wsc_registry = \<lambda>w. [], wsc_set_registry = \<lambda>r w. w\<rparr>"

theorem merged_engine_is_not_written_witness:
  "createOrUpdateEngine sample_listing (sample_meta ''e'') (sample_object 0 (sample_meta ''e'') (Some sample_engine_spec) None) () = (Returned None, ())"
  by (rule merged_engine_is_not_written [where new = sample_engine_spec and old = "\<lparr>es_Versions = None, es_SupportedTasks = None\<rparr>"
        and stored = "sample_object 7 (sample_meta ''e'')
          (Some (MergeEngine \<lparr>es_Versions = None, es_SupportedTasks = None\<rparr> sample_engine_spec)) None" and rest = "[]"])
    (simp_all add: sample_listing_def engine_spec_ok_def sample_engine_spec_def)

section \<open>Kinds without a cleanup\<close>

text \<open>A row only disappears when it was marked for deletion and its recorded phase is one of the final ones.\<close>

definition removes_only_final :: "(('i, 's, 't) object \<Rightarrow> 'w \<Rightarrow> ret \<times> 'w) \<Rightarrow> ('w \<Rightarrow> ('i, 's, 't) rows) \<Rightarrow>
    ('i \<Rightarrow> string) \<Rightarrow> ('t \<Rightarrow> string) \<Rightarrow> string list \<Rightarrow> (('i, 's, 't) object \<Rightarrow> ('i, 's, 't) object \<Rightarrow> bool) \<Rightarrow> bool" where
  "removes_only_final sync rows key phase final sees \<longleftrightarrow>
     (\<forall>w ob x i y. rows w (key (ob_ID ob)) = Some x \<longrightarrow> sees ob x \<longrightarrow> rows w i = Some y \<longrightarrow> rows (snd (sync ob w)) i = None \<longrightarrow>
        i = key (ob_ID ob) \<and> marked y \<and> list_ex (\<lambda>p. in_phase phase p y) final)"

context lifecycle
begin

lemma only_final: "lawful c rows \<Longrightarrow> removes_only_final (sync c) rows key phase final sees"
  using removed_final [of c rows] unfolding removes_only_final_def list_ex_iff by blast

end

text \<open>
  C37: for the kinds that have nothing to clean up or do not wait for it (roles, role assignments, image
  registries, API keys and external endpoints; engines and model catalogs, for which a failed object
  counts as deleted), a pass over an object that was read earlier removes at most that object's row, and
  only if the row is marked for deletion and its recorded phase is final. For model catalogs the object
  must be the row as it is now.
\<close>

theorem rows_removed_only_when_final:
  assumes "kind_laws S1 T1" "kind_laws S2 T2" "kind_laws S3 T3" "kind_laws S4 T4"
    and "image_registry_lawful c5 T5" "api_key_lawful c6 T6" "external_endpoint_lawful c7 T7"
  shows "removes_only_final (role_sync R1 S1) T1 Itoa ps_Phase [''Deleted''] read_before \<and>
    removes_only_final (role_assignment_sync R2 S2) T2 Itoa ps_Phase [''Deleted''] read_before \<and>
    removes_only_final (engine_sync R3 S3) T3 Itoa ps_Phase [''Deleted'', ''Failed''] read_before \<and>
    removes_only_final (catalog_sync R4 S4) T4 Itoa ps_Phase [''Deleted'', ''Failed''] (=) \<and>
    removes_only_final (image_registry_sync parse R5 c5) T5 Itoa ps_Phase [''Deleted''] read_before \<and>
    removes_only_final (api_key_sync R6 c6) T6 (\<lambda>i. i) akst_Phase [''Deleted''] read_before \<and>
    removes_only_final (external_endpoint_sync R7 c7) T7 Itoa eest_Phase [''Deleted''] read_before"
  using role.only_final [of "(R1, S1)" T1] role_assignment.only_final [of "(R2, S2)" T2] engine.only_final [of "(R3, S3)" T3]
    catalog.only_final [of "(R4, S4)" T4] image_registry.only_final [of "((parse, R5), c5)" T5] api_key.only_final [of "(R6, c6)" T6]
    external_endpoint.only_final [of "(R7, c7)" T7] assms
  by (simp add: stored)

definition sample_image_registries :: "(int, image_registry_spec, phase_status) rows image_registry_controller" where
  "sample_image_registries = \<lparr>irc_storage = plain_store, irc_CheckPullPermission = \<lambda>i a w. (Inr True, w)\<rparr>"

definition sample_external_endpoints :: "(int, external_endpoint_spec, external_endpoint_status) rows external_endpoint_controller" where
  "sample_external_endpoints = \<lparr>eec_storage = plain_store, eec_SyncExternalEndpoint = \<lambda>e w. (None, w),
     eec_DeleteExternalEndpoint = \<lambda>e w. (None, w), eec_GetServeUrl = \<lambda>e w. (Inr [], w)\<rparr>"

theorem rows_removed_only_when_final_witness:
  "removes_only_final (role_sync sample_runtime plain_store) (\<lambda>T. T) Itoa ps_Phase [''Deleted''] read_before \<and>
   removes_only_final (api_key_sync sample_runtime sample_key_controller) fst (\<lambda>i. i) akst_Phase [''Deleted''] read_before"
proof -
  have "image_registry_lawful sample_image_registries (\<lambda>T. T)" "external_endpoint_lawful sample_external_endpoints (\<lambda>T. T)"
    by (simp_all add: image_registry_lawful_def sample_image_registries_def external_endpoint_lawful_def sample_external_endpoints_def
        row_store_laws(1) untouched_def)
  moreover have "kind_laws plain_store (\<lambda>T. T)" by (simp add: row_store_laws(1))
  ultimately show ?thesis
    using rows_removed_only_when_final [where ?T1.0 = "\<lambda>T. T" and ?T2.0 = "\<lambda>T. T" and ?T3.0 = "\<lambda>T. T" and ?T4.0 = "\<lambda>T. T" and ?T5.0 = "\<lambda>T. T"
        and ?T6.0 = fst and ?T7.0 = "\<lambda>T. T" and ?S1.0 = plain_store and ?S2.0 = plain_store and ?S3.0 = plain_store and ?S4.0 = "plain_store :: (unit, unit, unit, (int, (unit, unit, unit) model_catalog_spec, phase_status) rows) catalog_store"
        and ?c5.0 = sample_image_registries and ?c6.0 = sample_key_controller and ?c7.0 = sample_external_endpoints
        and ?R1.0 = sample_runtime and ?R2.0 = sample_runtime and ?R3.0 = sample_runtime and ?R4.0 = sample_runtime and ?R5.0 = sample_runtime
        and ?R6.0 = sample_runtime and ?R7.0 = sample_runtime and parse = no_url] sample_key_lawful
    by (simp add: row_store_laws(1))
qed

end
