(* ===== verification/Cluster_Control.thy ===== *)
theory Cluster_Control
  imports Lifecycle Go_Encoding
begin

text \<open>
  The controller of clusters (\<open>controllers/cluster_controller.go\<close>) with the hash of a specification, the
  phases and the early status updates (\<open>internal/cluster/spec_hash.go\<close>, \<open>cluster_status.go\<close>,
  \<open>early_status.go\<close>). The reconcilers of the cluster types, the gateway and the registry of metrics
  monitors are the interfaces the controller calls. A reconciler is given the cluster and changes its
  status, in the object and in the storage; it hands back the status it leaves in the object.
\<close>

type_synonym cluster_object = "(int, cluster_spec_data, cluster_status_data) object"

section \<open>The hash of a specification\<close>

text \<open>JSON objects from the texts of their values.\<close>

definition obj_text :: "(string \<times> string) list \<Rightarrow> string" where
  "obj_text fs = CHR 0x7B # Join (map (\<lambda>(k, v). json_string k @ '':'' @ v) fs) '','' @ [CHR 0x7D]"

definition omit_text :: "string \<Rightarrow> string ptr \<Rightarrow> (string \<times> string) list" where
  "omit_text k p = (case p of None \<Rightarrow> [] | Some t \<Rightarrow> [(k, t)])"

definition auth_json :: "auth \<Rightarrow> json" where
  "auth_json a = JObj (omit_str ''ssh_user'' (auth_SSHUser a) @ omit_str ''ssh_private_key'' (auth_SSHPrivateKey a))"

definition provider_json :: "provider \<Rightarrow> json" where
  "provider_json p =
     JObj (omit_str ''type'' (prov_Type p) @ omit_str ''head_ip'' (prov_HeadIP p) @ omit_list ''worker_ips'' JStr (prov_WorkerIPs p) @
       omit_str ''coordinator_address'' (prov_CoordinatorAddress p) @ omit_str ''region'' (prov_Region p) @
       omit_str ''availability_zone'' (prov_AvailabilityZone p) @ omit_str ''project_id'' (prov_ProjectID p))"

definition ssh_config_json :: "ssh_config \<Rightarrow> json" where
  "ssh_config_json s = JObj [(''provider'', provider_json (ssc_Provider s)), (''auth'', auth_json (ssc_Auth s))]"

definition router_json :: "router_spec \<Rightarrow> json" where
  "router_json r =
     JObj (omit_str ''version'' (rtr_Version r) @ omit_str ''access_mode'' (rtr_AccessMode r) @ omit_int ''replicas'' (rtr_Replicas r) @
       omit_map ''resources'' (rtr_Resources r))"

definition kubernetes_config_json :: "kubernetes_cluster_config \<Rightarrow> json" where
  "kubernetes_config_json k = JObj (omit_str ''kubeconfig'' (kcc_Kubeconfig k) @ [(''router'', router_json (kcc_Router k))])"

definition metrics_json :: "cluster_metrics_config \<Rightarrow> json" where
  "metrics_json m = JObj (omit_ptr ''accelerator_exporter'' (\<lambda>e. JObj (omit_str ''mode'' (cae_Mode e))) (cm_AcceleratorExporter m))"

definition model_cache_text :: "model_cache \<Rightarrow> string" where
  "model_cache_text m =
     obj_text ((if mch_Name m = [] then [] else [(''name'', json_string (mch_Name m))]) @
       omit_text ''host_path'' (mch_HostPath m) @ omit_text ''nfs'' (mch_NFS m) @ omit_text ''pvc'' (mch_PVC m))"

definition cluster_config_text :: "cluster_config \<Rightarrow> string" where
  "cluster_config_text c =
     obj_text (omit_text ''ssh_config'' (map_option (\<lambda>s. json_compact (ssh_config_json s)) (cc_SSHConfig c)) @
       omit_text ''kubernetes_config'' (map_option (\<lambda>k. json_compact (kubernetes_config_json k)) (cc_KubernetesConfig c)) @
       omit_text ''metrics'' (map_option (\<lambda>m. json_compact (metrics_json m)) (cc_Metrics c)) @
       omit_text ''accelerator_type'' (map_option json_string (cc_AcceleratorType c)) @
       (if els (cc_ModelCaches c) = [] then []
        else [(''model_caches'', ''['' @ Join (map model_cache_text (els (cc_ModelCaches c))) '','' @ '']'')]))"

definition virtualization_text :: "accelerator_virtualization_spec \<Rightarrow> string" where
  "virtualization_text v =
     obj_text ((if avs_Enabled v then [(''enabled'', ''true'')] else []) @
       (if els (avs_ConfigPatch v) = [] then [] else [(''config_patch'', obj_text (els (avs_ConfigPatch v)))]))"

definition cluster_spec_text :: "cluster_spec_data \<Rightarrow> string" where
  "cluster_spec_text s =
     obj_text ([(''type'', json_string (csp_Type s)),
       (''config'', case csp_Config s of None \<Rightarrow> ''null'' | Some c \<Rightarrow> cluster_config_text c),
       (''image_registry'', json_string (csp_ImageRegistry s))] @
       omit_text ''accelerator_virtualization'' (map_option virtualization_text (csp_AcceleratorVirtualization s)) @
       [(''version'', json_string (csp_Version s))])"

text \<open>The copy through JSON, which only tells nil from empty where the text does, with the credentials blanked.\<close>

definition without_credentials :: "cluster_spec_data \<Rightarrow> cluster_spec_data" where
  "without_credentials s = s\<lparr>csp_Config := map_option (\<lambda>c. c
     \<lparr>cc_KubernetesConfig := map_option (\<lambda>k. k\<lparr>kcc_Kubeconfig := []\<rparr>) (cc_KubernetesConfig c),
      cc_SSHConfig := map_option (\<lambda>h. h\<lparr>ssc_Auth := (ssc_Auth h)\<lparr>auth_SSHPrivateKey := []\<rparr>\<rparr>) (cc_SSHConfig c)\<rparr>) (csp_Config s)\<rparr>"

definition empty_cluster_spec :: cluster_spec_data where
  "empty_cluster_spec = \<lparr>csp_Type = [], csp_Config = None, csp_ImageRegistry = [], csp_AcceleratorVirtualization = None, csp_Version = []\<rparr>"

definition ComputeClusterSpecHash :: "cluster_spec_data ptr \<Rightarrow> string" where
  "ComputeClusterSpecHash spec =
     hex_EncodeToString (Sum256 (cluster_spec_text (without_credentials (case spec of None \<Rightarrow> empty_cluster_spec | Some s \<Rightarrow> s))))"

section \<open>Phases\<close>

definition Cluster_IsInitialized :: "cluster_object \<Rightarrow> bool" where
  "Cluster_IsInitialized c = (case ob_Status c of None \<Rightarrow> False | Some st \<Rightarrow> csd_Initialized st)"

definition Cluster_GetVersion :: "cluster_object \<Rightarrow> string" where
  "Cluster_GetVersion c = (case ob_Spec c of None \<Rightarrow> [] | Some s \<Rightarrow> csp_Version s)"

definition Cluster_Key :: "cluster_object \<Rightarrow> string" where
  "Cluster_Key c =
     (case ob_Metadata c of
        None \<Rightarrow> ''default-clsuter-'' @ Itoa (ob_ID c)
      | Some m \<Rightarrow>
          if meta_Workspace m = [] then ''default-clsuter-'' @ Itoa (ob_ID c) @ ''-'' @ meta_Name m
          else meta_Workspace m @ ''-clsuter-'' @ Itoa (ob_ID c) @ ''-'' @ meta_Name m)"

definition needsVersionUpgrade :: "cluster_object \<Rightarrow> bool" where
  "needsVersionUpgrade cluster =
     (case (ob_Status cluster, ob_Spec cluster) of
        (Some st, Some s) \<Rightarrow> csd_Version st \<noteq> [] \<and> csp_Version s \<noteq> [] \<and> csd_Version st \<noteq> csp_Version s
      | _ \<Rightarrow> False)"

definition DetermineClusterPhase :: "bool \<Rightarrow> cluster_object \<Rightarrow> string" where
  "DetermineClusterPhase isResourceReady cluster =
     (if isResourceReady then ''Running''
      else if \<not> Cluster_IsInitialized cluster then ''Initializing''
      else if needsVersionUpgrade cluster then ''Upgrading''
      else case ob_Status cluster of
             None \<Rightarrow> ''Failed''
           | Some st \<Rightarrow>
               if csd_ObservedSpecHash st \<noteq> [] \<and> csd_ObservedSpecHash st \<noteq> ComputeClusterSpecHash (ob_Spec cluster) then ''Updating''
               else ''Failed'')"

definition DetermineClusterDeletePhase :: "bool \<Rightarrow> cluster_object \<Rightarrow> string" where
  "DetermineClusterDeletePhase isDeleteCompleted cluster =
     (if isDeleteCompleted \<or> IsForceDelete (GetAnnotations cluster) then ''Deleted'' else ''Deleting'')"

section \<open>Early status updates\<close>

text \<open>They change the status of the object and write it, ignoring errors; the result is the object's status.\<close>

type_synonym 'w cluster_store = "(int, cluster_spec_data, cluster_status_data, 'w) kind_store"

definition empty_cluster_status :: cluster_status_data where
  "empty_cluster_status = \<lparr>csd_Phase = [], csd_Image = [], csd_DashboardURL = [], csd_LastTransitionTime = [], csd_ErrorMessage = [],
     csd_ReadyNodes = 0, csd_DesiredNodes = 0, csd_Version = [], csd_RayVersion = [], csd_Initialized = False, csd_NodeProvisionStatus = [],
     csd_ResourceInfo = None, csd_AcceleratorType = None, csd_ObservedSpecHash = [], csd_ComponentStatus = None\<rparr>"

definition status_or_new :: "cluster_object \<Rightarrow> cluster_status_data" where
  "status_or_new cluster = (case ob_Status cluster of None \<Rightarrow> empty_cluster_status | Some st \<Rightarrow> st)"

definition WriteEarlyStatus :: "'w cluster_store \<Rightarrow> cluster_object \<Rightarrow> 'w \<Rightarrow> cluster_status_data ptr \<times> 'w" where
  "WriteEarlyStatus s cluster w =
     (let phase = DetermineClusterPhase False cluster in
      if phase \<noteq> ''Initializing'' \<and> phase \<noteq> ''Updating'' \<and> phase \<noteq> ''Upgrading'' then (ob_Status cluster, w)
      else if in_phase csd_Phase phase cluster then (ob_Status cluster, w)
      else let st = (status_or_new cluster)\<lparr>csd_Phase := phase\<rparr> in
           (Some st, snd (ks_Update s (Itoa (ob_ID cluster)) (status_update 0 st) w)))"

definition WriteRecoveryStatus :: "'w cluster_store \<Rightarrow> string \<Rightarrow> cluster_object \<Rightarrow> 'w \<Rightarrow> cluster_status_data ptr \<times> 'w" where
  "WriteRecoveryStatus s reason cluster w =
     (if \<not> in_phase csd_Phase ''Running'' cluster then (ob_Status cluster, w)
      else let st = (status_or_new cluster)\<lparr>csd_Phase := ''Failed'', csd_ErrorMessage := reason\<rparr> in
           (Some st, snd (ks_Update s (Itoa (ob_ID cluster)) (status_update 0 st) w)))"

definition WriteEarlyDeleting :: "'w cluster_store \<Rightarrow> cluster_object \<Rightarrow> 'w \<Rightarrow> cluster_status_data ptr \<times> 'w" where
  "WriteEarlyDeleting s cluster w =
     (if in_phase csd_Phase ''Deleting'' cluster then (ob_Status cluster, w)
      else let st = (status_or_new cluster)\<lparr>csd_Phase := ''Deleting''\<rparr> in
           (Some st, snd (ks_Update s (Itoa (ob_ID cluster)) (status_update 0 st) w)))"

section \<open>The controller\<close>

text \<open>The version library: parsing a version and the order on parsed versions.\<close>

record 'v semver_lib =
  sv_NewVersion :: "string \<Rightarrow> go_error + 'v"
  sv_LessThan :: "'v \<Rightarrow> 'v \<Rightarrow> bool"

definition semver_LessThan :: "'v semver_lib \<Rightarrow> string \<Rightarrow> string \<Rightarrow> go_error + bool" where
  "semver_LessThan V a b =
     (case sv_NewVersion V a of
        Inl e \<Rightarrow> Inl e
      | Inr versionA \<Rightarrow> (case sv_NewVersion V b of Inl e \<Rightarrow> Inl e | Inr versionB \<Rightarrow> Inr (sv_LessThan V versionA versionB)))"

abbreviation StaticNodeClusterFlowVersionGate :: string where
  "StaticNodeClusterFlowVersionGate \<equiv> ''v1.0.1''"

definition isStaticNodeClusterFlowVersion :: "'v semver_lib \<Rightarrow> string \<Rightarrow> go_error + bool" where
  "isStaticNodeClusterFlowVersion V version =
     (case semver_LessThan V StaticNodeClusterFlowVersionGate version of
        Inl e \<Rightarrow> Inl (ErrWrap e (''invalid cluster version '' @ strconv_Quote version))
      | Inr b \<Rightarrow> Inr b)"

record 'w cluster_reconcile =
  rec_Reconcile :: "cluster_object \<Rightarrow> 'w \<Rightarrow> (ret \<times> cluster_status_data ptr) \<times> 'w"
  rec_ReconcileDelete :: "cluster_object \<Rightarrow> 'w \<Rightarrow> (ret \<times> cluster_status_data ptr) \<times> 'w"

record ('v, 'w) clusters_controller =
  ctl_storage :: "'w cluster_store"
  ctl_defaultClusterVersion :: string
  ctl_newClusterReconcile :: "cluster_object \<Rightarrow> 'w \<Rightarrow> (go_error + 'w cluster_reconcile) \<times> 'w"
  ctl_SyncCluster :: "cluster_object \<Rightarrow> 'w \<Rightarrow> go_error option \<times> 'w"
  ctl_DeleteCluster :: "cluster_object \<Rightarrow> 'w \<Rightarrow> go_error option \<times> 'w"
  ctl_RegisterMetricsMonitor :: "string \<Rightarrow> cluster_object \<Rightarrow> 'w \<Rightarrow> 'w"
  ctl_UnregisterMetricsMonitor :: "string \<Rightarrow> 'w \<Rightarrow> 'w"
  ctl_semver :: "'v semver_lib"

definition clusters_updateStatus ::
  "'w runtime \<Rightarrow> ('v, 'w) clusters_controller \<Rightarrow> cluster_object \<Rightarrow> string \<Rightarrow> go_error option \<Rightarrow> 'w \<Rightarrow> go_error option \<times> 'w" where
  "clusters_updateStatus R c obj phase err w =
     (let old = status_or_new obj in
      ks_Update (ctl_storage c) (Itoa (ob_ID obj))
        (status_update 0 \<lparr>csd_Phase = phase, csd_Image = [], csd_DashboardURL = csd_DashboardURL old, csd_LastTransitionTime = FormatStatusTime R w,
           csd_ErrorMessage = (case err of None \<Rightarrow> [] | Some e \<Rightarrow> error_text (rt_errors R) e), csd_ReadyNodes = csd_ReadyNodes old,
           csd_DesiredNodes = csd_DesiredNodes old, csd_Version = csd_Version old, csd_RayVersion = csd_RayVersion old,
           csd_Initialized = csd_Initialized old, csd_NodeProvisionStatus = csd_NodeProvisionStatus old, csd_ResourceInfo = csd_ResourceInfo old,
           csd_AcceleratorType = csd_AcceleratorType old, csd_ObservedSpecHash = csd_ObservedSpecHash old,
           csd_ComponentStatus = csd_ComponentStatus old\<rparr>) w)"

definition updateClusterStatus ::
  "'w runtime \<Rightarrow> ('v, 'w) clusters_controller \<Rightarrow> metadata \<Rightarrow> cluster_object \<Rightarrow> go_error option \<Rightarrow> 'w \<Rightarrow> 'w" where
  "updateClusterStatus R c m cluster reconcileErr w =
     (if meta_DeletionTimestamp m \<noteq> [] then
        snd (clusters_updateStatus R c cluster (DetermineClusterDeletePhase (reconcileErr = None) cluster) reconcileErr w)
      else
        (let phase = DetermineClusterPhase (reconcileErr = None) cluster;
             observed = (if phase = ''Running''
               then cluster\<lparr>ob_Status := Some ((status_or_new cluster)\<lparr>csd_ObservedSpecHash := ComputeClusterSpecHash (ob_Spec cluster)\<rparr>)\<rparr>
               else cluster) in
         snd (clusters_updateStatus R c observed phase reconcileErr w)))"

definition syncInternalMetricsMonitor ::
  "('v, 'w) clusters_controller \<Rightarrow> cluster_spec_data \<Rightarrow> cluster_object \<Rightarrow> 'w \<Rightarrow> go_error option \<times> 'w" where
  "syncInternalMetricsMonitor c spec cluster w =
     (if csp_Type spec \<noteq> ''ssh'' then (None, w)
      else case isStaticNodeClusterFlowVersion (ctl_semver c) (Cluster_GetVersion cluster) of
             Inl e \<Rightarrow> (Some e, w)
           | Inr useStaticNodeFlow \<Rightarrow>
               if useStaticNodeFlow then (None, ctl_UnregisterMetricsMonitor c (Cluster_Key cluster) w)
               else (None, ctl_RegisterMetricsMonitor c (Cluster_Key cluster) cluster w))"

text \<open>
  \<open>reconcileNormal\<close> and \<open>reconcileDelete\<close>: the steps with what they end in and the status they leave in
  the object, and the deferred update of the status. While a panic unwinds, the deferred update sees no error.
\<close>

definition seen_error :: "ret \<Rightarrow> go_error option" where
  "seen_error r = (case r of Returned e \<Rightarrow> e | Panicked \<Rightarrow> None)"

definition normal_steps ::
  "('v, 'w) clusters_controller \<Rightarrow> metadata \<Rightarrow> cluster_spec_data \<Rightarrow> cluster_object \<Rightarrow> 'w \<Rightarrow> (ret \<times> cluster_status_data ptr) \<times> 'w" where
  "normal_steps c m spec cluster w =
     (case ctl_newClusterReconcile c cluster w of
        (Inl e, w1) \<Rightarrow> ((Returned (Some (ErrWrap e (''failed to create cluster reconciler for cluster '' @ WorkspaceName m))), ob_Status cluster), w1)
      | (Inr r, w1) \<Rightarrow>
          (case rec_Reconcile r cluster w1 of
             ((Panicked, st), w2) \<Rightarrow> ((Panicked, st), w2)
           | ((Returned (Some e), st), w2) \<Rightarrow> ((Returned (Some (ErrWrap e (''failed to reconcile cluster '' @ WorkspaceName m))), st), w2)
           | ((Returned None, st), w2) \<Rightarrow>
               (let cluster1 = cluster\<lparr>ob_Status := st\<rparr> in
                case ctl_SyncCluster c cluster1 w2 of
                  (Some e, w3) \<Rightarrow> ((Returned (Some (ErrWrap e (''failed to sync cluster '' @ WorkspaceName m @ '' to gateway''))), st), w3)
                | (None, w3) \<Rightarrow>
                    (case syncInternalMetricsMonitor c spec cluster1 w3 of
                       (Some e, w4) \<Rightarrow>
                         ((Returned (Some (ErrWrap e (''failed to sync internal metrics monitor for cluster '' @ WorkspaceName m))), st), w4)
                     | (None, w4) \<Rightarrow> ((Returned None, st), w4)))))"

definition clusters_reconcileNormal ::
  "'w runtime \<Rightarrow> ('v, 'w) clusters_controller \<Rightarrow> metadata \<Rightarrow> cluster_spec_data \<Rightarrow> cluster_object \<Rightarrow> 'w \<Rightarrow> ret \<times> 'w" where
  "clusters_reconcileNormal R c m spec cluster w =
     (case normal_steps c m spec cluster w of
        ((r, st), w1) \<Rightarrow> (r, updateClusterStatus R c m (cluster\<lparr>ob_Status := st\<rparr>) (seen_error r) w1))"

definition delete_steps ::
  "('v, 'w) clusters_controller \<Rightarrow> metadata \<Rightarrow> cluster_spec_data \<Rightarrow> cluster_object \<Rightarrow> 'w \<Rightarrow> (ret \<times> cluster_status_data ptr) \<times> 'w" where
  "delete_steps c m spec cluster w =
     (case ctl_DeleteCluster c cluster w of
        (Some e, w1) \<Rightarrow> ((Returned (Some (ErrWrap e (''failed to delete cluster backend service '' @ WorkspaceName m))), ob_Status cluster), w1)
      | (None, w1) \<Rightarrow>
          (let w2 = (if csp_Type spec = ''ssh'' then ctl_UnregisterMetricsMonitor c (Cluster_Key cluster) w1 else w1) in
           case ctl_newClusterReconcile c cluster w2 of
             (Inl e, w3) \<Rightarrow> ((Returned (Some (ErrWrap e (''failed to create cluster reconciler for cluster '' @ WorkspaceName m))), ob_Status cluster), w3)
           | (Inr r, w3) \<Rightarrow>
               (case rec_ReconcileDelete r cluster w3 of
                  ((Panicked, st), w4) \<Rightarrow> ((Panicked, st), w4)
                | ((Returned (Some e), st), w4) \<Rightarrow> ((Returned (Some (ErrWrap e (''failed to reconcile delete cluster '' @ WorkspaceName m))), st), w4)
                | ((Returned None, st), w4) \<Rightarrow> ((Returned None, st), w4))))"

definition clusters_reconcileDelete ::
  "'w runtime \<Rightarrow> ('v, 'w) clusters_controller \<Rightarrow> metadata \<Rightarrow> cluster_spec_data \<Rightarrow> cluster_object \<Rightarrow> 'w \<Rightarrow> ret \<times> 'w" where
  "clusters_reconcileDelete R c m spec cluster w =
     (let isForceDelete = IsForceDelete (meta_Annotations m) in
      if in_phase csd_Phase ''Deleted'' cluster then
        (case ks_Delete (ctl_storage c) (Itoa (ob_ID cluster)) w of
           (Some e, w1) \<Rightarrow> (Returned (Some (ErrWrap e (''failed to delete cluster '' @ WorkspaceName m))), w1)
         | (None, w1) \<Rightarrow> (Returned None, w1))
      else
        (case delete_steps c m spec cluster w of
           ((r, st), w1) \<Rightarrow>
             (if isForceDelete \<and> r \<noteq> Panicked then Returned None else r,
              updateClusterStatus R c m (cluster\<lparr>ob_Status := st\<rparr>) (seen_error r) w1)))"

text \<open>The default version and the version of a cluster from before versions were recorded.\<close>

definition with_versions :: "('v, 'w) clusters_controller \<Rightarrow> cluster_object \<Rightarrow> cluster_spec_data \<Rightarrow> cluster_object \<times> cluster_spec_data" where
  "with_versions c obj spec =
     (let spec1 = (if csp_Version spec = [] then spec\<lparr>csp_Version := ctl_defaultClusterVersion c\<rparr> else spec);
          st1 = (if Cluster_IsInitialized obj
                 then map_option (\<lambda>st. if csd_Version st = [] then st\<lparr>csd_Version := csp_Version spec1\<rparr> else st) (ob_Status obj)
                 else ob_Status obj) in
      (obj\<lparr>ob_Spec := Some spec1, ob_Status := st1\<rparr>, spec1))"

text \<open>Reached with metadata only, since \<open>Reconcile\<close> reads the name for its log line.\<close>

definition clusters_sync :: "'w runtime \<Rightarrow> ('v, 'w) clusters_controller \<Rightarrow> cluster_object \<Rightarrow> 'w \<Rightarrow> ret \<times> 'w" where
  "clusters_sync R c obj w =
     (case ob_Metadata obj of
        None \<Rightarrow> (Panicked, w)
      | Some m \<Rightarrow>
          (case ob_Spec obj of
             None \<Rightarrow> (Panicked, w)
           | Some spec \<Rightarrow>
               (case with_versions c obj spec of
                  (obj1, spec1) \<Rightarrow>
                    if meta_DeletionTimestamp m \<noteq> [] then clusters_reconcileDelete R c m spec1 obj1 w
                    else clusters_reconcileNormal R c m spec1 obj1 w)))"

definition clusters_Reconcile :: "'w runtime \<Rightarrow> ('v, 'w) clusters_controller \<Rightarrow> cluster_object option \<Rightarrow> 'w \<Rightarrow> ret \<times> 'w" where
  "clusters_Reconcile R c obj w =
     (case obj of
        None \<Rightarrow> (Returned (Some (ErrNew ''failed to assert obj to *v1.Cluster'')), w)
      | Some cl \<Rightarrow> (if ob_Metadata cl = None then (Panicked, w) else clusters_sync R c cl w))"

section \<open>The protocol\<close>

text \<open>
  What a reconciler may do to the table: write a status to the row of its cluster, any number of times and
  never the phase \<open>Deleted\<close>, and keep the mark. The deletion of a
  cluster with metadata does not panic.
\<close>

definition status_writes :: "('i \<Rightarrow> string) \<Rightarrow> ('t \<Rightarrow> string) \<Rightarrow> 'i \<Rightarrow> ('i, 's, 't) rows \<Rightarrow> ('i, 's, 't) rows \<Rightarrow> bool" where
  "status_writes key phase k T T' \<longleftrightarrow>
     (\<forall>i. i \<noteq> key k \<longrightarrow> T' i = T i) \<and>
     (T' (key k) = T (key k) \<or>
      (\<exists>x y st. T (key k) = Some x \<and> T' (key k) = Some y \<and> ob_ID y = ob_ID x \<and> (marked y \<longleftrightarrow> marked x) \<and>
         ob_Status y = Some st \<and> phase st \<noteq> ''Deleted''))"

lemma status_writes_same: "status_writes key phase k T T"
  by (simp add: status_writes_def)

lemma status_writes_update:
  assumes "kind_laws S rows" "phase st \<noteq> ''Deleted''"
  shows "status_writes key phase k (rows w) (rows (snd (ks_Update S (key k) (status_update z st) w)))"
  using assms
  by (cases "rows w (key k)") (auto simp: status_writes_def kind_laws_def patched_def status_update_def GetDeletionTimestamp_def)

lemma patched_fields [simp]:
  "ob_ID (patched p x) = ob_ID x" "ob_Status (patched (status_update z st) x) = Some st"
  "GetDeletionTimestamp (patched (status_update z st) x) = GetDeletionTimestamp x"
  by (simp_all add: patched_def status_update_def GetDeletionTimestamp_def)

lemma status_writes_cases:
  assumes "status_writes key phase k T T'"
  obtains (same) "T' = T"
  | (written) x y st where "T (key k) = Some x" "T' = T(key k := Some y)" "ob_ID y = ob_ID x" "marked y \<longleftrightarrow> marked x"
      "ob_Status y = Some st" "phase st \<noteq> ''Deleted''"
proof -
  have o: "\<And>i. i \<noteq> key k \<Longrightarrow> T' i = T i" using assms by (simp add: status_writes_def)
  consider "T' (key k) = T (key k)" | x y st where "T (key k) = Some x" "T' (key k) = Some y" "ob_ID y = ob_ID x" "marked y \<longleftrightarrow> marked x"
      "ob_Status y = Some st" "phase st \<noteq> ''Deleted''"
    using assms unfolding status_writes_def by blast
  then show thesis
  proof cases
    case 1
    then have "T' = T" using o by (metis ext)
    then show thesis by (rule same)
  next
    case 2
    have "T' i = (T(key k := Some y)) i" for i using o [of i] 2(2) by simp
    then have "T' = T(key k := Some y)" by (rule ext)
    then show thesis using written 2 by blast
  qed
qed

lemma status_writes_trans:
  assumes "status_writes key phase k T1 T2" "status_writes key phase k T2 T3"
  shows "status_writes key phase k T1 T3"
  using assms(2)
proof (cases rule: status_writes_cases)
  case same
  then show ?thesis using assms(1) by simp
next
  case w: (written x y st)
  from assms(1) show ?thesis
  proof (cases rule: status_writes_cases)
    case same
    then show ?thesis using assms(2) by simp
  next
    case (written x' y' st')
    then show ?thesis using w by (simp add: status_writes_def)
  qed
qed

lemma writes_then_update:
  assumes k: "kind_laws S rows" and "status_writes key phase (ob_ID ob) T (rows w)" "phase st = ''Deleted'' \<longrightarrow> marked ob"
  shows "table_step key phase final ob T (rows (snd (ks_Update S (key (ob_ID ob)) (status_update z st) w)))"
  using assms(2)
proof (cases rule: status_writes_cases)
  case same
  then show ?thesis using assms(3) by (simp add: update_step [OF k])
next
  case (written x y st')
  then show ?thesis using k assms(3) by (simp add: kind_laws_def table_step_def row_step_def)
qed

lemma writes_not_deleted:
  assumes k: "kind_laws S rows" and "status_writes key phase i T (rows w)" "phase st \<noteq> ''Deleted''"
  shows "\<not> writes_deleted phase (key i) T (rows (snd (ks_Update S (key i) (status_update z st) w)))"
  using assms(2)
proof (cases rule: status_writes_cases)
  case same
  then show ?thesis using assms(3) by (simp add: not_written(2) [OF k])
next
  case (written x y st')
  then show ?thesis using k assms(3) by (simp add: kind_laws_def writes_deleted_def in_phase_def)
qed

definition reconciler_lawful :: "'w cluster_reconcile \<Rightarrow> ('w \<Rightarrow> (int, cluster_spec_data, cluster_status_data) rows) \<Rightarrow> bool" where
  "reconciler_lawful r rows \<longleftrightarrow>
     (\<forall>ob w. status_writes Itoa csd_Phase (ob_ID ob) (rows w) (rows (snd (rec_Reconcile r ob w))) \<and>
        status_writes Itoa csd_Phase (ob_ID ob) (rows w) (rows (snd (rec_ReconcileDelete r ob w))))"

definition clusters_lawful :: "('v, 'w) clusters_controller \<Rightarrow> ('w \<Rightarrow> (int, cluster_spec_data, cluster_status_data) rows) \<Rightarrow> bool" where
  "clusters_lawful c rows \<longleftrightarrow> kind_laws (ctl_storage c) rows \<and>
     (\<forall>ob. untouched rows (ctl_newClusterReconcile c ob) \<and> untouched rows (ctl_SyncCluster c ob) \<and> untouched rows (ctl_DeleteCluster c ob)) \<and>
     (\<forall>k ob w. rows (ctl_RegisterMetricsMonitor c k ob w) = rows w) \<and> (\<forall>k w. rows (ctl_UnregisterMetricsMonitor c k w) = rows w) \<and>
     (\<forall>ob w r. fst (ctl_newClusterReconcile c ob w) = Inr r \<longrightarrow> reconciler_lawful r rows)"

lemma clusters_laws: "clusters_lawful c rows \<Longrightarrow> kind_laws (ctl_storage c) rows"
  by (simp add: clusters_lawful_def)

lemma clusters_calls:
  assumes "clusters_lawful c rows"
  shows "rows (snd (ctl_newClusterReconcile c ob w)) = rows w" "rows (snd (ctl_SyncCluster c ob w)) = rows w"
    and "rows (snd (ctl_DeleteCluster c ob w)) = rows w" "rows (snd (syncInternalMetricsMonitor c spec ob w)) = rows w"
    and "rows (ctl_UnregisterMetricsMonitor c k w) = rows w"
  using assms by (simp_all add: clusters_lawful_def untouched_def syncInternalMetricsMonitor_def split: sum.split)

lemma reconciler_writes:
  assumes l: "clusters_lawful c rows" and "fst (ctl_newClusterReconcile c ob' v) = Inr r" "rows w = T"
  shows "status_writes Itoa csd_Phase (ob_ID ob) T (rows (snd (rec_Reconcile r ob w)))"
    "status_writes Itoa csd_Phase (ob_ID ob) T (rows (snd (rec_ReconcileDelete r ob w)))"
proof -
  have "reconciler_lawful r rows" using l assms(2) unfolding clusters_lawful_def by blast
  then show "status_writes Itoa csd_Phase (ob_ID ob) T (rows (snd (rec_Reconcile r ob w)))"
    "status_writes Itoa csd_Phase (ob_ID ob) T (rows (snd (rec_ReconcileDelete r ob w)))"
    using assms(3) by (auto simp: reconciler_lawful_def)
qed

lemma steps_write:
  assumes l: "clusters_lawful c rows"
  shows "status_writes Itoa csd_Phase (ob_ID ob) (rows w) (rows (snd (normal_steps c m spec ob w)))"
    and "status_writes Itoa csd_Phase (ob_ID ob) (rows w) (rows (snd (delete_steps c m spec ob w)))"
  by (auto simp: normal_steps_def delete_steps_def split_beta Let_def status_writes_same clusters_calls [OF l]
      intro!: reconciler_writes [OF l] split: sum.split option.split ret.split)

lemma updateClusterStatus_step:
  assumes l: "clusters_lawful c rows" and m: "ob_Metadata ob = Some m" "ob_Metadata ob1 = Some m" "ob_ID ob1 = ob_ID ob"
    and "status_writes Itoa csd_Phase (ob_ID ob) T (rows w)"
  shows "table_step Itoa csd_Phase [''Deleted''] ob T (rows (updateClusterStatus R c m ob1 e w))"
  using writes_then_update [OF clusters_laws [OF l], where key = Itoa and phase = csd_Phase, OF assms(5)] m
  by (simp add: updateClusterStatus_def clusters_updateStatus_def Let_def DetermineClusterPhase_def marked_cases split: option.split)

lemma updateClusterStatus_not_written:
  assumes l: "clusters_lawful c rows" and m: "ob_Metadata ob = Some m" "ob_Metadata ob1 = Some m" "ob_ID ob1 = ob_ID ob"
    and "status_writes Itoa csd_Phase (ob_ID ob) T (rows w)" "\<not> forced ob" "marked ob \<Longrightarrow> e \<noteq> None"
  shows "\<not> writes_deleted csd_Phase (Itoa (ob_ID ob)) T (rows (updateClusterStatus R c m ob1 e w))"
  using writes_not_deleted [OF clusters_laws [OF l], where key = Itoa and phase = csd_Phase, OF assms(5)] assms(6,7) m
  by (simp add: updateClusterStatus_def clusters_updateStatus_def Let_def DetermineClusterPhase_def DetermineClusterDeletePhase_def
      marked_cases forced_cases split: option.split)

lemma with_versions_fields:
  assumes "with_versions c obj spec = (obj1, spec1)"
  shows "ob_ID obj1 = ob_ID obj" "ob_Metadata obj1 = ob_Metadata obj" "in_phase csd_Phase p obj1 \<longleftrightarrow> in_phase csd_Phase p obj"
    "ob_Spec obj1 = Some spec1"
proof -
  show "ob_ID obj1 = ob_ID obj" "ob_Metadata obj1 = ob_Metadata obj" "ob_Spec obj1 = Some spec1"
    using assms by (auto simp: with_versions_def Let_def)
  have "ob_Status obj1 = (if Cluster_IsInitialized obj
      then map_option (\<lambda>st. if csd_Version st = [] then st\<lparr>csd_Version := csp_Version spec1\<rparr> else st) (ob_Status obj) else ob_Status obj)"
    using assms by (auto simp: with_versions_def Let_def)
  then show "in_phase csd_Phase p obj1 \<longleftrightarrow> in_phase csd_Phase p obj" by (cases "ob_Status obj") (simp_all add: in_phase_def)
qed

lemma clusters_step:
  assumes l: "clusters_lawful c rows"
  shows "table_step Itoa csd_Phase [''Deleted''] ob (rows w) (rows (snd (clusters_sync R c ob w)))"
proof (cases "ob_Metadata ob")
  case (Some m)
  show ?thesis
  proof (cases "ob_Spec ob")
    case s: (Some spec)
    obtain ob1 spec1 where v: "with_versions c ob spec = (ob1, spec1)" by fastforce
    note f = with_versions_fields [OF v]
    have d: "table_step Itoa csd_Phase [''Deleted''] ob (rows w) (rows (snd (ks_Delete (ctl_storage c) (Itoa (ob_ID ob1)) w)))"
      if "marked ob" "in_phase csd_Phase ''Deleted'' ob1" using that f by (simp add: delete_step [OF clusters_laws [OF l]])
    have u: "table_step Itoa csd_Phase [''Deleted''] ob (rows w)
        (rows (updateClusterStatus R c m (ob1\<lparr>ob_Status := st\<rparr>) e (snd (normal_steps c m spec1 ob1 w))))"
      "table_step Itoa csd_Phase [''Deleted''] ob (rows w)
        (rows (updateClusterStatus R c m (ob1\<lparr>ob_Status := st\<rparr>) e (snd (delete_steps c m spec1 ob1 w))))" for st e
      using steps_write [OF l, of ob1 w m spec1] Some f(1,2) by (simp_all add: updateClusterStatus_step [OF l])
    show ?thesis
      using Some s v d u
      by (simp add: clusters_sync_def clusters_reconcileNormal_def clusters_reconcileDelete_def split_beta Let_def marked_cases split: option.split)
  qed (simp add: clusters_sync_def Some same_step)
qed (simp add: clusters_sync_def same_step)

text \<open>
  A deletion after which the deferred update sees no error: the gateway let go of the cluster, and its
  reconciler returned without an error or panicked.
\<close>

definition clusters_cleaned :: "('v, 'w) clusters_controller \<Rightarrow> cluster_object \<Rightarrow> 'w \<Rightarrow> bool" where
  "clusters_cleaned c ob w \<longleftrightarrow>
     (case (ob_Metadata ob, ob_Spec ob) of
        (Some m, Some spec) \<Rightarrow>
          (case with_versions c ob spec of (ob1, spec1) \<Rightarrow> seen_error (fst (fst (delete_steps c m spec1 ob1 w))) = None)
      | _ \<Rightarrow> False)"

lemma clusters_guard:
  assumes l: "clusters_lawful c rows" and "\<not> forced ob" "\<not> clusters_cleaned c ob w"
  shows "\<not> writes_deleted csd_Phase (Itoa (ob_ID ob)) (rows w) (rows (snd (clusters_sync R c ob w)))"
proof (cases "ob_Metadata ob")
  case (Some m)
  show ?thesis
  proof (cases "ob_Spec ob")
    case s: (Some spec)
    obtain ob1 spec1 where v: "with_versions c ob spec = (ob1, spec1)" by fastforce
    note f = with_versions_fields [OF v]
    have "seen_error (fst (fst (delete_steps c m spec1 ob1 w))) \<noteq> None"
      using assms(3) Some s v by (simp add: clusters_cleaned_def)
    then have d: "\<not> writes_deleted csd_Phase (Itoa (ob_ID ob)) (rows w) (rows (updateClusterStatus R c m (ob1\<lparr>ob_Status := st\<rparr>)
        (seen_error (fst (fst (delete_steps c m spec1 ob1 w)))) (snd (delete_steps c m spec1 ob1 w))))" for st
      using steps_write(2) [OF l, of ob1 w m spec1] Some f(1,2) assms(2) by (intro updateClusterStatus_not_written [OF l]) simp_all
    have n: "\<not> writes_deleted csd_Phase (Itoa (ob_ID ob)) (rows w)
        (rows (updateClusterStatus R c m (ob1\<lparr>ob_Status := st\<rparr>) e (snd (normal_steps c m spec1 ob1 w))))" if "\<not> marked ob" for st e
      using that steps_write(1) [OF l, of ob1 w m spec1] Some f(1,2) assms(2) by (intro updateClusterStatus_not_written [OF l]) simp_all
    show ?thesis
      using Some s v d n not_written(3) [OF clusters_laws [OF l]]
      by (simp add: clusters_sync_def clusters_reconcileNormal_def clusters_reconcileDelete_def split_beta Let_def marked_cases split: option.split)
  qed (simp add: clusters_sync_def Some not_written(1))
qed (simp add: clusters_sync_def not_written(1))

interpretation clusters: guarded_lifecycle "\<lambda>(R, c). clusters_sync R c" "\<lambda>(R, c). clusters_lawful c"
  Itoa csd_Phase read_before "\<lambda>(R, c). clusters_cleaned c"
  by unfold_locales (auto simp: clusters_step clusters_guard)

lemma clusters_deletes:
  assumes l: "clusters_lawful c rows" and "answers (ctl_storage c)" "marked ob" "ob_Spec ob \<noteq> None"
  shows "in_phase csd_Phase ''Deleted'' ob \<Longrightarrow> rows (snd (clusters_sync R c ob w)) = (rows w)(Itoa (ob_ID ob) := None)"
    and "forced ob \<or> clusters_cleaned c ob w \<Longrightarrow> \<not> in_phase csd_Phase ''Deleted'' ob \<Longrightarrow>
      \<forall>y. rows (snd (clusters_sync R c ob w)) (Itoa (ob_ID ob)) = Some y \<longrightarrow> in_phase csd_Phase ''Deleted'' y"
proof -
  obtain m where m: "ob_Metadata ob = Some m" "meta_DeletionTimestamp m \<noteq> []" using marked_metadata [OF assms(3)] by blast
  obtain spec where s: "ob_Spec ob = Some spec" using assms(4) by blast
  obtain ob1 spec1 where v: "with_versions c ob spec = (ob1, spec1)" by fastforce
  note f = with_versions_fields [OF v]
  note a = answer [OF clusters_laws [OF l] assms(2)]
  show "in_phase csd_Phase ''Deleted'' ob \<Longrightarrow> rows (snd (clusters_sync R c ob w)) = (rows w)(Itoa (ob_ID ob) := None)"
    using m s v f by (simp add: clusters_sync_def clusters_reconcileDelete_def split_beta Let_def a)
  show "\<forall>y. rows (snd (clusters_sync R c ob w)) (Itoa (ob_ID ob)) = Some y \<longrightarrow> in_phase csd_Phase ''Deleted'' y"
    if d: "forced ob \<or> clusters_cleaned c ob w" "\<not> in_phase csd_Phase ''Deleted'' ob"
  proof -
    have "forced (ob1\<lparr>ob_Status := st\<rparr>) \<or> seen_error (fst (fst (delete_steps c m spec1 ob1 w))) = None" for st
      using d(1) m s v f(2) by (auto simp: clusters_cleaned_def forced_cases)
    then show ?thesis
      using m s v f d(2)
      by (auto simp: clusters_sync_def clusters_reconcileDelete_def updateClusterStatus_def clusters_updateStatus_def DetermineClusterDeletePhase_def
          split_beta Let_def a)
  qed
qed

text \<open>For progress every row of the table has a specification.\<close>

definition clusters_work ::
  "('v, 'w) clusters_controller \<Rightarrow> ('w \<Rightarrow> (int, cluster_spec_data, cluster_status_data) rows) \<Rightarrow> cluster_object \<Rightarrow> bool" where
  "clusters_work c rows ob \<longleftrightarrow> answers (ctl_storage c) \<and> (\<forall>w i x. rows w i = Some x \<longrightarrow> ob_Spec x \<noteq> None) \<and>
     (forced ob \<or> (\<forall>w. clusters_cleaned c ob w))"

lemma clusters_work_spec: "clusters_work c rows ob \<Longrightarrow> rows w i = Some x \<Longrightarrow> ob_Spec x \<noteq> None"
  unfolding clusters_work_def by blast

lemma clusters_work_removes:
  assumes "clusters_lawful c rows" "clusters_work c rows ob" "rows w (Itoa (ob_ID x)) = Some x" "marked x"
  shows "in_phase csd_Phase ''Deleted'' x \<Longrightarrow> rows (snd (clusters_sync R c x w)) (Itoa (ob_ID x)) = None"
    and "ob = x \<Longrightarrow> \<not> in_phase csd_Phase ''Deleted'' x \<Longrightarrow>
      \<forall>y. rows (snd (clusters_sync R c x w)) (Itoa (ob_ID x)) = Some y \<longrightarrow> in_phase csd_Phase ''Deleted'' y"
proof -
  have "answers (ctl_storage c)" using assms(2) by (simp add: clusters_work_def)
  note d = clusters_deletes [OF assms(1) this assms(4) clusters_work_spec [OF assms(2,3)]]
  show "in_phase csd_Phase ''Deleted'' x \<Longrightarrow> rows (snd (clusters_sync R c x w)) (Itoa (ob_ID x)) = None" using d(1) by simp
  show "\<forall>y. rows (snd (clusters_sync R c x w)) (Itoa (ob_ID x)) = Some y \<longrightarrow> in_phase csd_Phase ''Deleted'' y"
    if "ob = x" "\<not> in_phase csd_Phase ''Deleted'' x"
  proof (rule d(2) [OF _ that(2)])
    show "forced x \<or> clusters_cleaned c x w" using assms(2) that(1) unfolding clusters_work_def by blast
  qed
qed

interpretation clusters: removal "\<lambda>(R, c). clusters_sync R c" "\<lambda>(R, c). clusters_lawful c" Itoa csd_Phase "[''Deleted'']" read_before
  "\<lambda>(R, c). clusters_work c"
  by unfold_locales (simp_all add: split_beta read_now clusters_work_removes)

end
