(* ===== verification/Static_Facade.thy ===== *)
theory Static_Facade
  imports Cluster_Control Store Cluster_Status
begin

text \<open>
  The reconciler of clusters on hosts reached over SSH (\<open>internal/cluster/static_ray_cluster.go\<close>). It writes
  the static node cluster that the static-node controllers work on and reports its state back to the
  cluster; the choice of the reconciler is \<open>NewReconcile\<close> of \<open>internal/cluster/reconcile.go\<close>. The reconciler
  for older versions, the one for Kubernetes and the computation of the resource view are parameters.
\<close>

record ('v, 'w) static_reconciler =
  sr_storage :: "'w store"
  sr_clusters :: "'w cluster_store"
  sr_legacy :: "'w cluster_reconcile ptr"
  sr_calculateResources :: "static_node_cluster \<Rightarrow> 'w \<Rightarrow> (go_error + string ptr) \<times> 'w"
  sr_semver :: "'v semver_lib"
  sr_parse :: url_parser
  sr_now :: "'w \<Rightarrow> string"

section \<open>Validation\<close>

text \<open>Called with a cluster that has a specification.\<close>

definition ParseSSHClusterConfig :: "cluster_spec_data \<Rightarrow> go_error + ssh_config" where
  "ParseSSHClusterConfig spec =
     (case csp_Config spec of
        None \<Rightarrow> Inl (ErrNew ''ssh cluster config is empty'')
      | Some config \<Rightarrow> (case cc_SSHConfig config of None \<Rightarrow> Inl (ErrNew ''ssh cluster config is empty'') | Some s \<Rightarrow> Inr s))"

fun duplicate_ip :: "string list \<Rightarrow> string list \<Rightarrow> string option" where
  "duplicate_ip nodeIPs [] = None"
| "duplicate_ip nodeIPs (workerIP # ips) =
     (if workerIP = [] then duplicate_ip nodeIPs ips
      else if List.member nodeIPs workerIP then Some workerIP
      else duplicate_ip (workerIP # nodeIPs) ips)"

definition validateStaticNodeClusterSpec :: "cluster_object \<Rightarrow> go_error option" where
  "validateStaticNodeClusterSpec c =
     (case ob_Spec c of
        None \<Rightarrow> Some (ErrNew ''cluster spec is required'')
      | Some spec \<Rightarrow>
          if csp_Version spec = [] then Some (ErrNew ''cluster spec.version is required'')
          else case ParseSSHClusterConfig spec of
                 Inl e \<Rightarrow> Some (ErrWrap e ''failed to parse ssh cluster config'')
               | Inr sshConfig \<Rightarrow>
                   (let head = prov_HeadIP (ssc_Provider sshConfig) in
                    if head = [] then Some (ErrNew ''head IP can not be empty'')
                    else case duplicate_ip [head] (els (prov_WorkerIPs (ssc_Provider sshConfig))) of
                           Some ip \<Rightarrow> Some (ErrNew (''duplicate static node IP '' @ ip))
                         | None \<Rightarrow>
                             if auth_SSHUser (ssc_Auth sshConfig) = [] then Some (ErrNew ''ssh_user is required'')
                             else if auth_SSHPrivateKey (ssc_Auth sshConfig) = [] then Some (ErrNew ''ssh_private_key is required'')
                             else None))"

definition currentStaticClusterHeadIP :: "url_parser \<Rightarrow> cluster_object \<Rightarrow> string" where
  "currentStaticClusterHeadIP parse c =
     (case ob_Status c of
        None \<Rightarrow> []
      | Some st \<Rightarrow>
          if csd_DashboardURL st = [] then []
          else case parse (csd_DashboardURL st) of Inl e \<Rightarrow> [] | Inr u \<Rightarrow> url_Hostname u)"

definition staticClusterSpecHeadIP :: "cluster_spec_data \<Rightarrow> go_error + string" where
  "staticClusterSpecHeadIP spec =
     (case ParseSSHClusterConfig spec of
        Inl e \<Rightarrow> Inl (ErrWrap e ''failed to parse ssh cluster config'')
      | Inr sshConfig \<Rightarrow> Inr (prov_HeadIP (ssc_Provider sshConfig)))"

definition validateClusterUpdate :: "url_parser \<Rightarrow> cluster_spec_data \<Rightarrow> cluster_object \<Rightarrow> go_error option" where
  "validateClusterUpdate parse spec c =
     (if \<not> Cluster_IsInitialized c then None
      else case staticClusterSpecHeadIP spec of
             Inl e \<Rightarrow> Some e
           | Inr desiredHeadIP \<Rightarrow>
               (let currentHeadIP = currentStaticClusterHeadIP parse c in
                if desiredHeadIP = [] \<or> currentHeadIP = [] \<or> desiredHeadIP = currentHeadIP then None
                else Some (ErrNew (''initialized static cluster head ip can not be changed from '' @ currentHeadIP @ '' to '' @ desiredHeadIP))))"

section \<open>The static node cluster of a cluster\<close>

definition isLegacyToStaticNodeFlowUpgrade :: "'v semver_lib \<Rightarrow> cluster_object \<Rightarrow> bool" where
  "isLegacyToStaticNodeFlowUpgrade V c =
     (case ob_Status c of
        None \<Rightarrow> False
      | Some st \<Rightarrow>
          if \<not> csd_Initialized st \<or> csd_Version st = [] then False
          else case isStaticNodeClusterFlowVersion V (csd_Version st) of
                 Inl e \<Rightarrow> False
               | Inr wasStaticNodeFlow \<Rightarrow>
                   if wasStaticNodeFlow then False
                   else case isStaticNodeClusterFlowVersion V (Cluster_GetVersion c) of Inl e \<Rightarrow> False | Inr b \<Rightarrow> b)"

definition cleanupLegacyRuntime ::
  "('v, 'w) static_reconciler \<Rightarrow> cluster_object \<Rightarrow> 'w \<Rightarrow> (ret \<times> cluster_status_data ptr) \<times> 'w" where
  "cleanupLegacyRuntime r c w =
     (if \<not> isLegacyToStaticNodeFlowUpgrade (sr_semver r) c then ((Returned None, ob_Status c), w)
      else case WriteEarlyStatus (sr_clusters r) c w of
             (st, w1) \<Rightarrow>
               (case sr_legacy r of
                  None \<Rightarrow> ((Returned (Some (ErrNew ''legacy reconciler is required to cleanup legacy static runtime'')), st), w1)
                | Some legacy \<Rightarrow>
                    (case rec_ReconcileDelete legacy (c\<lparr>ob_Status := st\<rparr>) w1 of
                       ((Returned (Some e), st1), w2) \<Rightarrow> ((Returned (Some (ErrWrap e ''failed to cleanup legacy static runtime'')), st1), w2)
                     | ((x, st1), w2) \<Rightarrow> ((x, st1), w2))))"

definition getUsedImageRegistries ::
  "'w store \<Rightarrow> metadata \<Rightarrow> cluster_spec_data \<Rightarrow> 'w \<Rightarrow> (go_error + image_registry) \<times> 'w" where
  "getUsedImageRegistries s m spec w =
     (case st_ListImageRegistry s
             (eq_filter ''metadata->name'' (in_quotes (csp_ImageRegistry spec)) #
              (if meta_Workspace m = [] then [] else [eq_filter ''metadata->workspace'' (in_quotes (meta_Workspace m))])) w of
        (Inl e, w1) \<Rightarrow> (Inl (ErrWrap e ''failed to list image registry''), w1)
      | (Inr [], w1) \<Rightarrow> (Inl ErrResourceNotFound, w1)
      | (Inr (target # _), w1) \<Rightarrow>
          (if ir_Status target = None \<or> irst_Phase (the (ir_Status target)) \<noteq> ImageRegistryPhaseCONNECTED
           then Inl (ErrNew (''image registry '' @ csp_ImageRegistry spec @ '' not ready'')) else Inr target, w1))"

definition copyStaticClusterMetricsConfig :: "cluster_config ptr \<Rightarrow> cluster_metrics_config ptr" where
  "copyStaticClusterMetricsConfig config = Option.bind config cc_Metrics"

definition static_nodes :: "ssh_config \<Rightarrow> static_node_cluster_node_spec list" where
  "static_nodes sshConfig =
     (let node = (\<lambda>role ip. \<lparr>ns_Name = ip, ns_IP = ip, ns_Role = role, ns_SSHAuth = Some (ssc_Auth sshConfig)\<rparr>) in
      node StaticNodeRoleHead (prov_HeadIP (ssc_Provider sshConfig)) #
        map (node StaticNodeRoleWorker) (filter (\<lambda>ip. ip \<noteq> []) (els (prov_WorkerIPs (ssc_Provider sshConfig)))))"

text \<open>The outer option is \<open>None\<close> when the missing specification of the registry is dereferenced.\<close>

definition buildStaticCluster ::
  "('v, 'w) static_reconciler \<Rightarrow> metadata \<Rightarrow> cluster_spec_data \<Rightarrow> 'w \<Rightarrow> (go_error + static_node_cluster) option \<times> 'w" where
  "buildStaticCluster r m spec w =
     (case ParseSSHClusterConfig spec of
        Inl e \<Rightarrow> (Some (Inl (ErrWrap e ''failed to parse ssh cluster config'')), w)
      | Inr sshConfig \<Rightarrow>
          if prov_HeadIP (ssc_Provider sshConfig) = [] then (Some (Inl (ErrNew ''head IP can not be empty'')), w)
          else case getUsedImageRegistries (sr_storage r) m spec w of
                 (Inl e, w1) \<Rightarrow> (Some (Inl (ErrWrap e ''failed to get used image registry'')), w1)
               | (Inr imageRegistry, w1) \<Rightarrow>
                   (case ir_Spec imageRegistry of
                      None \<Rightarrow> (None, w1)
                    | Some ispec \<Rightarrow>
                        (case GetImagePrefix (sr_parse r) ispec of
                           Inl e \<Rightarrow> (Some (Inl (ErrWrap e ''failed to build image prefix'')), w1)
                         | Inr imagePrefix \<Rightarrow>
                             (Some (Inr \<lparr>snc_ID = 0, snc_APIVersion = ''v1'', snc_Kind = StaticNodeClusterKind,
                                snc_Metadata = \<lparr>meta_Workspace = meta_Workspace m, meta_DeletionTimestamp = [], meta_CreationTimestamp = [],
                                  meta_UpdateTimestamp = [], meta_Labels = meta_Labels m, meta_Annotations = meta_Annotations m,
                                  meta_Name = meta_Name m\<rparr>,
                                snc_Spec = Some \<lparr>cls_Version = csp_Version spec, cls_ImageRegistry = imagePrefix,
                                  cls_Metrics = copyStaticClusterMetricsConfig (csp_Config spec), cls_Nodes = Some (static_nodes sshConfig),
                                  cls_UpgradeStrategy = Some \<lparr>cus_Type = ''Recreate''\<rparr>\<rparr>,
                                snc_Status = None\<rparr>), w1))))"

definition findStaticCluster ::
  "('v, 'w) static_reconciler \<Rightarrow> string \<Rightarrow> string \<Rightarrow> 'w \<Rightarrow> (go_error + static_node_cluster option) \<times> 'w" where
  "findStaticCluster r workspace name w =
     (case st_ListStaticNodeCluster (sr_storage r)
             (eq_filter ''metadata->name'' (in_quotes name) #
              (if workspace = [] then [] else [eq_filter ''metadata->workspace'' (in_quotes workspace)])) w of
        (Inl e, w1) \<Rightarrow> (Inl e, w1)
      | (Inr [], w1) \<Rightarrow> (Inr None, w1)
      | (Inr (x # _), w1) \<Rightarrow> (Inr (Some x), w1))"

section \<open>Reconciling\<close>

definition copyStatus :: "cluster_object \<Rightarrow> static_node_cluster \<Rightarrow> static_node_cluster_status ptr \<Rightarrow> bool \<Rightarrow> cluster_status_data" where
  "copyStatus c desired status observed =
     (let st0 = status_or_new c;
          st1 = st0\<lparr>csd_DashboardURL := DashboardURL (Some desired),
                    csd_DesiredNodes := int (length (case snc_Spec desired of None \<Rightarrow> [] | Some s \<Rightarrow> els (cls_Nodes s)))\<rparr>;
          st2 = (case status of None \<Rightarrow> st1 | Some s \<Rightarrow> st1\<lparr>csd_ReadyNodes := cst_ReadyNodes s\<rparr>);
          st3 = (case status of None \<Rightarrow> st2 | Some s \<Rightarrow> if cst_Version s \<noteq> [] then st2\<lparr>csd_Version := cst_Version s\<rparr> else st2) in
      case status of
        None \<Rightarrow> st3
      | Some s \<Rightarrow>
          if cst_Phase s = StaticNodeClusterPhaseReady \<and> observed
          then st3\<lparr>csd_Initialized := True, csd_Version := (if csd_Version st3 = [] then Cluster_GetVersion c else csd_Version st3)\<rparr>
          else st3)"

definition staticClusterStatusObserved :: "static_node_cluster_status \<Rightarrow> static_node_cluster \<Rightarrow> bool" where
  "staticClusterStatusObserved status desired =
     (case snc_Spec desired of
        None \<Rightarrow> False
      | Some spec \<Rightarrow>
          cst_DesiredNodes status = int (length (els (cls_Nodes spec))) \<and> cst_ReadyNodes status = cst_DesiredNodes status \<and>
          cst_Version status = cls_Version spec)"

definition staticNodeClusterNotReadyError :: "static_node_cluster \<Rightarrow> go_error" where
  "staticNodeClusterNotReadyError staticCluster =
     (case snc_Status staticCluster of
        None \<Rightarrow> ErrNew ''static node cluster is not ready''
      | Some st \<Rightarrow>
          (let intro = ''static node cluster '' @ meta_Name (snc_Metadata staticCluster) @ '' is not ready:'' @ [newline] in
           if cst_ErrorMessage st \<noteq> [] then ErrNew (intro @ cst_ErrorMessage st) else ErrNew (intro @ ''phase='' @ cst_Phase st)))"

definition updateResourceInfo ::
  "('v, 'w) static_reconciler \<Rightarrow> cluster_status_data \<Rightarrow> static_node_cluster \<Rightarrow> 'w \<Rightarrow> cluster_status_data \<times> 'w" where
  "updateResourceInfo r st staticCluster w =
     (case sr_calculateResources r staticCluster w of
        (Inl e, w1) \<Rightarrow> (st, w1)
      | (Inr resources, w1) \<Rightarrow> (st\<lparr>csd_ResourceInfo := resources\<rparr>, w1))"

definition whole_patch :: "static_node_cluster \<Rightarrow> static_node_cluster_patch" where
  "whole_patch x = \<lparr>scp_ID = snc_ID x, scp_APIVersion = snc_APIVersion x, scp_Kind = snc_Kind x, scp_Metadata = Some (snc_Metadata x),
     scp_Spec = snc_Spec x, scp_Status = snc_Status x\<rparr>"

text \<open>The two halves of \<open>Reconcile\<close>: without a static node cluster one is created, otherwise it is updated and read.\<close>

definition create_static ::
  "('v, 'w) static_reconciler \<Rightarrow> metadata \<Rightarrow> cluster_spec_data \<Rightarrow> cluster_object \<Rightarrow> 'w \<Rightarrow> (ret \<times> cluster_status_data ptr) \<times> 'w" where
  "create_static r m spec c w =
     (case cleanupLegacyRuntime r c w of
        ((Returned None, st), w1) \<Rightarrow>
          (case buildStaticCluster r m spec w1 of
             (None, w2) \<Rightarrow> ((Panicked, st), w2)
           | (Some (Inl e), w2) \<Rightarrow> ((Returned (Some e), st), w2)
           | (Some (Inr desired), w2) \<Rightarrow>
               (case st_CreateStaticNodeCluster (sr_storage r) desired w2 of
                  (Some e, w3) \<Rightarrow> ((Returned (Some (ErrWrap e ''failed to create static node cluster'')), st), w3)
                | (None, w3) \<Rightarrow>
                    ((Returned (Some (ErrNew (''static node cluster '' @ meta_Name m @ '' is provisioning''))),
                      Some (copyStatus (c\<lparr>ob_Status := st\<rparr>) desired None False)), w3)))
      | ((x, st), w1) \<Rightarrow> ((x, st), w1))"

definition update_static ::
  "('v, 'w) static_reconciler \<Rightarrow> metadata \<Rightarrow> cluster_spec_data \<Rightarrow> cluster_object \<Rightarrow> static_node_cluster \<Rightarrow>
    'w \<Rightarrow> (ret \<times> cluster_status_data ptr) \<times> 'w" where
  "update_static r m spec c current w =
     (case buildStaticCluster r m spec w of
        (None, w1) \<Rightarrow> ((Panicked, ob_Status c), w1)
      | (Some (Inl e), w1) \<Rightarrow> ((Returned (Some e), ob_Status c), w1)
      | (Some (Inr built), w1) \<Rightarrow>
          (let desired = built\<lparr>snc_ID := snc_ID current\<rparr>;
               specObserved = (snc_Spec current = snc_Spec desired) in
           case st_UpdateStaticNodeCluster (sr_storage r) (Itoa (snc_ID current)) (whole_patch desired) w1 of
             (Some e, w2) \<Rightarrow> ((Returned (Some (ErrWrap e ''failed to update static node cluster'')), ob_Status c), w2)
           | (None, w2) \<Rightarrow>
               (let st = copyStatus c desired (snc_Status current) specObserved in
                case snc_Status current of
                  None \<Rightarrow> ((Returned (Some (staticNodeClusterNotReadyError current)), Some st), w2)
                | Some status \<Rightarrow>
                    if cst_Phase status \<noteq> StaticNodeClusterPhaseReady
                    then ((Returned (Some (staticNodeClusterNotReadyError current)), Some st), w2)
                    else if \<not> specObserved
                    then ((Returned (Some (ErrNew (''static node cluster '' @ meta_Name m @ '' is applying desired spec''))), Some st), w2)
                    else if \<not> staticClusterStatusObserved status desired
                    then ((Returned (Some (ErrNew (''static node cluster '' @ meta_Name m @ '' status is applying desired spec''))), Some st), w2)
                    else case updateResourceInfo r st desired w2 of (st1, w3) \<Rightarrow> ((Returned None, Some st1), w3))))"

definition static_Reconcile ::
  "('v, 'w) static_reconciler \<Rightarrow> cluster_object \<Rightarrow> 'w \<Rightarrow> (ret \<times> cluster_status_data ptr) \<times> 'w" where
  "static_Reconcile r c w =
     (case ob_Spec c of
        None \<Rightarrow> ((if Cluster_IsInitialized c then Panicked else Returned (validateStaticNodeClusterSpec c), ob_Status c), w)
      | Some spec \<Rightarrow>
          (case validateClusterUpdate (sr_parse r) spec c of
             Some e \<Rightarrow> ((Returned (Some e), ob_Status c), w)
           | None \<Rightarrow>
               (case validateStaticNodeClusterSpec c of
                  Some e \<Rightarrow> ((Returned (Some e), ob_Status c), w)
                | None \<Rightarrow>
                    (case ob_Metadata c of
                       None \<Rightarrow> ((Panicked, ob_Status c), w)
                     | Some m \<Rightarrow>
                         (case findStaticCluster r (meta_Workspace m) (meta_Name m) w of
                            (Inl e, w1) \<Rightarrow> ((Returned (Some (ErrWrap e ''failed to find static node cluster'')), ob_Status c), w1)
                          | (Inr None, w1) \<Rightarrow> create_static r m spec c w1
                          | (Inr (Some current), w1) \<Rightarrow> update_static r m spec c current w1)))))"

definition static_ReconcileDelete ::
  "('v, 'w) static_reconciler \<Rightarrow> cluster_object \<Rightarrow> 'w \<Rightarrow> (ret \<times> cluster_status_data ptr) \<times> 'w" where
  "static_ReconcileDelete r c w =
     (case ob_Metadata c of
        None \<Rightarrow> ((Panicked, ob_Status c), w)
      | Some m \<Rightarrow>
          (case findStaticCluster r (meta_Workspace m) (meta_Name m) w of
             (Inl e, w1) \<Rightarrow> ((Returned (Some (ErrWrap e ''failed to find static node cluster'')), ob_Status c), w1)
           | (Inr None, w1) \<Rightarrow> ((Returned None, ob_Status c), w1)
           | (Inr (Some current), w1) \<Rightarrow>
               (let m0 = snc_Metadata current;
                    force = (IsForceDelete (meta_Annotations m) \<and> \<not> IsForceDelete (meta_Annotations m0));
                    m1 = (if force then m0\<lparr>meta_Annotations := WithForceDeleteAnnotation (meta_Annotations m0)\<rparr> else m0);
                    unmarked = (meta_DeletionTimestamp m1 = []);
                    m2 = (if unmarked then m1\<lparr>meta_DeletionTimestamp := sr_now r w1\<rparr> else m1);
                    deleting = ErrNew (''static node cluster '' @ meta_Name m0 @ '' is deleting'') in
                if force \<or> unmarked then
                  (case st_UpdateStaticNodeCluster (sr_storage r) (Itoa (snc_ID current)) (whole_patch (current\<lparr>snc_Metadata := m2\<rparr>)) w1 of
                     (Some e, w2) \<Rightarrow> ((Returned (Some (ErrWrap e ''failed to mark static node cluster deleting'')), ob_Status c), w2)
                   | (None, w2) \<Rightarrow> ((Returned (Some deleting), ob_Status c), w2))
                else ((Returned (Some deleting), ob_Status c), w1))))"

definition static_reconcile :: "('v, 'w) static_reconciler \<Rightarrow> 'w cluster_reconcile" where
  "static_reconcile r = \<lparr>rec_Reconcile = static_Reconcile r, rec_ReconcileDelete = static_ReconcileDelete r\<rparr>"

text \<open>Called with a cluster that has the given specification.\<close>

definition NewReconcile ::
  "('v, 'w) static_reconciler \<Rightarrow> 'w cluster_reconcile \<Rightarrow> 'w cluster_reconcile \<Rightarrow> cluster_spec_data \<Rightarrow> cluster_object \<Rightarrow>
    go_error + 'w cluster_reconcile" where
  "NewReconcile r legacy kubernetes spec cluster =
     (if csp_Type spec = ''ssh'' then
        (case isStaticNodeClusterFlowVersion (sr_semver r) (Cluster_GetVersion cluster) of
           Inl e \<Rightarrow> Inl e
         | Inr useStaticFlow \<Rightarrow> if useStaticFlow then Inr (static_reconcile (r\<lparr>sr_legacy := Some legacy\<rparr>)) else Inr legacy)
      else if csp_Type spec = ''kubernetes'' then Inr kubernetes
      else Inl (ErrNew (''unsupported cluster type: '' @ csp_Type spec)))"

section \<open>The contract of the reconciler\<close>

text \<open>The storage of static node clusters and the resource view leave the table of clusters alone.\<close>

definition static_lawful :: "('v, 'w) static_reconciler \<Rightarrow> ('w \<Rightarrow> (int, cluster_spec_data, cluster_status_data) rows) \<Rightarrow> bool" where
  "static_lawful r rows \<longleftrightarrow> kind_laws (sr_clusters r) rows \<and>
     (\<forall>fs. untouched rows (st_ListStaticNodeCluster (sr_storage r) fs) \<and> untouched rows (st_ListImageRegistry (sr_storage r) fs)) \<and>
     (\<forall>x. untouched rows (st_CreateStaticNodeCluster (sr_storage r) x) \<and> untouched rows (sr_calculateResources r x)) \<and>
     (\<forall>i p. untouched rows (st_UpdateStaticNodeCluster (sr_storage r) i p)) \<and>
     (\<forall>l. sr_legacy r = Some l \<longrightarrow> reconciler_lawful l rows)"

lemma static_calls:
  assumes "static_lawful r rows"
  shows "rows (snd (st_ListStaticNodeCluster (sr_storage r) fs w)) = rows w" "rows (snd (st_ListImageRegistry (sr_storage r) fs w)) = rows w"
    "rows (snd (st_CreateStaticNodeCluster (sr_storage r) x w)) = rows w" "rows (snd (sr_calculateResources r x w)) = rows w"
    "rows (snd (st_UpdateStaticNodeCluster (sr_storage r) i p w)) = rows w"
  using assms by (simp_all add: static_lawful_def untouched_def)

lemma find_build_rows:
  assumes l: "static_lawful r rows"
  shows "rows (snd (findStaticCluster r ws n w)) = rows w" "rows (snd (buildStaticCluster r m spec w)) = rows w"
    "rows (snd (updateResourceInfo r st x w)) = rows w"
  by (simp_all add: findStaticCluster_def buildStaticCluster_def getUsedImageRegistries_def updateResourceInfo_def split_beta static_calls [OF l]
      split: sum.split list.split option.split)

lemma WriteEarlyStatus_writes:
  assumes "kind_laws S rows"
  shows "status_writes Itoa csd_Phase (ob_ID c) (rows w) (rows (snd (WriteEarlyStatus S c w)))"
proof -
  have "DetermineClusterPhase False c \<noteq> ''Deleted''" by (simp add: DetermineClusterPhase_def split: option.split)
  then show ?thesis
    by (simp add: WriteEarlyStatus_def Let_def status_writes_same status_writes_update [OF assms])
qed

lemma cleanup_writes:
  assumes l: "static_lawful r rows"
  shows "status_writes Itoa csd_Phase (ob_ID c) (rows w) (rows (snd (cleanupLegacyRuntime r c w)))"
proof -
  have k: "kind_laws (sr_clusters r) rows" using l by (simp add: static_lawful_def)
  note e = WriteEarlyStatus_writes [OF k, of c w]
  have "status_writes Itoa csd_Phase (ob_ID c) (rows w)
      (rows (snd (rec_ReconcileDelete legacy (c\<lparr>ob_Status := st\<rparr>) (snd (WriteEarlyStatus (sr_clusters r) c w)))))"
    if "sr_legacy r = Some legacy" for legacy st
  proof -
    have "reconciler_lawful legacy rows" using l that by (simp add: static_lawful_def)
    then have "status_writes Itoa csd_Phase (ob_ID (c\<lparr>ob_Status := st\<rparr>)) (rows v)
        (rows (snd (rec_ReconcileDelete legacy (c\<lparr>ob_Status := st\<rparr>) v)))" for v
      unfolding reconciler_lawful_def by blast
    then show ?thesis using status_writes_trans [OF e] by simp
  qed
  then show ?thesis
    using e by (auto simp: cleanupLegacyRuntime_def split_beta status_writes_same split: option.split ret.split)
qed

lemma static_reconcile_lawful:
  assumes l: "static_lawful r rows"
  shows "status_writes Itoa csd_Phase (ob_ID c) (rows w) (rows (snd (static_Reconcile r c w)))"
    "rows (snd (static_ReconcileDelete r c w)) = rows w"
proof -
  have u: "rows (snd (update_static r m spec c cur v)) = rows v" for m spec cur v
    by (auto simp: update_static_def split_beta Let_def find_build_rows [OF l] static_calls [OF l] split: option.split sum.split)
  have b: "rows (snd (create_static r m spec c v)) = rows (snd (cleanupLegacyRuntime r c v))" for m spec v
    by (auto simp: create_static_def split_beta find_build_rows [OF l] static_calls [OF l] split: option.split sum.split ret.split)
  have e: "status_writes Itoa csd_Phase (ob_ID c) (rows w) (rows (snd (create_static r m spec c (snd (findStaticCluster r ws n w)))))" for m spec ws n
    using cleanup_writes [OF l, of c "snd (findStaticCluster r ws n w)"] by (simp add: b find_build_rows [OF l])
  show "status_writes Itoa csd_Phase (ob_ID c) (rows w) (rows (snd (static_Reconcile r c w)))"
    using e by (auto simp: static_Reconcile_def split_beta status_writes_same u find_build_rows [OF l] split: option.split sum.split)
  show "rows (snd (static_ReconcileDelete r c w)) = rows w"
    by (auto simp: static_ReconcileDelete_def split_beta Let_def find_build_rows [OF l] static_calls [OF l] split: option.split sum.split)
qed

lemma static_ReconcileDelete_returns: "ob_Metadata c \<noteq> None \<Longrightarrow> fst (fst (static_ReconcileDelete r c w)) \<noteq> Panicked"
  by (auto simp: static_ReconcileDelete_def split_beta Let_def split: option.split sum.split)

lemma NewReconcile_lawful:
  assumes "static_lawful r rows" "reconciler_lawful legacy rows" "reconciler_lawful kubernetes rows"
    and "NewReconcile r legacy kubernetes spec cluster = Inr x"
  shows "reconciler_lawful x rows"
proof -
  have "static_lawful (r\<lparr>sr_legacy := Some legacy\<rparr>) rows" using assms(1,2) by (simp add: static_lawful_def)
  note s = static_reconcile_lawful [OF this]
  have "reconciler_lawful (static_reconcile (r\<lparr>sr_legacy := Some legacy\<rparr>)) rows"
    unfolding reconciler_lawful_def static_reconcile_def using s(1) by (simp add: s(2) status_writes_same)
  then show ?thesis using assms(2-4) by (auto simp: NewReconcile_def split: if_splits sum.splits)
qed

end
