(* ===== verification/Cluster_Props.thy ===== *)
theory Cluster_Props
  imports Static_Facade Control_Plane
begin

text \<open>
  Properties of the cluster controller together with the reconciler for hosts reached over SSH: what has
  happened before the row of a cluster disappears, when a cluster is reported as running, and that new
  credentials are not an update.
\<close>

section \<open>Credentials\<close>

text \<open>Other credentials in the same specification.\<close>

definition rotated :: "string \<Rightarrow> string \<Rightarrow> cluster_spec_data \<Rightarrow> cluster_spec_data" where
  "rotated kubeconfig key s = s\<lparr>csp_Config := map_option (\<lambda>c. c
     \<lparr>cc_KubernetesConfig := map_option (\<lambda>k. k\<lparr>kcc_Kubeconfig := kubeconfig\<rparr>) (cc_KubernetesConfig c),
      cc_SSHConfig := map_option (\<lambda>h. h\<lparr>ssc_Auth := (ssc_Auth h)\<lparr>auth_SSHPrivateKey := key\<rparr>\<rparr>) (cc_SSHConfig c)\<rparr>) (csp_Config s)\<rparr>"

lemma without_rotated: "without_credentials (rotated kubeconfig key s) = without_credentials s"
  by (simp add: without_credentials_def rotated_def option.map_comp comp_def)

text \<open>
  C40: new credentials are not an update. Replacing the kubeconfig and the private key in a cluster's
  specification leaves the hash of the specification as it is and, for the same outcome of the reconciler
  (ready or not), the phase that is computed from the cluster. The outcome itself may change: the
  reconciler on static nodes stores a new private key and returns an error in that pass, so that an
  initialised cluster is reported as failed rather than as updating.
\<close>

theorem rotation_keeps_phase:
  "ComputeClusterSpecHash (map_option (rotated kubeconfig key) spec) = ComputeClusterSpecHash spec \<and>
   DetermineClusterPhase ready (c\<lparr>ob_Spec := map_option (rotated kubeconfig key) (ob_Spec c)\<rparr>) = DetermineClusterPhase ready c"
proof -
  have h: "ComputeClusterSpecHash (map_option (rotated kubeconfig key) s) = ComputeClusterSpecHash s" for s
    by (cases s) (simp_all add: ComputeClusterSpecHash_def without_rotated)
  have "csp_Version (rotated kubeconfig key s) = csp_Version s" for s by (simp add: rotated_def)
  then have "needsVersionUpgrade (c\<lparr>ob_Spec := map_option (rotated kubeconfig key) (ob_Spec c)\<rparr>) = needsVersionUpgrade c"
    by (cases "ob_Spec c") (simp_all add: needsVersionUpgrade_def split: option.split)
  then show ?thesis using h by (simp add: DetermineClusterPhase_def Cluster_IsInitialized_def split: option.split)
qed

section \<open>Readiness\<close>

lemma build_nodes:
  assumes "fst (buildStaticCluster r m spec w) = Some (Inr built)"
  shows "\<exists>ssh. ParseSSHClusterConfig spec = Inr ssh \<and>
    (\<exists>s. snc_Spec built = Some s \<and> cls_Nodes s = Some (static_nodes ssh) \<and> cls_Version s = csp_Version spec)"
  using assms by (auto simp: buildStaticCluster_def split_beta split: sum.splits if_splits option.splits)

text \<open>
  C39: a cluster on hosts reached over SSH is reported as running only when its hosts are. If the
  reconciler returns without an error, the storage had a static node cluster of that name which is ready,
  whose nodes are the head and the workers of the cluster's specification, all of them ready, and whose
  version is the one that is asked for.
\<close>

theorem running_cluster_is_ready:
  assumes "fst (fst (static_Reconcile r c w)) = Returned None" "ob_Spec c = Some spec" "ob_Metadata c = Some m"
  shows "\<exists>current status ssh s. fst (findStaticCluster r (meta_Workspace m) (meta_Name m) w) = Inr (Some current) \<and>
    snc_Status current = Some status \<and> cst_Phase status = StaticNodeClusterPhaseReady \<and>
    ParseSSHClusterConfig spec = Inr ssh \<and> snc_Spec current = Some s \<and> cls_Nodes s = Some (static_nodes ssh) \<and>
    cst_ReadyNodes status = int (length (static_nodes ssh)) \<and> cst_Version status = csp_Version spec"
proof -
  let ?f = "findStaticCluster r (meta_Workspace m) (meta_Name m) w"
  have "fst (fst (create_static r m spec c v)) \<noteq> Returned None" for v
    by (auto simp: create_static_def split_beta split: option.split sum.split ret.split)
  then obtain current where f: "fst ?f = Inr (Some current)" and u: "fst (fst (update_static r m spec c current (snd ?f))) = Returned None"
    using assms by (auto simp: static_Reconcile_def split_beta split: option.splits sum.splits)
  obtain built where b: "fst (buildStaticCluster r m spec (snd ?f)) = Some (Inr built)"
    using u by (auto simp: update_static_def split_beta split: option.splits sum.splits)
  obtain ssh s where s: "ParseSSHClusterConfig spec = Inr ssh" "snc_Spec built = Some s" "cls_Nodes s = Some (static_nodes ssh)"
    "cls_Version s = csp_Version spec" using build_nodes [OF b] by blast
  obtain status where "snc_Status current = Some status" "cst_Phase status = StaticNodeClusterPhaseReady" "snc_Spec current = Some s"
    "staticClusterStatusObserved status (built\<lparr>snc_ID := snc_ID current\<rparr>)"
    using u b s(2) by (auto simp: update_static_def split_beta Let_def split: option.splits if_splits)
  then show ?thesis using f s by (auto simp: staticClusterStatusObserved_def)
qed

section \<open>Removal\<close>

text \<open>What the storage promises about static node clusters: a list by name and workspace has all that match.\<close>

definition of_cluster :: "metadata \<Rightarrow> static_node_cluster \<Rightarrow> bool" where
  "of_cluster m x \<longleftrightarrow> meta_Name (snc_Metadata x) = meta_Name m \<and> meta_Workspace (snc_Metadata x) = meta_Workspace m"

definition lists_static :: "('v, 'w) static_reconciler \<Rightarrow> ('w \<Rightarrow> static_node_cluster set) \<Rightarrow> bool" where
  "lists_static r statics \<longleftrightarrow>
     (\<forall>m w. fst (findStaticCluster r (meta_Workspace m) (meta_Name m) w) = Inr None \<longrightarrow> (\<forall>x. x \<in> statics w \<longrightarrow> \<not> of_cluster m x))"

text \<open>The clusters for which the reconciler on static nodes is chosen.\<close>

definition uses_static_nodes :: "'v semver_lib \<Rightarrow> cluster_spec_data \<Rightarrow> bool" where
  "uses_static_nodes V spec \<longleftrightarrow> csp_Type spec = ''ssh'' \<and> isStaticNodeClusterFlowVersion V (csp_Version spec) = Inr True"

text \<open>
  The deletion of a cluster went through in a pass that read the given object: the gateway let go of the
  cluster; the reconciler that was chosen returned without an error, or it is not the one on static nodes
  and panicked, which the deferred update of the status takes for success; and a cluster on static nodes
  has no static node cluster left.
\<close>

definition removed_cleanly ::
  "('v, 'w) clusters_controller \<Rightarrow> ('v, 'w) static_reconciler \<Rightarrow> ('w \<Rightarrow> static_node_cluster set) \<Rightarrow> cluster_object \<Rightarrow> 'w \<Rightarrow> bool" where
  "removed_cleanly c r statics cl w \<longleftrightarrow>
     (\<exists>m spec. ob_Metadata cl = Some m \<and> ob_Spec cl = Some spec \<and>
        (case with_versions c cl spec of (cl1, spec1) \<Rightarrow>
           fst (ctl_DeleteCluster c cl1 w) = None \<and>
           (fst (fst (delete_steps c m spec1 cl1 w)) = Returned None \<or>
            fst (fst (delete_steps c m spec1 cl1 w)) = Panicked \<and> \<not> uses_static_nodes (sr_semver r) spec1) \<and>
           (uses_static_nodes (sr_semver r) spec1 \<longrightarrow> (\<forall>x. x \<in> statics w \<longrightarrow> \<not> of_cluster m x))))"

lemma delete_steps_static:
  assumes new: "\<And>cl spec v. ob_Spec cl = Some spec \<Longrightarrow> ctl_newClusterReconcile c cl v = (NewReconcile r legacy kubernetes spec cl, v)"
    and l: "lists_static r statics"
    and u: "\<And>cl v. statics (snd (ctl_DeleteCluster c cl v)) = statics v" "\<And>k v. statics (ctl_UnregisterMetricsMonitor c k v) = statics v"
    and cl: "ob_Spec cl = Some spec" "ob_Metadata cl = Some m" and d: "seen_error (fst (fst (delete_steps c m spec cl w))) = None"
  shows "fst (ctl_DeleteCluster c cl w) = None"
    and "fst (fst (delete_steps c m spec cl w)) = Returned None \<or>
      fst (fst (delete_steps c m spec cl w)) = Panicked \<and> \<not> uses_static_nodes (sr_semver r) spec"
    and "uses_static_nodes (sr_semver r) spec \<Longrightarrow> x \<in> statics w \<Longrightarrow> \<not> of_cluster m x"
proof -
  show g: "fst (ctl_DeleteCluster c cl w) = None" using d by (auto simp: delete_steps_def seen_error_def split_beta split: option.splits)
  have r: "fst (fst (delete_steps c m spec cl w)) = Returned None" if s: "uses_static_nodes (sr_semver r) spec"
  proof -
    let ?v = "ctl_UnregisterMetricsMonitor c (Cluster_Key cl) (snd (ctl_DeleteCluster c cl w))"
    let ?r = "r\<lparr>sr_legacy := Some legacy\<rparr>"
    have "NewReconcile r legacy kubernetes spec cl = Inr (static_reconcile ?r)" "csp_Type spec = ''ssh''"
      using s cl(1) by (simp_all add: NewReconcile_def uses_static_nodes_def Cluster_GetVersion_def)
    then have "fst (fst (delete_steps c m spec cl w)) \<noteq> Panicked"
      using g new [OF cl(1)] static_ReconcileDelete_returns [of cl ?r ?v] cl(2)
      by (auto simp: delete_steps_def split_beta Let_def static_reconcile_def split: ret.splits option.splits)
    then show ?thesis using d by (cases "fst (fst (delete_steps c m spec cl w))") (simp_all add: seen_error_def)
  qed
  show "fst (fst (delete_steps c m spec cl w)) = Returned None \<or>
      fst (fst (delete_steps c m spec cl w)) = Panicked \<and> \<not> uses_static_nodes (sr_semver r) spec"
    using d r by (cases "fst (fst (delete_steps c m spec cl w))") (auto simp: seen_error_def)
  show "\<not> of_cluster m x" if s: "uses_static_nodes (sr_semver r) spec" "x \<in> statics w"
  proof -
    let ?v = "ctl_UnregisterMetricsMonitor c (Cluster_Key cl) (snd (ctl_DeleteCluster c cl w))"
    let ?r = "r\<lparr>sr_legacy := Some legacy\<rparr>"
    have "NewReconcile r legacy kubernetes spec cl = Inr (static_reconcile ?r)" "csp_Type spec = ''ssh''"
      using s(1) cl(1) by (simp_all add: NewReconcile_def uses_static_nodes_def Cluster_GetVersion_def)
    then have "fst (fst (static_ReconcileDelete ?r cl ?v)) = Returned None"
      using r [OF s(1)] g new [OF cl(1)] by (auto simp: delete_steps_def split_beta Let_def static_reconcile_def split: ret.splits option.splits)
    then have "fst (findStaticCluster ?r (meta_Workspace m) (meta_Name m) ?v) = Inr None"
      using cl(2) by (auto simp: static_ReconcileDelete_def split_beta Let_def split: sum.splits option.splits if_splits)
    then have "fst (findStaticCluster r (meta_Workspace m) (meta_Name m) ?v) = Inr None" by (simp add: findStaticCluster_def)
    moreover have "x \<in> statics ?v" using s(2) u by simp
    ultimately show ?thesis using l unfolding lists_static_def by blast
  qed
qed

text \<open>
  C38: a cluster outlives its hosts. In every run of the cluster controller with the reconcilers it chooses,
  a row that a pass removes was marked for deletion, and an earlier pass that deleted the cluster was
  forced or went through. A pass that went through had the gateway let go of the cluster. For a cluster on
  static nodes the reconciler returned without an error and no static node cluster of its name and
  workspace is left in the storage. For any other cluster its reconciler, of which nothing is assumed but
  how it writes to the table of clusters, returned without an error or panicked.
\<close>

theorem cluster_removed_after_its_hosts:
  assumes "clusters_lawful c rows" "none_deleted csd_Phase (rows w0)"
    and "lifecycle_run (clusters_sync R c) rows Itoa csd_Phase read_before w0 tr w"
    and "rows w (Itoa (ob_ID ob)) = Some x" "read_before ob x"
    and "rows w i = Some y" "rows (snd (clusters_sync R c ob w)) i = None"
    and "\<And>cl spec v. ob_Spec cl = Some spec \<Longrightarrow> ctl_newClusterReconcile c cl v = (NewReconcile r legacy kubernetes spec cl, v)"
    and "lists_static r statics"
    and "\<And>cl v. statics (snd (ctl_DeleteCluster c cl v)) = statics v" "\<And>k v. statics (ctl_UnregisterMetricsMonitor c k v) = statics v"
  shows "marked y \<and> (\<exists>(cl, v) \<in> set tr. Itoa (ob_ID cl) = i \<and> deleting csd_Phase cl \<and> (forced cl \<or> removed_cleanly c r statics cl v))"
proof -
  obtain cl v where v: "(cl, v) \<in> set tr" "Itoa (ob_ID cl) = i" "deleting csd_Phase cl" "forced cl \<or> clusters_cleaned c cl v" and y: "marked y"
    using clusters.removed_cleaned [of "(R, c)" rows w0 tr w ob x i y] assms(1-7) by auto
  have "removed_cleanly c r statics cl v" if cleaned: "clusters_cleaned c cl v"
  proof -
    obtain m spec cl1 spec1 where s: "ob_Metadata cl = Some m" "ob_Spec cl = Some spec" "with_versions c cl spec = (cl1, spec1)"
      "seen_error (fst (fst (delete_steps c m spec1 cl1 v))) = None"
      using cleaned by (auto simp: clusters_cleaned_def split: option.splits prod.splits)
    have "ob_Spec cl1 = Some spec1" "ob_Metadata cl1 = Some m" using with_versions_fields [OF s(3)] s(1) by simp_all
    note d = delete_steps_static [OF assms(8-11) this s(4)]
    show ?thesis unfolding removed_cleanly_def using s(1-3) d by simp
  qed
  then show ?thesis using v y by blast
qed

text \<open>A storage with a table of clusters and a list of static node clusters; versions are their texts.\<close>

type_synonym sample_clusters = "(int, cluster_spec_data, cluster_status_data) rows \<times> static_node_cluster list"

definition listing_store :: "image_registry list \<Rightarrow> sample_clusters store" where
  "listing_store registries =
     \<lparr>st_ListStaticNode = \<lambda>fs w. (Inr [], w), st_CreateStaticNode = \<lambda>n w. (None, w), st_UpdateStaticNode = \<lambda>i p w. (None, w),
      st_DeleteStaticNode = \<lambda>i w. (None, w), st_ListStaticNodeCluster = \<lambda>fs w. (Inr (snd w), w),
      st_CreateStaticNodeCluster = \<lambda>x w. (None, (fst w, [x])), st_UpdateStaticNodeCluster = \<lambda>i p w. (None, w),
      st_DeleteStaticNodeCluster = \<lambda>i w. (None, (fst w, [])), st_ListCluster = \<lambda>fs w. (Inr [], w),
      st_ListImageRegistry = \<lambda>fs w. (Inr registries, w)\<rparr>"

definition sample_semver :: "string semver_lib" where
  "sample_semver = \<lparr>sv_NewVersion = Inr, sv_LessThan = \<lambda>a b. a \<noteq> b\<rparr>"

definition sample_reconciler :: "image_registry list \<Rightarrow> (string, sample_clusters) static_reconciler" where
  "sample_reconciler registries = \<lparr>sr_storage = listing_store registries, sr_clusters = row_store fst (\<lambda>T w. (T, snd w)), sr_legacy = None,
     sr_calculateResources = \<lambda>x w. (Inr None, w), sr_semver = sample_semver, sr_parse = (\<lambda>s. Inr \<lparr>url_Scheme = [], url_Host = ''r''\<rparr>),
     sr_now = \<lambda>w. ''2025-01-01T00:00:00Z''\<rparr>"

definition sample_legacy :: "sample_clusters cluster_reconcile" where
  "sample_legacy = \<lparr>rec_Reconcile = \<lambda>c w. ((Returned None, ob_Status c), w), rec_ReconcileDelete = \<lambda>c w. ((Returned None, ob_Status c), w)\<rparr>"

definition sample_clusters_controller :: "(string, sample_clusters) clusters_controller" where
  "sample_clusters_controller = \<lparr>ctl_storage = row_store fst (\<lambda>T w. (T, snd w)), ctl_defaultClusterVersion = ''v1.1.0'',
     ctl_newClusterReconcile = \<lambda>cl w. ((case ob_Spec cl of None \<Rightarrow> Inl (ErrNew ''no specification'')
       | Some spec \<Rightarrow> NewReconcile (sample_reconciler []) sample_legacy sample_legacy spec cl), w),
     ctl_SyncCluster = \<lambda>cl w. (None, w), ctl_DeleteCluster = \<lambda>cl w. (None, w), ctl_RegisterMetricsMonitor = \<lambda>k cl w. w,
     ctl_UnregisterMetricsMonitor = \<lambda>k w. w, ctl_semver = sample_semver\<rparr>"

definition sample_ssh :: ssh_config where
  "sample_ssh = \<lparr>ssc_Provider = \<lparr>prov_Type = [], prov_HeadIP = ''h'', prov_WorkerIPs = None, prov_CoordinatorAddress = [], prov_Region = [],
      prov_AvailabilityZone = [], prov_ProjectID = []\<rparr>, ssc_Auth = \<lparr>auth_SSHUser = ''u'', auth_SSHPrivateKey = ''k''\<rparr>\<rparr>"

definition sample_cluster_spec :: cluster_spec_data where
  "sample_cluster_spec = \<lparr>csp_Type = ''ssh'', csp_Config = Some \<lparr>cc_SSHConfig = Some sample_ssh, cc_KubernetesConfig = None, cc_Metrics = None,
      cc_AcceleratorType = None, cc_ModelCaches = None\<rparr>, csp_ImageRegistry = ''reg'', csp_AcceleratorVirtualization = None, csp_Version = ''v1.1.0''\<rparr>"

definition sample_cluster_row :: cluster_object where
  "sample_cluster_row = sample_object 1 deleted_meta (Some sample_cluster_spec) (Some (empty_cluster_status\<lparr>csd_Phase := ''Running''\<rparr>))"

lemma sample_reconciler_lawful: "static_lawful (sample_reconciler registries) fst" "reconciler_lawful sample_legacy fst"
  by (simp_all add: static_lawful_def sample_reconciler_def listing_store_def row_store_laws(1) untouched_def reconciler_lawful_def
      sample_legacy_def status_writes_same)

lemma sample_clusters_lawful: "clusters_lawful sample_clusters_controller fst"
  using NewReconcile_lawful [OF sample_reconciler_lawful(1) sample_reconciler_lawful(2) sample_reconciler_lawful(2)]
  by (auto simp: clusters_lawful_def sample_clusters_controller_def row_store_laws(1) untouched_def split: option.splits)

lemma sample_cluster_cleaned: "clusters_cleaned sample_clusters_controller sample_cluster_row ([Itoa 1 \<mapsto> sample_cluster_row], [])"
  by (simp add: clusters_cleaned_def seen_error_def sample_cluster_row_def with_versions_def Cluster_IsInitialized_def sample_cluster_spec_def empty_cluster_status_def
      delete_steps_def sample_clusters_controller_def NewReconcile_def Cluster_GetVersion_def isStaticNodeClusterFlowVersion_def semver_LessThan_def
      sample_reconciler_def sample_semver_def static_reconcile_def static_ReconcileDelete_def findStaticCluster_def listing_store_def Let_def)

lemma sample_cluster_pass:
  "\<exists>st. fst (snd (clusters_sync sample_runtime sample_clusters_controller sample_cluster_row ([Itoa 1 \<mapsto> sample_cluster_row], []))) (Itoa 1) =
     Some (patched (status_update 0 st) sample_cluster_row)"
proof -
  obtain cl1 spec1 where v: "with_versions sample_clusters_controller sample_cluster_row sample_cluster_spec = (cl1, spec1)" by fastforce
  have "fst (snd (delete_steps c m spec cl w)) = fst w" if "c = sample_clusters_controller" for c m spec cl w
    using that static_reconcile_lawful(2) [OF sample_reconciler_lawful(1)]
    by (auto simp: delete_steps_def sample_clusters_controller_def NewReconcile_def static_reconcile_def sample_legacy_def split_beta Let_def
        static_ReconcileDelete_def findStaticCluster_def sample_reconciler_def listing_store_def split: option.splits sum.splits list.splits)
  then show ?thesis
    using with_versions_fields [OF v] v
    by (simp add: clusters_sync_def clusters_reconcileDelete_def updateClusterStatus_def clusters_updateStatus_def sample_cluster_row_def split_beta
        empty_cluster_status_def Let_def)
      (auto simp: sample_clusters_controller_def row_store_def)
qed

theorem cluster_removed_after_its_hosts_witness:
  "\<exists>y :: cluster_object. marked y \<and> (\<exists>(cl, v) \<in> set [(sample_cluster_row, ([Itoa 1 \<mapsto> sample_cluster_row], []))]. Itoa (ob_ID cl) = Itoa 1 \<and>
     deleting csd_Phase cl \<and> (forced cl \<or> removed_cleanly sample_clusters_controller (sample_reconciler []) (\<lambda>w. set (snd w)) cl v))"
proof -
  let ?c = sample_clusters_controller and ?start = "([Itoa 1 \<mapsto> sample_cluster_row], []) :: sample_clusters"
  let ?after = "snd (clusters_sync sample_runtime ?c sample_cluster_row ?start)"
  note e = sample_cluster_row_def empty_cluster_status_def
  obtain st where st: "fst ?after (Itoa 1) = Some (patched (status_update 0 st) sample_cluster_row)" using sample_cluster_pass by blast
  let ?y = "patched (status_update 0 st) sample_cluster_row"
  have a: "answers (ctl_storage ?c)" by (simp add: sample_clusters_controller_def row_store_laws(2))
  have y: "marked ?y" "ob_Spec ?y \<noteq> None" "ob_ID ?y = 1" by (simp_all add: e patched_def status_update_def GetDeletionTimestamp_def)
  have "in_phase csd_Phase ''Deleted'' ?y"
    using clusters_deletes(2) [OF sample_clusters_lawful a, where ob = sample_cluster_row and w = ?start and R = sample_runtime]
      sample_cluster_cleaned st by (simp add: e)
  then have gone: "fst (snd (clusters_sync sample_runtime ?c ?y ?after)) (Itoa 1) = None"
    using clusters_deletes(1) [OF sample_clusters_lawful a y(1,2), where w = ?after and R = sample_runtime] y(3) by simp
  have run: "lifecycle_run (clusters_sync sample_runtime ?c) fst Itoa csd_Phase read_before ?start [(sample_cluster_row, ?start)] ?after"
    by (rule one_pass) (simp_all add: e read_now)
  have n: "none_deleted csd_Phase (fst ?start)" by (simp add: none_deleted_def e)
  have lists: "lists_static (sample_reconciler []) (\<lambda>w. set (snd w))"
    by (auto simp: lists_static_def findStaticCluster_def sample_reconciler_def listing_store_def split: list.splits)
  have new: "ctl_newClusterReconcile ?c cl v = (NewReconcile (sample_reconciler []) sample_legacy sample_legacy spec cl, v)"
    if "ob_Spec cl = Some spec" for cl spec v using that by (simp add: sample_clusters_controller_def)
  have u: "snd (snd (ctl_DeleteCluster ?c cl v)) = snd v" "snd (ctl_UnregisterMetricsMonitor ?c k v) = snd v" for cl k v
    by (simp_all add: sample_clusters_controller_def)
  have "fst ?after (Itoa (ob_ID ?y)) = Some ?y" using st y(3) by simp
  then show ?thesis
    by (intro exI, rule cluster_removed_after_its_hosts [OF sample_clusters_lawful n run _ read_now st gone new lists]) (simp_all add: u)
qed

definition sample_registry_row :: image_registry where
  "sample_registry_row = \<lparr>ir_APIVersion = [], ir_ID = 1, ir_Kind = [], ir_Metadata = sample_meta ''reg'',
     ir_Spec = Some \<lparr>irs_AuthConfig = \<lparr>irac_Password = [], irac_Username = [], irac_Auth = [], irac_IdentityToken = [], irac_RegistryToken = []\<rparr>,
       irs_Repository = [], irs_URL = ''r''\<rparr>,
     ir_Status = Some \<lparr>irst_ErrorMessage = [], irst_LastTransitionTime = [], irst_Phase = ImageRegistryPhaseCONNECTED\<rparr>\<rparr>"

definition sample_static :: static_node_cluster where
  "sample_static = \<lparr>snc_ID = 5, snc_APIVersion = ''v1'', snc_Kind = StaticNodeClusterKind, snc_Metadata = sample_meta ''x'',
     snc_Spec = Some \<lparr>cls_Version = ''v1.1.0'', cls_ImageRegistry = ''r'', cls_Metrics = None, cls_Nodes = Some (static_nodes sample_ssh),
       cls_UpgradeStrategy = Some \<lparr>cus_Type = ''Recreate''\<rparr>\<rparr>,
     snc_Status = Some \<lparr>cst_Phase = StaticNodeClusterPhaseReady, cst_DesiredNodes = 1, cst_ReadyNodes = 1, cst_HeadReady = True, cst_WarmReady = True,
       cst_Version = ''v1.1.0'', cst_LastTransitionTime = [], cst_ErrorMessage = []\<rparr>\<rparr>"

theorem running_cluster_is_ready_witness:
  "\<exists>status. snc_Status sample_static = Some status \<and> cst_ReadyNodes status = int (length (static_nodes sample_ssh))"
proof -
  let ?r = "sample_reconciler [sample_registry_row]" and ?c = "sample_object 1 (sample_meta ''x'') (Some sample_cluster_spec) None :: cluster_object"
  let ?w = "(Map.empty, [sample_static]) :: sample_clusters"
  have p: "ParseSSHClusterConfig sample_cluster_spec = Inr sample_ssh" by (simp add: ParseSSHClusterConfig_def sample_cluster_spec_def)
  have i: "GetImagePrefix (sr_parse ?r) (the (ir_Spec sample_registry_row)) = Inr ''r''" by code_simp
  have "fst (fst (static_Reconcile ?r ?c ?w)) = Returned None"
    using i
    by (simp add: static_Reconcile_def validateClusterUpdate_def Cluster_IsInitialized_def validateStaticNodeClusterSpec_def ParseSSHClusterConfig_def findStaticCluster_def
        update_static_def buildStaticCluster_def getUsedImageRegistries_def sample_reconciler_def listing_store_def sample_registry_row_def
        sample_static_def sample_cluster_spec_def sample_ssh_def static_nodes_def copyStaticClusterMetricsConfig_def staticClusterStatusObserved_def
        updateResourceInfo_def Let_def split_beta)
  then show ?thesis
    using running_cluster_is_ready [of ?r ?c ?w sample_cluster_spec "sample_meta ''x''"] p
    by (auto simp: findStaticCluster_def sample_reconciler_def listing_store_def)
qed

end
