(* ===== verification/Spec2Isabelle.thy ===== *)
theory Spec2Isabelle
  imports Planner_Props Cluster_Status Command_Runner Registry_Login Node_Residue System
    Handler_Props Cluster_Props
begin

text \<open>
  A verification development for the control plane of neutree: the controllers that reconcile the
  resources stored in its database, and the path that turns a cluster of hosts reached over SSH into
  running containers. All paths below are relative to \<open>src/\<close>.

  \<^bold>\<open>The program.\<close> Every resource is a row with metadata, a specification and a status. A controller
  (\<open>controllers/\<close>) is called with an object that was read from the storage some time ago; one call is
  a pass. A pass does its work outside (gateway, orchestrator, hosts, registries, authentication) and writes
  the status, and it deletes in two passes: the first cleans up and records the phase \<open>Deleted\<close>, a
  later one removes the row. For a cluster of type \<open>ssh\<close> with a recent version, the cluster controller
  writes a static node cluster; the controller of static node clusters plans one static node per host
  and aggregates their status; the controller of static nodes logs into the host and runs the planned
  components as Docker containers.

  \<^bold>\<open>How the code is modelled.\<close> A Go struct is a record and a pointer an option, so that nil is kept
  apart; slices and maps keep nil apart from empty; strings are byte strings. Errors are values of
  \<open>go_error\<close>, whose texts and wrapping are those of the sources, and a handler returns \<open>Returned\<close> with
  an error or nil, or \<open>Panicked\<close> for a nil dereference. Everything outside \<open>src/\<close>, and the parts of it
  that are not modelled, are fields of records of functions over a world of any type \<open>'w\<close> (storage,
  operating system, gateway, orchestrators, HTTP and registry clients, clock, URL and version libraries).
  What a theorem needs of them is a named hypothesis, and its witness instantiates it.

  \<^bold>\<open>The library.\<close>
  \<^item> \<open>Go_Prelude\<close>, \<open>Go_Encoding\<close>, \<open>Go_Json\<close>: the parts of Go's standard library the sources use (strings,
    sorting, formatting; hexadecimal, SHA-256 on 32-bit words, base64, printing and reading JSON).
  \<^item> \<open>Shell_Quote\<close>: a POSIX shell's splitting of a command line into words and of a list at its
    \<open>&&\<close>; the locale \<open>shell_quoting\<close> is the contract of a quoting function, interpreted for \<open>shellArg\<close> and
    \<open>shellQuote\<close>, and \<open>name_sanitizer\<close> the one of a function that cleans names, interpreted for both
    sanitizers of the program.
  \<^item> \<open>Api_Types\<close>, \<open>Image_Ref\<close>, \<open>Component_Hash\<close>: the API objects of \<open>api/v1\<close>, image references and registry
    hosts (\<open>internal/util\<close>), and component hashes (\<open>internal/cluster/staticcomponent\<close>, locale
    \<open>fingerprint\<close>).
  \<^item> \<open>Lifecycle\<close>: what the controllers share: objects, the storage of one kind and its contract \<open>kind_laws\<close>,
    runs in which passes over old objects interleave with edits by users, and the locales
    \<open>lifecycle\<close> (a pass changes at most its own row and removes it only when it is marked and in a final
    phase), \<open>guarded_lifecycle\<close> (and the phase \<open>Deleted\<close> is written only after a cleanup) and \<open>removal\<close>
    (two passes remove a marked row). Every controller of the control plane interprets them.

  \<^bold>\<open>The static-node path.\<close>
  \<^item> \<open>Ray_Components\<close>, \<open>Metrics_Components\<close>, \<open>Vmagent_Config\<close>, \<open>Upgrade\<close>, \<open>Planner\<close>:
    \<open>internal/cluster/staticcluster\<close> but for its status: what runs on each node, the staging of a version
    change, and \<open>Plan\<close>. \<open>Planner_Props\<close> shows when planning succeeds, what a plan contains, that its
    components carry their hashes, and in which order an upgrade stops workers, restarts the head and
    starts workers.
  \<^item> \<open>Cluster_Status\<close>: \<open>status.go\<close>. The phase computed from flags is the one of an abstract specification;
    a cluster is reported ready exactly when its nodes converged and Ray lists every address.
  \<^item> \<open>Command_Runner\<close>, \<open>Docker_Runtime\<close>, \<open>Registry_Login\<close>, \<open>Ssh_Runner\<close>: \<open>pkg/command_runner\<close>, and
    \<open>docker_runtime.go\<close>, \<open>registry_auth.go\<close> and \<open>runner.go\<close> of \<open>internal/cluster/staticnode\<close>. Command
    lines reach the host as the intended words, containers of a node have distinct names, the login keeps
    the password out of its error and is skipped only for the stored credentials.
  \<^item> \<open>Node_Reconciler\<close>, \<open>Node_Status\<close>, \<open>Node_Controller\<close>: \<open>reconciler.go\<close>, \<open>component_files.go\<close>, \<open>status.go\<close>
    and \<open>controllers/static_node_controller.go\<close>. \<open>Node_Props\<close> shows what a pass reports, that a worker
    waits for its head, and how stale components and deletion behave; \<open>Host_Frame\<close> has the frame lemmas,
    and \<open>Node_Residue\<close> shows that a pass leaves no private key behind.
  \<^item> \<open>Store\<close>, \<open>Store_Tables\<close>, \<open>Cluster_Controller\<close>, \<open>Cluster_Tables\<close>, \<open>Node_Tables\<close>, \<open>System\<close>: the storage
    interface with its helpers, \<open>controllers/static_node_cluster_controller.go\<close>, what a pass of either
    controller does to the tables, and the two together: every interleaving keeps the tables well
    formed, the row of a cluster goes last, and deletion completes.

  \<^bold>\<open>The control plane.\<close>
  \<^item> \<open>Plain_Controllers\<close> (roles, role assignments, engines), \<open>Engine_Merge\<close> (\<open>internal/util/engine.go\<close> and the
    engine registry), \<open>Registry_Controllers\<close> (image and model registries), \<open>Access_Controllers\<close> (API keys,
    external endpoints, user profiles), \<open>Catalog_Controller\<close>, \<open>Workspace_Controller\<close>, \<open>Endpoint_Types\<close> and
    \<open>Endpoint_Controller\<close>: one definition per handler, with its interpretation of the lifecycle.
    \<open>Control_Plane\<close> and \<open>Handler_Props\<close> show what has happened before a row disappears, that deletion
    completes and where it does not, and exactly when a handler dereferences nil.
  \<^item> \<open>Cluster_Control\<close> (\<open>controllers/cluster_controller.go\<close>, \<open>spec_hash.go\<close>, \<open>cluster_status.go\<close>,
    \<open>early_status.go\<close>), \<open>Static_Facade\<close> (\<open>internal/cluster/static_ray_cluster.go\<close> and the choice of the
    reconciler) and \<open>Cluster_Props\<close>: a cluster outlives its hosts, is running only when they are ready,
    and new credentials are no update.

  \<open>Samples\<close> holds the objects of the witnesses.

  \<^bold>\<open>Bounds.\<close> Recursion follows the code's loops over lists. Only the JSON parser recurses on fuel, twice the
  length of its input and one; \<open>p_value_fuel\<close> shows that more changes nothing. The one bound that is left
  out is Go's limit on the nesting of JSON.

  \<^bold>\<open>Assumptions of the model.\<close> Static nodes and static node clusters have metadata, which their controllers
  dereference before anything else; the planner and the controllers are not nil. Calls behind an interface
  return. Logging has no effect, but where a log line dereferences nil the handler panics. Identifiers are
  unbounded integers.

  \<^bold>\<open>Not modelled.\<close> The Kong gateway, the Kubernetes and the older Ray path with their orchestrators, the
  accelerator plugins, the model and image registry clients and the storage client are parameters of the
  code that calls them. The API routes, the middleware, the metrics collection, the command line tool,
  the SQL migrations, the Lua plugins and the Python serving code are outside: they run in other
  processes or are input and output over frameworks.
\<close>

end
